(* ===== verification/Go_Prelude.thy ===== *)
theory Go_Prelude
  imports Complex_Main
begin

text \<open>
  The part of Go that every component of the payload processor uses: maps, machine integers,
  floating-point numbers, decimal conversion and errors. It holds no code of the repository; the
  component theories are written over it.

  \<^item> A Go map is an association list with distinct keys. The order of the list stands for the
    order in which \<^verbatim>\<open>range\<close> visits the map. Go leaves that order unspecified, and the theorems
    hold for every list, hence for every order.
  \<^item> A Go string is a list of bytes, which is what \<^typ>\<open>string\<close> is.
  \<^item> An \<^verbatim>\<open>int\<close> is an integer between \<open>-2 ^ 63\<close> and \<open>2 ^ 63 - 1\<close>; where the code does arithmetic
    on it the wrap-around is written with \<open>wrap64\<close>.
  \<^item> A \<^verbatim>\<open>float64\<close> that \<^verbatim>\<open>encoding/json\<close> can produce is finite, so it is the rational number it
    denotes. Conversion to \<^verbatim>\<open>int\<close> truncates; out of range it gives the least integer, as the
    amd64 build of the Dockerfile does.
  \<^item> A nil slice and an empty slice, and a nil map and an empty map, are the same value.
  \<^item> An error is a value of the type \<open>err\<close> and carries the format string of the source with its
    arguments; logging is left out.
\<close>

named_theorems go_map \<open>lookup equations of Go maps\<close>
named_theorems go_val \<open>equations of type assertions and conversions\<close>

section \<open>Maps\<close>

type_synonym 'v gomap = "(string \<times> 'v) list"

definition wf_map :: "'v gomap \<Rightarrow> bool" where
  "wf_map m \<longleftrightarrow> distinct (map fst m)"

text \<open>\<^verbatim>\<open>m[k] = v\<close>\<close>

fun gset :: "string \<Rightarrow> 'v \<Rightarrow> 'v gomap \<Rightarrow> 'v gomap" where
  "gset k v [] = [(k, v)]"
| "gset k v ((k', v') # m) = (if k = k' then (k, v) # m else (k', v') # gset k v m)"

text \<open>\<^verbatim>\<open>delete(m, k)\<close>\<close>

definition gdel :: "string \<Rightarrow> 'v gomap \<Rightarrow> 'v gomap" where
  "gdel k m = filter (\<lambda>p. fst p \<noteq> k) m"

text \<open>\<^verbatim>\<open>m[k]\<close> of a \<^verbatim>\<open>map[string]string\<close>, where a missing key reads as the empty string.\<close>

definition gstr :: "string gomap \<Rightarrow> string \<Rightarrow> string" where
  "gstr m k = (case map_of m k of None \<Rightarrow> [] | Some s \<Rightarrow> s)"

text \<open>\<^verbatim>\<open>maps.Copy(dst, src)\<close> and the loops that do the same.\<close>

fun gcopy :: "'v gomap \<Rightarrow> 'v gomap \<Rightarrow> 'v gomap" where
  "gcopy dst [] = dst"
| "gcopy dst ((k, v) # src) = gcopy (gset k v dst) src"

text \<open>\<^verbatim>\<open>if v, ok := ...; ok { m[k] = v }\<close>\<close>

definition gset_opt :: "string \<Rightarrow> 'v option \<Rightarrow> 'v gomap \<Rightarrow> 'v gomap" where
  "gset_opt k x m = (case x of None \<Rightarrow> m | Some v \<Rightarrow> gset k v m)"

text \<open>\<^verbatim>\<open>equality.Semantic.DeepEqual\<close> on maps: the same keys with the same values, a nil map being empty.\<close>

definition gmap_eq :: "('k \<times> 'v) list \<Rightarrow> ('k \<times> 'v) list \<Rightarrow> bool" where
  "gmap_eq a b \<longleftrightarrow>
     list_all (\<lambda>k. map_of a k = map_of b k) (map fst a) \<and> list_all (\<lambda>k. map_of a k = map_of b k) (map fst b)"

lemma gmap_eq_iff: "gmap_eq a b \<longleftrightarrow> map_of a = map_of b"
proof
  assume eq: "gmap_eq a b"
  show "map_of a = map_of b"
  proof
    fix k
    show "map_of a k = map_of b k"
    proof (cases "k \<in> fst ` set a \<or> k \<in> fst ` set b")
      case True
      with eq show ?thesis by (auto simp: gmap_eq_def list_all_iff)
    next
      case False
      then have "map_of a k = None" "map_of b k = None" by (auto simp: map_of_eq_None_iff)
      then show ?thesis by simp
    qed
  qed
qed (simp add: gmap_eq_def list_all_iff)

lemma map_of_gset [simp, go_map]: "map_of (gset k v m) = (map_of m)(k \<mapsto> v)"
  by (induction k v m rule: gset.induct) auto

lemma map_of_gdel [simp, go_map]: "map_of (gdel k m) = (map_of m)(k := None)"
proof (induction m)
  case Nil
  then show ?case by (simp add: gdel_def)
next
  case (Cons p m)
  then show ?case by (cases p) (auto simp: gdel_def)
qed

lemma map_of_gset_opt [simp, go_map]:
  "map_of (gset_opt k x m) = (case x of None \<Rightarrow> map_of m | Some v \<Rightarrow> (map_of m)(k \<mapsto> v))"
  by (simp add: gset_opt_def split: option.split)

lemma gset_opt_simps [simp]: "gset_opt k None m = m" "gset_opt k (Some v) m = gset k v m"
  by (simp_all add: gset_opt_def)

lemma keys_gset: "fst ` set (gset k v m) = insert k (fst ` set m)"
  by (induction k v m rule: gset.induct) auto

lemma keys_gdel [simp]: "fst ` set (gdel k m) = fst ` set m - {k}"
  by (auto simp: gdel_def)

lemma set_gdel: "set (gdel k m) = {p \<in> set m. fst p \<noteq> k}"
  by (auto simp: gdel_def)

lemma gset_in_set: "(k, v) \<in> set (gset k' v' m) \<Longrightarrow> (k, v) = (k', v') \<or> (k, v) \<in> set m"
  by (induction k' v' m rule: gset.induct) (auto split: if_splits)

lemma gset_not_Nil [simp]: "gset k v m \<noteq> []"
  by (cases "(k, v, m)" rule: gset.cases) auto

lemma wf_map_Nil [simp]: "wf_map []"
  by (simp add: wf_map_def)

lemma wf_map_Cons [simp]: "wf_map ((k, v) # m) \<longleftrightarrow> k \<notin> fst ` set m \<and> wf_map m"
  by (simp add: wf_map_def)

lemma wf_gset [simp]: "wf_map m \<Longrightarrow> wf_map (gset k v m)"
proof (induction k v m rule: gset.induct)
  case (2 k v k' v' m)
  then show ?case by (auto simp: keys_gset)
qed simp

lemma wf_gset_opt [simp]: "wf_map m \<Longrightarrow> wf_map (gset_opt k x m)"
  by (simp add: gset_opt_def split: option.split)

lemma wf_gdel [simp]: "wf_map m \<Longrightarrow> wf_map (gdel k m)"
  by (simp add: wf_map_def gdel_def distinct_map_filter)

lemma map_of_gcopy:
  "wf_map src \<Longrightarrow> map_of (gcopy dst src) = map_of dst ++ map_of src"
proof (induction dst src rule: gcopy.induct)
  case (2 dst k v src)
  then have "map_of src k = None"
    by (simp add: map_of_eq_None_iff)
  with 2 show ?case
    by (auto simp: fun_eq_iff map_add_def split: option.splits)
qed simp

lemma wf_gcopy [simp]: "wf_map dst \<Longrightarrow> wf_map (gcopy dst src)"
  by (induction dst src rule: gcopy.induct) auto

lemma in_set_map_of: "wf_map m \<Longrightarrow> (k, v) \<in> set m \<longleftrightarrow> map_of m k = Some v"
  by (simp add: wf_map_def)

lemma map_of_None_iff_keys: "map_of m k = None \<longleftrightarrow> k \<notin> fst ` set m"
  by (rule map_of_eq_None_iff)

section \<open>Loops that skip elements\<close>

lemma map_filter_append [simp]: "List.map_filter f (xs @ ys) = List.map_filter f xs @ List.map_filter f ys"
  by (simp add: List.map_filter_def)

lemma map_filter_none: "(\<And>x. x \<in> set xs \<Longrightarrow> f x = None) \<Longrightarrow> List.map_filter f xs = []"
  by (induction xs) (auto simp: map_filter_simps)

lemma map_filter_map_filter:
  "List.map_filter f (List.map_filter g xs) = List.map_filter (\<lambda>x. Option.bind (g x) f) xs"
  by (induction xs) (auto simp: map_filter_simps split: option.splits)

lemma in_set_map_filter: "y \<in> set (List.map_filter f xs) \<longleftrightarrow> (\<exists>x \<in> set xs. f x = Some y)"
  by (induction xs) (auto simp: map_filter_simps split: option.splits)

section \<open>Integers and floating-point numbers\<close>

definition min_int :: int where "min_int = - (2 ^ 63)"
definition max_int :: int where "max_int = 2 ^ 63 - 1"

definition in_int :: "int \<Rightarrow> bool" where
  "in_int i \<longleftrightarrow> min_int \<le> i \<and> i \<le> max_int"

definition wrap64 :: "int \<Rightarrow> int" where
  "wrap64 i = (i + 2 ^ 63) mod 2 ^ 64 - 2 ^ 63"

lemma wrap64_in_int: "in_int (wrap64 i)"
proof -
  have "0 \<le> (i + 2 ^ 63) mod 2 ^ 64" and "(i + 2 ^ 63) mod 2 ^ 64 < (2 ^ 64 :: int)"
    by (rule pos_mod_sign, simp, rule pos_mod_bound, simp)
  then show ?thesis
    by (simp add: in_int_def wrap64_def min_int_def max_int_def)
qed

lemma wrap64_id [simp]: "in_int i \<Longrightarrow> wrap64 i = i"
  by (simp add: wrap64_def in_int_def min_int_def max_int_def)

lemma in_int_small: "\<bar>i\<bar> < 2 ^ 63 \<Longrightarrow> in_int i"
  by (auto simp: in_int_def min_int_def max_int_def)

text \<open>\<^verbatim>\<open>int(f)\<close> for a \<^verbatim>\<open>float64\<close>: truncation towards zero.\<close>

definition trunc :: "rat \<Rightarrow> int" where
  "trunc x = (if 0 \<le> x then \<lfloor>x\<rfloor> else \<lceil>x\<rceil>)"

definition float_to_int :: "rat \<Rightarrow> int" where
  "float_to_int x = (if in_int (trunc x) then trunc x else min_int)"

lemma float_to_int_of_int [simp]: "in_int i \<Longrightarrow> float_to_int (of_int i) = i"
  by (simp add: float_to_int_def trunc_def)

lemma float_to_int_in_int: "in_int (float_to_int x)"
  by (simp add: float_to_int_def in_int_def min_int_def max_int_def)

text \<open>
  \<^verbatim>\<open>float64(i)\<close>: exact up to 53 bits, rounded to the nearest 53-bit mantissa (ties to even) above.
\<close>

fun bit_len :: "nat \<Rightarrow> nat" where
  "bit_len n = (if n = 0 then 0 else Suc (bit_len (n div 2)))"

declare bit_len.simps [simp del]

definition round53 :: "nat \<Rightarrow> nat" where
  "round53 n =
     (if n \<le> 2 ^ 53 then n
      else let e = bit_len n - 53; q = n div 2 ^ e; r = n mod 2 ^ e; h = 2 ^ (e - 1)
           in (if r > h \<or> r = h \<and> odd q then Suc q else q) * 2 ^ e)"

definition int_to_float :: "int \<Rightarrow> rat" where
  "int_to_float i = (if i < 0 then - of_nat (round53 (nat (- i))) else of_nat (round53 (nat i)))"

lemma int_to_float_exact: "\<bar>i\<bar> \<le> 2 ^ 53 \<Longrightarrow> int_to_float i = of_int i"
  by (auto simp: int_to_float_def round53_def nat_le_iff of_nat_nat)

section \<open>Decimal conversion (\<^verbatim>\<open>strconv\<close>, \<^verbatim>\<open>%d\<close>)\<close>

definition digit :: "nat \<Rightarrow> char" where
  "digit n = char_of (48 + n)"

fun show_nat :: "nat \<Rightarrow> string" where
  "show_nat n = (if n < 10 then [digit n] else show_nat (n div 10) @ [digit (n mod 10)])"

declare show_nat.simps [simp del]

definition show_int :: "int \<Rightarrow> string" where
  "show_int i = (if i < 0 then CHR ''-'' # show_nat (nat (- i)) else show_nat (nat i))"

definition is_digit :: "char \<Rightarrow> bool" where
  "is_digit c \<longleftrightarrow> 48 \<le> (of_char c :: nat) \<and> (of_char c :: nat) \<le> 57"

definition digit_val :: "char \<Rightarrow> nat" where
  "digit_val c = of_char c - 48"

fun digits_val :: "nat \<Rightarrow> string \<Rightarrow> nat" where
  "digits_val acc [] = acc"
| "digits_val acc (c # cs) = digits_val (10 * acc + digit_val c) cs"

text \<open>
  \<^verbatim>\<open>strconv.ParseInt(s, 10, bits)\<close>; \<^verbatim>\<open>strconv.Atoi\<close> is the case of 64 bits. An optional sign, one or
  more decimal digits, and the value in range; anything else is an error.
\<close>

definition parse_uint :: "string \<Rightarrow> nat option" where
  "parse_uint s = (if s \<noteq> [] \<and> list_all is_digit s then Some (digits_val 0 s) else None)"

definition parse_int :: "nat \<Rightarrow> string \<Rightarrow> int option" where
  "parse_int bits s =
     (let neg = (s \<noteq> [] \<and> hd s = CHR ''-'');
          rest = (if s \<noteq> [] \<and> (hd s = CHR ''-'' \<or> hd s = CHR ''+'') then tl s else s)
      in case parse_uint rest of
           None \<Rightarrow> None
         | Some n \<Rightarrow>
             (let i = (if neg then - int n else int n)
              in if - (2 ^ (bits - 1)) \<le> i \<and> i < 2 ^ (bits - 1) then Some i else None))"

abbreviation atoi :: "string \<Rightarrow> int option" where
  "atoi \<equiv> parse_int 64"

lemma digits_val_append: "digits_val a (s @ t) = digits_val (digits_val a s) t"
  by (induction a s rule: digits_val.induct) auto

lemma of_char_digit: "n < 10 \<Longrightarrow> (of_char (digit n) :: nat) = 48 + n"
  by (simp add: digit_def)

lemma show_nat_not_Nil [simp]: "show_nat n \<noteq> []"
  by (simp add: show_nat.simps [of n])

lemma show_nat_digits: "list_all is_digit (show_nat n)"
proof (induction n rule: show_nat.induct)
  case (1 n)
  then show ?case
    by (cases "n < 10") (auto simp: show_nat.simps [of n] is_digit_def of_char_digit)
qed

lemma digits_val_show_nat: "digits_val 0 (show_nat n) = n"
proof (induction n rule: show_nat.induct)
  case (1 n)
  then show ?case
    by (cases "n < 10")
      (auto simp: show_nat.simps [of n] digits_val_append digit_val_def of_char_digit)
qed

lemma parse_uint_show_nat [simp]: "parse_uint (show_nat n) = Some n"
  using show_nat_digits [of n] digits_val_show_nat [of n] by (simp add: parse_uint_def)

lemma hd_show_nat: "hd (show_nat n) \<noteq> CHR ''-'' \<and> hd (show_nat n) \<noteq> CHR ''+''"
  using show_nat_digits [of n] by (cases "show_nat n") (auto simp: is_digit_def)

lemma parse_show_int:
  "- (2 ^ (bits - 1)) \<le> i \<Longrightarrow> i < 2 ^ (bits - 1) \<Longrightarrow> parse_int bits (show_int i) = Some i"
  using hd_show_nat by (auto simp: parse_int_def show_int_def Let_def)

lemma parse_int_range:
  "parse_int bits s = Some i \<Longrightarrow> - (2 ^ (bits - 1)) \<le> i \<and> i < 2 ^ (bits - 1)"
  by (auto simp: parse_int_def Let_def split: option.splits if_splits)

lemma show_nat_inj: "show_nat m = show_nat n \<Longrightarrow> m = n"
  by (metis digits_val_show_nat)

end
