(* ===== verification/Go_Strings.thy ===== *)
theory Go_Strings
  imports Go_Prelude
begin

text \<open>
  The functions of Go's \<^verbatim>\<open>strings\<close>, \<^verbatim>\<open>regexp\<close> and \<^verbatim>\<open>net\<close> packages that the payload processor calls,
  over byte strings, with the laws the component proofs use: splitting and joining are inverse,
  trimming and replacing have the expected fixed points.
\<close>

named_theorems go_str \<open>equations of Go string functions\<close>

section \<open>Prefixes, suffixes and searching\<close>

definition hasPrefix :: "string \<Rightarrow> string \<Rightarrow> bool" where
  "hasPrefix s p \<longleftrightarrow> take (length p) s = p"

definition hasSuffix :: "string \<Rightarrow> string \<Rightarrow> bool" where
  "hasSuffix s p \<longleftrightarrow> hasPrefix (rev s) (rev p)"

definition trimPrefix :: "string \<Rightarrow> string \<Rightarrow> string" where
  "trimPrefix s p = (if hasPrefix s p then drop (length p) s else s)"

definition trimSuffix :: "string \<Rightarrow> string \<Rightarrow> string" where
  "trimSuffix s p = (if hasSuffix s p then take (length s - length p) s else s)"

text \<open>\<^verbatim>\<open>strings.Index\<close>, with \<open>None\<close> for -1.\<close>

fun indexOf :: "string \<Rightarrow> string \<Rightarrow> nat option" where
  "indexOf sub [] = (if sub = [] then Some 0 else None)"
| "indexOf sub (c # cs) =
     (if hasPrefix (c # cs) sub then Some 0 else map_option Suc (indexOf sub cs))"

definition contains :: "string \<Rightarrow> string \<Rightarrow> bool" where
  "contains s sub \<longleftrightarrow> indexOf sub s \<noteq> None"

text \<open>\<^verbatim>\<open>bytealg.LastIndexByteString\<close>\<close>

fun lastIndexByte :: "char \<Rightarrow> string \<Rightarrow> nat option" where
  "lastIndexByte c [] = None"
| "lastIndexByte c (x # xs) =
     (case lastIndexByte c xs of Some i \<Rightarrow> Some (Suc i)
      | None \<Rightarrow> if x = c then Some 0 else None)"

lemma hasPrefix_iff: "hasPrefix s p \<longleftrightarrow> (\<exists>t. s = p @ t)"
  unfolding hasPrefix_def by (metis append_eq_conv_conj append_take_drop_id)

lemma hasSuffix_iff: "hasSuffix s p \<longleftrightarrow> (\<exists>t. s = t @ p)"
proof -
  have "(\<exists>t. rev s = rev p @ t) \<longleftrightarrow> (\<exists>t. s = t @ p)"
    by (metis rev_append rev_rev_ident)
  then show ?thesis by (simp add: hasSuffix_def hasPrefix_iff)
qed

lemma hasPrefix_append [simp, go_str]: "hasPrefix (p @ t) p"
  by (simp add: hasPrefix_def)

lemma hasSuffix_append [simp, go_str]: "hasSuffix (t @ p) p"
  by (auto simp: hasSuffix_iff)

lemma indexOf_Some:
  "indexOf sub s = Some i \<Longrightarrow> s = take i s @ sub @ drop (i + length sub) s \<and> i + length sub \<le> length s"
proof (induction sub s arbitrary: i rule: indexOf.induct)
  case (1 sub)
  then show ?case by (simp split: if_splits)
next
  case (2 sub c cs)
  show ?case
  proof (cases "hasPrefix (c # cs) sub")
    case True
    then obtain t where "c # cs = sub @ t" by (auto simp: hasPrefix_iff)
    moreover have "i = 0" using 2 True by simp
    ultimately show ?thesis by simp
  next
    case False
    with 2 show ?thesis by auto
  qed
qed

lemma indexOf_shorter:
  assumes "indexOf sub s = Some i" and "sub \<noteq> []"
  shows "length s - (i + length sub) < length s"
proof -
  have "i + length sub \<le> length s" using indexOf_Some [OF assms(1)] by simp
  moreover have "0 < length sub" using assms(2) by simp
  ultimately show ?thesis by linarith
qed

lemma indexOf_single:
  "indexOf [c] s = None \<longleftrightarrow> c \<notin> set s"
  by (induction s) (auto simp: hasPrefix_def)

lemma contains_single [go_str]: "contains s [c] \<longleftrightarrow> c \<in> set s"
  by (simp add: contains_def indexOf_single)

section \<open>Splitting and joining\<close>

text \<open>
  \<^verbatim>\<open>strings.Split(s, sep)\<close>; the code only calls it with a non-empty separator.
\<close>

function split :: "string \<Rightarrow> string \<Rightarrow> string list" where
  "split sep s =
     (if sep = [] then [s]
      else case indexOf sep s of
             None \<Rightarrow> [s]
           | Some i \<Rightarrow> take i s # split sep (drop (i + length sep) s))"
  by pat_completeness auto
termination
  by (relation "measure (\<lambda>(sep, s). length s)") (auto intro: indexOf_shorter)

declare split.simps [simp del]

text \<open>\<^verbatim>\<open>strings.SplitN(s, sep, 2)\<close>\<close>

definition splitN2 :: "string \<Rightarrow> string \<Rightarrow> string list" where
  "splitN2 sep s =
     (case indexOf sep s of
        None \<Rightarrow> [s] | Some i \<Rightarrow> [take i s, drop (i + length sep) s])"

text \<open>\<^verbatim>\<open>strings.Join(parts, sep)\<close>\<close>

fun join :: "string \<Rightarrow> string list \<Rightarrow> string" where
  "join sep [] = []"
| "join sep [s] = s"
| "join sep (s # t # ts) = s @ sep @ join sep (t # ts)"

lemma split_not_Nil [simp]: "split sep s \<noteq> []"
  by (subst split.simps) (auto split: option.splits)

lemma join_Cons: "ts \<noteq> [] \<Longrightarrow> join sep (s # ts) = s @ sep @ join sep ts"
  by (cases ts) auto

lemma join_split: "join sep (split sep s) = s"
proof (induction sep s rule: split.induct)
  case (1 sep s)
  show ?case
  proof (cases "sep = [] \<or> indexOf sep s = None")
    case True
    then show ?thesis by (subst split.simps) (auto split: option.splits)
  next
    case False
    then obtain i where i: "indexOf sep s = Some i" and ne: "sep \<noteq> []" by auto
    have "join sep (split sep (drop (i + length sep) s)) = drop (i + length sep) s"
      using 1 i ne by blast
    with indexOf_Some [OF i] show ?thesis
      by (subst split.simps) (simp add: i ne join_Cons)
  qed
qed

lemma join_splitN2: "join sep (splitN2 sep s) = s"
  by (auto simp: splitN2_def split: option.splits dest!: indexOf_Some)

lemma split_no_sep: "indexOf sep s = None \<Longrightarrow> split sep s = [s]"
  by (subst split.simps) simp

section \<open>Trimming and case\<close>

text \<open>
  The UTF-8 encodings of the white space of \<^verbatim>\<open>unicode.IsSpace\<close>, which \<^verbatim>\<open>strings.TrimSpace\<close> removes.
\<close>

definition space_encodings :: "string list" where
  "space_encodings =
     map (\<lambda>c. [c]) [CHR 0x09, CHR 0x0A, CHR 0x0B, CHR 0x0C, CHR 0x0D, CHR 0x20]
   @ [[CHR 0xC2, CHR 0x85], [CHR 0xC2, CHR 0xA0], [CHR 0xE1, CHR 0x9A, CHR 0x80]]
   @ map (\<lambda>c. [CHR 0xE2, CHR 0x80, c])
       [CHR 0x80, CHR 0x81, CHR 0x82, CHR 0x83, CHR 0x84, CHR 0x85, CHR 0x86, CHR 0x87,
        CHR 0x88, CHR 0x89, CHR 0x8A, CHR 0xA8, CHR 0xA9, CHR 0xAF]
   @ [[CHR 0xE2, CHR 0x81, CHR 0x9F], [CHR 0xE3, CHR 0x80, CHR 0x80]]"

function trim_front :: "string list \<Rightarrow> string \<Rightarrow> string" where
  "trim_front ws s =
     (case find (\<lambda>w. w \<noteq> [] \<and> hasPrefix s w) ws of
        None \<Rightarrow> s | Some w \<Rightarrow> trim_front ws (drop (length w) s))"
  by pat_completeness auto
termination
  by (relation "measure (\<lambda>(ws, s). length s)")
    (auto simp: find_Some_iff hasPrefix_def intro!: diff_less)

declare trim_front.simps [simp del]

definition trimSpace :: "string \<Rightarrow> string" where
  "trimSpace s =
     rev (trim_front (map rev space_encodings) (rev (trim_front space_encodings s)))"

text \<open>\<^verbatim>\<open>strings.Trim(s, "/")\<close>\<close>

definition trimSlash :: "string \<Rightarrow> string" where
  "trimSlash s =
     rev (dropWhile (\<lambda>c. c = CHR ''/'') (rev (dropWhile (\<lambda>c. c = CHR ''/'') s)))"

definition lower_char :: "char \<Rightarrow> char" where
  "lower_char c =
     (if 65 \<le> (of_char c :: nat) \<and> (of_char c :: nat) \<le> 90 then char_of ((of_char c :: nat) + 32)
      else c)"

text \<open>
  \<^verbatim>\<open>strings.ToLower\<close> on ASCII. The code uses it only to test for an ASCII prefix without the letters
  i and k, the only ASCII letters some other code point lowers to.
\<close>

definition toLower :: "string \<Rightarrow> string" where
  "toLower s = map lower_char s"

text \<open>
  \<^verbatim>\<open>strings.EqualFold\<close>: simple Unicode case folding. ASCII letters fold to lower case, and the two
  other code points that fold to ASCII letters, U+017F (long s) and U+212A (Kelvin sign), are
  folded as well; a code point outside ASCII folds to itself otherwise.
\<close>

fun foldCase :: "string \<Rightarrow> string" where
  "foldCase [] = []"
| "foldCase [a] = [lower_char a]"
| "foldCase [a, b] =
     (if a = CHR 0xC5 \<and> b = CHR 0xBF then ''s'' else lower_char a # foldCase [b])"
| "foldCase (a # b # c # s) =
     (if a = CHR 0xC5 \<and> b = CHR 0xBF then CHR ''s'' # foldCase (c # s)
      else if a = CHR 0xE2 \<and> b = CHR 0x84 \<and> c = CHR 0xAA then CHR ''k'' # foldCase s
      else lower_char a # foldCase (b # c # s))"

definition equalFold :: "string \<Rightarrow> string \<Rightarrow> bool" where
  "equalFold s t \<longleftrightarrow> foldCase s = foldCase t"

lemma equalFold_refl [simp, intro]: "equalFold s s"
  by (simp add: equalFold_def)

lemma equalFold_sym: "equalFold s t \<longleftrightarrow> equalFold t s"
  by (auto simp: equalFold_def)

lemma equalFold_trans: "equalFold s t \<Longrightarrow> equalFold t u \<Longrightarrow> equalFold s u"
  by (simp add: equalFold_def)

lemma foldCase_Cons_not_Nil [simp]: "foldCase (a # s) \<noteq> []"
  by (cases "a # s" rule: foldCase.cases) auto

lemma foldCase_Nil_iff [simp]: "foldCase s = [] \<longleftrightarrow> s = []"
  by (cases s) auto

lemma trim_front_Nil [simp]: "trim_front ws [] = []"
proof -
  have "find (\<lambda>w. w \<noteq> [] \<and> hasPrefix [] w) ws = None"
    by (auto simp: find_None_iff hasPrefix_def)
  then show ?thesis by (subst trim_front.simps) simp
qed

lemma trimSpace_Nil [simp]: "trimSpace [] = []"
  by (simp add: trimSpace_def)

lemma trim_front_fixed:
  "\<forall>w \<in> set ws. \<not> (w \<noteq> [] \<and> hasPrefix s w) \<Longrightarrow> trim_front ws s = s"
  by (subst trim_front.simps) (simp add: find_None_iff [THEN iffD2])

lemma trim_front_idem: "trim_front ws (trim_front ws s) = trim_front ws s"
proof (induction ws s rule: trim_front.induct)
  case (1 ws s)
  show ?case
  proof (cases "find (\<lambda>w. w \<noteq> [] \<and> hasPrefix s w) ws")
    case None
    then show ?thesis by (simp add: trim_front.simps [of ws s])
  next
    case (Some w)
    with 1 show ?thesis by (simp add: trim_front.simps [of ws s])
  qed
qed

section \<open>Replacing\<close>

text \<open>\<^verbatim>\<open>strings.ReplaceAll(s, old, new)\<close>, for a non-empty \<open>old\<close>.\<close>

function replaceAll :: "string \<Rightarrow> string \<Rightarrow> string \<Rightarrow> string" where
  "replaceAll old new s =
     (if old = [] then s
      else case indexOf old s of
             None \<Rightarrow> s
           | Some i \<Rightarrow> take i s @ new @ replaceAll old new (drop (i + length old) s))"
  by pat_completeness auto
termination
  by (relation "measure (\<lambda>(old, new, s). length s)") (auto intro: indexOf_shorter)

declare replaceAll.simps [simp del]

lemma replaceAll_join_split:
  "old \<noteq> [] \<Longrightarrow> replaceAll old new s = join new (split old s)"
proof (induction old new s rule: replaceAll.induct)
  case (1 old new s)
  show ?case
  proof (cases "indexOf old s")
    case None
    then show ?thesis
      by (simp add: replaceAll.simps [of old new s] split.simps [of old s])
  next
    case (Some i)
    with 1 show ?thesis
      by (simp add: replaceAll.simps [of old new s] split.simps [of old s] join_Cons)
  qed
qed

section \<open>Placeholders: the regular expression \<^verbatim>\<open>\{([^}]+)\}\<close>\<close>

text \<open>
  \<^verbatim>\<open>FindAllStringSubmatch\<close>: at an opening brace the match takes everything up to the next closing
  brace, if there is one and it does not follow at once; otherwise the search moves one byte on.
\<close>

function placeholders :: "string \<Rightarrow> string list" where
  "placeholders [] = []"
| "placeholders (c # cs) =
     (let key = takeWhile (\<lambda>x. x \<noteq> CHR ''}'') cs; rest = drop (length key) cs
      in if c = CHR ''{'' \<and> key \<noteq> [] \<and> rest \<noteq> [] then key # placeholders (tl rest)
         else placeholders cs)"
  by pat_completeness auto
termination
  by (relation "measure length") auto

lemma placeholders_no_brace: "CHR ''{'' \<notin> set s \<Longrightarrow> placeholders s = []"
  by (induction s) (auto simp: Let_def)

section \<open>Host and port (\<^verbatim>\<open>net.SplitHostPort\<close>)\<close>

text \<open>\<open>None\<close> for every address error.\<close>

definition splitHostPort :: "string \<Rightarrow> (string \<times> string) option" where
  "splitHostPort hp =
     (case lastIndexByte (CHR '':'') hp of
        None \<Rightarrow> None
      | Some i \<Rightarrow>
          if hd hp = CHR ''['' then
            (case indexOf '']'' hp of
               None \<Rightarrow> None
             | Some e \<Rightarrow>
                 if e + 1 \<noteq> i then None
                 else if contains (drop 1 hp) ''['' then None
                 else if contains (drop (e + 1) hp) '']'' then None
                 else Some (take (e - 1) (drop 1 hp), drop (i + 1) hp))
          else if contains (take i hp) '':'' then None
          else if contains hp ''['' then None
          else if contains hp '']'' then None
          else Some (take i hp, drop (i + 1) hp))"

lemma lastIndexByte_None: "lastIndexByte c s = None \<longleftrightarrow> c \<notin> set s"
  by (induction s) (auto split: option.splits)

lemma lastIndexByte_append:
  "c \<notin> set t \<Longrightarrow> lastIndexByte c (s @ c # t) = Some (length s)"
proof (induction s)
  case Nil
  then show ?case using lastIndexByte_None [of c t] by simp
qed simp

lemma splitHostPort_host_port:
  assumes "host \<noteq> []" and "\<forall>c \<in> set host. c \<notin> set '':[]''" and "\<forall>c \<in> set port. c \<notin> set '':[]''"
  shows "splitHostPort (host @ '':'' @ port) = Some (host, port)"
proof -
  have "lastIndexByte (CHR '':'') (host @ '':'' @ port) = Some (length host)"
    using assms by (auto intro: lastIndexByte_append)
  moreover have "hd (host @ '':'' @ port) \<noteq> CHR ''[''"
    using assms by (cases host) auto
  ultimately show ?thesis
    using assms by (auto simp: splitHostPort_def contains_single)
qed

lemma splitHostPort_no_colon: "CHR '':'' \<notin> set s \<Longrightarrow> splitHostPort s = None"
  by (simp add: splitHostPort_def lastIndexByte_None [THEN iffD2])

end
