(* ===== verification/Go_Any.thy ===== *)
theory Go_Any
  imports Go_Strings
begin

text \<open>
  Dynamically typed Go values (\<^verbatim>\<open>any\<close>), the type assertions the code makes on them, and errors.

  A request or response body is a \<^verbatim>\<open>map[string]any\<close>. The constructors of \<open>any\<close> are the dynamic types
  that occur in it: those \<^verbatim>\<open>encoding/json\<close> produces (\<^verbatim>\<open>nil\<close>, \<^verbatim>\<open>bool\<close>, \<^verbatim>\<open>float64\<close>, \<^verbatim>\<open>string\<close>,
  \<^verbatim>\<open>[]any\<close>, \<^verbatim>\<open>map[string]any\<close>) and those the plugins store themselves (\<^verbatim>\<open>int\<close>, \<^verbatim>\<open>int64\<close>,
  \<^verbatim>\<open>json.Number\<close>, \<^verbatim>\<open>[]map[string]any\<close>, \<^verbatim>\<open>[]string\<close>, \<^verbatim>\<open>map[string]string\<close>). They are kept apart because a
  type assertion such as \<^verbatim>\<open>v.([]any)\<close> fails on a \<^verbatim>\<open>[]map[string]any\<close>.
\<close>

datatype any =
    VNil
  | VBool bool
  | VFloat rat
  | VInt int
  | VInt64 int
  | VNumber string
  | VStr string
  | VList "any list"
  | VMap "(string \<times> any) list"
  | VMaps "(string \<times> any) list list"
  | VStrs "string list"
  | VStrMap "(string \<times> string) list"

type_synonym body = "any gomap"

text \<open>\<^verbatim>\<open>json.Unmarshal\<close> into an \<^verbatim>\<open>any\<close> and \<^verbatim>\<open>json.Marshal\<close>; \<open>None\<close> is an error.\<close>

type_synonym decoder = "string \<Rightarrow> any option"
type_synonym encoder = "any \<Rightarrow> string option"

text \<open>\<^verbatim>\<open>m[k]\<close>: a missing key reads as \<^verbatim>\<open>nil\<close>.\<close>

definition idx :: "body \<Rightarrow> string \<Rightarrow> any" where
  "idx m k = (case map_of m k of None \<Rightarrow> VNil | Some v \<Rightarrow> v)"

lemma idx_Nil [simp, go_val]: "idx [] k = VNil"
  by (simp add: idx_def)

lemma idx_Cons [simp, go_val]: "idx ((k', v) # m) k = (if k = k' then v else idx m k)"
  by (simp add: idx_def)

lemma idx_gset [simp, go_val]: "idx (gset k v m) k' = (if k' = k then v else idx m k')"
  by (simp add: idx_def)

lemma idx_gdel [simp, go_val]: "idx (gdel k m) k' = (if k' = k then VNil else idx m k')"
  by (simp add: idx_def)

lemma idx_gset_opt [simp, go_val]:
  "idx (gset_opt k x m) k' =
     (if k' = k then (case x of None \<Rightarrow> idx m k' | Some v \<Rightarrow> v) else idx m k')"
  by (simp add: gset_opt_def split: option.split)

lemma idx_map_of: "map_of m k = Some v \<Longrightarrow> idx m k = v"
  by (simp add: idx_def)

lemma idx_missing: "map_of m k = None \<Longrightarrow> idx m k = VNil"
  by (simp add: idx_def)

text \<open>
  Type assertions in the two-value form \<^verbatim>\<open>x, ok := v.(T)\<close>: \<open>None\<close> is \<^verbatim>\<open>ok == false\<close>.
\<close>

fun as_str :: "any \<Rightarrow> string option" where
  "as_str (VStr s) = Some s"
| "as_str _ = None"

fun as_bool :: "any \<Rightarrow> bool option" where
  "as_bool (VBool b) = Some b"
| "as_bool _ = None"

fun as_list :: "any \<Rightarrow> any list option" where
  "as_list (VList xs) = Some xs"
| "as_list _ = None"

fun as_map :: "any \<Rightarrow> body option" where
  "as_map (VMap m) = Some m"
| "as_map _ = None"

text \<open>The form \<^verbatim>\<open>x, _ := v.(T)\<close>, which leaves the zero value on failure.\<close>

definition str_of :: "any \<Rightarrow> string" where
  "str_of v = (case as_str v of None \<Rightarrow> [] | Some s \<Rightarrow> s)"

definition list_of :: "any \<Rightarrow> any list" where
  "list_of v = (case as_list v of None \<Rightarrow> [] | Some xs \<Rightarrow> xs)"

definition obj_of :: "any \<Rightarrow> body" where
  "obj_of v = (case as_map v of None \<Rightarrow> [] | Some m \<Rightarrow> m)"

lemma str_of_simps [simp, go_val]:
  "str_of VNil = []" "str_of (VBool b) = []" "str_of (VFloat f) = []" "str_of (VInt i) = []"
  "str_of (VInt64 i) = []" "str_of (VNumber n) = []" "str_of (VStr s) = s" "str_of (VList xs) = []"
  "str_of (VMap m) = []" "str_of (VMaps ms) = []" "str_of (VStrs ss) = []" "str_of (VStrMap sm) = []"
  by (simp_all add: str_of_def)

lemma list_of_simps [simp, go_val]:
  "list_of VNil = []" "list_of (VBool b) = []" "list_of (VFloat f) = []" "list_of (VInt i) = []"
  "list_of (VInt64 i) = []" "list_of (VNumber n) = []" "list_of (VStr s) = []" "list_of (VList xs) = xs"
  "list_of (VMap m) = []" "list_of (VMaps ms) = []" "list_of (VStrs ss) = []" "list_of (VStrMap sm) = []"
  by (simp_all add: list_of_def)

lemma obj_of_simps [simp, go_val]:
  "obj_of VNil = []" "obj_of (VBool b) = []" "obj_of (VFloat f) = []" "obj_of (VInt i) = []"
  "obj_of (VInt64 i) = []" "obj_of (VNumber n) = []" "obj_of (VStr s) = []" "obj_of (VList xs) = []"
  "obj_of (VMap m) = m" "obj_of (VMaps ms) = []" "obj_of (VStrs ss) = []" "obj_of (VStrMap sm) = []"
  by (simp_all add: obj_of_def)

lemma as_str_Some_iff [simp]: "as_str v = Some s \<longleftrightarrow> v = VStr s"
  by (cases v) auto

lemma as_bool_Some_iff [simp]: "as_bool v = Some b \<longleftrightarrow> v = VBool b"
  by (cases v) auto

lemma as_list_Some_iff [simp]: "as_list v = Some xs \<longleftrightarrow> v = VList xs"
  by (cases v) auto

lemma as_map_Some_iff [simp]: "as_map v = Some m \<longleftrightarrow> v = VMap m"
  by (cases v) auto

lemma str_of_not_Nil: "str_of v \<noteq> [] \<Longrightarrow> v = VStr (str_of v)"
  by (cases v) auto

lemma idx_not_VNil: "idx m k \<noteq> VNil \<Longrightarrow> map_of m k = Some (idx m k)"
  by (auto simp: idx_def split: option.splits)

lemma str_idx_map_of: "str_of (idx m k) \<noteq> [] \<Longrightarrow> map_of m k = Some (VStr (str_of (idx m k)))"
  by (metis idx_not_VNil str_of_not_Nil str_of_simps(1))

section \<open>Errors\<close>

text \<open>
  The codes of \<^verbatim>\<open>errcommon\<close> the plugins use; \<open>NoCode\<close> is the empty code of a call without error.
\<close>

datatype errcode =
  NoCode | BadRequest | Forbidden | Internal | ServiceUnavailable | ResourceExhausted

text \<open>
  \<open>CommonError\<close> is \<^verbatim>\<open>errcommon.Error{Code, Msg}\<close>, \<open>Errorf\<close> is \<^verbatim>\<open>fmt.Errorf\<close> or \<^verbatim>\<open>errors.New\<close>,
  \<open>WrapErr\<close> a \<^verbatim>\<open>fmt.Errorf\<close> that wraps the error it is given last (\<^verbatim>\<open>%w\<close>), \<open>Panicked\<close> a run-time
  panic. Messages keep the source's format string and its arguments.
\<close>

datatype err =
    CommonError errcode string "arg list"
  | Errorf string "arg list"
  | WrapErr string "arg list" err
  | Panicked string
and arg = ArgS string | ArgI int | ArgE err

type_synonym 'a result = "err + 'a"

text \<open>\<^verbatim>\<open>errors.As(err, &commErr)\<close>: the first \<^verbatim>\<open>errcommon.Error\<close> of the chain of wrapped errors.\<close>

fun errors_as :: "err \<Rightarrow> err option" where
  "errors_as (CommonError c f as) = Some (CommonError c f as)"
| "errors_as (WrapErr f as e) = errors_as e"
| "errors_as _ = None"

fun err_code :: "err \<Rightarrow> errcode option" where
  "err_code (CommonError c f as) = Some c"
| "err_code _ = None"

text \<open>
  A loop over a slice that stops at the first error and collects what each element contributes, in
  the style \<^verbatim>\<open>for i, raw := range xs { v, err := f(i, raw); if err != nil { return nil, err }; ... }\<close>.
\<close>

fun collect :: "(nat \<Rightarrow> 'a \<Rightarrow> 'b list result) \<Rightarrow> nat \<Rightarrow> 'a list \<Rightarrow> 'b list result" where
  "collect f i [] = Inr []"
| "collect f i (x # xs) =
     (case f i x of
        Inl e \<Rightarrow> Inl e
      | Inr ys \<Rightarrow> (case collect f (Suc i) xs of Inl e \<Rightarrow> Inl e | Inr zs \<Rightarrow> Inr (ys @ zs)))"

lemma collect_Inr_total:
  "(\<And>i x. x \<in> set xs \<Longrightarrow> \<exists>ys. f i x = Inr ys) \<Longrightarrow> \<exists>zs. collect f i xs = Inr zs"
proof (induction xs arbitrary: i)
  case (Cons x xs)
  obtain ys where "f i x = Inr ys" using Cons.prems by auto
  moreover obtain zs where "collect f (Suc i) xs = Inr zs"
    using Cons.IH [of "Suc i"] Cons.prems by auto
  ultimately show ?case by simp
qed simp

lemma collect_Inr_elem:
  assumes "collect f i xs = Inr zs" and "z \<in> set zs"
  shows "\<exists>j x ys. x \<in> set xs \<and> f j x = Inr ys \<and> z \<in> set ys"
  using assms
proof (induction xs arbitrary: i zs)
  case (Cons x xs)
  then obtain ys zs' where *: "f i x = Inr ys" "collect f (Suc i) xs = Inr zs'" "zs = ys @ zs'"
    by (auto split: sum.splits)
  show ?case
  proof (cases "z \<in> set ys")
    case True
    with * show ?thesis by (metis list.set_intros(1))
  next
    case False
    with Cons.prems * have "z \<in> set zs'" by simp
    with Cons.IH * show ?thesis by (metis list.set_intros(2))
  qed
qed simp

lemma collect_Inr_map:
  "(\<And>i x. x \<in> set xs \<Longrightarrow> f i x = Inr (g x)) \<Longrightarrow> collect f i xs = Inr (concat (map g xs))"
  by (induction xs arbitrary: i) auto

lemma collect_Inl:
  "collect f i xs = Inl e \<Longrightarrow> \<exists>j < length xs. f (i + j) (xs ! j) = Inl e"
proof (induction xs arbitrary: i)
  case (Cons x xs)
  show ?case
  proof (cases "f i x")
    case (Inl e')
    with Cons.prems show ?thesis by (intro exI [of _ 0]) simp
  next
    case (Inr ys)
    with Cons.prems have "collect f (Suc i) xs = Inl e" by (auto split: sum.splits)
    from Cons.IH [OF this] obtain j where "j < length xs" "f (Suc i + j) (xs ! j) = Inl e" by blast
    then show ?thesis by (intro exI [of _ "Suc j"]) simp
  qed
qed simp

lemma collect_Inr_covers:
  "collect f i xs = Inr zs \<Longrightarrow> x \<in> set xs \<Longrightarrow> \<exists>j ys. f j x = Inr ys \<and> set ys \<subseteq> set zs"
proof (induction xs arbitrary: i zs)
  case (Cons y xs)
  then obtain ys zs' where *: "f i y = Inr ys" "collect f (Suc i) xs = Inr zs'" "zs = ys @ zs'"
    by (auto split: sum.splits)
  show ?case
  proof (cases "x = y")
    case True
    with * show ?thesis by auto
  next
    case False
    with Cons.prems have "x \<in> set xs" by simp
    from Cons.IH [OF *(2) this] *(3) show ?thesis by fastforce
  qed
qed simp

end
