(* ===== verification/Anthropic.thy ===== *)
theory Anthropic
  imports Go_Any
begin

text \<open>
  \<^verbatim>\<open>translator/anthropic/anthropic.go\<close>: translation between OpenAI Chat Completions and the Anthropic
  Messages API. Each function of the file is one definition, in the order of the file's call graph.

  \<^verbatim>\<open>encoding/json\<close> is passed in: \<open>unmarshal\<close> is \<^verbatim>\<open>json.Unmarshal\<close> into an \<^verbatim>\<open>any\<close> (\<open>None\<close> on a syntax
  error) and \<open>marshal\<close> is \<^verbatim>\<open>json.Marshal\<close>. The clock of \<^verbatim>\<open>time.Now().Unix()\<close> is the argument \<open>now\<close>.
\<close>

text \<open>
  What a translator returns for a request: the translated body (\<open>None\<close> is nil, no body mutation),
  the headers to set and the headers to remove.
\<close>

type_synonym translation = "body option \<times> string gomap \<times> string list"

abbreviation "anthropicAPIVersion \<equiv> ''2023-06-01''"
abbreviation "anthropicPath \<equiv> ''/v1/messages''"
definition defaultMaxTokens :: int where "defaultMaxTokens = 4096"

section \<open>Typed extraction\<close>

definition getFloat :: "body \<Rightarrow> string \<Rightarrow> rat option" where
  "getFloat body key =
     (case map_of body key of
        Some (VFloat f) \<Rightarrow> Some f
      | Some (VInt i) \<Rightarrow> Some (int_to_float i)
      | Some (VInt64 i) \<Rightarrow> Some (int_to_float i)
      | _ \<Rightarrow> None)"

definition getInt :: "body \<Rightarrow> string \<Rightarrow> int option" where
  "getInt body key =
     (case map_of body key of
        Some (VFloat n) \<Rightarrow> Some (float_to_int n)
      | Some (VInt n) \<Rightarrow> Some n
      | Some (VInt64 n) \<Rightarrow> Some n
      | _ \<Rightarrow> None)"

fun toInt :: "any \<Rightarrow> int" where
  "toInt (VFloat n) = float_to_int n"
| "toInt (VInt n) = n"
| "toInt (VInt64 n) = n"
| "toInt _ = 0"

definition toJSONString :: "encoder \<Rightarrow> any \<Rightarrow> string result" where
  "toJSONString marshal v =
     (case v of
        VNil \<Rightarrow> Inr ''{}''
      | VStr s \<Rightarrow> Inr s
      | _ \<Rightarrow> (case marshal v of
               None \<Rightarrow> Inl (Errorf ''failed to marshal to JSON: %w'' [])
             | Some b \<Rightarrow> Inr b))"

section \<open>Messages and their content\<close>

definition extractMessages :: "body \<Rightarrow> body list result" where
  "extractMessages body =
     (case map_of body ''messages'' of
        None \<Rightarrow> Inl (Errorf ''messages field is required'' [])
      | Some rawMessages \<Rightarrow>
          (case as_list rawMessages of
             None \<Rightarrow> Inl (Errorf ''messages must be an array'' [])
           | Some messagesSlice \<Rightarrow>
               collect (\<lambda>i raw. case as_map raw of
                            None \<Rightarrow> Inl (Errorf ''message at index %d is not an object'' [ArgI (int i)])
                          | Some msg \<Rightarrow> Inr [msg]) 0 messagesSlice))"

definition part_text :: "any \<Rightarrow> string option" where
  "part_text part = (case as_map part of None \<Rightarrow> None | Some partMap \<Rightarrow> as_str (idx partMap ''text''))"

definition extractContentString :: "body \<Rightarrow> string" where
  "extractContentString msg =
     (case map_of msg ''content'' of
        None \<Rightarrow> []
      | Some (VStr s) \<Rightarrow> s
      | Some (VList parts) \<Rightarrow> join '' '' (List.map_filter part_text parts)
      | Some _ \<Rightarrow> [])"

definition parseDataURL :: "string \<Rightarrow> string \<times> string" where
  "parseDataURL url =
     (if \<not> hasPrefix url ''data:'' then ([], [])
      else let url = drop 5 url
           in case indexOf '';'' url of
                None \<Rightarrow> ([], [])
              | Some semicolon \<Rightarrow>
                  let mediaType = take semicolon url; rest = drop (semicolon + 1) url
                  in if \<not> hasPrefix rest ''base64,'' then ([], []) else (mediaType, drop 7 rest))"

definition is_image_part :: "any \<Rightarrow> bool" where
  "is_image_part part =
     (case as_map part of None \<Rightarrow> False | Some partMap \<Rightarrow> str_of (idx partMap ''type'') = ''image_url'')"

definition user_block :: "any \<Rightarrow> any option" where
  "user_block part =
     (case as_map part of
        None \<Rightarrow> None
      | Some partMap \<Rightarrow>
          if str_of (idx partMap ''type'') = ''text'' then
            Some (VMap [(''type'', VStr ''text''), (''text'', VStr (str_of (idx partMap ''text'')))])
          else if str_of (idx partMap ''type'') = ''image_url'' then
            (let imageURL = obj_of (idx partMap ''image_url'');
                 url = str_of (idx imageURL ''url'')
             in case parseDataURL url of
                  (mediaType, data) \<Rightarrow>
                    if data = [] then None
                    else Some (VMap [(''type'', VStr ''image''),
                           (''source'', VMap [(''type'', VStr ''base64''),
                              (''media_type'', VStr mediaType), (''data'', VStr data)])]))
          else None)"

definition buildUserContent :: "body \<Rightarrow> any" where
  "buildUserContent msg =
     (case map_of msg ''content'' of
        None \<Rightarrow> VStr []
      | Some (VStr s) \<Rightarrow> VStr s
      | Some (VList parts) \<Rightarrow>
          if \<not> list_ex is_image_part parts then VStr (extractContentString msg)
          else VList (List.map_filter user_block parts)
      | Some _ \<Rightarrow> VStr [])"

section \<open>Tool calls and tool results\<close>

definition translateToolCallToToolUse :: "decoder \<Rightarrow> body \<Rightarrow> body option" where
  "translateToolCallToToolUse unmarshal toolCall =
     (let id = str_of (idx toolCall ''id'')
      in case as_map (idx toolCall ''function'') of
           None \<Rightarrow> None
         | Some fn \<Rightarrow>
             (let name = str_of (idx fn ''name'');
                  inp = (case as_str (idx fn ''arguments'') of
                           Some argsStr \<Rightarrow>
                             (case unmarshal argsStr of Some parsed \<Rightarrow> parsed | None \<Rightarrow> VMap [])
                         | None \<Rightarrow>
                             (if idx fn ''arguments'' = VNil then VMap [] else idx fn ''arguments''))
              in Some [(''type'', VStr ''tool_use''), (''id'', VStr id), (''name'', VStr name),
                       (''input'', inp)]))"

definition tool_use_block :: "decoder \<Rightarrow> any \<Rightarrow> any option" where
  "tool_use_block unmarshal tc =
     (case as_map tc of
        None \<Rightarrow> None
      | Some tcMap \<Rightarrow> map_option VMap (translateToolCallToToolUse unmarshal tcMap))"

definition buildAssistantMessage :: "decoder \<Rightarrow> body \<Rightarrow> body" where
  "buildAssistantMessage unmarshal msg =
     (let toolCalls = list_of (idx msg ''tool_calls'')
      in if toolCalls = [] then
           [(''role'', VStr ''assistant''), (''content'', VStr (extractContentString msg))]
         else
           (let text = extractContentString msg;
                textBlocks = (if text \<noteq> []
                              then [VMap [(''type'', VStr ''text''), (''text'', VStr text)]] else [])
            in [(''role'', VStr ''assistant''),
                (''content'', VList (textBlocks @ List.map_filter (tool_use_block unmarshal) toolCalls))]))"

definition buildToolResultMessage :: "body \<Rightarrow> body result" where
  "buildToolResultMessage msg =
     (let toolCallID = str_of (idx msg ''tool_call_id'')
      in if toolCallID = [] then
           Inl (Errorf ''tool message missing required 'tool_call_id' field'' [])
         else
           (let content = extractContentString msg;
                toolResult = [(''type'', VStr ''tool_result''), (''tool_use_id'', VStr toolCallID)]
            in Inr (if content \<noteq> [] then gset ''content'' (VStr content) toolResult else toolResult)))"

definition appendToolResult :: "body list \<Rightarrow> body \<Rightarrow> body list" where
  "appendToolResult messages toolResult =
     (let fresh = messages @ [[(''role'', VStr ''user''), (''content'', VList [VMap toolResult])]]
      in if messages = [] then fresh
         else if str_of (idx (last messages) ''role'') = ''user'' then
           (case as_list (idx (last messages) ''content'') of
              Some blocks \<Rightarrow>
                butlast messages @
                  [gset ''content'' (VList (blocks @ [VMap toolResult])) (last messages)]
            | None \<Rightarrow> fresh)
         else fresh)"

section \<open>Request translation\<close>

text \<open>The loop of \<^verbatim>\<open>separateSystemMessages\<close>, with its two accumulators.\<close>

fun separate_loop ::
  "decoder \<Rightarrow> nat \<Rightarrow> body list \<Rightarrow> string list \<Rightarrow> body list \<Rightarrow> (string list \<times> body list) result"
where
  "separate_loop unmarshal i [] systemParts messages = Inr (systemParts, messages)"
| "separate_loop unmarshal i (msg # msgs) systemParts messages =
     (let role = str_of (idx msg ''role'')
      in if role = ''system'' \<or> role = ''developer'' then
           separate_loop unmarshal (Suc i) msgs (systemParts @ [extractContentString msg]) messages
         else if role = ''user'' then
           separate_loop unmarshal (Suc i) msgs systemParts
             (messages @ [[(''role'', VStr ''user''), (''content'', buildUserContent msg)]])
         else if role = ''assistant'' then
           separate_loop unmarshal (Suc i) msgs systemParts
             (messages @ [buildAssistantMessage unmarshal msg])
         else if role = ''tool'' then
           (case buildToolResultMessage msg of
              Inl e \<Rightarrow> Inl (WrapErr ''message at index %d: %w'' [ArgI (int i)] e)
            | Inr toolResultMsg \<Rightarrow>
                separate_loop unmarshal (Suc i) msgs systemParts
                  (appendToolResult messages toolResultMsg))
         else Inl (Errorf (''message at index %d has unknown role '%s'' @ [CHR 0x27]) [ArgI (int i), ArgS role]))"

definition separateSystemMessages :: "decoder \<Rightarrow> body list \<Rightarrow> (string \<times> body list) result" where
  "separateSystemMessages unmarshal messages =
     (case separate_loop unmarshal 0 messages [] [] of
        Inl e \<Rightarrow> Inl e
      | Inr (systemParts, anthropicMessages) \<Rightarrow>
          Inr (join [CHR 0x0A] systemParts, anthropicMessages))"

definition resolveMaxTokens :: "body \<Rightarrow> int" where
  "resolveMaxTokens body =
     (case getInt body ''max_completion_tokens'' of
        Some v \<Rightarrow>
          if v > 0 then v
          else (case getInt body ''max_tokens'' of
                  Some v' \<Rightarrow> if v' > 0 then v' else defaultMaxTokens
                | None \<Rightarrow> defaultMaxTokens)
      | None \<Rightarrow>
          (case getInt body ''max_tokens'' of
             Some v' \<Rightarrow> if v' > 0 then v' else defaultMaxTokens
           | None \<Rightarrow> defaultMaxTokens))"

definition extractStopSequences :: "body \<Rightarrow> string list" where
  "extractStopSequences body =
     (case map_of body ''stop'' of
        None \<Rightarrow> []
      | Some (VStr s) \<Rightarrow> if s \<noteq> [] then [s] else []
      | Some (VList arr) \<Rightarrow> List.map_filter as_str arr
      | Some _ \<Rightarrow> [])"

definition translate_tool :: "any \<Rightarrow> any option" where
  "translate_tool tool =
     (case as_map tool of
        None \<Rightarrow> None
      | Some toolMap \<Rightarrow>
          (case as_map (idx toolMap ''function'') of
             None \<Rightarrow> None
           | Some fn \<Rightarrow>
               (let anthropicTool = [(''name'', idx fn ''name'')];
                    desc = str_of (idx fn ''description'');
                    anthropicTool = (if desc \<noteq> [] then gset ''description'' (VStr desc) anthropicTool
                                     else anthropicTool);
                    params = idx fn ''parameters'';
                    schema = (if params \<noteq> VNil then params else VMap [(''type'', VStr ''object'')])
                in Some (VMap (gset ''input_schema'' schema anthropicTool)))))"

definition translateToolDefinitions :: "body \<Rightarrow> any list" where
  "translateToolDefinitions body = List.map_filter translate_tool (list_of (idx body ''tools''))"

definition translateToolChoice :: "body \<Rightarrow> body option" where
  "translateToolChoice body =
     (case map_of body ''tool_choice'' of
        None \<Rightarrow> None
      | Some (VStr s) \<Rightarrow>
          if s = ''auto'' then Some [(''type'', VStr ''auto'')]
          else if s = ''required'' then Some [(''type'', VStr ''any'')]
          else None
      | Some (VMap tcMap) \<Rightarrow>
          (case as_map (idx tcMap ''function'') of
             None \<Rightarrow> None
           | Some fn \<Rightarrow>
               (case as_str (idx fn ''name'') of
                  None \<Rightarrow> None
                | Some name \<Rightarrow> Some [(''type'', VStr ''tool''), (''name'', VStr name)]))
      | Some _ \<Rightarrow> None)"

text \<open>The body \<^verbatim>\<open>TranslateRequest\<close> assembles once the messages are separated.\<close>

definition anthropic_body :: "body \<Rightarrow> string \<Rightarrow> string \<Rightarrow> body list \<Rightarrow> body" where
  "anthropic_body body model systemPrompt anthropicMessages =
     (let translated = [(''model'', VStr model), (''messages'', VMaps anthropicMessages),
                        (''max_tokens'', VInt (resolveMaxTokens body))];
          translated = (if systemPrompt \<noteq> [] then gset ''system'' (VStr systemPrompt) translated
                        else translated);
          translated = gset_opt ''temperature'' (map_option VFloat (getFloat body ''temperature'')) translated;
          translated = gset_opt ''top_p'' (map_option VFloat (getFloat body ''top_p'')) translated;
          stop = extractStopSequences body;
          translated = (if stop \<noteq> [] then gset ''stop_sequences'' (VStrs stop) translated else translated);
          tools = translateToolDefinitions body;
          translated =
            (if tools \<noteq> [] then
               gset_opt ''tool_choice'' (map_option VMap (translateToolChoice body))
                 (gset ''tools'' (VList tools) translated)
             else translated);
          translated = gset_opt ''stream'' (map_option VBool (as_bool (idx body ''stream''))) translated;
          translated = gset_opt ''response_format'' (map_of body ''response_format'') translated
      in translated)"

definition anthropic_TranslateRequest :: "decoder \<Rightarrow> body \<Rightarrow> translation result" where
  "anthropic_TranslateRequest unmarshal body =
     (let model = str_of (idx body ''model'')
      in if model = [] then Inl (CommonError BadRequest ''model field is required'' [])
         else
           (case extractMessages body of
              Inl e \<Rightarrow> Inl (CommonError BadRequest ''failed to extract messages: %v'' [ArgE e])
            | Inr messages \<Rightarrow>
                (case separateSystemMessages unmarshal messages of
                   Inl e \<Rightarrow> Inl (CommonError BadRequest ''%v'' [ArgE e])
                 | Inr (systemPrompt, anthropicMessages) \<Rightarrow>
                     if anthropicMessages = [] then
                       Inl (CommonError BadRequest ''at least one non-system message is required'' [])
                     else
                       Inr (Some (anthropic_body body model systemPrompt anthropicMessages),
                            [(''anthropic-version'', anthropicAPIVersion),
                             (''content-type'', ''application/json''),
                             ('':path'', anthropicPath)],
                            []))))"

section \<open>Response translation\<close>

definition translateAnthropicError :: "body \<Rightarrow> body" where
  "translateAnthropicError body =
     (let errObj = obj_of (idx body ''error'');
          errType = str_of (idx errObj ''type'');
          errMessage = str_of (idx errObj ''message'')
      in [(''error'', VMap [(''message'', VStr errMessage), (''type'', VStr errType),
                            (''param'', VNil), (''code'', VStr errType)])])"

definition text_block :: "any \<Rightarrow> string option" where
  "text_block block =
     (case as_map block of
        None \<Rightarrow> None
      | Some blockMap \<Rightarrow>
          if str_of (idx blockMap ''type'') = ''text'' then as_str (idx blockMap ''text'') else None)"

definition extractAnthropicContent :: "body \<Rightarrow> string" where
  "extractAnthropicContent body =
     join [] (List.map_filter text_block (list_of (idx body ''content'')))"

text \<open>The loop of \<^verbatim>\<open>extractAnthropicToolCalls\<close>; the argument is the running \<^verbatim>\<open>toolIndex\<close>.\<close>

fun tool_calls_loop :: "encoder \<Rightarrow> nat \<Rightarrow> any list \<Rightarrow> any list result" where
  "tool_calls_loop marshal toolIndex [] = Inr []"
| "tool_calls_loop marshal toolIndex (block # blocks) =
     (case as_map block of
        None \<Rightarrow> tool_calls_loop marshal toolIndex blocks
      | Some blockMap \<Rightarrow>
          if str_of (idx blockMap ''type'') \<noteq> ''tool_use'' then tool_calls_loop marshal toolIndex blocks
          else
            (let id = str_of (idx blockMap ''id''); name = str_of (idx blockMap ''name'')
             in case toJSONString marshal (idx blockMap ''input'') of
                  Inl e \<Rightarrow> Inl (WrapErr ''failed to marshal tool call arguments for '%s' - %w'' [ArgS name] e)
                | Inr args \<Rightarrow>
                    (case tool_calls_loop marshal (Suc toolIndex) blocks of
                       Inl e \<Rightarrow> Inl e
                     | Inr toolCalls \<Rightarrow>
                         Inr (VMap [(''id'', VStr id), (''index'', VInt (int toolIndex)),
                                    (''type'', VStr ''function''),
                                    (''function'', VMap [(''name'', VStr name), (''arguments'', VStr args)])]
                              # toolCalls))))"

definition extractAnthropicToolCalls :: "encoder \<Rightarrow> body \<Rightarrow> any list result" where
  "extractAnthropicToolCalls marshal body =
     tool_calls_loop marshal 0 (list_of (idx body ''content''))"

definition mapStopReason :: "body \<Rightarrow> string" where
  "mapStopReason body =
     (let reason = str_of (idx body ''stop_reason'')
      in if reason = ''max_tokens'' then ''length''
         else if reason = ''tool_use'' then ''tool_calls''
         else ''stop'')"

definition mapAnthropicUsage :: "body \<Rightarrow> body" where
  "mapAnthropicUsage body =
     (case as_map (idx body ''usage'') of
        None \<Rightarrow> [(''prompt_tokens'', VInt 0), (''completion_tokens'', VInt 0), (''total_tokens'', VInt 0)]
      | Some usage \<Rightarrow>
          (let inputTokens = toInt (idx usage ''input_tokens'');
               outputTokens = toInt (idx usage ''output_tokens'')
           in [(''prompt_tokens'', VInt inputTokens), (''completion_tokens'', VInt outputTokens),
               (''total_tokens'', VInt (wrap64 (inputTokens + outputTokens)))]))"

definition anthropic_TranslateResponse ::
  "encoder \<Rightarrow> int \<Rightarrow> body \<Rightarrow> string \<Rightarrow> body option result" where
  "anthropic_TranslateResponse marshal now body model =
     (if str_of (idx body ''type'') = ''error'' then Inr (Some (translateAnthropicError body))
      else
        (let content = extractAnthropicContent body;
             finishReason = mapStopReason body;
             usage = mapAnthropicUsage body;
             id = str_of (idx body ''id'');
             model = (if model = [] then str_of (idx body ''model'') else model);
             message = [(''role'', VStr ''assistant''), (''content'', VStr content)];
             message' = (if finishReason = ''tool_calls'' then
                           (case extractAnthropicToolCalls marshal body of
                              Inl e \<Rightarrow> Inl (WrapErr ''failed to extract tool calls: %w'' [] e)
                            | Inr toolCalls \<Rightarrow>
                                Inr (if toolCalls \<noteq> [] then gset ''tool_calls'' (VList toolCalls) message
                                     else message))
                         else Inr message)
         in case message' of
              Inl e \<Rightarrow> Inl e
            | Inr message \<Rightarrow>
                Inr (Some [(''id'', VStr id), (''object'', VStr ''chat.completion''),
                           (''created'', VInt64 now), (''model'', VStr model),
                           (''choices'', VList [VMap [(''index'', VInt 0), (''message'', VMap message),
                                                      (''finish_reason'', VStr finishReason)]]),
                           (''usage'', VMap usage)])))"

section \<open>Which requests are accepted\<close>

text \<open>
  The contract of the request direction: a request is translatable when it names a model, its
  messages are objects with a known role, every tool message names its call, and the conversation
  holds more than system messages.
\<close>

definition role_of :: "body \<Rightarrow> string" where
  "role_of msg = str_of (idx msg ''role'')"

definition is_system :: "body \<Rightarrow> bool" where
  "is_system msg \<longleftrightarrow> role_of msg \<in> {''system'', ''developer''}"

definition valid_message :: "body \<Rightarrow> bool" where
  "valid_message msg \<longleftrightarrow>
     is_system msg \<or> role_of msg \<in> {''user'', ''assistant''} \<or>
     role_of msg = ''tool'' \<and> str_of (idx msg ''tool_call_id'') \<noteq> []"

definition messages_of :: "body \<Rightarrow> body list" where
  "messages_of body = List.map_filter as_map (list_of (idx body ''messages''))"

definition valid_chat :: "body \<Rightarrow> bool" where
  "valid_chat body \<longleftrightarrow>
     str_of (idx body ''model'') \<noteq> [] \<and>
     as_list (idx body ''messages'') \<noteq> None \<and>
     list_all (\<lambda>v. as_map v \<noteq> None) (list_of (idx body ''messages'')) \<and>
     list_all valid_message (messages_of body) \<and>
     list_ex (\<lambda>m. \<not> is_system m) (messages_of body)"

lemma as_list_idx_Some: "as_list (idx b k) = Some xs \<Longrightarrow> map_of b k = Some (VList xs)"
  by (cases "idx b k") (auto simp: idx_def split: option.splits)

lemma collect_objects_iff:
  "(\<exists>ms. collect (\<lambda>i raw. case as_map raw of None \<Rightarrow> Inl (e i) | Some msg \<Rightarrow> Inr [msg]) i xs = Inr ms)
     \<longleftrightarrow> list_all (\<lambda>v. as_map v \<noteq> None) xs"
proof (induction xs arbitrary: i)
  case (Cons x xs)
  show ?case
    using Cons.IH [of "Suc i"]
    by (cases "as_map x") (auto split: sum.splits)
qed simp

lemma collect_objects_Inr:
  "collect (\<lambda>i raw. case as_map raw of None \<Rightarrow> Inl (e i) | Some msg \<Rightarrow> Inr [msg]) i xs = Inr ms \<Longrightarrow>
     ms = List.map_filter as_map xs"
  by (induction xs arbitrary: i ms) (auto split: option.splits sum.splits simp: map_filter_simps)

lemma extractMessages_Inr: "extractMessages body = Inr ms \<Longrightarrow> ms = messages_of body"
  by (auto simp: extractMessages_def messages_of_def list_of_def idx_def
      split: option.splits dest: collect_objects_Inr)

lemma extractMessages_iff:
  "(\<exists>ms. extractMessages body = Inr ms) \<longleftrightarrow>
     as_list (idx body ''messages'') \<noteq> None \<and>
     list_all (\<lambda>v. as_map v \<noteq> None) (list_of (idx body ''messages''))"
  by (auto simp: extractMessages_def list_of_def idx_def collect_objects_iff split: option.splits)

lemma buildToolResultMessage_iff:
  "(\<exists>r. buildToolResultMessage msg = Inr r) \<longleftrightarrow> str_of (idx msg ''tool_call_id'') \<noteq> []"
  by (simp add: buildToolResultMessage_def Let_def)

lemma separate_loop_iff:
  "(\<exists>r. separate_loop u i msgs sp ms = Inr r) \<longleftrightarrow> list_all valid_message msgs"
proof (induction msgs arbitrary: i sp ms)
  case (Cons m msgs)
  have *: "(case buildToolResultMessage m of Inl e \<Rightarrow> Inl (g e) | Inr tr \<Rightarrow> h tr) = Inr r \<longleftrightarrow>
      (\<exists>tr. buildToolResultMessage m = Inr tr \<and> h tr = Inr r)" for g h and r :: "string list \<times> body list"
    by (simp split: sum.splits)
  have IH: "(\<exists>a b. separate_loop u j msgs sp' ms' = Inr (a, b)) \<longleftrightarrow> list_all valid_message msgs" for j sp' ms'
    using Cons.IH [of j sp' ms'] by simp
  have m: "valid_message m \<longleftrightarrow> is_system m \<or> role_of m = ''user'' \<or> role_of m = ''assistant'' \<or>
      role_of m = ''tool'' \<and> (\<exists>tr. buildToolResultMessage m = Inr tr)"
    by (simp add: valid_message_def buildToolResultMessage_iff)
  show ?case
    by (simp add: * IH m Let_def is_system_def role_of_def) (metis IH)
qed simp

section \<open>What a translated conversation holds\<close>

lemma appendToolResult_not_Nil [simp]: "appendToolResult ms tr \<noteq> []"
  by (simp add: appendToolResult_def Let_def split: option.splits)

text \<open>
  Tool traffic as the sequence of events it stands for. On the OpenAI side an assistant message
  issues calls and a tool message answers one; on the Anthropic side these are content blocks.
\<close>

datatype tool_event = Called string string | Answered string string

definition call_event :: "any \<Rightarrow> tool_event option" where
  "call_event tc =
     (case as_map tc of
        None \<Rightarrow> None
      | Some tcMap \<Rightarrow>
          (case as_map (idx tcMap ''function'') of
             None \<Rightarrow> None
           | Some fn \<Rightarrow> Some (Called (str_of (idx tcMap ''id'')) (str_of (idx fn ''name'')))))"

definition openai_events :: "body \<Rightarrow> tool_event list" where
  "openai_events msg =
     (if role_of msg = ''assistant'' then List.map_filter call_event (list_of (idx msg ''tool_calls''))
      else if role_of msg = ''tool'' then
        [Answered (str_of (idx msg ''tool_call_id'')) (extractContentString msg)]
      else [])"

definition block_event :: "any \<Rightarrow> tool_event option" where
  "block_event block =
     (case as_map block of
        None \<Rightarrow> None
      | Some b \<Rightarrow>
          if str_of (idx b ''type'') = ''tool_use''
          then Some (Called (str_of (idx b ''id'')) (str_of (idx b ''name'')))
          else if str_of (idx b ''type'') = ''tool_result''
          then Some (Answered (str_of (idx b ''tool_use_id'')) (str_of (idx b ''content'')))
          else None)"

definition anthropic_events :: "body \<Rightarrow> tool_event list" where
  "anthropic_events msg = List.map_filter block_event (list_of (idx msg ''content''))"

lemmas val_of_simps = str_of_def list_of_def obj_of_def

lemma user_block_no_event: "user_block part = Some b \<Longrightarrow> block_event b = None"
  by (auto simp: user_block_def Let_def block_event_def val_of_simps
      split: option.splits if_splits prod.splits)

lemma buildUserContent_no_event: "List.map_filter block_event (list_of (buildUserContent msg)) = []"
  by (auto simp: buildUserContent_def list_of_def in_set_map_filter
      split: option.splits any.splits intro!: map_filter_none dest: user_block_no_event)

lemma tool_use_block_event:
  "Option.bind (tool_use_block u tc) block_event = call_event tc"
  by (auto simp: tool_use_block_def translateToolCallToToolUse_def Let_def block_event_def
      call_event_def val_of_simps split: option.splits)

lemma buildAssistantMessage_events:
  "anthropic_events (buildAssistantMessage u msg) =
     List.map_filter call_event (list_of (idx msg ''tool_calls''))"
  by (auto simp: anthropic_events_def buildAssistantMessage_def Let_def map_filter_map_filter
      tool_use_block_event list_of_def [of "VStr _"] list_of_def [of "VList _"] map_filter_simps
      block_event_def str_of_def)

lemma buildToolResult_event:
  "buildToolResultMessage msg = Inr tr \<Longrightarrow>
     block_event (VMap tr) = Some (Answered (str_of (idx msg ''tool_call_id'')) (extractContentString msg))"
  by (auto simp: buildToolResultMessage_def Let_def block_event_def str_of_def split: if_splits)

lemma appendToolResult_events:
  "concat (map anthropic_events (appendToolResult ms tr)) =
     concat (map anthropic_events ms) @ List.map_filter block_event [VMap tr]"
proof (cases "ms = []")
  case False
  then obtain ms' m where ms: "ms = ms' @ [m]" by (metis rev_exhaust)
  show ?thesis
    by (auto simp: ms appendToolResult_def Let_def anthropic_events_def list_of_def
        split: option.splits)
qed (simp add: appendToolResult_def anthropic_events_def list_of_def)

lemma separate_loop_events:
  "separate_loop u i msgs sp ms = Inr (sp', ms') \<Longrightarrow>
     concat (map anthropic_events ms') =
       concat (map anthropic_events ms) @ concat (map openai_events msgs)"
proof (induction msgs arbitrary: i sp ms)
  case (Cons m msgs)
  have user: "anthropic_events [(''role'', VStr ''user''), (''content'', buildUserContent m)] = []"
    by (simp add: anthropic_events_def buildUserContent_no_event)
  show ?case
    using Cons.prems
    by (auto simp: Let_def openai_events_def role_of_def user buildAssistantMessage_events
        appendToolResult_events buildToolResult_event map_filter_simps
        dest!: Cons.IH split: if_splits sum.splits)
qed simp

text \<open>The rest of what the loop establishes: system parts in order, well-formed roles.\<close>

definition anthropic_role_ok :: "body \<Rightarrow> bool" where
  "anthropic_role_ok msg \<longleftrightarrow> role_of msg \<in> {''user'', ''assistant''} \<and> map_of msg ''content'' \<noteq> None"

lemma appendToolResult_roles:
  "list_all anthropic_role_ok ms \<Longrightarrow> list_all anthropic_role_ok (appendToolResult ms tr)"
proof (cases "ms = []")
  case False
  moreover assume "list_all anthropic_role_ok ms"
  ultimately obtain ms' m where ms: "ms = ms' @ [m]" "list_all anthropic_role_ok ms'" "anthropic_role_ok m"
    by (metis rev_exhaust list_all_append list.pred_inject(2))
  then show ?thesis
    by (auto simp: appendToolResult_def Let_def anthropic_role_ok_def role_of_def str_of_def
        split: option.splits)
qed (simp add: appendToolResult_def anthropic_role_ok_def role_of_def str_of_def)

lemma buildAssistantMessage_role [simp]: "anthropic_role_ok (buildAssistantMessage u msg)"
  by (simp add: buildAssistantMessage_def Let_def anthropic_role_ok_def role_of_def str_of_def)

lemma separate_loop_shape:
  "separate_loop u i msgs sp ms = Inr (sp', ms') \<Longrightarrow> list_all anthropic_role_ok ms \<Longrightarrow>
     sp' = sp @ map extractContentString (filter is_system msgs) \<and>
     list_all anthropic_role_ok ms' \<and>
     (ms' \<noteq> [] \<longleftrightarrow> ms \<noteq> [] \<or> list_ex (\<lambda>m. \<not> is_system m) msgs)"
proof (induction msgs arbitrary: i sp ms)
  case (Cons m msgs)
  have user: "anthropic_role_ok [(''role'', VStr ''user''), (''content'', buildUserContent m)]"
    by (simp add: anthropic_role_ok_def role_of_def str_of_def)
  consider "role_of m \<in> {''system'', ''developer''}" | "role_of m = ''user''"
    | "role_of m = ''assistant''" | tr where "role_of m = ''tool''" "buildToolResultMessage m = Inr tr"
    using Cons.prems by (auto simp: role_of_def Let_def split: if_splits sum.splits)
  then show ?case
    using Cons.prems user appendToolResult_roles
    by cases (auto simp: is_system_def role_of_def Let_def dest!: Cons.IH)
qed simp

lemma resolveMaxTokens_pos: "resolveMaxTokens body > 0"
  by (simp add: resolveMaxTokens_def defaultMaxTokens_def split: option.split)

text \<open>One decomposition of a successful translation, which the properties below start from.\<close>

lemma anthropic_TranslateRequest_Inr:
  assumes "anthropic_TranslateRequest u body = Inr (b, hs, rm)"
  obtains sp ms where
    "str_of (idx body ''model'') \<noteq> []"
    "separate_loop u 0 (messages_of body) [] [] = Inr (sp, ms)" "ms \<noteq> []"
    "b = Some (anthropic_body body (str_of (idx body ''model'')) (join [CHR 0x0A] sp) ms)"
    "hs = [(''anthropic-version'', anthropicAPIVersion), (''content-type'', ''application/json''),
           ('':path'', anthropicPath)]"
    "rm = []"
  using assms
  by (auto simp: anthropic_TranslateRequest_def separateSystemMessages_def Let_def
      dest!: extractMessages_Inr split: if_splits sum.splits prod.splits)

lemma anthropic_body_fields:
  "idx (anthropic_body body model sp ms) ''model'' = VStr model"
  "idx (anthropic_body body model sp ms) ''messages'' = VMaps ms"
  "idx (anthropic_body body model sp ms) ''max_tokens'' = VInt (resolveMaxTokens body)"
  "idx (anthropic_body body model sp ms) ''system'' = (if sp = [] then VNil else VStr sp)"
  by (simp_all add: anthropic_body_def Let_def)


lemma wf_anthropic_body: "wf_map (anthropic_body body model sp ms)"
  by (simp add: anthropic_body_def Let_def)

section \<open>Properties of the request direction\<close>

text \<open>The Anthropic translator accepts exactly the well-formed chat requests. It translates when
  the request names a model, all messages are objects with a known role, every tool message names its
  call and some message is not a system message; otherwise it fails, always with \<^verbatim>\<open>BadRequest\<close>.\<close>

theorem anthropic_request_accepted:
  "case anthropic_TranslateRequest u body of
     Inr _ \<Rightarrow> valid_chat body
   | Inl e \<Rightarrow> \<not> valid_chat body \<and> err_code e = Some BadRequest"
proof (cases "extractMessages body")
  case (Inl e)
  then have "\<not> valid_chat body"
    using extractMessages_iff [of body] by (auto simp: valid_chat_def)
  with Inl show ?thesis
    by (simp add: anthropic_TranslateRequest_def Let_def)
next
  case (Inr ms)
  then have ms: "ms = messages_of body" and
    objs: "as_list (idx body ''messages'') \<noteq> None"
          "list_all (\<lambda>v. as_map v \<noteq> None) (list_of (idx body ''messages''))"
    using extractMessages_Inr extractMessages_iff [of body] by blast+
  show ?thesis
  proof (cases "separate_loop u 0 ms [] []")
    case Inl': (Inl e)
    then have "\<not> list_all valid_message ms"
      using separate_loop_iff [of u 0 ms "[]" "[]"] by auto
    with Inr Inl' ms show ?thesis
      by (simp add: anthropic_TranslateRequest_def separateSystemMessages_def Let_def valid_chat_def)
  next
    case Inr': (Inr r)
    obtain sp out where r: "r = (sp, out)" by (cases r)
    have "list_all valid_message ms"
      using separate_loop_iff [of u 0 ms "[]" "[]"] Inr' by auto
    moreover have "out \<noteq> [] \<longleftrightarrow> list_ex (\<lambda>m. \<not> is_system m) ms"
      using separate_loop_shape [of u 0 ms "[]" "[]" sp out] Inr' r by simp
    ultimately show ?thesis
      using Inr Inr' r ms objs
      by (auto simp: anthropic_TranslateRequest_def separateSystemMessages_def Let_def valid_chat_def)
  qed
qed

text \<open>A translated request is a Messages API request: the model is the client's, the messages are
  non-empty and carry only the roles user and assistant, \<^verbatim>\<open>max_tokens\<close> is positive, the system and
  developer messages become the newline-joined \<^verbatim>\<open>system\<close> field in their order (absent when empty),
  and the headers route to \<^verbatim>\<open>/v1/messages\<close> with the pinned API version.\<close>

theorem anthropic_request_shape:
  assumes "anthropic_TranslateRequest u body = Inr (b, hs, rm)"
  shows "\<exists>out ms n. b = Some out \<and> wf_map out \<and>
    idx out ''model'' = idx body ''model'' \<and>
    idx out ''messages'' = VMaps ms \<and> ms \<noteq> [] \<and> list_all anthropic_role_ok ms \<and>
    idx out ''max_tokens'' = VInt n \<and> n > 0 \<and>
    str_of (idx out ''system'') =
      join [CHR 0x0A] (map extractContentString (filter is_system (messages_of body))) \<and>
    map_of hs '':path'' = Some anthropicPath \<and>
    map_of hs ''anthropic-version'' = Some anthropicAPIVersion \<and> rm = []"
proof -
  from assms obtain sp ms where *: "str_of (idx body ''model'') \<noteq> []"
    "separate_loop u 0 (messages_of body) [] [] = Inr (sp, ms)" "ms \<noteq> []"
    "b = Some (anthropic_body body (str_of (idx body ''model'')) (join [CHR 0x0A] sp) ms)"
    "hs = [(''anthropic-version'', anthropicAPIVersion), (''content-type'', ''application/json''),
           ('':path'', anthropicPath)]" "rm = []"
    by (rule anthropic_TranslateRequest_Inr)
  have "sp = map extractContentString (filter is_system (messages_of body))"
    and "list_all anthropic_role_ok ms"
    using separate_loop_shape [OF *(2)] by simp_all
  moreover have "idx body ''model'' = VStr (str_of (idx body ''model''))"
    using *(1) by (cases "idx body ''model''") (auto simp: str_of_def)
  ultimately show ?thesis
    using * wf_anthropic_body resolveMaxTokens_pos [of body]
    by (auto simp: anthropic_body_fields str_of_def)
qed

text \<open>C12: Tool traffic survives translation in its order. The \<^verbatim>\<open>tool_use\<close> and \<^verbatim>\<open>tool_result\<close> blocks
  of the translated conversation, read in order, are exactly the calls and answers of the client's
  messages, with their ids, function names and result texts, although consecutive tool messages
  are merged into one user message.\<close>

theorem anthropic_tool_traffic:
  assumes "anthropic_TranslateRequest u body = Inr (Some out, hs, rm)"
    and "idx out ''messages'' = VMaps ms"
  shows "concat (map anthropic_events ms) = concat (map openai_events (messages_of body))"
proof -
  from assms(1) obtain sp ms' where *: "str_of (idx body ''model'') \<noteq> []"
    "separate_loop u 0 (messages_of body) [] [] = Inr (sp, ms')" "ms' \<noteq> []"
    "Some out = Some (anthropic_body body (str_of (idx body ''model'')) (join [CHR 0x0A] sp) ms')"
    by (rule anthropic_TranslateRequest_Inr)
  with assms(2) have "ms' = ms" by (simp add: anthropic_body_fields)
  with separate_loop_events [OF *(2)] show ?thesis by simp
qed

definition sample_chat :: body where
  "sample_chat =
     [(''model'', VStr ''claude''),
      (''messages'', VList
        [VMap [(''role'', VStr ''system''), (''content'', VStr ''be brief'')],
         VMap [(''role'', VStr ''user''), (''content'', VStr ''hi'')],
         VMap [(''role'', VStr ''assistant''), (''content'', VNil),
               (''tool_calls'', VList [VMap [(''id'', VStr ''c1''),
                  (''function'', VMap [(''name'', VStr ''f''), (''arguments'', VStr ''{}'')])]])],
         VMap [(''role'', VStr ''tool''), (''tool_call_id'', VStr ''c1''), (''content'', VStr ''42'')],
         VMap [(''role'', VStr ''tool''), (''tool_call_id'', VStr ''c2'')]])]"

definition empty_object_decoder :: decoder where
  "empty_object_decoder s = (if s = ''{}'' then Some (VMap []) else None)"

definition empty_object_encoder :: encoder where
  "empty_object_encoder v = (if v = VMap [] then Some ''{}'' else None)"

lemmas anthropic_eval = anthropic_TranslateRequest_def extractMessages_def
  separateSystemMessages_def extractContentString_def buildUserContent_def
  buildAssistantMessage_def tool_use_block_def translateToolCallToToolUse_def
  buildToolResultMessage_def appendToolResult_def anthropic_body_def resolveMaxTokens_def
  getInt_def getFloat_def extractStopSequences_def translateToolDefinitions_def Let_def
  str_of_def list_of_def obj_of_def map_filter_simps sample_chat_def empty_object_decoder_def

lemma sample_chat_ok:
  "\<exists>b hs rm. anthropic_TranslateRequest empty_object_decoder sample_chat = Inr (Some b, hs, rm)"
  by (simp add: anthropic_eval)

theorem anthropic_request_shape_witness:
  "\<exists>out hs rm. anthropic_TranslateRequest empty_object_decoder sample_chat = Inr (Some out, hs, rm) \<and>
     str_of (idx out ''system'') = ''be brief''"
proof -
  obtain out hs rm where *:
    "anthropic_TranslateRequest empty_object_decoder sample_chat = Inr (Some out, hs, rm)"
    using sample_chat_ok by blast
  have "join [CHR 0x0A] (map extractContentString (filter is_system (messages_of sample_chat))) = ''be brief''"
    by (simp add: sample_chat_def messages_of_def list_of_def map_filter_simps is_system_def role_of_def
        str_of_def extractContentString_def)
  with anthropic_request_shape [OF *] * show ?thesis by auto
qed

theorem anthropic_tool_traffic_witness:
  "\<exists>out ms hs rm. anthropic_TranslateRequest empty_object_decoder sample_chat = Inr (Some out, hs, rm) \<and>
     idx out ''messages'' = VMaps ms \<and>
     concat (map anthropic_events ms) = [Called ''c1'' ''f'', Answered ''c1'' ''42'', Answered ''c2'' []]"
proof -
  obtain out hs rm where *:
    "anthropic_TranslateRequest empty_object_decoder sample_chat = Inr (Some out, hs, rm)"
    using sample_chat_ok by blast
  then obtain sp ms where "Some out =
      Some (anthropic_body sample_chat (str_of (idx sample_chat ''model'')) (join [CHR 0x0A] sp) ms)"
    by (rule anthropic_TranslateRequest_Inr)
  then have ms: "idx out ''messages'' = VMaps ms" by (simp add: anthropic_body_fields)
  have "concat (map openai_events (messages_of sample_chat)) =
      [Called ''c1'' ''f'', Answered ''c1'' ''42'', Answered ''c2'' []]"
    by (simp add: sample_chat_def messages_of_def list_of_def map_filter_simps openai_events_def
        role_of_def str_of_def call_event_def extractContentString_def)
  with anthropic_tool_traffic [OF * ms] * ms show ?thesis by metis
qed


section \<open>Properties of the response direction\<close>

text \<open>The \<^verbatim>\<open>tool_use\<close> blocks of a response in the form the request direction builds them.\<close>

definition tool_use_of :: "any \<Rightarrow> body option" where
  "tool_use_of block =
     (case as_map block of
        None \<Rightarrow> None
      | Some b \<Rightarrow>
          if str_of (idx b ''type'') = ''tool_use''
          then Some [(''type'', VStr ''tool_use''), (''id'', VStr (str_of (idx b ''id''))),
                     (''name'', VStr (str_of (idx b ''name''))), (''input'', idx b ''input'')]
          else None)"

definition tool_uses :: "body \<Rightarrow> body list" where
  "tool_uses resp = List.map_filter tool_use_of (list_of (idx resp ''content''))"

text \<open>The codec reads back what it wrote, for the value \<open>v\<close>, an object.\<close>

definition codec_ok :: "encoder \<Rightarrow> decoder \<Rightarrow> any \<Rightarrow> bool" where
  "codec_ok marshal unmarshal v =
     (as_map v \<noteq> None \<and>
      (case marshal v of None \<Rightarrow> False | Some s \<Rightarrow> unmarshal s = Some v))"

lemma toJSONString_object:
  "codec_ok marshal unmarshal v \<Longrightarrow>
     \<exists>s. toJSONString marshal v = Inr s \<and> unmarshal s = Some v"
  by (cases v) (auto simp: codec_ok_def toJSONString_def split: option.splits)

lemma tool_calls_loop_roundtrip:
  "\<forall>t \<in> set (List.map_filter tool_use_of blocks). codec_ok marshal unmarshal (idx t ''input'') \<Longrightarrow>
     \<exists>tcs. tool_calls_loop marshal i blocks = Inr tcs \<and>
       List.map_filter (tool_use_block unmarshal) tcs = map VMap (List.map_filter tool_use_of blocks) \<and>
       length tcs = length (List.map_filter tool_use_of blocks)"
proof (induction blocks arbitrary: i)
  case (Cons block blocks)
  show ?case
  proof (cases "tool_use_of block")
    case None
    with Cons show ?thesis
      by (auto simp: map_filter_simps tool_use_of_def split: option.splits if_splits)
  next
    case (Some t)
    then obtain b where b: "as_map block = Some b" "str_of (idx b ''type'') = ''tool_use''"
      "t = [(''type'', VStr ''tool_use''), (''id'', VStr (str_of (idx b ''id''))),
            (''name'', VStr (str_of (idx b ''name''))), (''input'', idx b ''input'')]"
      by (auto simp: tool_use_of_def split: option.splits if_splits)
    with Cons.prems Some have "codec_ok marshal unmarshal (idx b ''input'')"
      by (simp add: map_filter_simps)
    then obtain s where s: "toJSONString marshal (idx b ''input'') = Inr s"
      "unmarshal s = Some (idx b ''input'')"
      using toJSONString_object by blast
    obtain tcs where "tool_calls_loop marshal (Suc i) blocks = Inr tcs"
      "List.map_filter (tool_use_block unmarshal) tcs = map VMap (List.map_filter tool_use_of blocks)"
      "length tcs = length (List.map_filter tool_use_of blocks)"
      using Cons.IH [of "Suc i"] Cons.prems Some by (auto simp: map_filter_simps)
    with b s Some show ?thesis
      by (simp add: map_filter_simps Let_def tool_use_block_def [of _ "VMap _"]
          translateToolCallToToolUse_def str_of_def [of "VStr _"])
  qed
qed (simp add: map_filter_simps)

definition choice_message :: "body \<Rightarrow> body" where
  "choice_message out =
     obj_of (idx (obj_of (hd (list_of (idx out ''choices'')))) ''message'')"

text \<open>C13: Tool calls survive the round trip through the client. When Claude stops to use tools, the
  OpenAI message the client receives, sent back as an assistant message of the next request, is
  translated to the same \<^verbatim>\<open>tool_use\<close> blocks (id, name and input, in order) after the text, provided
  JSON decoding reads back the tool inputs it encoded.\<close>

theorem anthropic_tool_call_roundtrip:
  assumes "str_of (idx resp ''type'') \<noteq> ''error''" and "idx resp ''stop_reason'' = VStr ''tool_use''"
    and "tool_uses resp \<noteq> []"
    and "\<forall>t \<in> set (tool_uses resp). codec_ok marshal unmarshal (idx t ''input'')"
  shows "\<exists>out. anthropic_TranslateResponse marshal now resp model = Inr (Some out) \<and>
    valid_message (choice_message out) \<and>
    buildAssistantMessage unmarshal (choice_message out) =
      [(''role'', VStr ''assistant''),
       (''content'', VList ((if extractAnthropicContent resp = [] then []
           else [VMap [(''type'', VStr ''text''), (''text'', VStr (extractAnthropicContent resp))]])
         @ map VMap (tool_uses resp)))]"
proof -
  obtain tcs where tcs: "extractAnthropicToolCalls marshal resp = Inr tcs"
    "List.map_filter (tool_use_block unmarshal) tcs = map VMap (tool_uses resp)"
    "length tcs = length (tool_uses resp)"
    using tool_calls_loop_roundtrip assms(4)
    unfolding extractAnthropicToolCalls_def tool_uses_def by metis
  with assms(3) have "tcs \<noteq> []" by auto
  moreover have "mapStopReason resp = ''tool_calls''"
    using assms(2) by (simp add: mapStopReason_def str_of_def Let_def)
  ultimately show ?thesis
    using assms(1) tcs
    by (simp add: anthropic_TranslateResponse_def Let_def choice_message_def valid_message_def
        role_of_def val_of_simps buildAssistantMessage_def extractContentString_def)
qed

definition sample_tool_response :: body where
  "sample_tool_response =
     [(''type'', VStr ''message''), (''stop_reason'', VStr ''tool_use''),
      (''content'', VList
        [VMap [(''type'', VStr ''text''), (''text'', VStr ''let me look'')],
         VMap [(''type'', VStr ''tool_use''), (''id'', VStr ''t1''), (''name'', VStr ''f''),
               (''input'', VMap [])]])]"

theorem anthropic_tool_call_roundtrip_witness:
  "\<exists>out. anthropic_TranslateResponse empty_object_encoder 0 sample_tool_response ''m'' = Inr (Some out) \<and>
     anthropic_events (buildAssistantMessage empty_object_decoder (choice_message out)) = [Called ''t1'' ''f'']"
proof -
  have uses: "tool_uses sample_tool_response =
      [[(''type'', VStr ''tool_use''), (''id'', VStr ''t1''), (''name'', VStr ''f''), (''input'', VMap [])]]"
    by (simp add: tool_uses_def tool_use_of_def sample_tool_response_def val_of_simps map_filter_simps)
  have "\<exists>out. anthropic_TranslateResponse empty_object_encoder 0 sample_tool_response ''m'' = Inr (Some out) \<and>
    valid_message (choice_message out) \<and>
    buildAssistantMessage empty_object_decoder (choice_message out) =
      [(''role'', VStr ''assistant''),
       (''content'', VList ((if extractAnthropicContent sample_tool_response = [] then []
           else [VMap [(''type'', VStr ''text''), (''text'', VStr (extractAnthropicContent sample_tool_response))]])
         @ map VMap (tool_uses sample_tool_response)))]"
    by (rule anthropic_tool_call_roundtrip)
      (simp_all add: uses codec_ok_def empty_object_encoder_def empty_object_decoder_def,
        simp_all add: sample_tool_response_def str_of_def)
  then show ?thesis
    by (auto simp: uses anthropic_events_def block_event_def val_of_simps map_filter_simps)
qed

text \<open>A successful response is translated to one chat completion choice. The finish reason is
  \<^verbatim>\<open>stop\<close>, \<^verbatim>\<open>length\<close> or \<^verbatim>\<open>tool_calls\<close>, tool calls are attached only with the reason
  \<^verbatim>\<open>tool_calls\<close>, the model falls back to the backend's only when the request model is unknown, and
  the reported total is the sum of prompt and completion tokens in 64-bit arithmetic; an Anthropic
  error becomes an OpenAI error object with its type and message.\<close>

theorem anthropic_response_shape:
  assumes "anthropic_TranslateResponse marshal now resp model = Inr (Some out)"
  shows "if str_of (idx resp ''type'') = ''error''
     then idx out ''choices'' = VNil \<and>
       str_of (idx (obj_of (idx out ''error'')) ''message'') =
         str_of (idx (obj_of (idx resp ''error'')) ''message'')
     else \<exists>msg p c. idx out ''choices'' =
         VList [VMap [(''index'', VInt 0), (''message'', VMap msg),
                      (''finish_reason'', VStr (mapStopReason resp))]] \<and>
       mapStopReason resp \<in> {''stop'', ''length'', ''tool_calls''} \<and>
       (idx msg ''tool_calls'' \<noteq> VNil \<longrightarrow> mapStopReason resp = ''tool_calls'') \<and>
       idx msg ''content'' = VStr (extractAnthropicContent resp) \<and>
       str_of (idx out ''model'') = (if model = [] then str_of (idx resp ''model'') else model) \<and>
       idx out ''usage'' = VMap [(''prompt_tokens'', VInt p), (''completion_tokens'', VInt c),
                                 (''total_tokens'', VInt (wrap64 (p + c)))]"
proof (cases "str_of (idx resp ''type'') = ''error''")
  case True
  with assms show ?thesis
    by (auto simp: anthropic_TranslateResponse_def translateAnthropicError_def Let_def val_of_simps)
next
  case False
  have "wrap64 0 = 0" by (simp add: wrap64_def)
  then have "\<exists>p c. mapAnthropicUsage resp = [(''prompt_tokens'', VInt p), (''completion_tokens'', VInt c),
      (''total_tokens'', VInt (wrap64 (p + c)))]"
    by (auto simp: mapAnthropicUsage_def Let_def split: option.split)
  then show ?thesis
    using assms False
    by (auto simp: anthropic_TranslateResponse_def Let_def mapStopReason_def str_of_def
        split: sum.splits if_splits)
qed

theorem anthropic_response_shape_witness:
  "\<exists>out msg. anthropic_TranslateResponse empty_object_encoder 0 sample_tool_response [] = Inr (Some out) \<and>
     idx out ''choices'' = VList [VMap [(''index'', VInt 0), (''message'', VMap msg),
                      (''finish_reason'', VStr ''tool_calls'')]]"
proof -
  have "\<exists>out. anthropic_TranslateResponse empty_object_encoder 0 sample_tool_response [] = Inr (Some out)"
    by (simp add: anthropic_TranslateResponse_def Let_def sample_tool_response_def val_of_simps
        mapStopReason_def extractAnthropicToolCalls_def toJSONString_def empty_object_encoder_def)
  then obtain out where
    *: "anthropic_TranslateResponse empty_object_encoder 0 sample_tool_response [] = Inr (Some out)" ..
  have "str_of (idx sample_tool_response ''type'') \<noteq> ''error''"
    and "mapStopReason sample_tool_response = ''tool_calls''"
    by (simp_all add: sample_tool_response_def str_of_def mapStopReason_def Let_def)
  with anthropic_response_shape [OF *] * show ?thesis by auto
qed

end
