(* ===== verification/Vertex.thy ===== *)
theory Vertex
  imports Anthropic
begin

text \<open>
  \<^verbatim>\<open>translator/vertex/vertex.go\<close>: translation between OpenAI Chat Completions and the Gemini
  GenerateContent API. The file repeats the helpers of \<^verbatim>\<open>anthropic.go\<close>; they are translated again
  here, under the prefix \<open>vertex_\<close>, and shown to agree with the first copy. \<^verbatim>\<open>json.Unmarshal\<close>,
  \<^verbatim>\<open>json.Marshal\<close>, the clock and \<^verbatim>\<open>fmt.Sprintf("%v", x)\<close> are passed in.
\<close>

section \<open>The repeated helpers\<close>

definition vertex_getFloat :: "body \<Rightarrow> string \<Rightarrow> rat option" where
  "vertex_getFloat body key =
     (case map_of body key of
        Some (VFloat f) \<Rightarrow> Some f
      | Some (VInt f) \<Rightarrow> Some (int_to_float f)
      | Some (VInt64 f) \<Rightarrow> Some (int_to_float f)
      | _ \<Rightarrow> None)"

definition vertex_getInt :: "body \<Rightarrow> string \<Rightarrow> int option" where
  "vertex_getInt body key =
     (case map_of body key of
        Some (VFloat n) \<Rightarrow> Some (float_to_int n)
      | Some (VInt n) \<Rightarrow> Some n
      | Some (VInt64 n) \<Rightarrow> Some n
      | _ \<Rightarrow> None)"

fun vertex_toInt :: "any \<Rightarrow> int" where
  "vertex_toInt (VFloat n) = float_to_int n"
| "vertex_toInt (VInt n) = n"
| "vertex_toInt (VInt64 n) = n"
| "vertex_toInt _ = 0"

definition vertex_toJSONString :: "encoder \<Rightarrow> any \<Rightarrow> string result" where
  "vertex_toJSONString marshal v =
     (case v of
        VNil \<Rightarrow> Inr ''{}''
      | VStr s \<Rightarrow> Inr s
      | _ \<Rightarrow> (case marshal v of
               None \<Rightarrow> Inl (Errorf ''failed to marshal to JSON: %w'' [])
             | Some b \<Rightarrow> Inr b))"

definition vertex_extractMessages :: "body \<Rightarrow> body list result" where
  "vertex_extractMessages body =
     (case map_of body ''messages'' of
        None \<Rightarrow> Inl (Errorf ''messages field is required'' [])
      | Some rawMessages \<Rightarrow>
          (case as_list rawMessages of
             None \<Rightarrow> Inl (Errorf ''messages must be an array'' [])
           | Some messagesSlice \<Rightarrow>
               collect (\<lambda>i raw. case as_map raw of
                            None \<Rightarrow> Inl (Errorf ''message at index %d is not an object'' [ArgI (int i)])
                          | Some msg \<Rightarrow> Inr [msg]) 0 messagesSlice))"

definition vertex_extractContentString :: "body \<Rightarrow> string" where
  "vertex_extractContentString msg =
     (case map_of msg ''content'' of
        None \<Rightarrow> []
      | Some (VStr s) \<Rightarrow> s
      | Some (VList parts) \<Rightarrow>
          join '' '' (List.map_filter (\<lambda>part. case as_map part of
                          None \<Rightarrow> None | Some partMap \<Rightarrow> as_str (idx partMap ''text'')) parts)
      | Some _ \<Rightarrow> [])"

definition vertex_resolveMaxTokens :: "body \<Rightarrow> int" where
  "vertex_resolveMaxTokens body =
     (let second = (case vertex_getInt body ''max_tokens'' of
                      Some v \<Rightarrow> if v > 0 then v else 0
                    | None \<Rightarrow> 0)
      in case vertex_getInt body ''max_completion_tokens'' of
           Some v \<Rightarrow> if v > 0 then v else second
         | None \<Rightarrow> second)"

definition vertex_extractStopSequences :: "body \<Rightarrow> string list" where
  "vertex_extractStopSequences body =
     (case map_of body ''stop'' of
        None \<Rightarrow> []
      | Some (VStr s) \<Rightarrow> if s \<noteq> [] then [s] else []
      | Some (VList arr) \<Rightarrow> List.map_filter as_str arr
      | Some _ \<Rightarrow> [])"

definition parseDataURI :: "string \<Rightarrow> (string \<times> string) option" where
  "parseDataURI url =
     (if \<not> hasPrefix url ''data:'' then None
      else let rest = drop (length ''data:'') url
           in case indexOf '';'' rest of
                None \<Rightarrow> None
              | Some semicolonIdx \<Rightarrow>
                  let mimeType = take semicolonIdx rest; rest = drop (semicolonIdx + 1) rest
                  in if \<not> hasPrefix rest ''base64,'' then None
                     else let data = drop (length ''base64,'') rest
                          in if mimeType = [] \<or> data = [] then None else Some (mimeType, data))"

section \<open>Request translation\<close>

definition vertex_part :: "any \<Rightarrow> body option" where
  "vertex_part part =
     (case as_map part of
        None \<Rightarrow> None
      | Some partMap \<Rightarrow>
          if str_of (idx partMap ''type'') = ''text'' then
            map_option (\<lambda>text. [(''text'', VStr text)]) (as_str (idx partMap ''text''))
          else if str_of (idx partMap ''type'') = ''image_url'' then
            (case as_map (idx partMap ''image_url'') of
               None \<Rightarrow> None
             | Some imgObj \<Rightarrow>
                 (case as_str (idx imgObj ''url'') of
                    None \<Rightarrow> None
                  | Some url \<Rightarrow>
                      (case parseDataURI url of
                         None \<Rightarrow> None
                       | Some (mimeType, data) \<Rightarrow>
                           Some [(''inlineData'', VMap [(''mimeType'', VStr mimeType),
                                                        (''data'', VStr data)])])))
          else None)"

definition extractContentParts :: "body \<Rightarrow> body list" where
  "extractContentParts msg =
     (case map_of msg ''content'' of
        None \<Rightarrow> [[(''text'', VStr [])]]
      | Some (VStr s) \<Rightarrow> [[(''text'', VStr s)]]
      | Some (VList parts) \<Rightarrow>
          (let vertexParts = List.map_filter vertex_part parts
           in if vertexParts = [] then [[(''text'', VStr [])]] else vertexParts)
      | Some _ \<Rightarrow> [[(''text'', VStr [])]])"

text \<open>
  The loop of \<^verbatim>\<open>buildAssistantParts\<close> over the tool calls. It also updates \<^verbatim>\<open>toolCallNames\<close>, the map the
  caller passes in, so the map is returned with the parts.
\<close>

fun tool_call_parts ::
  "decoder \<Rightarrow> any list \<Rightarrow> string gomap \<Rightarrow> body list \<times> string gomap" where
  "tool_call_parts unmarshal [] names = ([], names)"
| "tool_call_parts unmarshal (raw # raws) names =
     (case as_map raw of
        None \<Rightarrow> tool_call_parts unmarshal raws names
      | Some tc \<Rightarrow>
          (case as_map (idx tc ''function'') of
             None \<Rightarrow> tool_call_parts unmarshal raws names
           | Some fn \<Rightarrow>
               (let name = str_of (idx fn ''name'');
                    argsStr = str_of (idx fn ''arguments'');
                    names = (case as_str (idx tc ''id'') of
                               Some callID \<Rightarrow> if callID \<noteq> [] then gset callID name names else names
                             | None \<Rightarrow> names);
                    args = (case unmarshal argsStr of Some v \<Rightarrow> v | None \<Rightarrow> VMap [])
                in case tool_call_parts unmarshal raws names of
                     (parts, names') \<Rightarrow>
                       ([(''functionCall'', VMap [(''name'', VStr name), (''args'', args)])] # parts, names'))))"

definition buildAssistantParts ::
  "decoder \<Rightarrow> body \<Rightarrow> string gomap \<Rightarrow> body list \<times> string gomap" where
  "buildAssistantParts unmarshal msg toolCallNames =
     (let content = vertex_extractContentString msg;
          parts = (if content \<noteq> [] then [[(''text'', VStr content)]] else [])
      in case tool_call_parts unmarshal (list_of (idx msg ''tool_calls'')) toolCallNames of
           (callParts, names) \<Rightarrow>
             (let parts = parts @ callParts
              in (if parts = [] then [[(''text'', VStr [])]] else parts, names)))"

text \<open>The \<^verbatim>\<open>functionResponse\<close> content of a tool or function message.\<close>

definition function_response :: "decoder \<Rightarrow> string \<Rightarrow> string \<Rightarrow> body" where
  "function_response unmarshal fnName responseContent =
     (let responseData = (case unmarshal responseContent of
                            Some v \<Rightarrow> v
                          | None \<Rightarrow> VMap [(''result'', VStr responseContent)])
      in [(''role'', VStr ''user''),
          (''parts'', VMaps [[(''functionResponse'',
             VMap [(''name'', VStr fnName), (''response'', responseData)])]])])"

fun vertex_separate_loop ::
  "decoder \<Rightarrow> nat \<Rightarrow> body list \<Rightarrow> body list \<Rightarrow> body list \<Rightarrow> string gomap \<Rightarrow> (body list \<times> body list) result"
where
  "vertex_separate_loop unmarshal i [] systemParts contents names = Inr (systemParts, contents)"
| "vertex_separate_loop unmarshal i (msg # msgs) systemParts contents names =
     (let role = str_of (idx msg ''role'')
      in if role = ''system'' \<or> role = ''developer'' then
           vertex_separate_loop unmarshal (Suc i) msgs
             (systemParts @ [[(''text'', VStr (vertex_extractContentString msg))]]) contents names
         else if role = ''user'' then
           vertex_separate_loop unmarshal (Suc i) msgs systemParts
             (contents @ [[(''role'', VStr ''user''), (''parts'', VMaps (extractContentParts msg))]]) names
         else if role = ''assistant'' then
           (case buildAssistantParts unmarshal msg names of
              (parts, names') \<Rightarrow>
                vertex_separate_loop unmarshal (Suc i) msgs systemParts
                  (contents @ [[(''role'', VStr ''model''), (''parts'', VMaps parts)]]) names')
         else if role = ''tool'' then
           (let toolCallID = str_of (idx msg ''tool_call_id'');
                fnName = gstr names toolCallID;
                fnName = (if fnName = [] then ''unknown'' else fnName)
            in vertex_separate_loop unmarshal (Suc i) msgs systemParts
                 (contents @ [function_response unmarshal fnName (vertex_extractContentString msg)]) names)
         else if role = ''function'' then
           (let fnName = str_of (idx msg ''name'')
            in if fnName = [] then
                 Inl (Errorf (''message at index %d has role '' @ [CHR 0x22] @ ''function'' @ [CHR 0x22]
                              @ '' but missing name'') [ArgI (int i)])
               else
                 vertex_separate_loop unmarshal (Suc i) msgs systemParts
                   (contents @ [function_response unmarshal fnName (vertex_extractContentString msg)]) names)
         else Inl (Errorf (''message at index %d has unknown role '%s'' @ [CHR 0x27]) [ArgI (int i), ArgS role]))"

definition vertex_separateSystemMessages ::
  "decoder \<Rightarrow> body list \<Rightarrow> (body list \<times> body list) result" where
  "vertex_separateSystemMessages unmarshal messages = vertex_separate_loop unmarshal 0 messages [] [] []"

definition buildGenerationConfig :: "body \<Rightarrow> body" where
  "buildGenerationConfig body =
     (let config = [];
          maxTokens = vertex_resolveMaxTokens body;
          config = (if maxTokens > 0 then gset ''maxOutputTokens'' (VInt maxTokens) config else config);
          config = gset_opt ''temperature'' (map_option VFloat (vertex_getFloat body ''temperature'')) config;
          config = gset_opt ''topP'' (map_option VFloat (vertex_getFloat body ''top_p'')) config;
          stop = vertex_extractStopSequences body;
          config = (if stop \<noteq> [] then gset ''stopSequences'' (VStrs stop) config else config);
          rfType = (case as_map (idx body ''response_format'') of
                      None \<Rightarrow> [] | Some rf \<Rightarrow> str_of (idx rf ''type''));
          config = (if rfType = ''json_object'' \<or> rfType = ''json_schema''
                    then gset ''responseMimeType'' (VStr ''application/json'') config else config)
      in config)"

definition vertex_declaration :: "any \<Rightarrow> body option" where
  "vertex_declaration raw =
     (case as_map raw of
        None \<Rightarrow> None
      | Some tool \<Rightarrow>
          if str_of (idx tool ''type'') \<noteq> ''function'' then None
          else
            (case as_map (idx tool ''function'') of
               None \<Rightarrow> None
             | Some fn \<Rightarrow>
                 (let decl = [];
                      decl = gset_opt ''name'' (map_option VStr (as_str (idx fn ''name''))) decl;
                      decl = gset_opt ''description'' (map_option VStr (as_str (idx fn ''description''))) decl;
                      params = idx fn ''parameters'';
                      decl = (if params \<noteq> VNil then gset ''parameters'' params decl else decl)
                  in Some decl)))"

definition translateTools :: "body \<Rightarrow> body list" where
  "translateTools body =
     (let declarations = List.map_filter vertex_declaration (list_of (idx body ''tools''))
      in if declarations = [] then [] else [[(''functionDeclarations'', VMaps declarations)]])"

definition vertex_translateToolChoice :: "body \<Rightarrow> body" where
  "vertex_translateToolChoice body =
     (case map_of body ''tool_choice'' of
        None \<Rightarrow> []
      | Some (VStr s) \<Rightarrow>
          if s = ''auto'' then [(''functionCallingConfig'', VMap [(''mode'', VStr ''AUTO'')])]
          else if s = ''none'' then [(''functionCallingConfig'', VMap [(''mode'', VStr ''NONE'')])]
          else if s = ''required'' then [(''functionCallingConfig'', VMap [(''mode'', VStr ''ANY'')])]
          else []
      | Some (VMap obj) \<Rightarrow>
          (case as_map (idx obj ''function'') of
             None \<Rightarrow> []
           | Some fn \<Rightarrow>
               (let name = str_of (idx fn ''name'')
                in if name = [] then []
                   else [(''functionCallingConfig'',
                          VMap [(''mode'', VStr ''ANY''), (''allowedFunctionNames'', VStrs [name])])]))
      | Some _ \<Rightarrow> [])"

text \<open>The regular expression \<^verbatim>\<open>^[a-zA-Z0-9][a-zA-Z0-9._-]*$\<close>.\<close>

definition is_alnum :: "char \<Rightarrow> bool" where
  "is_alnum c \<longleftrightarrow>
     (let n = (of_char c :: nat) in (97 \<le> n \<and> n \<le> 122) \<or> (65 \<le> n \<and> n \<le> 90) \<or> (48 \<le> n \<and> n \<le> 57))"

definition modelNamePattern :: "string \<Rightarrow> bool" where
  "modelNamePattern s =
     (case s of
        [] \<Rightarrow> False
      | c # cs \<Rightarrow> is_alnum c \<and> list_all (\<lambda>d. is_alnum d \<or> d = CHR ''.'' \<or> d = CHR ''_'' \<or> d = CHR ''-'') cs)"

definition vertex_body :: "body \<Rightarrow> body list \<Rightarrow> body list \<Rightarrow> body" where
  "vertex_body body systemParts contents =
     (let translated = [(''contents'', VMaps contents)];
          translated = (if systemParts \<noteq> []
            then gset ''systemInstruction'' (VMap [(''parts'', VMaps systemParts)]) translated else translated);
          generationConfig = buildGenerationConfig body;
          translated = (if generationConfig \<noteq> []
            then gset ''generationConfig'' (VMap generationConfig) translated else translated);
          tools = translateTools body;
          translated = (if tools \<noteq> [] then gset ''tools'' (VMaps tools) translated else translated);
          toolConfig = vertex_translateToolChoice body;
          translated = (if toolConfig \<noteq> [] then gset ''toolConfig'' (VMap toolConfig) translated else translated)
      in translated)"

definition vertex_TranslateRequest :: "decoder \<Rightarrow> body \<Rightarrow> translation result" where
  "vertex_TranslateRequest unmarshal body =
     (let model = str_of (idx body ''model'')
      in if model = [] then Inl (Errorf ''model field is required'' [])
         else if \<not> modelNamePattern model then
           Inl (Errorf ''model '%s' contains invalid characters for Vertex AI model name'' [ArgS model])
         else
           (case vertex_extractMessages body of
              Inl e \<Rightarrow> Inl (WrapErr ''failed to extract messages: %w'' [] e)
            | Inr messages \<Rightarrow>
                (case vertex_separateSystemMessages unmarshal messages of
                   Inl e \<Rightarrow> Inl e
                 | Inr (systemParts, contents) \<Rightarrow>
                     if contents = [] then
                       Inl (Errorf ''at least one non-system message is required'' [])
                     else
                       Inr (Some (vertex_body body systemParts contents),
                            [(''content-type'', ''application/json''),
                             ('':path'', ''/v1beta/models/'' @ model @ '':generateContent'')],
                            []))))"

section \<open>Response translation\<close>

definition translateVertexError :: "(any \<Rightarrow> string) \<Rightarrow> body \<Rightarrow> body" where
  "translateVertexError fmtv errObj =
     (let message = str_of (idx errObj ''message'');
          status = str_of (idx errObj ''status'');
          code = idx errObj ''code'';
          codeStr = (if code \<noteq> VNil then fmtv code else [])
      in [(''error'', VMap [(''message'', VStr message), (''type'', VStr status), (''param'', VNil),
                            (''code'', VStr codeStr)])])"

fun candidate_parts_loop :: "encoder \<Rightarrow> nat \<Rightarrow> any list \<Rightarrow> string list \<times> any list" where
  "candidate_parts_loop marshal toolIndex [] = ([], [])"
| "candidate_parts_loop marshal toolIndex (raw # raws) =
     (case as_map raw of
        None \<Rightarrow> candidate_parts_loop marshal toolIndex raws
      | Some part \<Rightarrow>
          (let texts = (case as_str (idx part ''text'') of None \<Rightarrow> [] | Some text \<Rightarrow> [text])
           in case as_map (idx part ''functionCall'') of
                None \<Rightarrow>
                  (case candidate_parts_loop marshal toolIndex raws of (ts, tcs) \<Rightarrow> (texts @ ts, tcs))
              | Some fc \<Rightarrow>
                  (let name = str_of (idx fc ''name'')
                   in case vertex_toJSONString marshal (idx fc ''args'') of
                        Inl e \<Rightarrow>
                          (case candidate_parts_loop marshal toolIndex raws of (ts, tcs) \<Rightarrow> (texts @ ts, tcs))
                      | Inr argsStr \<Rightarrow>
                          (let toolCall =
                             VMap [(''id'', VStr (''call_'' @ show_int (int toolIndex))),
                                   (''index'', VInt (int toolIndex)), (''type'', VStr ''function''),
                                   (''function'', VMap [(''name'', VStr name), (''arguments'', VStr argsStr)])]
                           in case candidate_parts_loop marshal (Suc toolIndex) raws of
                                (ts, tcs) \<Rightarrow> (texts @ ts, toolCall # tcs)))))"

definition extractCandidateContent :: "encoder \<Rightarrow> body \<Rightarrow> string \<times> any list" where
  "extractCandidateContent marshal candidate =
     (case as_map (idx candidate ''content'') of
        None \<Rightarrow> ([], [])
      | Some content \<Rightarrow>
          (case as_list (idx content ''parts'') of
             None \<Rightarrow> ([], [])
           | Some partsRaw \<Rightarrow>
               (case candidate_parts_loop marshal 0 partsRaw of
                  (texts, toolCalls) \<Rightarrow> (join [] texts, toolCalls))))"

definition mapFinishReason :: "body \<Rightarrow> string" where
  "mapFinishReason candidate =
     (let reason = str_of (idx candidate ''finishReason'')
      in if reason = ''STOP'' then ''stop''
         else if reason = ''MAX_TOKENS'' then ''length''
         else if reason \<in> {''SAFETY'', ''RECITATION'', ''BLOCKLIST'', ''PROHIBITED_CONTENT'', ''SPII'',
                ''MODEL_ARMOR'', ''IMAGE_SAFETY'', ''IMAGE_PROHIBITED_CONTENT'', ''IMAGE_RECITATION''}
         then ''content_filter''
         else if reason \<in> {''MALFORMED_FUNCTION_CALL'', ''UNEXPECTED_TOOL_CALL''} then ''tool_calls''
         else ''stop'')"

definition mapVertexUsage :: "body \<Rightarrow> body" where
  "mapVertexUsage body =
     (case as_map (idx body ''usageMetadata'') of
        None \<Rightarrow> [(''prompt_tokens'', VInt 0), (''completion_tokens'', VInt 0), (''total_tokens'', VInt 0)]
      | Some usage \<Rightarrow>
          [(''prompt_tokens'', VInt (vertex_toInt (idx usage ''promptTokenCount''))),
           (''completion_tokens'', VInt (vertex_toInt (idx usage ''candidatesTokenCount''))),
           (''total_tokens'', VInt (vertex_toInt (idx usage ''totalTokenCount'')))])"

fun candidates_loop :: "encoder \<Rightarrow> nat \<Rightarrow> any list \<Rightarrow> any list" where
  "candidates_loop marshal i [] = []"
| "candidates_loop marshal i (raw # raws) =
     (case as_map raw of
        None \<Rightarrow> candidates_loop marshal (Suc i) raws
      | Some candidate \<Rightarrow>
          (case extractCandidateContent marshal candidate of
             (text, toolCalls) \<Rightarrow>
               (let message = [(''role'', VStr ''assistant''), (''content'', VStr text)];
                    message = (if toolCalls \<noteq> [] then gset ''tool_calls'' (VList toolCalls) message
                               else message)
                in VMap [(''index'', VInt (int i)), (''message'', VMap message),
                         (''finish_reason'', VStr (mapFinishReason candidate))]
                   # candidates_loop marshal (Suc i) raws)))"

definition translateCandidates :: "encoder \<Rightarrow> body \<Rightarrow> any list" where
  "translateCandidates marshal body = candidates_loop marshal 0 (list_of (idx body ''candidates''))"

definition vertex_TranslateResponse ::
  "encoder \<Rightarrow> (any \<Rightarrow> string) \<Rightarrow> int \<Rightarrow> body \<Rightarrow> string \<Rightarrow> body option result" where
  "vertex_TranslateResponse marshal fmtv now body model =
     (case as_map (idx body ''error'') of
        Some errObj \<Rightarrow> Inr (Some (translateVertexError fmtv errObj))
      | None \<Rightarrow>
          (let choices = translateCandidates marshal body;
               usage = mapVertexUsage body;
               model = (if model = [] then str_of (idx body ''modelVersion'') else model);
               responseID = str_of (idx body ''responseId'')
           in Inr (Some [(''id'', VStr responseID), (''object'', VStr ''chat.completion''),
                         (''created'', VInt64 now), (''model'', VStr model),
                         (''choices'', VList choices), (''usage'', VMap usage)])))"

section \<open>The two copies of the helpers\<close>

lemma vertex_getFloat_eq [simp]: "vertex_getFloat = getFloat"
  by (simp add: fun_eq_iff vertex_getFloat_def getFloat_def)

lemma vertex_getInt_eq [simp]: "vertex_getInt = getInt"
  by (simp add: fun_eq_iff vertex_getInt_def getInt_def)

lemma vertex_toInt_eq [simp]: "vertex_toInt v = toInt v"
  by (cases v) simp_all

lemma vertex_toJSONString_eq [simp]: "vertex_toJSONString = toJSONString"
  by (simp add: fun_eq_iff vertex_toJSONString_def toJSONString_def)

lemma vertex_extractMessages_eq [simp]: "vertex_extractMessages = extractMessages"
  by (simp add: fun_eq_iff vertex_extractMessages_def extractMessages_def)

lemma vertex_extractContentString_eq [simp]: "vertex_extractContentString = extractContentString"
  unfolding vertex_extractContentString_def extractContentString_def part_text_def [abs_def] ..

lemma vertex_extractStopSequences_eq [simp]: "vertex_extractStopSequences = extractStopSequences"
  by (simp add: fun_eq_iff vertex_extractStopSequences_def extractStopSequences_def)

lemma vertex_resolveMaxTokens_eq:
  "resolveMaxTokens body =
     (if vertex_resolveMaxTokens body > 0 then vertex_resolveMaxTokens body else defaultMaxTokens)"
  by (simp add: resolveMaxTokens_def vertex_resolveMaxTokens_def Let_def split: option.split)

lemma parseDataURI_eq:
  "parseDataURI url =
     (if fst (parseDataURL url) = [] \<or> snd (parseDataURL url) = [] then None else Some (parseDataURL url))"
proof -
  have "length ''data:'' = 5" "length ''base64,'' = 7" by simp_all
  then show ?thesis
    unfolding parseDataURI_def parseDataURL_def Let_def
    by (auto simp del: list.size drop_drop drop_eq_Nil take_eq_Nil split: option.split)
qed

section \<open>The conversation Gemini receives\<close>

text \<open>
  The specification of \<^verbatim>\<open>separateSystemMessages\<close>: the calls issued so far as a list of pairs of call
  id and function name, and for each message the content it stands for. A tool message is answered
  under the name of the latest call with its id.
\<close>

definition call_pair :: "any \<Rightarrow> (string \<times> string) option" where
  "call_pair raw =
     (case as_map raw of
        None \<Rightarrow> None
      | Some tc \<Rightarrow>
          (case as_map (idx tc ''function'') of
             None \<Rightarrow> None
           | Some fn \<Rightarrow>
               if str_of (idx tc ''id'') = [] then None
               else Some (str_of (idx tc ''id''), str_of (idx fn ''name''))))"

definition message_calls :: "body \<Rightarrow> (string \<times> string) list" where
  "message_calls msg =
     (if role_of msg = ''assistant'' then List.map_filter call_pair (list_of (idx msg ''tool_calls'')) else [])"

definition answered_name :: "(string \<times> string) list \<Rightarrow> string \<Rightarrow> string" where
  "answered_name calls callID =
     (case map_of (rev calls) callID of
        Some name \<Rightarrow> if name = [] then ''unknown'' else name
      | None \<Rightarrow> ''unknown'')"

definition gemini_content :: "decoder \<Rightarrow> (string \<times> string) list \<Rightarrow> body \<Rightarrow> body" where
  "gemini_content u calls msg =
     (if role_of msg = ''user'' then
        [(''role'', VStr ''user''), (''parts'', VMaps (extractContentParts msg))]
      else if role_of msg = ''assistant'' then
        [(''role'', VStr ''model''), (''parts'', VMaps (fst (buildAssistantParts u msg [])))]
      else if role_of msg = ''tool'' then
        function_response u (answered_name calls (str_of (idx msg ''tool_call_id''))) (extractContentString msg)
      else function_response u (str_of (idx msg ''name'')) (extractContentString msg))"

fun gemini_contents :: "decoder \<Rightarrow> (string \<times> string) list \<Rightarrow> body list \<Rightarrow> body list" where
  "gemini_contents u calls [] = []"
| "gemini_contents u calls (msg # msgs) =
     (if is_system msg then [] else [gemini_content u calls msg])
       @ gemini_contents u (calls @ message_calls msg) msgs"

definition gemini_message :: "body \<Rightarrow> bool" where
  "gemini_message msg \<longleftrightarrow>
     is_system msg \<or> role_of msg \<in> {''user'', ''assistant'', ''tool''} \<or>
     role_of msg = ''function'' \<and> str_of (idx msg ''name'') \<noteq> []"

lemma tool_call_parts_fst: "fst (tool_call_parts u raws names) = fst (tool_call_parts u raws [])"
proof (induction raws arbitrary: names)
  case (Cons raw raws)
  have IH: "fst (tool_call_parts u raws n) = fst (tool_call_parts u raws n')" for n n'
    using Cons.IH by metis
  show ?case
    by (auto simp: Let_def case_prod_beta intro: IH split: option.splits)
qed simp

lemma tool_call_parts_snd:
  "map_of (snd (tool_call_parts u raws names)) =
     map_of names ++ map_of (rev (List.map_filter call_pair raws))"
proof (induction raws arbitrary: names)
  case (Cons raw raws)
  then show ?case
    by (auto simp: Let_def case_prod_beta call_pair_def map_filter_simps str_of_def
        split: option.splits)
qed (simp add: map_filter_simps)

lemma buildAssistantParts_fst:
  "fst (buildAssistantParts u msg names) = fst (buildAssistantParts u msg [])"
  using tool_call_parts_fst [of u "list_of (idx msg ''tool_calls'')" names]
  by (simp add: buildAssistantParts_def Let_def case_prod_beta)

lemma buildAssistantParts_snd:
  "role_of msg = ''assistant'' \<Longrightarrow>
     map_of (snd (buildAssistantParts u msg names)) = map_of names ++ map_of (rev (message_calls msg))"
  by (simp add: buildAssistantParts_def Let_def case_prod_beta tool_call_parts_snd message_calls_def)

lemma answered_name_gstr:
  "map_of names = map_of (rev calls) \<Longrightarrow>
     answered_name calls callID = (if gstr names callID = [] then ''unknown'' else gstr names callID)"
  by (simp add: answered_name_def gstr_def split: option.split)

lemma vertex_separate_loop_spec:
  "map_of names = map_of (rev calls) \<Longrightarrow>
     (if list_all gemini_message msgs
      then vertex_separate_loop u i msgs sp cs names =
        Inr (sp @ map (\<lambda>m. [(''text'', VStr (extractContentString m))]) (filter is_system msgs),
             cs @ gemini_contents u calls msgs)
      else \<exists>e. vertex_separate_loop u i msgs sp cs names = Inl e)"
proof (induction msgs arbitrary: i sp cs names calls)
  case (Cons m msgs)
  consider "is_system m" | "role_of m = ''user''" | "role_of m = ''assistant''" | "role_of m = ''tool''"
    | "role_of m = ''function''" | "role_of m \<notin> {''system'', ''developer'', ''user'', ''assistant'', ''tool'', ''function''}"
    by (auto simp: is_system_def)
  then show ?case
  proof cases
    case 3
    then have "map_of (snd (buildAssistantParts u m names)) = map_of (rev (calls @ message_calls m))"
      using Cons.prems by (simp add: buildAssistantParts_snd)
    from Cons.IH [OF this] 3 show ?thesis
      by (auto simp: Let_def role_of_def is_system_def gemini_message_def gemini_content_def
          case_prod_beta buildAssistantParts_fst [of u m names])
  qed (use Cons.prems Cons.IH [OF Cons.prems] in
      \<open>auto simp: Let_def role_of_def is_system_def gemini_message_def gemini_content_def
        message_calls_def answered_name_gstr [OF Cons.prems]\<close>)
qed simp

lemma gemini_contents_Nil: "gemini_contents u calls msgs = [] \<longleftrightarrow> \<not> list_ex (\<lambda>m. \<not> is_system m) msgs"
  by (induction u calls msgs rule: gemini_contents.induct) auto

definition valid_gemini_chat :: "body \<Rightarrow> bool" where
  "valid_gemini_chat body \<longleftrightarrow>
     modelNamePattern (str_of (idx body ''model'')) \<and>
     as_list (idx body ''messages'') \<noteq> None \<and>
     list_all (\<lambda>v. as_map v \<noteq> None) (list_of (idx body ''messages'')) \<and>
     list_all gemini_message (messages_of body) \<and>
     list_ex (\<lambda>m. \<not> is_system m) (messages_of body)"

lemma vertex_body_contents: "idx (vertex_body body sp cs) ''contents'' = VMaps cs"
  by (simp add: vertex_body_def Let_def)

lemma vertex_body_system:
  "idx (vertex_body body sp cs) ''systemInstruction'' = (if sp = [] then VNil else VMap [(''parts'', VMaps sp)])"
  by (simp add: vertex_body_def Let_def)

section \<open>Properties\<close>

text \<open>C29: The Gemini translator accepts exactly the requests with a well-formed model name and
  conversation, and the conversation it sends is the specified one: one content per non-system
  message, in order, where every tool result carries the function name of the latest earlier call
  with the same id (or \<^verbatim>\<open>unknown\<close>), and the system messages become the system instruction.\<close>

theorem vertex_request_refines:
  "case vertex_TranslateRequest u body of
     Inl _ \<Rightarrow> \<not> valid_gemini_chat body
   | Inr (b, hs, rm) \<Rightarrow>
       valid_gemini_chat body \<and> rm = [] \<and>
       map_option (\<lambda>out. idx out ''contents'') b = Some (VMaps (gemini_contents u [] (messages_of body))) \<and>
       map_option (\<lambda>out. idx out ''systemInstruction'') b =
         Some (case filter is_system (messages_of body) of
                 [] \<Rightarrow> VNil
               | ms \<Rightarrow> VMap [(''parts'', VMaps (map (\<lambda>m. [(''text'', VStr (extractContentString m))]) ms))])"
proof (cases "extractMessages body")
  case (Inl e)
  then have "\<not> valid_gemini_chat body"
    using extractMessages_iff [of body] by (auto simp: valid_gemini_chat_def)
  with Inl show ?thesis by (simp add: vertex_TranslateRequest_def Let_def)
next
  case (Inr ms)
  then have ms: "ms = messages_of body" and
    objs: "as_list (idx body ''messages'') \<noteq> None"
          "list_all (\<lambda>v. as_map v \<noteq> None) (list_of (idx body ''messages''))"
    using extractMessages_Inr extractMessages_iff [of body] by blast+
  have pat: "modelNamePattern m \<Longrightarrow> m \<noteq> []" for m
    by (auto simp: modelNamePattern_def)
  show ?thesis
    using Inr ms objs pat vertex_separate_loop_spec [of "[]" "[]" ms u 0 "[]" "[]"]
      gemini_contents_Nil [of u "[]" ms]
    by (cases "list_all gemini_message ms")
      (auto simp: vertex_TranslateRequest_def vertex_separateSystemMessages_def Let_def
        valid_gemini_chat_def vertex_body_contents vertex_body_system split: list.split)
qed

lemma not_alnum_special:
  "\<not> is_alnum (CHR ''/'')" "\<not> is_alnum (CHR ''?'')" "\<not> is_alnum (CHR ''#'')" "\<not> is_alnum (CHR ''%'')"
  "\<not> is_alnum (CHR '':'')"
  by (simp_all add: is_alnum_def)

lemma modelNamePattern_chars:
  "modelNamePattern s \<Longrightarrow> set s \<inter> {CHR ''/'', CHR ''?'', CHR ''#'', CHR ''%'', CHR '':''} = {}"
  using not_alnum_special
  by (auto simp: modelNamePattern_def list_all_iff split: list.splits)

text \<open>The model name cannot redirect a Gemini request. On success the path is the fixed template
  around the model, and the model contains no slash, colon, query, fragment or escape character, so the path
  has exactly its three segments.\<close>

theorem vertex_path_safe:
  assumes "vertex_TranslateRequest u body = Inr (b, hs, rm)"
  shows "map_of hs '':path'' = Some (''/v1beta/models/'' @ str_of (idx body ''model'') @ '':generateContent'') \<and>
    set (str_of (idx body ''model'')) \<inter> {CHR ''/'', CHR ''?'', CHR ''#'', CHR ''%'', CHR '':''} = {}"
  using assms modelNamePattern_chars
  by (auto simp: vertex_TranslateRequest_def Let_def split: if_splits sum.splits)

theorem vertex_path_safe_witness:
  "\<exists>b hs rm. vertex_TranslateRequest empty_object_decoder sample_chat = Inr (b, hs, rm) \<and>
     map_of hs '':path'' = Some ''/v1beta/models/claude:generateContent''"
proof -
  have "\<exists>b hs rm. vertex_TranslateRequest empty_object_decoder sample_chat = Inr (b, hs, rm)"
    by (simp add: vertex_TranslateRequest_def vertex_separateSystemMessages_def buildAssistantParts_def
        extractMessages_def Let_def val_of_simps extractContentString_def sample_chat_def
        modelNamePattern_def is_alnum_def)
  then obtain b hs rm where *: "vertex_TranslateRequest empty_object_decoder sample_chat = Inr (b, hs, rm)"
    by blast
  have "str_of (idx sample_chat ''model'') = ''claude''" by (simp add: sample_chat_def str_of_def)
  with vertex_path_safe [OF *] * show ?thesis by simp
qed

text \<open>The ids of the tool calls a candidate yields.\<close>

definition tool_call_id :: "any \<Rightarrow> string" where
  "tool_call_id tc = str_of (idx (obj_of tc) ''id'')"

lemma candidate_parts_loop_ids:
  "map tool_call_id (snd (candidate_parts_loop marshal i raws)) =
     map (\<lambda>n. ''call_'' @ show_int (int n)) [i ..< i + length (snd (candidate_parts_loop marshal i raws))]"
proof (induction raws arbitrary: i)
  case (Cons raw raws)
  have upt: "[i ..< Suc (i + n)] = i # [Suc i ..< Suc (i + n)]" for n
    by (simp add: upt_conv_Cons)
  show ?case
    using Cons.IH [of i] Cons.IH [of "Suc i"]
    by (auto simp: Let_def case_prod_beta tool_call_id_def [of "VMap _"] val_of_simps upt
        simp del: upt_Suc split: option.splits sum.splits)
qed simp

text \<open>Gemini gives its function calls no ids, so the translator numbers them: the calls of a
  candidate are \<^verbatim>\<open>call_0\<close>, \<^verbatim>\<open>call_1\<close>, and so on, without gaps even when a call is skipped, and hence
  distinct.\<close>

theorem vertex_tool_call_ids:
  "map tool_call_id (snd (extractCandidateContent marshal candidate)) =
     map (\<lambda>n. ''call_'' @ show_int (int n)) [0 ..< length (snd (extractCandidateContent marshal candidate))] \<and>
   distinct (map tool_call_id (snd (extractCandidateContent marshal candidate)))"
proof -
  let ?tcs = "snd (extractCandidateContent marshal candidate)"
  have ids: "map tool_call_id ?tcs = map (\<lambda>n. ''call_'' @ show_int (int n)) [0 ..< length ?tcs]"
    using candidate_parts_loop_ids [of marshal 0]
    by (auto simp: extractCandidateContent_def case_prod_beta split: option.split)
  have "inj_on (\<lambda>n. ''call_'' @ show_int (int n)) {0 ..< length ?tcs}"
    by (auto intro!: inj_onI dest: show_nat_inj simp: show_int_def)
  then have "distinct (map (\<lambda>n. ''call_'' @ show_int (int n)) [0 ..< length ?tcs])"
    by (simp add: distinct_map)
  with ids show ?thesis by metis
qed

end
