(* ===== verification/Field_Stripper.thy ===== *)
theory Field_Stripper
  imports Go_Any
begin

text \<open>
  \<^verbatim>\<open>translator/response_field_stripper.go\<close>: removal of provider-specific fields from a response body
  along configured paths. The code mutates the nested maps in place; the model returns the new body.
  \<open>has_field\<close> is the specification: whether a path leads to a field at all.
\<close>

record fieldSegment =
  seg_key :: string
  isArray :: bool

type_synonym fieldPath = "fieldSegment list"

definition parseSegment :: "string \<Rightarrow> fieldSegment" where
  "parseSegment p =
     (if hasSuffix p ''[]'' then \<lparr>seg_key = trimSuffix p ''[]'', isArray = True\<rparr>
      else \<lparr>seg_key = p, isArray = False\<rparr>)"

definition parseFieldPaths :: "string list \<Rightarrow> fieldPath list" where
  "parseFieldPaths raw = map (\<lambda>r. map parseSegment (split ''.'' r)) raw"

record ResponseFieldStripper =
  fieldPaths :: "fieldPath list"

definition NewResponseFieldStripper :: "string list \<Rightarrow> ResponseFieldStripper" where
  "NewResponseFieldStripper fieldsToStrip = \<lparr>fieldPaths = parseFieldPaths fieldsToStrip\<rparr>"

text \<open>
  \<^verbatim>\<open>stripField(obj, path, idx)\<close>; the first argument is the rest of the path, \<^verbatim>\<open>path[idx:]\<close>.
\<close>

fun stripField :: "fieldPath \<Rightarrow> body \<Rightarrow> body \<times> bool" where
  "stripField [] obj = (obj, False)"
| "stripField [seg] obj =
     (if map_of obj (seg_key seg) \<noteq> None then (gdel (seg_key seg) obj, True) else (obj, False))"
| "stripField (seg # seg' # path) obj =
     (if isArray seg then
        (case as_list (idx obj (seg_key seg)) of
           None \<Rightarrow> (obj, False)
         | Some arr \<Rightarrow>
             let res = map (\<lambda>elem. case as_map elem of
                                None \<Rightarrow> (elem, False)
                              | Some m \<Rightarrow> apfst VMap (stripField (seg' # path) m)) arr
             in (gset (seg_key seg) (VList (map fst res)) obj, list_ex snd res))
      else
        (case as_map (idx obj (seg_key seg)) of
           None \<Rightarrow> (obj, False)
         | Some child \<Rightarrow>
             (case stripField (seg' # path) child of
                (child', mutated) \<Rightarrow> (gset (seg_key seg) (VMap child') obj, mutated))))"

text \<open>\<^verbatim>\<open>Strip\<close>: the paths one after the other; \<open>None\<close> (a nil body) when nothing was removed.\<close>

fun strip_paths :: "fieldPath list \<Rightarrow> body \<Rightarrow> body \<times> bool" where
  "strip_paths [] obj = (obj, False)"
| "strip_paths (fp # fps) obj =
     (case stripField fp obj of
        (obj', m) \<Rightarrow> (case strip_paths fps obj' of (obj'', ms) \<Rightarrow> (obj'', m \<or> ms)))"

definition Strip :: "ResponseFieldStripper \<Rightarrow> body \<Rightarrow> body option" where
  "Strip s obj =
     (case strip_paths (fieldPaths s) obj of (obj', mutated) \<Rightarrow> if mutated then Some obj' else None)"

section \<open>Specification\<close>

fun has_field :: "fieldPath \<Rightarrow> body \<Rightarrow> bool" where
  "has_field [] obj = False"
| "has_field [seg] obj = (map_of obj (seg_key seg) \<noteq> None)"
| "has_field (seg # seg' # path) obj =
     (if isArray seg then
        list_ex (\<lambda>elem. case as_map elem of None \<Rightarrow> False | Some m \<Rightarrow> has_field (seg' # path) m)
          (list_of (idx obj (seg_key seg)))
      else
        (case as_map (idx obj (seg_key seg)) of
           None \<Rightarrow> False | Some child \<Rightarrow> has_field (seg' # path) child))"

lemma gset_same: "map_of m k = Some v \<Longrightarrow> gset k v m = m"
  by (induction k v m rule: gset.induct) (auto split: if_splits)

lemma gset_idx_same: "idx m k = v \<Longrightarrow> v \<noteq> VNil \<Longrightarrow> gset k v m = m"
  by (metis gset_same idx_not_VNil)

text \<open>The returned flag says whether the path led to a field.\<close>

lemma stripField_mutated: "snd (stripField path obj) = has_field path obj"
proof (induction path obj rule: stripField.induct)
  case (3 seg seg' path obj)
  show ?case
  proof (cases "isArray seg")
    case True
    show ?thesis
    proof (cases "as_list (idx obj (seg_key seg))")
      case None
      then have "list_of (idx obj (seg_key seg)) = []" by (simp add: list_of_def)
      with True None show ?thesis by simp
    next
      case (Some arr)
      have "list_ex (\<lambda>elem. snd (case as_map elem of None \<Rightarrow> (elem, False)
               | Some m \<Rightarrow> apfst VMap (stripField (seg' # path) m))) arr =
            list_ex (\<lambda>elem. case as_map elem of None \<Rightarrow> False
               | Some m \<Rightarrow> has_field (seg' # path) m) arr"
        using "3.IH"(1) [OF True Some]
        by (intro list_ex_cong) (auto split: option.splits)
      with True Some show ?thesis
        by (simp add: Let_def list_ex_iff)
    qed
  next
    case False
    with "3.IH"(2) show ?thesis by (auto split: option.splits prod.splits)
  qed
qed auto

text \<open>When there is nothing to remove, the body is returned as it was.\<close>

lemma stripField_unchanged: "\<not> has_field path obj \<Longrightarrow> fst (stripField path obj) = obj"
proof (induction path obj rule: stripField.induct)
  case (3 seg seg' path obj)
  show ?case
  proof (cases "isArray seg")
    case True
    show ?thesis
    proof (cases "as_list (idx obj (seg_key seg))")
      case None
      with True show ?thesis by simp
    next
      case (Some arr)
      have "map (\<lambda>elem. fst (case as_map elem of None \<Rightarrow> (elem, False)
               | Some m \<Rightarrow> apfst VMap (stripField (seg' # path) m))) arr = arr"
        using "3.prems" "3.IH"(1) [OF True Some] Some True
        by (intro map_idI) (auto simp: list_ex_iff split: option.splits)
      then show ?thesis
        using True Some by (simp add: Let_def comp_def gset_idx_same)
    qed
  next
    case False
    with 3 show ?thesis
      by (auto simp: gset_idx_same split: option.splits prod.splits)
  qed
qed auto

text \<open>Stripping one path never makes a field appear along another.\<close>

lemma has_field_Cons:
  "rest \<noteq> [] \<Longrightarrow> has_field (seg # rest) obj \<longleftrightarrow>
     (if isArray seg then
        (\<exists>m. VMap m \<in> set (list_of (idx obj (seg_key seg))) \<and> has_field rest m)
      else (\<exists>m. idx obj (seg_key seg) = VMap m \<and> has_field rest m))"
proof (cases rest)
  case (Cons seg' path)
  have "as_map e = None \<longleftrightarrow> (\<forall>m. e \<noteq> VMap m)" for e by (cases e) auto
  then show ?thesis using Cons
    by (auto simp: list_ex_iff split: option.splits)
qed simp

lemma stripField_other_key:
  "k \<noteq> seg_key seg \<Longrightarrow> map_of (fst (stripField (seg # path) obj)) k = map_of obj k"
  by (cases path) (auto simp: Let_def split: option.splits prod.splits)

text \<open>
  What stripping does at the first key of the path: it disappears, or its objects are stripped
  along the rest of the path.
\<close>

lemma stripField_list_at_key:
  assumes "rest \<noteq> []" and "VMap m' \<in> set (list_of (idx (fst (stripField (seg # rest) obj)) (seg_key seg)))"
  shows "VMap m' \<in> set (list_of (idx obj (seg_key seg))) \<or>
    (\<exists>m. VMap m \<in> set (list_of (idx obj (seg_key seg))) \<and> m' = fst (stripField rest m))"
proof -
  obtain seg' path where rest: "rest = seg' # path" using assms(1) by (cases rest) auto
  show ?thesis
  proof (cases "isArray seg")
    case True
    show ?thesis
    proof (cases "as_list (idx obj (seg_key seg))")
      case None
      with assms(2) True rest show ?thesis by simp
    next
      case (Some arr)
      with assms(2) True rest obtain e where "e \<in> set arr" and
        e: "VMap m' = fst (case as_map e of None \<Rightarrow> (e, False) | Some m \<Rightarrow> apfst VMap (stripField rest m))"
        by (auto simp: Let_def)
      then show ?thesis
        using Some by (cases "as_map e") (auto intro!: exI)
    qed
  next
    case False
    then show ?thesis using assms(2) rest
      by (auto split: option.splits prod.splits)
  qed
qed

lemma stripField_map_at_key:
  assumes "rest \<noteq> []" and "idx (fst (stripField (seg # rest) obj)) (seg_key seg) = VMap m'"
  shows "idx obj (seg_key seg) = VMap m' \<or>
    (\<exists>m. idx obj (seg_key seg) = VMap m \<and> m' = fst (stripField rest m))"
  using assms by (cases rest) (auto simp: Let_def split: option.splits prod.splits if_splits)

lemma has_field_stripField_mono: "has_field p (fst (stripField q obj)) \<Longrightarrow> has_field p obj"
proof (induction p arbitrary: q obj)
  case Nil
  then show ?case by simp
next
  case (Cons seg rest)
  show ?case
  proof (cases q)
    case Nil
    with Cons.prems show ?thesis by simp
  next
    case (Cons segq restq)
    note q = this
    show ?thesis
    proof (cases "seg_key seg = seg_key segq")
      case False
      then have other: "map_of (fst (stripField q obj)) (seg_key seg) = map_of obj (seg_key seg)"
        unfolding q by (rule stripField_other_key)
      then have "idx (fst (stripField q obj)) (seg_key seg) = idx obj (seg_key seg)"
        by (simp add: idx_def)
      with other show ?thesis
        using Cons.prems by (cases rest) (simp_all split: if_splits)
    next
      case key: True
      show ?thesis
      proof (cases "rest = [] \<or> restq = []")
        case True
        then show ?thesis
        proof
          assume "rest = []"
          then show ?thesis
            using Cons.prems q key
            by (cases restq) (auto simp: Let_def idx_def split: if_splits option.splits prod.splits)
        next
          assume "restq = []"
          then show ?thesis
            using Cons.prems q key
            by (cases rest) (auto split: if_splits option.splits)
        qed
      next
        case False
        then have ne: "rest \<noteq> []" "restq \<noteq> []" by auto
        show ?thesis
          using Cons.prems Cons.IH q key ne
          by (auto simp: has_field_Cons split: if_splits
              dest!: stripField_list_at_key [OF ne(2)] stripField_map_at_key [OF ne(2)])
      qed
    qed
  qed
qed

text \<open>After stripping a path it leads to no field any more.\<close>

lemma stripField_removes: "\<not> has_field path (fst (stripField path obj))"
proof (induction path arbitrary: obj)
  case Nil
  then show ?case by simp
next
  case (Cons seg rest)
  show ?case
  proof (cases "rest = []")
    case True
    then show ?thesis by simp
  next
    case False
    then obtain seg' path where rest: "rest = seg' # path" by (cases rest) auto
    show ?thesis
    proof (cases "isArray seg")
      case True
      show ?thesis
      proof (cases "as_list (idx obj (seg_key seg))")
        case None
        then have "\<not> has_field (seg # rest) obj" using True rest by (simp add: list_of_def)
        then show ?thesis using stripField_unchanged by simp
      next
        case (Some arr)
        have "\<not> (\<exists>m. VMap m \<in> set (list_of (idx (fst (stripField (seg # rest) obj)) (seg_key seg)))
                \<and> has_field rest m)"
          using True Some rest Cons.IH
          by (auto simp: Let_def split: option.splits)
        then show ?thesis using has_field_Cons [OF False] True by simp
      qed
    next
      case False
      then show ?thesis
        using Cons.IH rest by (auto split: option.splits prod.splits) (metis fst_conv)
    qed
  qed
qed

lemma strip_paths_mono: "has_field p (fst (strip_paths qs obj)) \<Longrightarrow> has_field p obj"
proof (induction qs arbitrary: obj)
  case (Cons q qs)
  then show ?case
    by (auto split: prod.splits) (metis fst_conv has_field_stripField_mono)
qed simp

lemma strip_paths_removes: "p \<in> set ps \<Longrightarrow> \<not> has_field p (fst (strip_paths ps obj))"
proof (induction ps arbitrary: obj)
  case (Cons q ps)
  obtain obj' m where obj': "stripField q obj = (obj', m)" by fastforce
  have rec: "fst (strip_paths (q # ps) obj) = fst (strip_paths ps obj')"
    by (simp add: obj' split: prod.splits)
  show ?case
  proof (cases "p = q")
    case True
    then have "\<not> has_field p obj'" using stripField_removes [of q obj] obj' by simp
    then show ?thesis using rec strip_paths_mono by metis
  next
    case False
    with Cons show ?thesis using rec by simp
  qed
qed simp

lemma strip_paths_mutated: "snd (strip_paths ps obj) = list_ex (\<lambda>p. has_field p obj) ps"
proof (induction ps arbitrary: obj)
  case (Cons q ps)
  obtain obj' m where obj': "stripField q obj = (obj', m)" by fastforce
  have m: "m = has_field q obj" using stripField_mutated [of q obj] obj' by simp
  show ?case
  proof (cases "has_field q obj")
    case True
    with m obj' show ?thesis by (simp split: prod.splits)
  next
    case False
    then have "obj' = obj" using stripField_unchanged [of q obj] obj' by simp
    with Cons.IH [of obj] m obj' False show ?thesis by (auto split: prod.splits)
  qed
qed simp

lemma strip_paths_other_key:
  "\<forall>p \<in> set ps. p = [] \<or> seg_key (hd p) \<noteq> k \<Longrightarrow> map_of (fst (strip_paths ps obj)) k = map_of obj k"
proof (induction ps arbitrary: obj)
  case (Cons q ps)
  have "map_of (fst (stripField q obj)) k = map_of obj k"
    using Cons.prems stripField_other_key [of k "hd q" "tl q" obj] by (cases q) auto
  moreover have "map_of (fst (strip_paths ps (fst (stripField q obj)))) k =
      map_of (fst (stripField q obj)) k"
    using Cons by simp
  ultimately show ?case by (auto split: prod.splits)
qed simp

text \<open>Refinement of \<^verbatim>\<open>Strip\<close> against the specification.\<close>

lemma Strip_None_iff: "Strip s obj = None \<longleftrightarrow> (\<forall>p \<in> set (fieldPaths s). \<not> has_field p obj)"
  using strip_paths_mutated [of "fieldPaths s" obj]
  by (auto simp: Strip_def list_ex_iff split: prod.splits)

lemma Strip_Some:
  assumes "Strip s obj = Some obj'"
  shows "p \<in> set (fieldPaths s) \<Longrightarrow> \<not> has_field p obj'"
    and "has_field q obj' \<Longrightarrow> has_field q obj"
    and "\<forall>p \<in> set (fieldPaths s). p = [] \<or> seg_key (hd p) \<noteq> k \<Longrightarrow> map_of obj' k = map_of obj k"
proof -
  have obj': "obj' = fst (strip_paths (fieldPaths s) obj)"
    using assms by (auto simp: Strip_def split: prod.splits if_splits)
  show "p \<in> set (fieldPaths s) \<Longrightarrow> \<not> has_field p obj'"
    unfolding obj' by (rule strip_paths_removes)
  show "has_field q obj' \<Longrightarrow> has_field q obj"
    unfolding obj' by (rule strip_paths_mono)
  show "\<forall>p \<in> set (fieldPaths s). p = [] \<or> seg_key (hd p) \<noteq> k \<Longrightarrow> map_of obj' k = map_of obj k"
    unfolding obj' by (rule strip_paths_other_key)
qed

section \<open>Property\<close>

text \<open>\<^verbatim>\<open>Strip\<close> removes exactly the configured fields. It reports no change precisely when no
  configured path leads to a field; otherwise no configured path leads to a field any more, no field
  appears that was not there, and every top-level key that starts no configured path keeps its value.\<close>

theorem Strip_refines:
  "case Strip s obj of
     None \<Rightarrow> \<not> list_ex (\<lambda>p. has_field p obj) (fieldPaths s)
   | Some obj' \<Rightarrow>
       list_ex (\<lambda>p. has_field p obj) (fieldPaths s) \<and>
       \<not> list_ex (\<lambda>p. has_field p obj') (fieldPaths s) \<and>
       (\<forall>q. has_field q obj' \<longrightarrow> has_field q obj) \<and>
       (\<forall>k. \<not> list_ex (\<lambda>p. p \<noteq> [] \<and> seg_key (hd p) = k) (fieldPaths s) \<longrightarrow> map_of obj' k = map_of obj k)"
proof (cases "Strip s obj")
  case None
  then show ?thesis using Strip_None_iff [of s obj] by (simp add: list_ex_iff)
next
  case (Some obj')
  then have "list_ex (\<lambda>p. has_field p obj) (fieldPaths s)"
    using Strip_None_iff [of s obj] by (auto simp: list_ex_iff)
  with Some Strip_Some [OF Some] show ?thesis
    by (auto simp: list_ex_iff)
qed

lemma sample_paths:
  "fieldPaths (NewResponseFieldStripper [''a.b'']) =
     [[\<lparr>seg_key = ''a'', isArray = False\<rparr>, \<lparr>seg_key = ''b'', isArray = False\<rparr>]]"
  by code_simp

theorem Strip_refines_witness:
  "Strip (NewResponseFieldStripper [''a.b'']) [(''a'', VMap [(''b'', VNil), (''c'', VNil)]), (''d'', VNil)] =
     Some [(''a'', VMap [(''c'', VNil)]), (''d'', VNil)] \<and>
   \<not> list_ex (\<lambda>p. has_field p [(''a'', VMap [(''c'', VNil)]), (''d'', VNil)])
       (fieldPaths (NewResponseFieldStripper [''a.b'']))"
proof -
  have *: "Strip (NewResponseFieldStripper [''a.b'']) [(''a'', VMap [(''b'', VNil), (''c'', VNil)]), (''d'', VNil)] =
      Some [(''a'', VMap [(''c'', VNil)]), (''d'', VNil)]"
    by (simp add: Strip_def sample_paths gdel_def)
  with Strip_refines [where s = "NewResponseFieldStripper [''a.b'']" and obj = "[(''a'', VMap [(''b'', VNil), (''c'', VNil)]), (''d'', VNil)]"]
  show ?thesis by simp
qed

end
