(* ===== verification/Translators.thy ===== *)
theory Translators
  imports Vertex Field_Stripper
begin

text \<open>
  The \<^verbatim>\<open>Translator\<close> interface (\<^verbatim>\<open>translator/translator.go\<close>) and its implementations: the small ones of
  \<^verbatim>\<open>openai.go\<close>, \<^verbatim>\<open>bedrock_openai.go\<close>, \<^verbatim>\<open>azure_openai.go\<close>, \<^verbatim>\<open>vertex_openai.go\<close>, \<^verbatim>\<open>vertex_anthropic.go\<close>
  here, and the two large ones of the theories Anthropic and Vertex. The locale \<open>translator_contract\<close> is the
  contract the plugin relies on; it is interpreted on every implementation.
\<close>

text \<open>
  A value of the interface type. \<open>TranslateRequestWithConfig\<close> is \<open>None\<close> for a translator that does not
  implement \<^verbatim>\<open>ConfigAwareTranslator\<close>, which is what the type assertion of the plugin tests.
\<close>

record Translator =
  TranslateRequest :: "body \<Rightarrow> translation result"
  TranslateRequestWithConfig :: "(body \<Rightarrow> string gomap \<Rightarrow> translation result) option"
  TranslateResponse :: "body \<Rightarrow> string \<Rightarrow> body option result"

section \<open>OpenAI and Bedrock\<close>

abbreviation openAIPath where "openAIPath \<equiv> ''/v1/chat/completions''"
abbreviation bedrockOpenAIPath where "bedrockOpenAIPath \<equiv> ''/v1/chat/completions''"

definition openai_TranslateRequest :: "body \<Rightarrow> translation result" where
  "openai_TranslateRequest body =
     (if str_of (idx body ''model'') = [] then Inl (CommonError BadRequest ''model field is required'' [])
      else if list_of (idx body ''messages'') = [] then
        Inl (CommonError BadRequest ''messages field is required and must not be empty'' [])
      else Inr (None, [('':path'', openAIPath)], []))"

definition openai_TranslateResponse :: "body \<Rightarrow> string \<Rightarrow> body option result" where
  "openai_TranslateResponse body model = Inr None"

definition NewOpenAITranslator :: Translator where
  "NewOpenAITranslator =
     \<lparr> TranslateRequest = openai_TranslateRequest, TranslateRequestWithConfig = None,
       TranslateResponse = openai_TranslateResponse \<rparr>"

definition bedrock_TranslateRequest :: "body \<Rightarrow> translation result" where
  "bedrock_TranslateRequest body =
     (case as_str (idx body ''model'') of
        None \<Rightarrow> Inl (CommonError BadRequest ''model field is required'' [])
      | Some model \<Rightarrow>
          if model = [] then Inl (CommonError BadRequest ''model field is required'' [])
          else if list_of (idx body ''messages'') = [] then
            Inl (CommonError BadRequest ''messages field is required and must not be empty'' [])
          else Inr (None, [('':path'', bedrockOpenAIPath), (''content-type'', ''application/json'')], []))"

definition bedrock_TranslateResponse :: "body \<Rightarrow> string \<Rightarrow> body option result" where
  "bedrock_TranslateResponse body model = Inr None"

definition NewBedrockOpenAITranslator :: Translator where
  "NewBedrockOpenAITranslator =
     \<lparr> TranslateRequest = bedrock_TranslateRequest, TranslateRequestWithConfig = None,
       TranslateResponse = bedrock_TranslateResponse \<rparr>"

section \<open>Azure OpenAI\<close>

abbreviation azureChatCompletionsPath where "azureChatCompletionsPath \<equiv> ''/openai/v1/chat/completions''"

definition azure_stripper :: ResponseFieldStripper where
  "azure_stripper = NewResponseFieldStripper [''prompt_filter_results'', ''choices[].content_filter_results'']"

definition azure_TranslateRequest :: "body \<Rightarrow> translation result" where
  "azure_TranslateRequest body =
     (if str_of (idx body ''model'') = [] then Inl (Errorf ''model field is required'' [])
      else Inr (None, [('':path'', azureChatCompletionsPath), (''content-type'', ''application/json'')], []))"

definition azure_TranslateResponse :: "body \<Rightarrow> string \<Rightarrow> body option result" where
  "azure_TranslateResponse body model = Inr (Strip azure_stripper body)"

definition NewAzureOpenAITranslator :: Translator where
  "NewAzureOpenAITranslator =
     \<lparr> TranslateRequest = azure_TranslateRequest, TranslateRequestWithConfig = None,
       TranslateResponse = azure_TranslateResponse \<rparr>"

section \<open>Vertex AI: OpenAI-compatible and Gemini endpoints\<close>

definition vertex_openai_stripper :: ResponseFieldStripper where
  "vertex_openai_stripper = NewResponseFieldStripper [''usage.extra_properties'']"

definition vertex_openai_TranslateRequest :: "body \<Rightarrow> translation result" where
  "vertex_openai_TranslateRequest body =
     (if str_of (idx body ''model'') = [] then Inl (CommonError BadRequest ''model field is required'' [])
      else if list_of (idx body ''messages'') = [] then
        Inl (CommonError BadRequest ''messages field is required and must not be empty'' [])
      else Inr (None, [(''content-type'', ''application/json'')], []))"

definition vertex_openai_TranslateResponse :: "body \<Rightarrow> string \<Rightarrow> body option result" where
  "vertex_openai_TranslateResponse body model = Inr (Strip vertex_openai_stripper body)"

definition NewVertexOpenAITranslator :: Translator where
  "NewVertexOpenAITranslator =
     \<lparr> TranslateRequest = vertex_openai_TranslateRequest, TranslateRequestWithConfig = None,
       TranslateResponse = vertex_openai_TranslateResponse \<rparr>"

definition NewVertexTranslator :: "decoder \<Rightarrow> encoder \<Rightarrow> (any \<Rightarrow> string) \<Rightarrow> int \<Rightarrow> Translator" where
  "NewVertexTranslator unmarshal marshal fmtv now =
     \<lparr> TranslateRequest = vertex_TranslateRequest unmarshal, TranslateRequestWithConfig = None,
       TranslateResponse = vertex_TranslateResponse marshal fmtv now \<rparr>"

section \<open>Anthropic, directly and on Vertex AI\<close>

definition NewAnthropicTranslator :: "decoder \<Rightarrow> encoder \<Rightarrow> int \<Rightarrow> Translator" where
  "NewAnthropicTranslator unmarshal marshal now =
     \<lparr> TranslateRequest = anthropic_TranslateRequest unmarshal, TranslateRequestWithConfig = None,
       TranslateResponse = anthropic_TranslateResponse marshal now \<rparr>"

abbreviation AnthropicVersionConfigKey where "AnthropicVersionConfigKey \<equiv> ''anthropicVersion''"
abbreviation anthropicBetaHeader where "anthropicBetaHeader \<equiv> ''anthropic-beta''"

definition vertexUnsupportedBodyFields :: "string list" where
  "vertexUnsupportedBodyFields =
     [''context_management'', ''betas'', ''mcp_servers'', ''service_tier'', ''container'', ''stream_options'']"

definition stripVertexUnsupportedFields :: "body \<Rightarrow> body" where
  "stripVertexUnsupportedFields body = fold gdel vertexUnsupportedBodyFields body"

definition vertex_anthropic_TranslateRequest :: "body \<Rightarrow> translation result" where
  "vertex_anthropic_TranslateRequest body =
     Inl (Errorf ''vertex-anthropic requires config; use TranslateRequestWithConfig'' [])"

text \<open>
  A nil body of the inner translator would make the assignment panic; the inner translator never
  returns one, but the branch is written out.
\<close>

definition vertex_anthropic_TranslateRequestWithConfig ::
  "decoder \<Rightarrow> body \<Rightarrow> string gomap \<Rightarrow> translation result" where
  "vertex_anthropic_TranslateRequestWithConfig unmarshal body config =
     (case anthropic_TranslateRequest unmarshal body of
        Inl e \<Rightarrow> Inl e
      | Inr (translatedBody, _, headersToRemove) \<Rightarrow>
          (let anthropicVersion = gstr config AnthropicVersionConfigKey
           in if anthropicVersion = [] then
                Inl (Errorf ''%s is required in ExternalModel/Provider config for vertex-anthropic''
                       [ArgS AnthropicVersionConfigKey])
              else
                (case translatedBody of
                   None \<Rightarrow> Inl (Panicked ''assignment to entry in nil map'')
                 | Some translated \<Rightarrow>
                     Inr (Some (stripVertexUnsupportedFields
                            (gset ''anthropic_version'' (VStr anthropicVersion) (gdel ''model'' translated))),
                          [(''content-type'', ''application/json'')],
                          headersToRemove @ [anthropicBetaHeader]))))"

definition vertex_anthropic_TranslateResponse ::
  "encoder \<Rightarrow> int \<Rightarrow> body \<Rightarrow> string \<Rightarrow> body option result" where
  "vertex_anthropic_TranslateResponse marshal now body model =
     anthropic_TranslateResponse marshal now body model"

definition NewVertexAnthropicTranslator :: "decoder \<Rightarrow> encoder \<Rightarrow> int \<Rightarrow> Translator" where
  "NewVertexAnthropicTranslator unmarshal marshal now =
     \<lparr> TranslateRequest = vertex_anthropic_TranslateRequest,
       TranslateRequestWithConfig = Some (vertex_anthropic_TranslateRequestWithConfig unmarshal),
       TranslateResponse = vertex_anthropic_TranslateResponse marshal now \<rparr>"

definition vertex_passthrough_TranslateRequest :: "body \<Rightarrow> translation result" where
  "vertex_passthrough_TranslateRequest body =
     Inl (Errorf ''vertex-anthropic-passthrough requires config; use TranslateRequestWithConfig'' [])"

definition vertex_passthrough_TranslateRequestWithConfig :: "body \<Rightarrow> string gomap \<Rightarrow> translation result" where
  "vertex_passthrough_TranslateRequestWithConfig body config =
     (let anthropicVersion = gstr config AnthropicVersionConfigKey
      in if anthropicVersion = [] then
           Inl (Errorf ''%s is required in ExternalModel/Provider config for vertex-anthropic''
                  [ArgS AnthropicVersionConfigKey])
         else
           Inr (Some (stripVertexUnsupportedFields
                  (gdel ''model'' (gset ''anthropic_version'' (VStr anthropicVersion) body))),
                [(''content-type'', ''application/json'')], [anthropicBetaHeader]))"

definition vertex_passthrough_TranslateResponse :: "body \<Rightarrow> string \<Rightarrow> body option result" where
  "vertex_passthrough_TranslateResponse body model = Inr None"

definition NewVertexAnthropicPassthroughTranslator :: Translator where
  "NewVertexAnthropicPassthroughTranslator =
     \<lparr> TranslateRequest = vertex_passthrough_TranslateRequest,
       TranslateRequestWithConfig = Some vertex_passthrough_TranslateRequestWithConfig,
       TranslateResponse = vertex_passthrough_TranslateResponse \<rparr>"

section \<open>The contract of a translator\<close>

text \<open>How the plugin calls a translator: with the configuration when the translator takes one.\<close>

definition translate :: "Translator \<Rightarrow> string gomap \<Rightarrow> body \<Rightarrow> translation result" where
  "translate t config body =
     (case TranslateRequestWithConfig t of
        Some f \<Rightarrow> f body config
      | None \<Rightarrow> TranslateRequest t body)"

locale translator_contract =
  fixes t :: Translator
  assumes headers_wf: "translate t config body = Inr (b, hs, rm) \<Longrightarrow> wf_map hs"
    and headers_known: "translate t config body = Inr (b, hs, rm) \<Longrightarrow>
      fst ` set hs \<subseteq> {''anthropic-version'', ''content-type'', '':path''}"
    and removed_known: "translate t config body = Inr (b, hs, rm) \<Longrightarrow> set rm \<subseteq> {anthropicBetaHeader}"
    and body_wf: "translate t config body = Inr (Some out, hs, rm) \<Longrightarrow> wf_map body \<Longrightarrow> wf_map out"
    and response_wf: "TranslateResponse t resp model = Inr (Some out) \<Longrightarrow> wf_map resp \<Longrightarrow> wf_map out"

lemma wf_stripVertexUnsupportedFields: "wf_map b \<Longrightarrow> wf_map (stripVertexUnsupportedFields b)"
  by (simp add: stripVertexUnsupportedFields_def vertexUnsupportedBodyFields_def)

lemma idx_stripVertexUnsupportedFields:
  "idx (stripVertexUnsupportedFields b) k = (if k \<in> set vertexUnsupportedBodyFields then VNil else idx b k)"
  by (simp add: stripVertexUnsupportedFields_def vertexUnsupportedBodyFields_def)

lemma wf_vertex_body: "wf_map (vertex_body body sp cs)"
  by (simp add: vertex_body_def Let_def)

lemma anthropic_response_wf: "anthropic_TranslateResponse m n resp model = Inr (Some out) \<Longrightarrow> wf_map out"
  by (auto simp: anthropic_TranslateResponse_def translateAnthropicError_def Let_def
      split: if_splits sum.splits)

lemma vertex_response_wf: "vertex_TranslateResponse m f n resp model = Inr (Some out) \<Longrightarrow> wf_map out"
  by (auto simp: vertex_TranslateResponse_def translateVertexError_def Let_def split: option.splits)

lemma wf_stripField: "wf_map obj \<Longrightarrow> wf_map (fst (stripField path obj))"
  by (cases path rule: has_field.cases [of "(path, obj)" for path]; simp)
    (auto simp: Let_def split: option.splits prod.splits)

lemma wf_strip_paths: "wf_map obj \<Longrightarrow> wf_map (fst (strip_paths ps obj))"
proof (induction ps arbitrary: obj)
  case (Cons p ps)
  have "wf_map (fst (strip_paths ps (fst (stripField p obj))))"
    using Cons.IH wf_stripField [OF Cons.prems] .
  then show ?case by (simp add: case_prod_beta)
qed simp

lemma wf_Strip: "Strip s obj = Some out \<Longrightarrow> wf_map obj \<Longrightarrow> wf_map out"
  using wf_strip_paths [of obj "fieldPaths s"] by (auto simp: Strip_def split: prod.splits if_splits)

lemmas request_defs = translate_def openai_TranslateRequest_def bedrock_TranslateRequest_def
  azure_TranslateRequest_def vertex_openai_TranslateRequest_def
  vertex_passthrough_TranslateRequestWithConfig_def

lemmas response_defs = openai_TranslateResponse_def bedrock_TranslateResponse_def
  azure_TranslateResponse_def vertex_openai_TranslateResponse_def
  vertex_passthrough_TranslateResponse_def vertex_anthropic_TranslateResponse_def

interpretation openai: translator_contract NewOpenAITranslator
  by unfold_locales (auto simp: NewOpenAITranslator_def request_defs response_defs split: if_splits)

interpretation bedrock: translator_contract NewBedrockOpenAITranslator
  by unfold_locales
    (auto simp: NewBedrockOpenAITranslator_def request_defs response_defs split: if_splits option.splits)

interpretation azure: translator_contract NewAzureOpenAITranslator
  by unfold_locales
    (auto simp: NewAzureOpenAITranslator_def request_defs response_defs wf_Strip split: if_splits)

interpretation vertex_openai: translator_contract NewVertexOpenAITranslator
  by unfold_locales
    (auto simp: NewVertexOpenAITranslator_def request_defs response_defs wf_Strip split: if_splits)

lemma anthropic_request_outcome:
  assumes "anthropic_TranslateRequest u body = Inr (b, hs, rm)"
  shows "\<exists>out. b = Some out \<and> wf_map out" "rm = []"
    "hs = [(''anthropic-version'', anthropicAPIVersion), (''content-type'', ''application/json''),
           ('':path'', anthropicPath)]"
  using anthropic_TranslateRequest_Inr [OF assms] wf_anthropic_body by metis+

lemma anthropic_request_wf: "anthropic_TranslateRequest u body = Inr (Some out, hs, rm) \<Longrightarrow> wf_map out"
  using anthropic_request_outcome(1) by blast

interpretation anthropic: translator_contract "NewAnthropicTranslator unmarshal marshal now"
  for unmarshal marshal now
  by unfold_locales
    (auto simp: NewAnthropicTranslator_def translate_def dest: anthropic_request_outcome
      anthropic_response_wf)

interpretation gemini: translator_contract "NewVertexTranslator unmarshal marshal fmtv now"
  for unmarshal marshal fmtv now
  by unfold_locales
    (auto simp: NewVertexTranslator_def translate_def vertex_TranslateRequest_def Let_def wf_vertex_body
      split: if_splits sum.splits dest: vertex_response_wf)

interpretation vertex_anthropic: translator_contract "NewVertexAnthropicTranslator unmarshal marshal now"
  for unmarshal marshal now
  by unfold_locales
    (auto simp: NewVertexAnthropicTranslator_def translate_def
      vertex_anthropic_TranslateRequestWithConfig_def vertex_anthropic_TranslateResponse_def Let_def
      split: if_splits sum.splits option.splits
      intro!: wf_stripVertexUnsupportedFields wf_gset wf_gdel
      dest: anthropic_request_wf anthropic_request_outcome(2) anthropic_response_wf)

interpretation vertex_passthrough: translator_contract NewVertexAnthropicPassthroughTranslator
  by unfold_locales
    (auto simp: NewVertexAnthropicPassthroughTranslator_def request_defs response_defs Let_def
      wf_stripVertexUnsupportedFields split: if_splits)

section \<open>Properties\<close>

text \<open>Both ways to reach Claude on Vertex AI produce a body Vertex accepts. The model and every
  field Vertex rejects are gone, \<^verbatim>\<open>anthropic_version\<close> is the configured one (never empty), all other
  fields are those of the Messages body (the translated one for chat clients, the client's own for
  Messages clients), and the \<^verbatim>\<open>anthropic-beta\<close> header is removed.\<close>

theorem vertex_claude_body:
  assumes "vertex_anthropic_TranslateRequestWithConfig unmarshal body config = Inr (b, hs, rm)
      \<and> anthropic_TranslateRequest unmarshal body = Inr (Some base, hs', rm')
    \<or> vertex_passthrough_TranslateRequestWithConfig body config = Inr (b, hs, rm) \<and> base = body"
  shows "\<exists>out. b = Some out \<and>
    idx out ''anthropic_version'' = VStr (gstr config AnthropicVersionConfigKey) \<and>
    gstr config AnthropicVersionConfigKey \<noteq> [] \<and>
    (\<forall>k. k \<noteq> ''anthropic_version'' \<longrightarrow>
       idx out k = (if k \<in> set (''model'' # vertexUnsupportedBodyFields) then VNil else idx base k)) \<and>
    anthropicBetaHeader \<in> set rm"
  using assms
  by (auto simp: vertex_anthropic_TranslateRequestWithConfig_def
      vertex_passthrough_TranslateRequestWithConfig_def Let_def idx_stripVertexUnsupportedFields
      vertexUnsupportedBodyFields_def split: sum.splits if_splits)

theorem vertex_claude_body_witness:
  "\<exists>b hs rm out. vertex_passthrough_TranslateRequestWithConfig
       [(''model'', VStr ''claude''), (''betas'', VNil), (''max_tokens'', VInt 5)]
       [(AnthropicVersionConfigKey, ''vertex-2023-10-16'')] = Inr (b, hs, rm) \<and>
     b = Some out \<and> idx out ''betas'' = VNil \<and> idx out ''max_tokens'' = VInt 5"
proof -
  let ?body = "[(''model'', VStr ''claude''), (''betas'', VNil), (''max_tokens'', VInt 5)]"
  let ?config = "[(AnthropicVersionConfigKey, ''vertex-2023-10-16'')]"
  obtain b hs rm where *: "vertex_passthrough_TranslateRequestWithConfig ?body ?config = Inr (b, hs, rm)"
    by (simp add: vertex_passthrough_TranslateRequestWithConfig_def Let_def gstr_def)
  from vertex_claude_body [of undefined ?body ?config b hs rm ?body undefined undefined] * show ?thesis
    by (auto simp: vertexUnsupportedBodyFields_def)
qed

lemma azure_paths:
  "fieldPaths azure_stripper =
     [[\<lparr>seg_key = ''prompt_filter_results'', isArray = False\<rparr>],
      [\<lparr>seg_key = ''choices'', isArray = True\<rparr>, \<lparr>seg_key = ''content_filter_results'', isArray = False\<rparr>]]"
  by code_simp

text \<open>The Azure translator hides content-filter details and nothing else: in a translated response
  there is no \<^verbatim>\<open>prompt_filter_results\<close>, no choice has \<^verbatim>\<open>content_filter_results\<close>, and every other
  top-level field but \<^verbatim>\<open>choices\<close> is the backend's; when it returns no new body, the backend's body
  had none of these fields.\<close>

theorem azure_response_filtered:
  "\<exists>r. azure_TranslateResponse body model = Inr r \<and>
     (let out = (case r of None \<Rightarrow> body | Some out \<Rightarrow> out)
      in map_of out ''prompt_filter_results'' = None \<and>
         \<not> list_ex (\<lambda>c. map_of (obj_of c) ''content_filter_results'' \<noteq> None) (list_of (idx out ''choices'')) \<and>
         (\<forall>k. k \<in> {''prompt_filter_results'', ''choices''} \<or> map_of out k = map_of body k))"
proof -
  have choices: "\<not> has_field [\<lparr>seg_key = ''choices'', isArray = True\<rparr>,
        \<lparr>seg_key = ''content_filter_results'', isArray = False\<rparr>] out \<Longrightarrow>
      \<not> list_ex (\<lambda>c. map_of (obj_of c) ''content_filter_results'' \<noteq> None) (list_of (idx out ''choices''))"
    for out
    by (auto simp: list_ex_iff obj_of_def split: option.splits)
  show ?thesis
  proof (cases "Strip azure_stripper body")
    case None
    then show ?thesis
      using Strip_None_iff [of azure_stripper body] choices [of body]
      by (simp add: azure_TranslateResponse_def azure_paths)
  next
    case (Some out)
    have "\<forall>p \<in> set (fieldPaths azure_stripper). \<not> has_field p out"
      using Strip_Some(1) [OF Some] by blast
    then have "map_of out ''prompt_filter_results'' = None"
      and "\<not> list_ex (\<lambda>c. map_of (obj_of c) ''content_filter_results'' \<noteq> None) (list_of (idx out ''choices''))"
      using choices [of out] by (simp_all add: azure_paths)
    moreover have "k \<in> {''prompt_filter_results'', ''choices''} \<or> map_of out k = map_of body k" for k
      using Strip_Some(3) [OF Some, of k] by (auto simp: azure_paths)
    ultimately show ?thesis
      unfolding azure_TranslateResponse_def Some by simp
  qed
qed

end
