(* ===== verification/Framework.thy ===== *)
theory Framework
  imports Go_Any
begin

text \<open>
  The plugin framework (\<^verbatim>\<open>llm-d-inference-payload-processor\<close>), which is not part of this repository.
  The plugins see it as requests and responses with public \<^verbatim>\<open>Headers\<close> and \<^verbatim>\<open>Body\<close> fields, the methods
  \<^verbatim>\<open>SetHeader\<close>, \<^verbatim>\<open>RemoveHeader\<close>, \<^verbatim>\<open>SetBody\<close>, \<^verbatim>\<open>SetBodyField\<close>, and a \<^verbatim>\<open>CycleState\<close> that carries typed
  values from one plugin to the next. The methods are fields of the record \<open>framework\<close>, which every
  plugin operation takes as an argument; the locale \<open>ipp_framework\<close> states what they promise, and
  the map-based framework at the end of the theory keeps the promise.

  It also holds the constants of \<^verbatim>\<open>pkg/plugins/common\<close>: the CycleState keys, API formats, auth types
  and provider names.
\<close>

section \<open>Constants of \<^verbatim>\<open>pkg/plugins/common\<close>\<close>

abbreviation ProviderKey where "ProviderKey \<equiv> ''provider''"
abbreviation ModelKey where "ModelKey \<equiv> ''model''"
abbreviation CredsRefName where "CredsRefName \<equiv> ''credential-ref-name''"
abbreviation CredsRefNamespace where "CredsRefNamespace \<equiv> ''credential-ref-namespace''"
abbreviation ModelConfigKey where "ModelConfigKey \<equiv> ''model-config''"
abbreviation APIFormatKey where "APIFormatKey \<equiv> ''api-format''"
abbreviation AuthTypeKey where "AuthTypeKey \<equiv> ''auth''"
abbreviation InputAPIFormatKey where "InputAPIFormatKey \<equiv> ''input-api-format''"
abbreviation EndpointKey where "EndpointKey \<equiv> ''endpoint''"
abbreviation PathKey where "PathKey \<equiv> ''path''"
abbreviation OriginClusterHeader where "OriginClusterHeader \<equiv> ''x-origin-cluster''"
abbreviation OriginClusterKey where "OriginClusterKey \<equiv> ''x-origin-cluster''"
abbreviation MeteringUsernameKey where "MeteringUsernameKey \<equiv> ''metering-username''"
abbreviation MeteringGroupKey where "MeteringGroupKey \<equiv> ''metering-group''"
abbreviation MeteringSubscriptionKey where "MeteringSubscriptionKey \<equiv> ''metering-subscription''"
abbreviation MeteringModelKey where "MeteringModelKey \<equiv> ''metering-model''"
abbreviation MeteringRequestTimeKey where "MeteringRequestTimeKey \<equiv> ''metering-request-time''"
abbreviation MeteringLastUsageKey where "MeteringLastUsageKey \<equiv> ''metering-last-usage''"
abbreviation MeteringUserAgentKey where "MeteringUserAgentKey \<equiv> ''metering-user-agent''"

abbreviation OpenAIChatCompletions where "OpenAIChatCompletions \<equiv> ''openai-chat''"
abbreviation OpenAIEmbeddings where "OpenAIEmbeddings \<equiv> ''openai-embeddings''"
abbreviation Messages where "Messages \<equiv> ''messages''"
abbreviation OpenAIResponses where "OpenAIResponses \<equiv> ''openai-responses''"
abbreviation VertexMessages where "VertexMessages \<equiv> ''vertex-messages''"

abbreviation APIKey where "APIKey \<equiv> ''apikey''"
abbreviation SigV4 where "SigV4 \<equiv> ''sigv4''"
abbreviation OAuth2 where "OAuth2 \<equiv> ''oauth2''"
abbreviation "AuthNone \<equiv> ''none''"
abbreviation APIKeyAuthHeaderName where "APIKeyAuthHeaderName \<equiv> ''authHeaderName''"
abbreviation APIKeyAuthValuePrefix where "APIKeyAuthValuePrefix \<equiv> ''authValuePrefix''"

abbreviation provider_Anthropic where "provider_Anthropic \<equiv> ''anthropic''"
abbreviation provider_Azure where "provider_Azure \<equiv> ''azure''"
abbreviation provider_AzureOpenAI where "provider_AzureOpenAI \<equiv> ''azure-openai''"
abbreviation provider_RemoteMaaS where "provider_RemoteMaaS \<equiv> ''remote-maas''"

section \<open>Requests, responses and CycleState\<close>

record InferenceRequest =
  Headers :: "string gomap"
  Body :: body

record InferenceResponse =
  RespHeaders :: "string gomap"
  RespBody :: body
  CurrentChunk :: string

text \<open>
  A value written to the CycleState, with its Go type: \<^verbatim>\<open>string\<close>, \<^verbatim>\<open>apiformat.APIFormat\<close>,
  \<^verbatim>\<open>auth.Auth\<close>, \<^verbatim>\<open>map[string]string\<close>, \<^verbatim>\<open>map[string]any\<close> and \<^verbatim>\<open>time.Time\<close> (in nanoseconds).
\<close>

datatype csval =
    CStr string
  | CFormat string
  | CAuth string
  | CStrMap "string gomap"
  | CAnyMap body
  | CTime int

record 'cs framework =
  Write :: "string \<Rightarrow> csval \<Rightarrow> 'cs \<Rightarrow> 'cs"
  Read :: "string \<Rightarrow> 'cs \<Rightarrow> csval option"
  SetHeader :: "string \<Rightarrow> string \<Rightarrow> InferenceRequest \<Rightarrow> InferenceRequest"
  RemoveHeader :: "string \<Rightarrow> InferenceRequest \<Rightarrow> InferenceRequest"
  SetBody :: "body \<Rightarrow> InferenceRequest \<Rightarrow> InferenceRequest"
  SetBodyField :: "string \<Rightarrow> any \<Rightarrow> InferenceRequest \<Rightarrow> InferenceRequest"
  SetRespBody :: "body \<Rightarrow> InferenceResponse \<Rightarrow> InferenceResponse"

text \<open>
  \<^verbatim>\<open>ReadCycleStateKey[T]\<close>: an error (\<open>None\<close>) when the key is missing or its value has another type.
  The second form is \<^verbatim>\<open>v, _ := ReadCycleStateKey[string](...)\<close>, which leaves the zero value.
\<close>

definition read_str :: "'cs framework \<Rightarrow> string \<Rightarrow> 'cs \<Rightarrow> string option" where
  "read_str fw k cs = (case Read fw k cs of Some (CStr s) \<Rightarrow> Some s | _ \<Rightarrow> None)"

definition read_format :: "'cs framework \<Rightarrow> string \<Rightarrow> 'cs \<Rightarrow> string" where
  "read_format fw k cs = (case Read fw k cs of Some (CFormat s) \<Rightarrow> s | _ \<Rightarrow> [])"

definition read_auth :: "'cs framework \<Rightarrow> string \<Rightarrow> 'cs \<Rightarrow> string option" where
  "read_auth fw k cs = (case Read fw k cs of Some (CAuth s) \<Rightarrow> Some s | _ \<Rightarrow> None)"

definition read_strmap :: "'cs framework \<Rightarrow> string \<Rightarrow> 'cs \<Rightarrow> string gomap option" where
  "read_strmap fw k cs = (case Read fw k cs of Some (CStrMap m) \<Rightarrow> Some m | _ \<Rightarrow> None)"

definition read_anymap :: "'cs framework \<Rightarrow> string \<Rightarrow> 'cs \<Rightarrow> body option" where
  "read_anymap fw k cs = (case Read fw k cs of Some (CAnyMap m) \<Rightarrow> Some m | _ \<Rightarrow> None)"

definition read_time :: "'cs framework \<Rightarrow> string \<Rightarrow> 'cs \<Rightarrow> int option" where
  "read_time fw k cs = (case Read fw k cs of Some (CTime t) \<Rightarrow> Some t | _ \<Rightarrow> None)"

definition or_empty :: "string option \<Rightarrow> string" where
  "or_empty x = (case x of None \<Rightarrow> [] | Some s \<Rightarrow> s)"

lemma or_empty_simps [simp]: "or_empty None = []" "or_empty (Some s) = s"
  by (simp_all add: or_empty_def)

lemmas cs_reads = read_str_def read_format_def read_auth_def read_strmap_def read_anymap_def
  read_time_def

text \<open>The header loops of the plugins: set every pair of a map, remove every key of a list.\<close>

fun set_headers :: "'cs framework \<Rightarrow> string gomap \<Rightarrow> InferenceRequest \<Rightarrow> InferenceRequest" where
  "set_headers fw [] r = r"
| "set_headers fw ((k, v) # hs) r = set_headers fw hs (SetHeader fw k v r)"

fun remove_headers :: "'cs framework \<Rightarrow> string list \<Rightarrow> InferenceRequest \<Rightarrow> InferenceRequest" where
  "remove_headers fw [] r = r"
| "remove_headers fw (k # ks) r = remove_headers fw ks (RemoveHeader fw k r)"

section \<open>What the framework promises\<close>

locale ipp_framework =
  fixes fw :: "'cs framework"
  assumes Read_Write: "Read fw k (Write fw k' x cs) = (if k = k' then Some x else Read fw k cs)"
    and Headers_SetHeader: "map_of (Headers (SetHeader fw k s r)) = (map_of (Headers r))(k \<mapsto> s)"
    and Headers_RemoveHeader: "map_of (Headers (RemoveHeader fw k r)) = (map_of (Headers r))(k := None)"
    and wf_SetHeader: "wf_map (Headers r) \<Longrightarrow> wf_map (Headers (SetHeader fw k s r))"
    and wf_RemoveHeader: "wf_map (Headers r) \<Longrightarrow> wf_map (Headers (RemoveHeader fw k r))"
    and Body_SetHeader: "Body (SetHeader fw k s r) = Body r"
    and Body_RemoveHeader: "Body (RemoveHeader fw k r) = Body r"
    and Body_SetBody: "Body (SetBody fw b r) = b"
    and Headers_SetBody: "Headers (SetBody fw b r) = Headers r"
    and Body_SetBodyField: "map_of (Body (SetBodyField fw k v r)) = (map_of (Body r))(k \<mapsto> v)"
    and Headers_SetBodyField: "Headers (SetBodyField fw k v r) = Headers r"
    and RespBody_SetRespBody: "RespBody (SetRespBody fw b p) = b"
    and RespHeaders_SetRespBody: "RespHeaders (SetRespBody fw b p) = RespHeaders p"
begin

lemmas fw_simps [simp] = Read_Write Headers_SetHeader Headers_RemoveHeader wf_SetHeader
  wf_RemoveHeader Body_SetHeader Body_RemoveHeader Body_SetBody Headers_SetBody Body_SetBodyField
  Headers_SetBodyField RespBody_SetRespBody RespHeaders_SetRespBody

lemma gstr_SetHeader [simp]:
  "gstr (Headers (SetHeader fw k s r)) k' = (if k' = k then s else gstr (Headers r) k')"
  by (simp add: gstr_def)

lemma gstr_RemoveHeader [simp]:
  "gstr (Headers (RemoveHeader fw k r)) k' = (if k' = k then [] else gstr (Headers r) k')"
  by (simp add: gstr_def)

lemma idx_SetBodyField [simp]:
  "idx (Body (SetBodyField fw k v r)) k' = (if k' = k then v else idx (Body r) k')"
  by (simp add: idx_def)

lemma Body_set_headers [simp]: "Body (set_headers fw hs r) = Body r"
  by (induction hs arbitrary: r) auto

lemma Body_remove_headers [simp]: "Body (remove_headers fw ks r) = Body r"
  by (induction ks arbitrary: r) auto

lemma wf_set_headers [simp]: "wf_map (Headers r) \<Longrightarrow> wf_map (Headers (set_headers fw hs r))"
  by (induction hs arbitrary: r) auto

lemma wf_remove_headers [simp]: "wf_map (Headers r) \<Longrightarrow> wf_map (Headers (remove_headers fw ks r))"
  by (induction ks arbitrary: r) auto

lemma Headers_set_headers:
  "wf_map hs \<Longrightarrow> map_of (Headers (set_headers fw hs r)) = map_of (Headers r) ++ map_of hs"
proof (induction hs arbitrary: r)
  case (Cons p hs)
  obtain k v where p: "p = (k, v)" by (cases p)
  with Cons.prems have "map_of hs k = None" by (simp add: map_of_eq_None_iff)
  with Cons p show ?case
    by (auto simp: fun_eq_iff map_add_def split: option.splits)
qed simp

lemma Headers_remove_headers:
  "map_of (Headers (remove_headers fw ks r)) = (map_of (Headers r)) |` (- set ks)"
  by (induction ks arbitrary: r) (auto simp: fun_eq_iff restrict_map_def)

lemma set_headers_other:
  "k \<notin> fst ` set hs \<Longrightarrow> map_of (Headers (set_headers fw hs r)) k = map_of (Headers r) k"
  by (induction hs arbitrary: r) auto

end

section \<open>A map-based framework\<close>

definition ref_framework :: "csval gomap framework" where
  "ref_framework =
     \<lparr> Write = gset,
       Read = (\<lambda>k cs. map_of cs k),
       SetHeader = (\<lambda>k v r. r\<lparr>Headers := gset k v (Headers r)\<rparr>),
       RemoveHeader = (\<lambda>k r. r\<lparr>Headers := gdel k (Headers r)\<rparr>),
       SetBody = (\<lambda>b r. r\<lparr>Body := b\<rparr>),
       SetBodyField = (\<lambda>k v r. r\<lparr>Body := gset k v (Body r)\<rparr>),
       SetRespBody = (\<lambda>b p. p\<lparr>RespBody := b\<rparr>) \<rparr>"

interpretation ref_fw: ipp_framework ref_framework
  by unfold_locales (simp_all add: ref_framework_def)

lemma ref_framework_ok: "ipp_framework ref_framework"
  by (rule ref_fw.ipp_framework_axioms)

lemma ref_framework_sel [simp]:
  "Write ref_framework = gset"
  "Read ref_framework k cs = map_of cs k"
  "SetHeader ref_framework k s r = r\<lparr>Headers := gset k s (Headers r)\<rparr>"
  "RemoveHeader ref_framework k r = r\<lparr>Headers := gdel k (Headers r)\<rparr>"
  "SetBody ref_framework b r = r\<lparr>Body := b\<rparr>"
  "SetBodyField ref_framework k v r = r\<lparr>Body := gset k v (Body r)\<rparr>"
  "SetRespBody ref_framework b p = p\<lparr>RespBody := b\<rparr>"
  by (simp_all add: ref_framework_def)

end
