(* ===== verification/Api_Translation.thy ===== *)
theory Api_Translation
  imports Translators Framework
begin

text \<open>
  \<^verbatim>\<open>pkg/plugins/api-translation/plugin.go\<close>: the plugin that picks a translator by the pair of client
  and upstream API format and applies it to the request and to the response. The table of
  translators is the field of the plugin; \<open>NewAPITranslationPlugin\<close> fills it as the source does.
\<close>

text \<open>The arrow of the error messages, in UTF-8.\<close>

abbreviation "arrow \<equiv> [CHR 0xE2, CHR 0x86, CHR 0x92]"

record translatorKey =
  key_input :: string
  key_output :: string

record APITranslationPlugin =
  translators :: "(translatorKey \<times> Translator) list"

definition NewAPITranslationPlugin :: "decoder \<Rightarrow> encoder \<Rightarrow> int \<Rightarrow> APITranslationPlugin" where
  "NewAPITranslationPlugin unmarshal marshal now =
     \<lparr> translators =
         [(\<lparr>key_input = OpenAIChatCompletions, key_output = OpenAIChatCompletions\<rparr>, NewOpenAITranslator),
          (\<lparr>key_input = OpenAIChatCompletions, key_output = Messages\<rparr>,
             NewAnthropicTranslator unmarshal marshal now),
          (\<lparr>key_input = OpenAIChatCompletions, key_output = VertexMessages\<rparr>,
             NewVertexAnthropicTranslator unmarshal marshal now),
          (\<lparr>key_input = Messages, key_output = VertexMessages\<rparr>,
             NewVertexAnthropicPassthroughTranslator)] \<rparr>"

definition applyPathOverride :: "'cs framework \<Rightarrow> 'cs \<Rightarrow> InferenceRequest \<Rightarrow> InferenceRequest" where
  "applyPathOverride fw cycleState request =
     (case read_str fw PathKey cycleState of
        Some path \<Rightarrow> SetHeader fw '':path'' path request
      | None \<Rightarrow> request)"

definition isPassthrough :: "'cs framework \<Rightarrow> 'cs \<Rightarrow> bool" where
  "isPassthrough fw cycleState =
     (let inputFormat = read_format fw InputAPIFormatKey cycleState;
          outputFormat = read_format fw APIFormatKey cycleState
      in if inputFormat = [] \<or> outputFormat = [] then False
         else if inputFormat \<noteq> outputFormat then False
         else inputFormat \<noteq> OpenAIChatCompletions)"

text \<open>The error a failed translation is reported as.\<close>

definition translation_error :: "string \<Rightarrow> string \<Rightarrow> string \<Rightarrow> err \<Rightarrow> err" where
  "translation_error fmt inputFormat outputFormat e =
     (case errors_as e of
        Some commErr \<Rightarrow> commErr
      | None \<Rightarrow> WrapErr fmt [ArgS inputFormat, ArgS outputFormat] e)"

definition api_ProcessRequest ::
  "APITranslationPlugin \<Rightarrow> 'cs framework \<Rightarrow> 'cs \<Rightarrow> InferenceRequest \<Rightarrow> InferenceRequest result" where
  "api_ProcessRequest p fw cycleState request =
     (let inputFormat = read_format fw InputAPIFormatKey cycleState;
          outputFormat = read_format fw APIFormatKey cycleState
      in if inputFormat = [] \<or> outputFormat = [] then Inr request
         else if isPassthrough fw cycleState then
           Inr (applyPathOverride fw cycleState (RemoveHeader fw ''authorization'' request))
         else
           (case map_of (translators p) \<lparr>key_input = inputFormat, key_output = outputFormat\<rparr> of
              None \<Rightarrow> Inl (Errorf (''unsupported format combination: %s '' @ arrow @ '' %s'') [ArgS inputFormat, ArgS outputFormat])
            | Some translator \<Rightarrow>
                (case (case TranslateRequestWithConfig translator of
                         Some translateWithConfig \<Rightarrow>
                           (let modelConfig = (case read_strmap fw ModelConfigKey cycleState of
                                                 Some m \<Rightarrow> m | None \<Rightarrow> [])
                            in translateWithConfig (Body request) modelConfig)
                       | None \<Rightarrow> TranslateRequest translator (Body request)) of
                   Inl e \<Rightarrow>
                     Inl (translation_error (''request translation failed for %s '' @ arrow @ '' %s: %w'')
                            inputFormat outputFormat e)
                 | Inr (translatedBody, headersToMutate, headersToRemove) \<Rightarrow>
                     (let request = (case translatedBody of Some b \<Rightarrow> SetBody fw b request | None \<Rightarrow> request);
                          request = set_headers fw headersToMutate request;
                          request = remove_headers fw headersToRemove request;
                          request = RemoveHeader fw ''authorization'' request
                      in Inr (applyPathOverride fw cycleState request)))))"

definition api_ProcessResponse ::
  "APITranslationPlugin \<Rightarrow> 'cs framework \<Rightarrow> 'cs \<Rightarrow> InferenceResponse \<Rightarrow> InferenceResponse result" where
  "api_ProcessResponse p fw cycleState response =
     (let inputFormat = read_format fw InputAPIFormatKey cycleState;
          outputFormat = read_format fw APIFormatKey cycleState
      in if inputFormat = [] \<or> outputFormat = [] then Inr response
         else if isPassthrough fw cycleState then Inr response
         else
           (case map_of (translators p) \<lparr>key_input = inputFormat, key_output = outputFormat\<rparr> of
              None \<Rightarrow> Inl (Errorf (''unsupported format combination: %s '' @ arrow @ '' %s'') [ArgS inputFormat, ArgS outputFormat])
            | Some translator \<Rightarrow>
                (let model = or_empty (read_str fw ModelKey cycleState)
                 in case TranslateResponse translator (RespBody response) model of
                      Inl e \<Rightarrow>
                        Inl (translation_error (''response translation failed for %s '' @ arrow @ '' %s: %w'')
                               inputFormat outputFormat e)
                    | Inr (Some b) \<Rightarrow> Inr (SetRespBody fw b response)
                    | Inr None \<Rightarrow> Inr response)))"

section \<open>What the plugin guarantees for any translator that keeps its contract\<close>

text \<open>The configuration and the translator of a request.\<close>

definition model_config :: "'cs framework \<Rightarrow> 'cs \<Rightarrow> string gomap" where
  "model_config fw cs = (case read_strmap fw ModelConfigKey cs of Some m \<Rightarrow> m | None \<Rightarrow> [])"

definition selected :: "APITranslationPlugin \<Rightarrow> 'cs framework \<Rightarrow> 'cs \<Rightarrow> Translator option" where
  "selected p fw cs =
     map_of (translators p)
       \<lparr>key_input = read_format fw InputAPIFormatKey cs, key_output = read_format fw APIFormatKey cs\<rparr>"

definition formats_known :: "'cs framework \<Rightarrow> 'cs \<Rightarrow> bool" where
  "formats_known fw cs \<longleftrightarrow> read_format fw InputAPIFormatKey cs \<noteq> [] \<and> read_format fw APIFormatKey cs \<noteq> []"

locale api_translation = ipp_framework fw for fw :: "'cs framework" +
  fixes p :: APITranslationPlugin
  assumes contract: "(key, t) \<in> set (translators p) \<Longrightarrow> translator_contract t"
begin

lemma selected_translator: "selected p fw cs = Some t \<Longrightarrow> translator_contract t"
  unfolding selected_def by (rule contract, rule map_of_SomeD)

lemma applyPathOverride_headers:
  "map_of (Headers (applyPathOverride fw cs r)) =
     (case read_str fw PathKey cs of None \<Rightarrow> map_of (Headers r) | Some path \<Rightarrow> (map_of (Headers r))('':path'' \<mapsto> path))"
  by (simp add: applyPathOverride_def split: option.split)

lemma applyPathOverride_body [simp]: "Body (applyPathOverride fw cs r) = Body r"
  by (simp add: applyPathOverride_def split: option.split)

lemma translated_request:
  assumes "api_ProcessRequest p fw cs r = Inr r'" "formats_known fw cs" "\<not> isPassthrough fw cs"
  obtains t b hs rm where "selected p fw cs = Some t"
    "translate t (model_config fw cs) (Body r) = Inr (b, hs, rm)"
    "Body r' = (case b of None \<Rightarrow> Body r | Some out \<Rightarrow> out)"
    "map_of (Headers r') =
       (case read_str fw PathKey cs of None \<Rightarrow> (map_of (Headers r) ++ map_of hs) |` (- set (''authorization'' # rm))
        | Some path \<Rightarrow> ((map_of (Headers r) ++ map_of hs) |` (- set (''authorization'' # rm)))('':path'' \<mapsto> path))"
proof -
  from assms obtain t b hs rm where *: "selected p fw cs = Some t"
    "translate t (model_config fw cs) (Body r) = Inr (b, hs, rm)"
    "r' = applyPathOverride fw cs (RemoveHeader fw ''authorization''
            (remove_headers fw rm (set_headers fw hs (case b of Some b \<Rightarrow> SetBody fw b r | None \<Rightarrow> r))))"
    by (auto simp: api_ProcessRequest_def formats_known_def selected_def translate_def model_config_def Let_def
        split: option.splits sum.splits if_splits)
  have "wf_map hs"
    using translator_contract.headers_wf [OF selected_translator [OF *(1)] *(2)] .
  moreover have "(m |` A)(k := None) = m |` (A - {k})" for m :: "string \<rightharpoonup> string" and A k
    by (auto simp: fun_eq_iff restrict_map_def)
  ultimately show ?thesis
    using * that [of t b hs rm]
    by (cases b) (auto simp: applyPathOverride_headers Headers_remove_headers Headers_set_headers
        Compl_insert split: option.splits)
qed

text \<open>The client's credentials never reach the provider.\<close>

lemma no_client_credentials:
  assumes "api_ProcessRequest p fw cs r = Inr r'" "formats_known fw cs"
  shows "map_of (Headers r') ''authorization'' = None"
proof (cases "isPassthrough fw cs")
  case True
  with assms show ?thesis
    by (auto simp: api_ProcessRequest_def formats_known_def applyPathOverride_headers split: option.splits)
next
  case False
  with assms show ?thesis
    by (elim translated_request) (auto split: option.splits)
qed

text \<open>The headers the plugin can change at all.\<close>

lemma other_headers_kept:
  assumes "api_ProcessRequest p fw cs r = Inr r'"
    and "k \<notin> {''anthropic-version'', ''content-type'', '':path'', ''authorization'', anthropicBetaHeader}"
  shows "map_of (Headers r') k = map_of (Headers r) k"
proof (cases "formats_known fw cs \<and> \<not> isPassthrough fw cs")
  case True
  with assms(1) obtain t b hs rm where *: "selected p fw cs = Some t"
    "translate t (model_config fw cs) (Body r) = Inr (b, hs, rm)"
    "map_of (Headers r') =
       (case read_str fw PathKey cs of None \<Rightarrow> (map_of (Headers r) ++ map_of hs) |` (- set (''authorization'' # rm))
        | Some path \<Rightarrow> ((map_of (Headers r) ++ map_of hs) |` (- set (''authorization'' # rm)))('':path'' \<mapsto> path))"
    by (auto elim: translated_request)
  have "fst ` set hs \<subseteq> {''anthropic-version'', ''content-type'', '':path''}"
    using translator_contract.headers_known [OF selected_translator [OF *(1)] *(2)] .
  with assms(2) have "map_of hs k = None" by (auto simp: map_of_eq_None_iff)
  moreover have "k \<notin> set rm"
  proof
    assume "k \<in> set rm"
    with translator_contract.removed_known [OF selected_translator [OF *(1)] *(2)]
    have "k = anthropicBetaHeader" by (rule singletonD [OF subsetD])
    with assms(2) show False by simp
  qed
  moreover have "k \<noteq> '':path''" "k \<noteq> ''authorization''" using assms(2) by simp_all
  ultimately show ?thesis
    by (simp add: *(3) restrict_map_def map_add_def split: option.split)
next
  case False
  have "map_of (Headers (applyPathOverride fw cs (RemoveHeader fw ''authorization'' r))) k = map_of (Headers r) k"
    using assms(2) by (simp add: applyPathOverride_headers split: option.split)
  moreover have "r' = r \<or> r' = applyPathOverride fw cs (RemoveHeader fw ''authorization'' r)"
    using False assms(1) by (auto simp: api_ProcessRequest_def formats_known_def Let_def split: if_splits)
  ultimately show ?thesis by auto
qed

lemma path_override:
  assumes "api_ProcessRequest p fw cs r = Inr r'" "formats_known fw cs" "read_str fw PathKey cs = Some path"
  shows "map_of (Headers r') '':path'' = Some path"
proof (cases "isPassthrough fw cs")
  case True
  with assms show ?thesis
    by (auto simp: api_ProcessRequest_def formats_known_def applyPathOverride_headers)
next
  case False
  with assms show ?thesis
    by (elim translated_request) (auto split: option.splits)
qed

lemma processed_wf:
  assumes "api_ProcessRequest p fw cs r = Inr r'" "wf_map (Body r)"
  shows "wf_map (Body r')"
proof (cases "formats_known fw cs \<and> \<not> isPassthrough fw cs")
  case True
  with assms(1) obtain t b hs rm where *: "selected p fw cs = Some t"
    "translate t (model_config fw cs) (Body r) = Inr (b, hs, rm)"
    "Body r' = (case b of None \<Rightarrow> Body r | Some out \<Rightarrow> out)"
    by (auto elim: translated_request)
  with assms(2) translator_contract.body_wf [OF selected_translator [OF *(1)]] show ?thesis
    by (auto split: option.splits)
next
  case False
  then have "Body r' = Body r"
    using assms(1) by (auto simp: api_ProcessRequest_def formats_known_def Let_def split: if_splits)
  with assms(2) show ?thesis by simp
qed

end

lemma registered_translators:
  "(key, t) \<in> set (translators (NewAPITranslationPlugin unmarshal marshal now)) \<Longrightarrow> translator_contract t"
  by (auto simp: NewAPITranslationPlugin_def intro: openai.translator_contract_axioms anthropic.translator_contract_axioms
      vertex_anthropic.translator_contract_axioms vertex_passthrough.translator_contract_axioms)

lemma api_translation_plugin:
  "ipp_framework fw \<Longrightarrow> api_translation fw (NewAPITranslationPlugin unmarshal marshal now)"
  by (simp add: api_translation_def api_translation_axioms_def registered_translators)

interpretation api_ref: api_translation ref_framework "NewAPITranslationPlugin unmarshal marshal now"
  for unmarshal marshal now
  by (rule api_translation_plugin, rule ref_framework_ok)

section \<open>Properties\<close>

definition supported_pairs :: "(string \<times> string) list" where
  "supported_pairs =
     [(OpenAIChatCompletions, OpenAIChatCompletions), (OpenAIChatCompletions, Messages),
      (OpenAIChatCompletions, VertexMessages), (Messages, VertexMessages)]"

definition format_pair :: "'cs framework \<Rightarrow> 'cs \<Rightarrow> string \<times> string" where
  "format_pair fw cs = (read_format fw InputAPIFormatKey cs, read_format fw APIFormatKey cs)"

lemma selected_None_iff:
  "selected (NewAPITranslationPlugin unmarshal marshal now) fw cs = None \<longleftrightarrow>
     format_pair fw cs \<notin> set supported_pairs"
  by (auto simp: format_pair_def selected_def NewAPITranslationPlugin_def supported_pairs_def)

text \<open>Whenever the formats of a request are known and api-translation lets it pass, in passthrough
  mode or through any registered translator, the client's \<^verbatim>\<open>authorization\<close> header is gone and, when the
  resolver chose a path, \<^verbatim>\<open>:path\<close> is exactly that path.\<close>

theorem api_request_headers:
  assumes "ipp_framework fw" "formats_known fw cs"
    and "api_ProcessRequest (NewAPITranslationPlugin unmarshal marshal now) fw cs r = Inr r'"
  shows "map_of (Headers r') ''authorization'' = None \<and>
    (\<forall>path. read_str fw PathKey cs = Some path \<longrightarrow> map_of (Headers r') '':path'' = Some path)"
  using api_translation.no_client_credentials [OF api_translation_plugin [OF assms(1)] assms(3,2)]
    api_translation.path_override [OF api_translation_plugin [OF assms(1)] assms(3,2)]
  by simp

theorem api_request_headers_witness:
  "\<exists>r'. api_ProcessRequest (NewAPITranslationPlugin (\<lambda>_. None) (\<lambda>_. None) 0) ref_framework
       [(InputAPIFormatKey, CFormat Messages), (APIFormatKey, CFormat Messages), (PathKey, CStr ''/x'')]
       \<lparr>Headers = [(''authorization'', ''Bearer k''), ('':path'', ''/m/v1/messages'')], Body = []\<rparr> = Inr r' \<and>
     map_of (Headers r') ''authorization'' = None \<and> map_of (Headers r') '':path'' = Some ''/x''"
proof -
  let ?cs = "[(InputAPIFormatKey, CFormat Messages), (APIFormatKey, CFormat Messages), (PathKey, CStr ''/x'')]"
  let ?r = "\<lparr>Headers = [(''authorization'', ''Bearer k''), ('':path'', ''/m/v1/messages'')], Body = []\<rparr>"
  have known: "formats_known ref_framework ?cs" "read_str ref_framework PathKey ?cs = Some ''/x''"
    by (simp_all add: formats_known_def cs_reads)
  obtain r' where "api_ProcessRequest (NewAPITranslationPlugin (\<lambda>_. None) (\<lambda>_. None) 0) ref_framework ?cs ?r = Inr r'"
    by (simp add: api_ProcessRequest_def isPassthrough_def cs_reads Let_def)
  with api_request_headers [OF ref_framework_ok known(1) this] known show ?thesis by blast
qed

text \<open>The format table decides the outcome. With unknown formats the request is untouched; equal
  formats other than chat completions pass through with the body untouched; otherwise the request
  fails when the pair is not one of the four registered ones, and for a registered pair the body is
  the translator's, or the client's where the translator returns none.\<close>

theorem api_request_dispatch:
  assumes "ipp_framework fw"
  shows "case api_ProcessRequest (NewAPITranslationPlugin unmarshal marshal now) fw cs r of
     Inl _ \<Rightarrow> formats_known fw cs \<and> \<not> isPassthrough fw cs \<and>
       (format_pair fw cs \<notin> set supported_pairs \<or>
        (\<exists>t e. selected (NewAPITranslationPlugin unmarshal marshal now) fw cs = Some t \<and>
               translate t (model_config fw cs) (Body r) = Inl e))
   | Inr r' \<Rightarrow>
       (if \<not> formats_known fw cs then r' = r
        else if isPassthrough fw cs then fst (format_pair fw cs) = snd (format_pair fw cs) \<and>
          fst (format_pair fw cs) \<noteq> OpenAIChatCompletions \<and> Body r' = Body r
        else format_pair fw cs \<in> set supported_pairs \<and>
          (\<exists>t b hs rm. selected (NewAPITranslationPlugin unmarshal marshal now) fw cs = Some t \<and>
             translate t (model_config fw cs) (Body r) = Inr (b, hs, rm) \<and>
             Body r' = (case b of None \<Rightarrow> Body r | Some out \<Rightarrow> out)))"
proof -
  let ?p = "NewAPITranslationPlugin unmarshal marshal now"
  from assms have at: "api_translation fw ?p" by (rule api_translation_plugin)
  show ?thesis
  proof (cases "api_ProcessRequest ?p fw cs r")
    case (Inl e)
    then have "formats_known fw cs \<and> \<not> isPassthrough fw cs \<and> (selected ?p fw cs = None \<or>
        (\<exists>t e. selected ?p fw cs = Some t \<and> translate t (model_config fw cs) (Body r) = Inl e))"
      by (auto simp: api_ProcessRequest_def formats_known_def selected_def translate_def model_config_def
          Let_def split: if_splits option.splits sum.splits)
    then show ?thesis unfolding Inl sum.case selected_None_iff .
  next
    case (Inr r')
    show ?thesis
    proof (cases "formats_known fw cs \<and> \<not> isPassthrough fw cs")
      case True
      then obtain t b hs rm where "selected ?p fw cs = Some t"
        "translate t (model_config fw cs) (Body r) = Inr (b, hs, rm)"
        "Body r' = (case b of None \<Rightarrow> Body r | Some out \<Rightarrow> out)"
        using api_translation.translated_request [OF at Inr] by metis
      with True Inr selected_None_iff [of unmarshal marshal now fw cs] show ?thesis by auto
    next
      case False
      with Inr assms at show ?thesis
        by (auto simp: format_pair_def api_ProcessRequest_def formats_known_def isPassthrough_def Let_def
            api_translation.applyPathOverride_body ipp_framework.Body_RemoveHeader split: if_splits)
    qed
  qed
qed

theorem api_request_dispatch_witness:
  "\<exists>e. api_ProcessRequest (NewAPITranslationPlugin (\<lambda>_. None) (\<lambda>_. None) 0) ref_framework
       [(InputAPIFormatKey, CFormat OpenAIEmbeddings), (APIFormatKey, CFormat Messages)]
       \<lparr>Headers = [], Body = []\<rparr> = Inl e \<and>
     format_pair ref_framework [(InputAPIFormatKey, CFormat OpenAIEmbeddings), (APIFormatKey, CFormat Messages)]
       \<notin> set supported_pairs"
proof -
  let ?cs = "[(InputAPIFormatKey, CFormat OpenAIEmbeddings), (APIFormatKey, CFormat Messages)]"
  have sel: "selected (NewAPITranslationPlugin (\<lambda>_. None) (\<lambda>_. None) 0) ref_framework ?cs = None"
    by (simp add: selected_None_iff format_pair_def supported_pairs_def cs_reads)
  obtain e where "api_ProcessRequest (NewAPITranslationPlugin (\<lambda>_. None) (\<lambda>_. None) 0) ref_framework ?cs
      \<lparr>Headers = [], Body = []\<rparr> = Inl e"
    using sel by (simp add: api_ProcessRequest_def isPassthrough_def selected_def cs_reads Let_def)
  with sel api_request_dispatch [OF ref_framework_ok, where cs = ?cs and r = "\<lparr>Headers = [], Body = []\<rparr>"
      and unmarshal = "\<lambda>_. None" and marshal = "\<lambda>_. None" and now = 0]
  show ?thesis by auto
qed

end
