(* ===== verification/Api_Types.thy ===== *)
theory Api_Types
  imports Framework
begin

text \<open>
  The custom resources of \<^verbatim>\<open>api/inference/v1alpha1\<close>, one record per struct with the fields of the
  source. \<open>ObjectMeta\<close> and \<open>Condition\<close> are Kubernetes types; they hold the fields the program reads or
  writes, with \<open>meta_Deleted\<close> for a non-zero deletion timestamp. An omitted pointer field is \<open>None\<close>.
\<close>

record NamespacedName =
  nn_Namespace :: string
  nn_Name :: string

text \<open>\<^verbatim>\<open>types.NamespacedName.String\<close>\<close>

definition nn_String :: "NamespacedName \<Rightarrow> string" where
  "nn_String key = nn_Namespace key @ ''/'' @ nn_Name key"

record OwnerReference =
  owner_APIVersion :: string
  owner_Kind :: string
  owner_Name :: string
  owner_UID :: string
  owner_Controller :: bool
  owner_BlockOwnerDeletion :: bool

record ObjectMeta =
  meta_Name :: string
  meta_Namespace :: string
  meta_UID :: string
  meta_ResourceVersion :: string
  meta_Generation :: int
  meta_Labels :: "string gomap"
  meta_Annotations :: "string gomap"
  meta_Finalizers :: "string list"
  meta_Deleted :: bool
  meta_Owners :: "OwnerReference list"

record Condition =
  cond_Type :: string
  cond_Status :: string
  cond_Reason :: string
  cond_Message :: string
  cond_ObservedGeneration :: int

section \<open>Common types\<close>

record NameReference =
  nameref_Name :: string

record AuthConfig =
  auth_Type :: string
  auth_SecretRef :: NameReference

record ExternalProviderReference =
  pref_Name :: string
  pref_Namespace :: string

record NamespacedObjectReference =
  oref_Name :: string
  oref_Namespace :: string

section \<open>\<^verbatim>\<open>ExternalModel\<close>\<close>

record ExternalProviderRef =
  Ref :: ExternalProviderReference
  TargetModel :: string
  APIFormat :: string
  Path :: string
  RefConfig :: "string gomap"
  RefAuth :: "AuthConfig option"
  Weight :: "int option"

record ExternalModelSpec =
  ModelName :: string
  ExternalProviderRefs :: "ExternalProviderRef list"
  GatewayRefs :: "NamespacedObjectReference list"

record ExternalModelGatewayStatus =
  gw_Ref :: NamespacedObjectReference
  gw_HTTPRouteRef :: "NamespacedObjectReference option"
  gw_Conditions :: "Condition list"

record ExternalModelStatus =
  ms_Phase :: string
  ms_HTTPRouteName :: string
  ms_ObservedGeneration :: int
  ms_OverlayDigest :: string
  ms_OverlayGeneration :: nat
  ms_Conditions :: "Condition list"
  ms_Gateways :: "ExternalModelGatewayStatus list"

record ExternalModel =
  em_Meta :: ObjectMeta
  em_Spec :: ExternalModelSpec
  em_Status :: ExternalModelStatus

section \<open>\<^verbatim>\<open>ExternalProvider\<close>\<close>

record ExternalProviderSpec =
  Provider :: string
  Endpoint :: string
  Auth :: AuthConfig
  Config :: "string gomap"

record ExternalProviderStatus =
  ps_Phase :: string
  ps_ObservedGeneration :: int
  ps_Conditions :: "Condition list"

record ExternalProvider =
  ep_Meta :: ObjectMeta
  ep_Spec :: ExternalProviderSpec
  ep_Status :: ExternalProviderStatus

text \<open>\<^verbatim>\<open>client.ObjectKeyFromObject\<close>\<close>

definition object_key :: "ObjectMeta \<Rightarrow> NamespacedName" where
  "object_key m = \<lparr>nn_Namespace = meta_Namespace m, nn_Name = meta_Name m\<rparr>"

text \<open>Kubernetes names contain no slash, so the printed key determines the object.\<close>

lemma nn_String_inj:
  assumes "CHR ''/'' \<notin> set (nn_Namespace a)" "CHR ''/'' \<notin> set (nn_Namespace b)" "nn_String a = nn_String b"
  shows "a = b"
proof -
  have "takeWhile (\<lambda>c. c \<noteq> CHR ''/'') (nn_String x) = nn_Namespace x" if "CHR ''/'' \<notin> set (nn_Namespace x)"
    for x :: NamespacedName
    using that unfolding nn_String_def by (subst takeWhile_append2) auto
  with assms have "nn_Namespace a = nn_Namespace b" by metis
  with assms(3) have "nn_Name a = nn_Name b" by (simp add: nn_String_def)
  with \<open>nn_Namespace a = nn_Namespace b\<close> show ?thesis by simp
qed

end
