(* ===== verification/Keyed_Store.thy ===== *)
theory Keyed_Store
  imports Api_Types
begin

text \<open>
  What the plugins rely on when they read a store that a reconciler fills: an entry that was put is
  found, an entry that was deleted is not, and other entries are left alone. The locale states it for
  any store; the provider half of \<^verbatim>\<open>infoStore\<close> and the \<^verbatim>\<open>secretStore\<close> are its instances.

  It also holds the answers of the Kubernetes client, which is not part of this repository.
\<close>

datatype 'a fetched = Found 'a | NotFound | Failed err

datatype ('k, 'v) store_event = Put 'k 'v | Del 'k

fun run_events :: "('k \<Rightarrow> 'v \<Rightarrow> 's \<Rightarrow> 's) \<Rightarrow> ('k \<Rightarrow> 's \<Rightarrow> 's) \<Rightarrow> ('k, 'v) store_event list \<Rightarrow> 's \<Rightarrow> 's" where
  "run_events put del [] s = s"
| "run_events put del (Put k v # es) s = run_events put del es (put k v s)"
| "run_events put del (Del k # es) s = run_events put del es (del k s)"

text \<open>The outcome of the last event on a key, if there is one.\<close>

fun last_event :: "('k, 'v) store_event list \<Rightarrow> 'k \<Rightarrow> 'v option option" where
  "last_event [] k = None"
| "last_event (Put k' v # es) k =
     (case last_event es k of Some r \<Rightarrow> Some r | None \<Rightarrow> if k = k' then Some (Some v) else None)"
| "last_event (Del k' # es) k =
     (case last_event es k of Some r \<Rightarrow> Some r | None \<Rightarrow> if k = k' then Some None else None)"

fun event_key :: "('k, 'v) store_event \<Rightarrow> 'k" where
  "event_key (Put k v) = k"
| "event_key (Del k) = k"

locale keyed_store =
  fixes lookup :: "'s \<Rightarrow> 'k \<Rightarrow> 'v option"
    and put :: "'k \<Rightarrow> 'v \<Rightarrow> 's \<Rightarrow> 's"
    and del :: "'k \<Rightarrow> 's \<Rightarrow> 's"
    and inv :: "'s \<Rightarrow> bool"
    and ok :: "'k \<Rightarrow> bool"
  assumes lookup_put: "inv s \<Longrightarrow> ok k \<Longrightarrow> ok k' \<Longrightarrow> lookup (put k v s) k' = (if k' = k then Some v else lookup s k')"
    and lookup_del: "inv s \<Longrightarrow> ok k \<Longrightarrow> ok k' \<Longrightarrow> lookup (del k s) k' = (if k' = k then None else lookup s k')"
    and inv_put: "inv s \<Longrightarrow> inv (put k v s)"
    and inv_del: "inv s \<Longrightarrow> inv (del k s)"
begin

text \<open>After any sequence of events the store answers with the last one on the key.\<close>

lemma lookup_run:
  "inv s \<Longrightarrow> list_all (\<lambda>e. ok (event_key e)) es \<Longrightarrow> ok k \<Longrightarrow>
     lookup (run_events put del es s) k = (case last_event es k of Some r \<Rightarrow> r | None \<Rightarrow> lookup s k)"
proof (induction es arbitrary: s)
  case (Cons e es)
  then show ?case
    by (cases e) (auto simp: lookup_put lookup_del inv_put inv_del split: option.split)
qed simp

lemma inv_run: "inv s \<Longrightarrow> inv (run_events put del es s)"
proof (induction es arbitrary: s)
  case (Cons e es)
  then show ?case by (cases e) (auto simp: inv_put inv_del)
qed simp

end

end
