(* ===== verification/Info_Store.thy ===== *)
theory Info_Store
  imports Keyed_Store
begin

text \<open>
  \<^verbatim>\<open>model-provider-resolver/store.go\<close>: the in-memory store of providers and models. Each operation
  holds the lock from start to end, so it is one step on the two maps.
\<close>

record providerInfo =
  pi_provider :: string
  pi_endpoint :: string
  pi_auth :: string
  pi_secretName :: string
  pi_secretNamespace :: string
  pi_config :: "string gomap"

record resolvedProviderRef =
  rr_provider :: string
  rr_providerName :: string
  rr_targetModel :: string
  rr_apiFormat :: string
  rr_auth :: string
  rr_endpoint :: string
  rr_path :: string
  rr_secretName :: string
  rr_secretNamespace :: string
  rr_config :: "string gomap"
  rr_weight :: int

record externalModelInfo =
  mi_owner :: NamespacedName
  mi_modelName :: string
  mi_refs :: "resolvedProviderRef list"

record infoStore =
  providers :: "providerInfo gomap"
  models :: "externalModelInfo gomap"

definition newInfoStore :: infoStore where
  "newInfoStore = \<lparr>providers = [], models = []\<rparr>"

definition addOrUpdateProvider :: "NamespacedName \<Rightarrow> providerInfo \<Rightarrow> infoStore \<Rightarrow> infoStore" where
  "addOrUpdateProvider key info s = s\<lparr>providers := gset (nn_String key) info (providers s)\<rparr>"

definition deleteProvider :: "NamespacedName \<Rightarrow> infoStore \<Rightarrow> infoStore" where
  "deleteProvider key s = s\<lparr>providers := gdel (nn_String key) (providers s)\<rparr>"

definition getProvider :: "infoStore \<Rightarrow> NamespacedName \<Rightarrow> providerInfo option" where
  "getProvider s key = map_of (providers s) (nn_String key)"

definition addOrUpdateModel :: "string \<Rightarrow> externalModelInfo \<Rightarrow> infoStore \<Rightarrow> infoStore" where
  "addOrUpdateModel modelName info s = s\<lparr>models := gset modelName info (models s)\<rparr>"

definition deleteModel :: "NamespacedName \<Rightarrow> infoStore \<Rightarrow> infoStore \<times> string list" where
  "deleteModel owner s =
     (s\<lparr>models := filter (\<lambda>(name, info). mi_owner info \<noteq> owner) (models s)\<rparr>,
      map fst (filter (\<lambda>(name, info). mi_owner info = owner) (models s)))"

definition getModelByName :: "infoStore \<Rightarrow> string \<Rightarrow> externalModelInfo option" where
  "getModelByName s modelName = map_of (models s) modelName"

section \<open>Laws\<close>

definition valid_key :: "NamespacedName \<Rightarrow> bool" where
  "valid_key key \<longleftrightarrow> CHR ''/'' \<notin> set (nn_Namespace key)"

lemma nn_String_eq_iff: "valid_key a \<Longrightarrow> valid_key b \<Longrightarrow> nn_String a = nn_String b \<longleftrightarrow> a = b"
  using nn_String_inj by (auto simp: valid_key_def)

interpretation provider_store: keyed_store getProvider addOrUpdateProvider deleteProvider "\<lambda>_. True" valid_key
  by unfold_locales (auto simp: getProvider_def addOrUpdateProvider_def deleteProvider_def nn_String_eq_iff)

lemma getModelByName_addOrUpdateModel [simp]:
  "getModelByName (addOrUpdateModel name info s) name' = (if name' = name then Some info else getModelByName s name')"
  by (simp add: getModelByName_def addOrUpdateModel_def)

lemma providers_model_ops [simp]:
  "providers (addOrUpdateModel name info s) = providers s"
  "providers (fst (deleteModel owner s)) = providers s"
  by (simp_all add: addOrUpdateModel_def deleteModel_def)

lemma models_provider_ops [simp]:
  "models (addOrUpdateProvider key info s) = models s"
  "models (deleteProvider key s) = models s"
  by (simp_all add: addOrUpdateProvider_def deleteProvider_def)

lemma map_of_filter_snd:
  "wf_map m \<Longrightarrow> map_of (filter (\<lambda>(k, v). P v) m) k =
     (case map_of m k of None \<Rightarrow> None | Some v \<Rightarrow> if P v then Some v else None)"
proof (induction m)
  case (Cons p m)
  obtain k' v where p: "p = (k', v)" by (cases p)
  with Cons.prems have "map_of m k' = None" by (simp add: map_of_eq_None_iff)
  with Cons p show ?case by (auto split: option.splits)
qed simp

lemma getModelByName_deleteModel:
  "wf_map (models s) \<Longrightarrow>
     getModelByName (fst (deleteModel owner s)) name =
       (case getModelByName s name of
          None \<Rightarrow> None | Some info \<Rightarrow> if mi_owner info = owner then None else Some info)"
  by (auto simp: getModelByName_def deleteModel_def map_of_filter_snd split: option.split)

lemma deleteModel_removed:
  "wf_map (models s) \<Longrightarrow>
     name \<in> set (snd (deleteModel owner s)) \<longleftrightarrow>
       (\<exists>info. getModelByName s name = Some info \<and> mi_owner info = owner)"
  by (force simp: deleteModel_def getModelByName_def in_set_map_of [symmetric])

lemma wf_models_ops [simp]:
  "wf_map (models s) \<Longrightarrow> wf_map (models (addOrUpdateModel name info s))"
  "wf_map (models s) \<Longrightarrow> wf_map (models (fst (deleteModel owner s)))"
  by (simp add: addOrUpdateModel_def) (simp add: deleteModel_def wf_map_def distinct_map_filter)

section \<open>Property\<close>

text \<open>The provider half of the store is a faithful log of the last event. After any sequence of
  provider updates and deletions on keys whose namespace has no slash, a lookup answers with the last
  event on that key, and keys without an event answer as before; distinct providers never collide,
  although the store keys them by one printed string.\<close>

theorem provider_store_last_event:
  assumes "list_all (\<lambda>e. valid_key (event_key e)) es" "valid_key key"
  shows "getProvider (run_events addOrUpdateProvider deleteProvider es s) key =
    (case last_event es key of Some r \<Rightarrow> r | None \<Rightarrow> getProvider s key)"
  using assms by (intro provider_store.lookup_run) simp_all

definition sample_info_p :: "string \<Rightarrow> providerInfo" where
  "sample_info_p endpoint =
     \<lparr>pi_provider = ''openai'', pi_endpoint = endpoint, pi_auth = APIKey, pi_secretName = ''key'',
      pi_secretNamespace = ''a'', pi_config = []\<rparr>"

theorem provider_store_last_event_witness:
  "getProvider (run_events addOrUpdateProvider deleteProvider
       [Put \<lparr>nn_Namespace = ''a'', nn_Name = ''p''\<rparr> (sample_info_p ''x''),
        Put \<lparr>nn_Namespace = ''b'', nn_Name = ''p''\<rparr> (sample_info_p ''y''),
        Del \<lparr>nn_Namespace = ''a'', nn_Name = ''p''\<rparr>] newInfoStore)
     \<lparr>nn_Namespace = ''b'', nn_Name = ''p''\<rparr> = Some (sample_info_p ''y'')"
  by (subst provider_store_last_event) (simp_all add: valid_key_def)

end
