(* ===== verification/Controller_Common.thy ===== *)
theory Controller_Common
  imports Api_Types
begin

text \<open>
  \<^verbatim>\<open>pkg/controller/common\<close>: path templates (\<^verbatim>\<open>path.go\<close>), connection settings from annotations
  (\<^verbatim>\<open>annotations.go\<close>) and the tests for models the AI gateway controller serves (\<^verbatim>\<open>agc_managed.go\<close>).
\<close>

section \<open>Path templates\<close>

abbreviation ModelPlaceholder where "ModelPlaceholder \<equiv> ''model''"

definition hole :: "string \<Rightarrow> string" where
  "hole k = ''{'' @ k @ ''}''"

text \<open>The loop over the configuration; the list order is the order of the iteration.\<close>

fun substitute :: "string gomap \<Rightarrow> string \<Rightarrow> string" where
  "substitute [] path = path"
| "substitute ((k, v) # config) path = substitute config (replaceAll (hole k) v path)"

definition ResolvePath :: "string \<Rightarrow> string gomap \<Rightarrow> string \<Rightarrow> string result" where
  "ResolvePath path config targetModel =
     (if path = [] \<or> \<not> contains path ''{'' then Inr path
      else
        (let path = substitute config path;
             path = replaceAll (hole ModelPlaceholder) targetModel path;
             keys = placeholders path
         in if keys \<noteq> [] then
              Inl (Errorf (''path has unresolved placeholders %v '' @ [CHR 0xE2, CHR 0x80, CHR 0x94]
                      @ '' add these keys to the provider or model config'')
                     (map ArgS keys))
            else Inr path))"

section \<open>Connection settings\<close>

abbreviation AnnotationPort where "AnnotationPort \<equiv> ''inference.opendatahub.io/port''"
abbreviation AnnotationTLS where "AnnotationTLS \<equiv> ''inference.opendatahub.io/tls''"
abbreviation LegacyAnnotationPort where "LegacyAnnotationPort \<equiv> ''maas.opendatahub.io/port''"
abbreviation LegacyAnnotationTLS where "LegacyAnnotationTLS \<equiv> ''maas.opendatahub.io/tls''"
abbreviation ConditionTypeReady where "ConditionTypeReady \<equiv> ''Ready''"
abbreviation LabelManagedBy where "LabelManagedBy \<equiv> ''app.kubernetes.io/managed-by''"
abbreviation DefaultGatewayName where "DefaultGatewayName \<equiv> ''maas-default-gateway''"
abbreviation DefaultGatewayNamespace where "DefaultGatewayNamespace \<equiv> ''openshift-ingress''"
abbreviation DefaultRouteTimeout where "DefaultRouteTimeout \<equiv> ''300s''"

definition DefaultTLSPort :: int where "DefaultTLSPort = 443"
definition DefaultTLSEnabled :: bool where "DefaultTLSEnabled = True"

record ConnectionSettings =
  Port :: int
  TLSEnabled :: bool

definition ValidateConnectionSecurity :: "ConnectionSettings \<Rightarrow> string \<Rightarrow> err option" where
  "ValidateConnectionSecurity settings authType =
     (if \<not> TLSEnabled settings \<and> authType \<noteq> [] then
        Some (Errorf ''plaintext transport (TLS disabled) is not allowed with auth type %q: credentials would be transmitted in cleartext''
                [ArgS authType])
      else None)"

definition GetConnectionSettings :: "string gomap \<Rightarrow> ConnectionSettings result" where
  "GetConnectionSettings annotations =
     (let settings = \<lparr>Port = DefaultTLSPort, TLSEnabled = DefaultTLSEnabled\<rparr>;
          portStr = gstr annotations AnnotationPort;
          settings' =
            (if portStr = [] then Inr settings
             else case parse_int 32 portStr of
                    None \<Rightarrow> Inl (Errorf ''invalid %s annotation %q: must be an integer between 1 and 65535''
                                  [ArgS AnnotationPort, ArgS portStr])
                  | Some port \<Rightarrow>
                      if port < 1 \<or> port > 65535 then
                        Inl (Errorf ''invalid %s annotation %q: must be an integer between 1 and 65535''
                               [ArgS AnnotationPort, ArgS portStr])
                      else Inr (settings\<lparr>Port := port\<rparr>));
          tlsStr = gstr annotations AnnotationTLS
      in case settings' of
           Inl e \<Rightarrow> Inl e
         | Inr settings \<Rightarrow>
             if tlsStr = [] then Inr settings
             else if tlsStr = ''true'' then Inr (settings\<lparr>TLSEnabled := True\<rparr>)
             else if tlsStr = ''false'' then Inr (settings\<lparr>TLSEnabled := False\<rparr>)
             else Inl (Errorf (''invalid %s annotation %q: must be '' @ [CHR 0x22] @ ''true'' @ [CHR 0x22] @ '' or ''
                               @ [CHR 0x22] @ ''false'' @ [CHR 0x22]) [ArgS AnnotationTLS, ArgS tlsStr]))"

section \<open>Models of the AI gateway controller\<close>

abbreviation AGCModelFinalizer where "AGCModelFinalizer \<equiv> ''inference.opendatahub.io/external-model-cleanup''"

text \<open>\<^verbatim>\<open>ref.Ref.Namespace != "" && ref.Ref.Namespace != model.Namespace\<close>\<close>

definition foreign_ref :: "ExternalModel \<Rightarrow> ExternalProviderRef \<Rightarrow> bool" where
  "foreign_ref model ref \<longleftrightarrow>
     pref_Namespace (Ref ref) \<noteq> [] \<and> pref_Namespace (Ref ref) \<noteq> meta_Namespace (em_Meta model)"

definition IsAGCManaged :: "ExternalModel \<Rightarrow> bool" where
  "IsAGCManaged model =
     (if length (GatewayRefs (em_Spec model)) > 0 then True
      else
        (let (localRef, foreignRef) =
           fold (\<lambda>ref (l, f). if foreign_ref model ref then (l, True) else (True, f))
             (ExternalProviderRefs (em_Spec model)) (False, False)
         in foreignRef \<and> \<not> localRef))"

definition IsAGCAttached :: "ExternalModel \<Rightarrow> bool" where
  "IsAGCAttached model \<longleftrightarrow> length (GatewayRefs (em_Spec model)) > 0"

definition IsAGCServed :: "ExternalModel \<Rightarrow> bool" where
  "IsAGCServed model \<longleftrightarrow> AGCModelFinalizer \<in> set (meta_Finalizers (em_Meta model))"


section \<open>Templates without nested braces\<close>

text \<open>
  A template as the author of an \<^verbatim>\<open>ExternalModel\<close> means it: text and named holes. \<open>fill\<close> is what
  resolving it should give.
\<close>

datatype piece = Text string | Hole string

definition brace_free :: "string \<Rightarrow> bool" where
  "brace_free s \<longleftrightarrow> CHR ''{'' \<notin> set s \<and> CHR ''}'' \<notin> set s"

fun piece_ok :: "piece \<Rightarrow> bool" where
  "piece_ok (Text s) = brace_free s"
| "piece_ok (Hole k) = (brace_free k \<and> k \<noteq> [])"

fun print_piece :: "piece \<Rightarrow> string" where
  "print_piece (Text s) = s"
| "print_piece (Hole k) = hole k"

definition print_template :: "piece list \<Rightarrow> string" where
  "print_template ps = concat (map print_piece ps)"

fun fill :: "(string \<Rightarrow> string option) \<Rightarrow> piece \<Rightarrow> piece" where
  "fill env (Text s) = Text s"
| "fill env (Hole k) = (case env k of None \<Rightarrow> Hole k | Some v \<Rightarrow> Text v)"

fun hole_name :: "piece \<Rightarrow> string option" where
  "hole_name (Text s) = None"
| "hole_name (Hole k) = Some k"

lemma hole_not_Nil [simp]: "hole k \<noteq> []"
  by (simp add: hole_def)

lemma indexOf_skip:
  "CHR ''{'' \<notin> set t \<Longrightarrow> indexOf (hole k) (t @ s) = map_option (\<lambda>i. length t + i) (indexOf (hole k) s)"
proof (induction t)
  case (Cons c t)
  then have "\<not> hasPrefix (c # t @ s) (hole k)" by (auto simp: hasPrefix_iff hole_def)
  with Cons show ?case by (cases "indexOf (hole k) s") auto
qed (simp add: option.map_id0 [unfolded id_def] plus_nat.add_0 [abs_def])

lemma replaceAll_skip:
  "CHR ''{'' \<notin> set t \<Longrightarrow> replaceAll (hole k) v (t @ s) = t @ replaceAll (hole k) v s"
  by (simp add: replaceAll.simps [of "hole k" v "t @ s"] replaceAll.simps [of "hole k" v s] indexOf_skip
      split: option.split)

lemma replaceAll_Nil [simp]: "replaceAll (hole k) v [] = []"
  by (simp add: replaceAll.simps [of "hole k" v "[]"])

lemma replaceAll_hit: "replaceAll (hole k) v (hole k @ s) = v @ replaceAll (hole k) v s"
proof -
  have "indexOf (hole k) (hole k @ s) = Some 0"
    using hasPrefix_append [of "hole k" s] by (simp add: hole_def)
  then show ?thesis
    by (simp add: replaceAll.simps [of "hole k" v "hole k @ s"])
qed

lemma hole_prefix:
  assumes "brace_free k" "brace_free k'" "hasPrefix (hole k' @ s) (hole k)"
  shows "k = k'"
proof -
  from assms(3) obtain t where "k' @ CHR ''}'' # s = k @ CHR ''}'' # t"
    by (auto simp: hasPrefix_iff hole_def)
  then have "takeWhile (\<lambda>c. c \<noteq> CHR ''}'') (k' @ CHR ''}'' # s) = takeWhile (\<lambda>c. c \<noteq> CHR ''}'') (k @ CHR ''}'' # t)"
    by simp
  moreover have "takeWhile (\<lambda>c. c \<noteq> CHR ''}'') (x @ CHR ''}'' # y) = x" if "brace_free x" for x y
    using that by (subst takeWhile_append2) (auto simp: brace_free_def)
  ultimately show ?thesis using assms by simp
qed

lemma replaceAll_miss:
  assumes "brace_free k" "brace_free k'" "k \<noteq> k'"
  shows "replaceAll (hole k) v (hole k' @ s) = hole k' @ replaceAll (hole k) v s"
proof -
  have "indexOf (hole k) (hole k' @ s) = map_option Suc (indexOf (hole k) ((k' @ ''}'') @ s))"
    using hole_prefix [OF assms(1,2)] assms(3) by (auto simp: hole_def)
  then have "replaceAll (hole k) v (hole k' @ s) = CHR ''{'' # replaceAll (hole k) v ((k' @ ''}'') @ s)"
    unfolding replaceAll.simps [of "hole k" v "hole k' @ s"]
      replaceAll.simps [of "hole k" v "(k' @ ''}'') @ s"]
    by (auto simp: hole_def [of k'] split: option.split)
  also have "replaceAll (hole k) v ((k' @ ''}'') @ s) = (k' @ ''}'') @ replaceAll (hole k) v s"
    using assms(2) by (intro replaceAll_skip) (auto simp: brace_free_def)
  finally show ?thesis by (simp add: hole_def)
qed

lemma replaceAll_template:
  "brace_free k \<Longrightarrow> list_all piece_ok ps \<Longrightarrow>
     replaceAll (hole k) v (print_template ps) = print_template (map (fill [k \<mapsto> v]) ps)"
proof (induction ps)
  case (Cons p ps)
  then show ?case
    by (cases p)
      (auto simp: print_template_def replaceAll_skip replaceAll_hit replaceAll_miss brace_free_def)
qed (simp add: print_template_def)

lemma fill_ok: "(\<And>k v. env k = Some v \<Longrightarrow> brace_free v) \<Longrightarrow> piece_ok p \<Longrightarrow> piece_ok (fill env p)"
  by (cases p) (auto split: option.split)

lemma fill_fill: "fill env (fill env' p) = fill (env ++ env') p"
  by (cases p) (auto simp: map_add_def split: option.split)

lemma substitute_template:
  "list_all (\<lambda>(k, v). brace_free k \<and> brace_free v) config \<Longrightarrow> list_all piece_ok ps \<Longrightarrow>
     substitute config (print_template ps) = print_template (map (fill (map_of config)) ps)"
proof (induction config arbitrary: ps)
  case Nil
  have "fill (map_of []) p = p" for p by (cases p) auto
  then show ?case by simp
next
  case (Cons kv config)
  obtain k v where kv: "kv = (k, v)" by (cases kv)
  with Cons.prems have ok: "list_all piece_ok (map (fill [k \<mapsto> v]) ps)"
    by (auto simp: list_all_iff intro!: fill_ok split: if_splits)
  have "fill (map_of config) (fill [k \<mapsto> v] p) = fill (map_of (kv # config)) p" for p
    by (simp add: fill_fill kv)
  with Cons kv ok show ?case by (simp add: replaceAll_template comp_def fun_upd_def)
qed

lemma placeholders_skip: "CHR ''{'' \<notin> set t \<Longrightarrow> placeholders (t @ s) = placeholders s"
  by (induction t) (auto simp: Let_def)

lemma placeholders_hole:
  assumes "brace_free k" "k \<noteq> []"
  shows "placeholders (hole k @ s) = k # placeholders s"
proof -
  have "takeWhile (\<lambda>c. c \<noteq> CHR ''}'') (k @ CHR ''}'' # s) = k"
    using assms by (subst takeWhile_append2) (auto simp: brace_free_def)
  with assms show ?thesis by (simp add: hole_def Let_def)
qed

lemma placeholders_template:
  "list_all piece_ok ps \<Longrightarrow> placeholders (print_template ps) = List.map_filter hole_name ps"
proof (induction ps)
  case (Cons p ps)
  then show ?case
    by (cases p) (auto simp: print_template_def map_filter_simps placeholders_skip placeholders_hole brace_free_def)
qed (simp add: print_template_def map_filter_simps)

lemma template_no_brace:
  "list_all piece_ok ps \<Longrightarrow> \<not> contains (print_template ps) ''{'' \<Longrightarrow> fill env p = p \<or> p \<notin> set ps"
  by (cases p) (auto simp: contains_single print_template_def hole_def)

lemma map_add_singleton: "[k \<mapsto> v] ++ m = (\<lambda>x. case m x of None \<Rightarrow> if x = k then Some v else None | Some y \<Rightarrow> Some y)"
  by (auto simp: fun_eq_iff map_add_def split: option.split)

text \<open>The meaning of a template: the configuration first, the target model for \<^verbatim>\<open>{model}\<close>.\<close>

definition resolved :: "string gomap \<Rightarrow> string \<Rightarrow> piece list \<Rightarrow> piece list" where
  "resolved config targetModel ps = map (fill ([ModelPlaceholder \<mapsto> targetModel] ++ map_of config)) ps"

section \<open>Properties\<close>

text \<open>\<^verbatim>\<open>ResolvePath\<close> computes the template. For a path of text and named holes, with brace-free
  configuration keys, values and target model, it returns the text with every hole filled (the
  configuration before the built-in \<^verbatim>\<open>{model}\<close>), whatever the order the configuration map is visited
  in, and it fails exactly when some hole has no value.\<close>

theorem ResolvePath_template:
  assumes "list_all piece_ok ps" and "list_all (\<lambda>(k, v). brace_free k \<and> brace_free v) config"
    and "brace_free targetModel"
  shows "case ResolvePath (print_template ps) config targetModel of
     Inr path \<Rightarrow> List.map_filter hole_name (resolved config targetModel ps) = [] \<and>
       path = print_template (resolved config targetModel ps)
   | Inl e \<Rightarrow> List.map_filter hole_name (resolved config targetModel ps) \<noteq> []"
proof -
  let ?qs = "map (fill (map_of config)) ps"
  have vals: "brace_free v" if "map_of config k = Some v" for k v
    using assms(2) map_of_SomeD [OF that] by (auto simp: list_all_iff)
  have ok: "list_all piece_ok ?qs"
    using assms(1) by (auto simp: list_all_iff intro!: fill_ok vals)
  have ok': "list_all piece_ok (resolved config targetModel ps)"
    using assms(1,3) unfolding resolved_def
    by (auto simp: list_all_iff map_add_singleton intro!: fill_ok dest: vals split: option.splits if_splits)
  have full: "replaceAll (hole ModelPlaceholder) targetModel (substitute config (print_template ps)) =
      print_template (resolved config targetModel ps)"
    using assms(1,2) ok
    by (simp add: substitute_template replaceAll_template brace_free_def resolved_def comp_def fill_fill)
  show ?thesis
  proof (cases "contains (print_template ps) ''{''")
    case True
    then have "print_template ps \<noteq> []" by (auto simp: contains_def)
    with True full placeholders_template [OF ok'] show ?thesis by (simp add: ResolvePath_def Let_def)
  next
    case False
    have "fill env p = p" if "p \<in> set ps" for env p
      using template_no_brace [OF assms(1) False] that by blast
    then have "resolved config targetModel ps = ps"
      unfolding resolved_def by (rule map_idI)
    moreover have "List.map_filter hole_name ps = []"
      using placeholders_template [OF assms(1)] False
      by (simp add: placeholders_no_brace contains_single)
    ultimately show ?thesis using False by (simp add: ResolvePath_def)
  qed
qed


text \<open>A template with a configured hole and the built-in one, as for a Vertex AI endpoint.\<close>

definition sample_template :: "piece list" where
  "sample_template = [Text ''/v1/projects/'', Hole ''project'', Text ''/models/'', Hole ''model'']"

theorem ResolvePath_template_witness:
  "ResolvePath ''/v1/projects/{project}/models/{model}'' [(''region'', ''eu''), (''project'', ''p1'')] ''m1'' =
     Inr ''/v1/projects/p1/models/m1''"
proof -
  have pr: "print_template sample_template = ''/v1/projects/{project}/models/{model}''"
    by (simp add: sample_template_def print_template_def hole_def)
  have re: "resolved [(''region'', ''eu''), (''project'', ''p1'')] ''m1'' sample_template =
      [Text ''/v1/projects/'', Text ''p1'', Text ''/models/'', Text ''m1'']"
    by (simp add: resolved_def sample_template_def map_add_def)
  have "list_all piece_ok sample_template"
    and "list_all (\<lambda>(k, v). brace_free k \<and> brace_free v) [(''region'', ''eu''), (''project'', ''p1'')]"
    and "brace_free ''m1''"
    by (simp_all add: sample_template_def brace_free_def)
  from ResolvePath_template [OF this] show ?thesis
    unfolding pr re by (auto simp: map_filter_simps print_template_def split: sum.splits)
qed

text \<open>A path that \<^verbatim>\<open>ResolvePath\<close> returns never shows a placeholder to the provider, for any path and
  configuration, values with braces included.\<close>

theorem ResolvePath_no_placeholder:
  "case ResolvePath path config targetModel of Inr out \<Rightarrow> placeholders out = [] | Inl _ \<Rightarrow> True"
  by (auto simp: ResolvePath_def Let_def placeholders_no_brace contains_single)

text \<open>With brace-carrying values the result depends on the order in which the configuration map is
  visited, which Go leaves open: two visits of the same two-entry configuration give two different
  paths.\<close>

theorem ResolvePath_order_dependent:
  "ResolvePath ''/{a}'' [(''a'', ''{b}''), (''b'', ''x'')] ''m'' = Inr ''/x'' \<and>
   isl (ResolvePath ''/{a}'' [(''b'', ''x''), (''a'', ''{b}'')] ''m'')"
  by code_simp

text \<open>Connection settings are well formed: when the annotations parse, the port lies between 1 and
  65535 and is the annotated one (443 without annotation), and TLS is on unless the annotation says
  false; every other port or TLS text is an error.\<close>

theorem GetConnectionSettings_spec:
  "case GetConnectionSettings ann of
     Inr s \<Rightarrow> 1 \<le> Port s \<and> Port s \<le> 65535 \<and>
       (if gstr ann AnnotationPort = [] then Port s = 443
        else parse_int 32 (gstr ann AnnotationPort) = Some (Port s)) \<and>
       gstr ann AnnotationTLS \<in> {[], ''true'', ''false''} \<and>
       TLSEnabled s = (gstr ann AnnotationTLS \<noteq> ''false'')
   | Inl _ \<Rightarrow>
       \<not> (gstr ann AnnotationTLS \<in> {[], ''true'', ''false''} \<and>
          (gstr ann AnnotationPort = [] \<or>
           (case parse_int 32 (gstr ann AnnotationPort) of None \<Rightarrow> False | Some p \<Rightarrow> 1 \<le> p \<and> p \<le> 65535)))"
  by (auto simp: GetConnectionSettings_def Let_def DefaultTLSPort_def DefaultTLSEnabled_def
      split: option.splits sum.splits if_splits)

lemma IsAGCManaged_fold:
  "fold (\<lambda>ref (l, f). if foreign_ref model ref then (l, True) else (True, f)) refs (l, f) =
     (l \<or> list_ex (\<lambda>r. \<not> foreign_ref model r) refs, f \<or> list_ex (foreign_ref model) refs)"
  by (induction refs arbitrary: l f) auto

lemma IsAGCManaged_iff:
  "IsAGCManaged model \<longleftrightarrow>
     IsAGCAttached model \<or>
     ExternalProviderRefs (em_Spec model) \<noteq> [] \<and>
     list_all (foreign_ref model) (ExternalProviderRefs (em_Spec model))"
  by (cases "ExternalProviderRefs (em_Spec model)")
    (auto simp: IsAGCManaged_def IsAGCAttached_def IsAGCManaged_fold list_all_iff list_ex_iff)

end
