(* ===== verification/Resolver_Reconcilers.thy ===== *)
theory Resolver_Reconcilers
  imports Info_Store Controller_Common
begin

text \<open>
  \<^verbatim>\<open>external_provider_reconciler.go\<close> and \<^verbatim>\<open>external_model_reconciler.go\<close>: how the custom resources get
  into the store. A reconciler is a function from what the Kubernetes client answers and the store
  to the new store and the result of the reconcile call: an error, or the delay in seconds after
  which the object is queued again (0 for none).
\<close>

type_synonym reconcile_result = "infoStore \<times> int result"

section \<open>Providers\<close>

definition defaultAuthHeaders :: "string gomap" where
  "defaultAuthHeaders =
     [(provider_Anthropic, ''x-api-key''), (provider_Azure, ''api-key''), (provider_AzureOpenAI, ''api-key'')]"

definition mapCRDAuthType :: "string \<Rightarrow> string" where
  "mapCRDAuthType crdType = (if crdType = ''simple'' then APIKey else crdType)"

definition buildConfigWithDefaults :: "string \<Rightarrow> string gomap \<Rightarrow> string gomap" where
  "buildConfigWithDefaults providerName userConfig =
     (let config = gset_opt APIKeyAuthHeaderName (map_of defaultAuthHeaders providerName) []
      in gcopy config userConfig)"

definition provider_Reconcile ::
  "(NamespacedName \<Rightarrow> ExternalProvider fetched) \<Rightarrow> NamespacedName \<Rightarrow> infoStore \<Rightarrow> reconcile_result" where
  "provider_Reconcile get req s =
     (case get req of
        Failed e \<Rightarrow> (s, Inl (WrapErr ''unable to get ExternalProvider: %w'' [] e))
      | NotFound \<Rightarrow> (deleteProvider req s, Inr 0)
      | Found provider \<Rightarrow>
          if meta_Deleted (ep_Meta provider) then (deleteProvider req s, Inr 0)
          else
            (let spec = ep_Spec provider;
                 config = buildConfigWithDefaults (Provider spec) (Config spec);
                 authType = mapCRDAuthType (auth_Type (Auth spec))
             in (addOrUpdateProvider req
                   \<lparr> pi_provider = Provider spec, pi_endpoint = Endpoint spec, pi_auth = authType,
                     pi_secretName = nameref_Name (auth_SecretRef (Auth spec)),
                     pi_secretNamespace = nn_Namespace req, pi_config = config \<rparr> s,
                 Inr 0)))"

section \<open>Models\<close>

definition providerRequeueDelay :: int where "providerRequeueDelay = 5"

definition excludedFromStore :: "ExternalModel \<Rightarrow> bool" where
  "excludedFromStore model \<longleftrightarrow> IsAGCManaged model \<or> IsAGCServed model"

definition clientModelName :: "ExternalModel \<Rightarrow> string" where
  "clientModelName model =
     (if ModelName (em_Spec model) \<noteq> [] then ModelName (em_Spec model) else meta_Name (em_Meta model))"

definition mergeConfig :: "string gomap \<Rightarrow> string gomap \<Rightarrow> string gomap" where
  "mergeConfig providerConfig modelConfig = gcopy (gcopy [] providerConfig) modelConfig"

definition resolveRef :: "infoStore \<Rightarrow> string \<Rightarrow> ExternalProviderRef \<Rightarrow> resolvedProviderRef result" where
  "resolveRef s namespace ref =
     (if pref_Namespace (Ref ref) \<noteq> [] \<and> pref_Namespace (Ref ref) \<noteq> namespace then
        Inl (Errorf ''cross-namespace ExternalProvider reference %q is not supported''
               [ArgS (pref_Namespace (Ref ref) @ ''/'' @ pref_Name (Ref ref))])
      else
        (case getProvider s \<lparr>nn_Namespace = namespace, nn_Name = pref_Name (Ref ref)\<rparr> of
           None \<Rightarrow> Inl (Errorf ''ExternalProvider %q not yet available in store'' [ArgS (pref_Name (Ref ref))])
         | Some info \<Rightarrow>
             (let config = mergeConfig (pi_config info) (RefConfig ref);
                  secretName = (case RefAuth ref of None \<Rightarrow> pi_secretName info
                                | Some a \<Rightarrow> nameref_Name (auth_SecretRef a));
                  secretNamespace = (case RefAuth ref of None \<Rightarrow> pi_secretNamespace info | Some _ \<Rightarrow> namespace);
                  authType = (case RefAuth ref of None \<Rightarrow> pi_auth info | Some a \<Rightarrow> auth_Type a);
                  weight = (case Weight ref of None \<Rightarrow> 1 | Some w \<Rightarrow> w)
              in case ResolvePath (Path ref) config (TargetModel ref) of
                   Inl e \<Rightarrow> Inl (WrapErr ''path %q: %w'' [ArgS (Path ref)] e)
                 | Inr path \<Rightarrow>
                     Inr \<lparr> rr_provider = pi_provider info, rr_providerName = pref_Name (Ref ref),
                           rr_targetModel = TargetModel ref, rr_apiFormat = APIFormat ref,
                           rr_auth = authType, rr_endpoint = pi_endpoint info, rr_path = path,
                           rr_secretName = secretName, rr_secretNamespace = secretNamespace,
                           rr_config = config, rr_weight = weight \<rparr>)))"

text \<open>The references of a model that resolve, in their order; the others are skipped.\<close>

definition resolve_refs :: "infoStore \<Rightarrow> ExternalModel \<Rightarrow> resolvedProviderRef list" where
  "resolve_refs s model =
     List.map_filter (\<lambda>ref. case resolveRef s (meta_Namespace (em_Meta model)) ref of
                              Inl _ \<Rightarrow> None | Inr r \<Rightarrow> Some r)
       (ExternalProviderRefs (em_Spec model))"

definition cacheModel :: "ExternalModel \<Rightarrow> infoStore \<Rightarrow> infoStore \<times> int" where
  "cacheModel model s =
     (let modelName = clientModelName model; resolved = resolve_refs s model
      in if resolved = [] then (s, providerRequeueDelay)
         else (addOrUpdateModel modelName
                 \<lparr>mi_owner = object_key (em_Meta model), mi_modelName = modelName, mi_refs = resolved\<rparr> s, 0))"

fun restore_loop :: "string list \<Rightarrow> ExternalModel list \<Rightarrow> infoStore \<Rightarrow> infoStore" where
  "restore_loop names [] s = s"
| "restore_loop names (model # items) s =
     (if clientModelName model \<notin> set names \<or> meta_Deleted (em_Meta model) \<or> excludedFromStore model
      then restore_loop names items s
      else restore_loop names items (fst (cacheModel model s)))"

definition restoreModelNames ::
  "ExternalModel list result \<Rightarrow> string list \<Rightarrow> infoStore \<Rightarrow> reconcile_result" where
  "restoreModelNames listed names s =
     (if names = [] then (s, Inr 0)
      else case listed of
             Inl e \<Rightarrow> (s, Inl (WrapErr ''unable to list ExternalModels to restore %v: %w'' (map ArgS names) e))
           | Inr items \<Rightarrow> (restore_loop names items s, Inr 0))"

definition model_Reconcile ::
  "(NamespacedName \<Rightarrow> ExternalModel fetched) \<Rightarrow> ExternalModel list result \<Rightarrow> NamespacedName \<Rightarrow> infoStore \<Rightarrow>
     reconcile_result" where
  "model_Reconcile get listed req s =
     (case get req of
        Failed e \<Rightarrow> (s, Inl (WrapErr ''unable to get ExternalModel: %w'' [] e))
      | NotFound \<Rightarrow> (fst (deleteModel req s), Inr 0)
      | Found model \<Rightarrow>
          if meta_Deleted (em_Meta model) then (fst (deleteModel req s), Inr 0)
          else if excludedFromStore model then
            (case deleteModel req s of (s', removed) \<Rightarrow> restoreModelNames listed removed s')
          else (case cacheModel model s of (s', delay) \<Rightarrow> (s', Inr delay)))"

text \<open>The watch of \<^verbatim>\<open>NewModelProviderResolver\<close> that queues the models of a changed provider.\<close>

definition mapProviderToModels ::
  "(string \<Rightarrow> ExternalModel list result) \<Rightarrow> ExternalProvider \<Rightarrow> NamespacedName list" where
  "mapProviderToModels listIn provider =
     (case listIn (meta_Namespace (ep_Meta provider)) of
        Inl _ \<Rightarrow> []
      | Inr items \<Rightarrow>
          concat (map (\<lambda>model.
            map (\<lambda>ref. object_key (em_Meta model))
              (filter (\<lambda>ref. pref_Name (Ref ref) = meta_Name (ep_Meta provider))
                 (ExternalProviderRefs (em_Spec model)))) items))"

section \<open>Reachable stores\<close>

text \<open>
  Every history of reconciles, in any order and with any answers of the cluster: the state machine
  whose states are the stores. The only assumption is that a namespace contains no slash, which
  Kubernetes guarantees.
\<close>

inductive resolver_step :: "infoStore \<Rightarrow> infoStore \<Rightarrow> bool" where
  provider_event: "valid_key req \<Longrightarrow> resolver_step s (fst (provider_Reconcile get req s))"
| model_event: "resolver_step s (fst (model_Reconcile get' listed req s))"

inductive reachable_store :: "infoStore \<Rightarrow> bool" where
  start: "reachable_store newInfoStore"
| step: "reachable_store s \<Longrightarrow> resolver_step s s' \<Longrightarrow> reachable_store s'"

inductive_cases resolver_stepE: "resolver_step s s'"

definition info_ok :: "string \<Rightarrow> externalModelInfo \<Rightarrow> bool" where
  "info_ok name info \<longleftrightarrow>
     mi_modelName info = name \<and> mi_refs info \<noteq> [] \<and>
     list_all (\<lambda>r. placeholders (rr_path r) = []) (mi_refs info) \<and>
     (valid_key (mi_owner info) \<longrightarrow>
        list_all (\<lambda>r. rr_secretNamespace r = nn_Namespace (mi_owner info)) (mi_refs info))"

definition provider_ok :: "string \<Rightarrow> providerInfo \<Rightarrow> bool" where
  "provider_ok key info \<longleftrightarrow>
     (\<exists>nn. key = nn_String nn \<and> valid_key nn \<and> pi_secretNamespace info = nn_Namespace nn)"

definition store_ok :: "infoStore \<Rightarrow> bool" where
  "store_ok s \<longleftrightarrow> wf_map (models s) \<and> wf_map (providers s) \<and>
     list_all (\<lambda>(name, info). info_ok name info) (models s) \<and>
     list_all (\<lambda>(key, info). provider_ok key info) (providers s)"

lemma resolveRef_path: "resolveRef s ns ref = Inr r \<Longrightarrow> placeholders (rr_path r) = []"
  by (auto simp: resolveRef_def Let_def ResolvePath_def placeholders_no_brace contains_single
      split: if_splits option.splits sum.splits)

lemma in_resolve_refs:
  "r \<in> set (resolve_refs s model) \<longleftrightarrow>
     (\<exists>ref \<in> set (ExternalProviderRefs (em_Spec model)).
        resolveRef s (meta_Namespace (em_Meta model)) ref = Inr r)"
proof -
  have "(case x of Inl _ \<Rightarrow> None | Inr r \<Rightarrow> Some r) = Some y \<longleftrightarrow> x = Inr y"
    for x :: "resolvedProviderRef result" and y by (cases x) auto
  then show ?thesis by (simp add: resolve_refs_def in_set_map_filter)
qed

lemma resolve_refs_paths: "list_all (\<lambda>r. placeholders (rr_path r) = []) (resolve_refs s model)"
  by (auto simp: list_all_iff in_resolve_refs dest: resolveRef_path)

lemma store_ok_provider:
  assumes "store_ok s" "getProvider s key = Some info" "valid_key key"
  shows "pi_secretNamespace info = nn_Namespace key"
proof -
  from assms(1,2) have "provider_ok (nn_String key) info"
    by (auto simp: store_ok_def list_all_iff getProvider_def dest!: map_of_SomeD)
  with assms(3) show ?thesis
    by (auto simp: provider_ok_def nn_String_eq_iff)
qed

lemma resolveRef_secret:
  assumes "store_ok s" "resolveRef s ns ref = Inr r" "CHR ''/'' \<notin> set ns"
  shows "rr_secretNamespace r = ns"
  using assms store_ok_provider [OF assms(1), of "\<lparr>nn_Namespace = ns, nn_Name = pref_Name (Ref ref)\<rparr>"]
  by (auto simp: resolveRef_def Let_def valid_key_def split: if_splits option.splits sum.splits)

lemma resolve_refs_secrets:
  assumes "store_ok s" "CHR ''/'' \<notin> set (meta_Namespace (em_Meta model))"
  shows "list_all (\<lambda>r. rr_secretNamespace r = meta_Namespace (em_Meta model)) (resolve_refs s model)"
  using resolveRef_secret [OF assms(1)] assms(2)
  by (auto simp: list_all_iff in_resolve_refs)

lemma cacheModel_ok:
  assumes "store_ok s"
  shows "store_ok (fst (cacheModel model s))"
  using assms resolve_refs_paths [of s model] resolve_refs_secrets [OF assms, of model]
  by (auto simp: cacheModel_def Let_def store_ok_def list_all_iff info_ok_def addOrUpdateModel_def
      valid_key_def object_key_def dest!: gset_in_set)

lemma deleteModel_ok: "store_ok s \<Longrightarrow> store_ok (fst (deleteModel owner s))"
  by (auto simp: store_ok_def deleteModel_def list_all_iff wf_map_def distinct_map_filter)

lemma restore_loop_ok: "store_ok s \<Longrightarrow> store_ok (restore_loop names items s)"
  by (induction names items s rule: restore_loop.induct) (auto simp: cacheModel_ok)

lemma restoreModelNames_ok: "store_ok s \<Longrightarrow> store_ok (fst (restoreModelNames listed names s))"
  by (auto simp: restoreModelNames_def restore_loop_ok split: sum.split)

lemma addOrUpdateProvider_ok:
  "store_ok s \<Longrightarrow> valid_key key \<Longrightarrow> pi_secretNamespace info = nn_Namespace key \<Longrightarrow>
     store_ok (addOrUpdateProvider key info s)"
  by (auto simp: store_ok_def addOrUpdateProvider_def list_all_iff provider_ok_def dest!: gset_in_set)

lemma deleteProvider_ok: "store_ok s \<Longrightarrow> store_ok (deleteProvider key s)"
  by (auto simp: store_ok_def deleteProvider_def list_all_iff set_gdel)

lemma resolver_step_ok:
  assumes "resolver_step s s'" "store_ok s"
  shows "store_ok s'"
  using assms
proof (cases rule: resolver_step.cases)
  case (provider_event req get)
  with assms(2) show ?thesis
    by (auto simp: provider_Reconcile_def Let_def addOrUpdateProvider_ok deleteProvider_ok split: fetched.splits)
next
  case (model_event get listed req)
  with assms(2) show ?thesis
    using deleteModel_ok [OF assms(2)] cacheModel_ok [OF assms(2)] restoreModelNames_ok
    by (auto simp: model_Reconcile_def case_prod_beta split: fetched.splits)
qed

lemma reachable_ok: "reachable_store s \<Longrightarrow> store_ok s"
proof (induction rule: reachable_store.induct)
  case start
  show ?case by (simp add: newInfoStore_def store_ok_def)
qed (rule resolver_step_ok)

section \<open>Properties\<close>

text \<open>C18: In every store that any history of reconciles can produce, a model entry is registered under
  its own client-facing name, offers at least one provider, shows no unresolved placeholder in a path,
  and refers only to Secrets in the namespace of the ExternalModel that owns it, so a model never
  borrows another namespace's credentials.\<close>

theorem reachable_store_entries:
  assumes "reachable_store s" "getModelByName s name = Some info"
  shows "mi_modelName info = name \<and> mi_refs info \<noteq> [] \<and>
    list_all (\<lambda>r. placeholders (rr_path r) = []) (mi_refs info) \<and>
    (valid_key (mi_owner info) \<longrightarrow>
       list_all (\<lambda>r. rr_secretNamespace r = nn_Namespace (mi_owner info)) (mi_refs info))"
  using reachable_ok [OF assms(1)] map_of_SomeD [OF assms(2) [unfolded getModelByName_def]]
  by (auto simp: store_ok_def list_all_iff info_ok_def)

text \<open>A provider and a model that uses it, as the witnesses reconcile them.\<close>

definition sample_meta :: "string \<Rightarrow> ObjectMeta" where
  "sample_meta name =
     \<lparr>meta_Name = name, meta_Namespace = ''team'', meta_UID = ''uid-'' @ name, meta_ResourceVersion = ''1'', meta_Generation = 1, meta_Labels = [],
      meta_Annotations = [], meta_Finalizers = [], meta_Deleted = False, meta_Owners = []\<rparr>"

definition sample_provider :: ExternalProvider where
  "sample_provider =
     \<lparr>ep_Meta = sample_meta ''openai'',
      ep_Spec = \<lparr>Provider = ''openai'', Endpoint = ''api.openai.com'',
                 Auth = \<lparr>auth_Type = ''simple'', auth_SecretRef = \<lparr>nameref_Name = ''key''\<rparr>\<rparr>, Config = []\<rparr>,
      ep_Status = \<lparr>ps_Phase = [], ps_ObservedGeneration = 0, ps_Conditions = []\<rparr>\<rparr>"

definition sample_ref :: "AuthConfig option \<Rightarrow> ExternalProviderRef" where
  "sample_ref a =
     \<lparr>Ref = \<lparr>pref_Name = ''openai'', pref_Namespace = []\<rparr>, TargetModel = ''gpt'', APIFormat = OpenAIChatCompletions,
      Path = ''/v1/chat/completions'', RefConfig = [], RefAuth = a, Weight = None\<rparr>"

definition sample_model :: "string \<Rightarrow> AuthConfig option \<Rightarrow> ExternalModel" where
  "sample_model name a =
     \<lparr>em_Meta = sample_meta ''gpt'',
      em_Spec = \<lparr>ModelName = name, ExternalProviderRefs = [sample_ref a], GatewayRefs = []\<rparr>,
      em_Status = \<lparr>ms_Phase = [], ms_HTTPRouteName = [], ms_ObservedGeneration = 0, ms_OverlayDigest = [],
        ms_OverlayGeneration = 0, ms_Conditions = [], ms_Gateways = []\<rparr>\<rparr>"

definition sample_store :: infoStore where
  "sample_store =
     fst (provider_Reconcile (\<lambda>_. Found sample_provider) \<lparr>nn_Namespace = ''team'', nn_Name = ''openai''\<rparr> newInfoStore)"

definition sample_store2 :: "string \<Rightarrow> AuthConfig option \<Rightarrow> infoStore" where
  "sample_store2 name a =
     fst (model_Reconcile (\<lambda>_. Found (sample_model name a)) (Inr []) \<lparr>nn_Namespace = ''team'', nn_Name = ''gpt''\<rparr>
       sample_store)"

lemma sample_reachable: "reachable_store (sample_store2 name a)"
proof -
  have 1: "resolver_step newInfoStore sample_store"
    unfolding sample_store_def by (rule provider_event) (simp add: valid_key_def)
  have 2: "resolver_step sample_store (sample_store2 name a)"
    unfolding sample_store2_def by (rule model_event)
  show ?thesis by (rule step [OF step [OF start 1] 2])
qed

lemma sample_entry:
  "map_option mi_owner (getModelByName (sample_store2 ''gpt'' None) ''gpt'') =
     Some \<lparr>nn_Namespace = ''team'', nn_Name = ''gpt''\<rparr>"
  by code_simp

theorem reachable_store_entries_witness:
  "\<exists>info. getModelByName (sample_store2 ''gpt'' None) ''gpt'' = Some info \<and> mi_modelName info = ''gpt'' \<and>
     list_all (\<lambda>r. rr_secretNamespace r = ''team'') (mi_refs info)"
proof -
  obtain info where "getModelByName (sample_store2 ''gpt'' None) ''gpt'' = Some info"
    "mi_owner info = \<lparr>nn_Namespace = ''team'', nn_Name = ''gpt''\<rparr>"
    using sample_entry by blast
  with reachable_store_entries [OF sample_reachable this(1)] show ?thesis
    by (simp add: valid_key_def)
qed


lemma getModelByName_cacheModel:
  "getModelByName (fst (cacheModel model s)) name =
     (if resolve_refs s model \<noteq> [] \<and> name = clientModelName model
      then Some \<lparr>mi_owner = object_key (em_Meta model), mi_modelName = name, mi_refs = resolve_refs s model\<rparr>
      else getModelByName s name)"
  by (simp add: cacheModel_def Let_def)

lemma resolve_refs_cong: "providers s = providers s' \<Longrightarrow> resolve_refs s model = resolve_refs s' model"
proof -
  assume "providers s = providers s'"
  then have "resolveRef s ns ref = resolveRef s' ns ref" for ns ref
    by (simp add: resolveRef_def getProvider_def)
  then show ?thesis by (simp add: resolve_refs_def)
qed

lemma providers_cacheModel [simp]: "providers (fst (cacheModel model s)) = providers s"
  by (simp add: cacheModel_def Let_def)

text \<open>The models that may take over one of the given names.\<close>

definition eligible :: "infoStore \<Rightarrow> string list \<Rightarrow> ExternalModel \<Rightarrow> bool" where
  "eligible s names model \<longleftrightarrow>
     clientModelName model \<in> set names \<and> \<not> meta_Deleted (em_Meta model) \<and> \<not> excludedFromStore model \<and>
     resolve_refs s model \<noteq> []"

lemma restore_loop_lookup:
  "getModelByName (restore_loop names items s) name =
     (case filter (\<lambda>m. eligible s names m \<and> clientModelName m = name) items of
        [] \<Rightarrow> getModelByName s name
      | ms \<Rightarrow> Some \<lparr>mi_owner = object_key (em_Meta (last ms)), mi_modelName = name,
                    mi_refs = resolve_refs s (last ms)\<rparr>)"
proof (induction items arbitrary: s)
  case (Cons model items)
  have el: "eligible (fst (cacheModel model s)) names = eligible s names"
    and rr: "resolve_refs (fst (cacheModel model s)) = resolve_refs s"
    using resolve_refs_cong [OF providers_cacheModel] by (auto simp: fun_eq_iff eligible_def)
  show ?case
    by (auto simp: Cons.IH el rr getModelByName_cacheModel eligible_def split: list.split)
qed simp

text \<open>A model reconcile publishes exactly what resolves. For a live model that IPP serves, its
  name maps afterwards to its resolvable references in order, owned by it, and every other name is
  unchanged; when nothing resolves, the last known good entry stays and the model is retried after
  five seconds.\<close>

theorem model_Reconcile_publishes:
  assumes "get req = Found model" "\<not> meta_Deleted (em_Meta model)" "\<not> excludedFromStore model"
  shows "case model_Reconcile get listed req s of (s', res) \<Rightarrow>
    (if resolve_refs s model = [] then s' = s \<and> res = Inr 5
     else res = Inr 0 \<and> (\<forall>name. getModelByName s' name =
       (if name = clientModelName model
        then Some \<lparr>mi_owner = object_key (em_Meta model), mi_modelName = name, mi_refs = resolve_refs s model\<rparr>
        else getModelByName s name)))"
  using assms getModelByName_cacheModel [of model s]
  by (auto simp: model_Reconcile_def cacheModel_def Let_def providerRequeueDelay_def)

theorem model_Reconcile_publishes_witness:
  "\<exists>s' info. model_Reconcile (\<lambda>_. Found (sample_model ''gpt'' None)) (Inr []) \<lparr>nn_Namespace = ''team'', nn_Name = ''gpt''\<rparr>
       sample_store = (s', Inr 0) \<and>
     getModelByName s' ''gpt'' = Some info \<and> length (mi_refs info) = 1"
proof -
  have m: "clientModelName (sample_model ''gpt'' None) = ''gpt'' \<and>
      \<not> meta_Deleted (em_Meta (sample_model ''gpt'' None)) \<and> \<not> excludedFromStore (sample_model ''gpt'' None)"
    by code_simp
  have r: "length (resolve_refs sample_store (sample_model ''gpt'' None)) = 1"
    by code_simp
  then have "resolve_refs sample_store (sample_model ''gpt'' None) \<noteq> []" by auto
  with m r show ?thesis
    using model_Reconcile_publishes [where get = "\<lambda>_. Found (sample_model ''gpt'' None)"
        and req = "\<lparr>nn_Namespace = ''team'', nn_Name = ''gpt''\<rparr>" and model = "sample_model ''gpt'' None"
        and listed = "Inr []" and s = sample_store]
    by (auto split: prod.splits)
qed

text \<open>C34: Handing a model over to the AI gateway controller leaves no name in the lurch. When an excluded
  model is reconciled and the list call succeeds, every name it held is mapped to the last listed model
  of that name that IPP serves and can resolve, if there is one, and is unmapped otherwise; every
  other name is unchanged.\<close>

theorem excluded_model_handoff:
  assumes "store_ok s" "get req = Found model" "\<not> meta_Deleted (em_Meta model)" "excludedFromStore model"
  defines "held \<equiv> \<lambda>name. \<exists>info. getModelByName s name = Some info \<and> mi_owner info = req"
  shows "\<exists>s' names. model_Reconcile get (Inr items) req s = (s', Inr 0) \<and> set names = {name. held name} \<and>
    (\<forall>name. getModelByName s' name =
       (if held name then
          (case filter (\<lambda>m. eligible s names m \<and> clientModelName m = name) items of
             [] \<Rightarrow> None
           | ms \<Rightarrow> Some \<lparr>mi_owner = object_key (em_Meta (last ms)), mi_modelName = name,
                         mi_refs = resolve_refs s (last ms)\<rparr>)
        else getModelByName s name))"
proof -
  have wf: "wf_map (models s)" using assms(1) by (simp add: store_ok_def)
  let ?s = "fst (deleteModel req s)" and ?names = "snd (deleteModel req s)"
  have names: "set ?names = {name. held name}"
    using deleteModel_removed [OF wf] by (auto simp: held_def)
  have res: "model_Reconcile get (Inr items) req s = restoreModelNames (Inr items) ?names ?s"
    using assms(2-4) by (simp add: model_Reconcile_def case_prod_beta)
  have same: "resolve_refs ?s = resolve_refs s" "eligible ?s ns = eligible s ns" for ns
    using resolve_refs_cong [of ?s s] by (auto simp: fun_eq_iff eligible_def)
  have unmapped: "getModelByName ?s name = (if held name then None else getModelByName s name)" for name
    by (auto simp: getModelByName_deleteModel [OF wf] held_def split: option.split)
  have loop: "getModelByName (restore_loop ?names items ?s) name =
      (if held name then
          (case filter (\<lambda>m. eligible s ?names m \<and> clientModelName m = name) items of
             [] \<Rightarrow> None
           | ms \<Rightarrow> Some \<lparr>mi_owner = object_key (em_Meta (last ms)), mi_modelName = name,
                         mi_refs = resolve_refs s (last ms)\<rparr>)
        else getModelByName s name)" for name
  proof (cases "held name")
    case True
    then show ?thesis by (simp add: restore_loop_lookup same unmapped split: list.split)
  next
    case False
    then have "filter (\<lambda>m. eligible s ?names m \<and> clientModelName m = name) items = []"
      using names by (auto simp: filter_empty_conv eligible_def)
    with False show ?thesis by (simp add: restore_loop_lookup same unmapped)
  qed
  show ?thesis
  proof (cases "?names = []")
    case True
    then have "\<not> held name" for name using names by auto
    moreover have "model_Reconcile get (Inr items) req s = (?s, Inr 0)"
      using res True by (simp add: restoreModelNames_def)
    ultimately show ?thesis using names unmapped by (intro exI [of _ ?s] exI [of _ ?names]) simp
  next
    case False
    with res have "model_Reconcile get (Inr items) req s = (restore_loop ?names items ?s, Inr 0)"
      by (simp add: restoreModelNames_def)
    with loop names show ?thesis
      by (intro exI [of _ "restore_loop ?names items ?s"] exI [of _ ?names]) simp
  qed
qed


text \<open>The excluded model of the witness: the sample model, now served by the AI gateway controller.\<close>

definition served_model :: ExternalModel where
  "served_model =
     (sample_model ''gpt'' None)\<lparr>em_Meta := (sample_meta ''gpt'')\<lparr>meta_Finalizers := [AGCModelFinalizer]\<rparr>\<rparr>"

theorem excluded_model_handoff_witness:
  "\<exists>s'. model_Reconcile (\<lambda>_. Found served_model) (Inr []) \<lparr>nn_Namespace = ''team'', nn_Name = ''gpt''\<rparr>
       (sample_store2 ''gpt'' None) = (s', Inr 0) \<and>
     getModelByName s' ''gpt'' = None"
proof -
  have "\<not> meta_Deleted (em_Meta served_model) \<and> excludedFromStore served_model"
    by code_simp
  moreover have "\<exists>info. getModelByName (sample_store2 ''gpt'' None) ''gpt'' = Some info \<and>
      mi_owner info = \<lparr>nn_Namespace = ''team'', nn_Name = ''gpt''\<rparr>"
    using sample_entry by blast
  ultimately show ?thesis
    using excluded_model_handoff [OF reachable_ok [OF sample_reachable [of "''gpt''" None]],
        of "\<lambda>_. Found served_model" "\<lparr>nn_Namespace = ''team'', nn_Name = ''gpt''\<rparr>" served_model "[]"]
    by auto
qed

text \<open>C35: A failed hand-over is not made good by its retry. When the list call fails while an excluded model is
  reconciled, the reconcile reports the error, but the names the model held are already gone; the retry
  finds nothing to restore and succeeds, so that these names stay unmapped although another model of the
  same name could serve them.\<close>

theorem handoff_retry_loses_names:
  assumes "store_ok s" "get req = Found model" "\<not> meta_Deleted (em_Meta model)" "excludedFromStore model"
    and "getModelByName s name = Some info" "mi_owner info = req"
  shows "\<exists>s' e'. model_Reconcile get (Inl e) req s = (s', Inl e') \<and>
    model_Reconcile get (Inr items) req s' = (s', Inr 0) \<and> getModelByName s' name = None"
proof -
  have wf: "wf_map (models s)" using assms(1) by (simp add: store_ok_def)
  let ?s = "fst (deleteModel req s)"
  have held: "name \<in> set (snd (deleteModel req s))"
    using deleteModel_removed [OF wf] assms(5,6) by blast
  have again: "deleteModel req ?s = (?s, [])"
    by (auto simp: deleteModel_def filter_empty_conv)
  have "getModelByName ?s name = None"
    using assms(5,6) by (simp add: getModelByName_deleteModel [OF wf])
  moreover have "\<exists>e'. model_Reconcile get (Inl e) req s = (?s, Inl e')"
    using assms(2-4) held by (auto simp: model_Reconcile_def case_prod_beta restoreModelNames_def)
  moreover have "model_Reconcile get (Inr items) req ?s = (?s, Inr 0)"
    using assms(2-4) again by (simp add: model_Reconcile_def restoreModelNames_def)
  ultimately show ?thesis by blast
qed

text \<open>Another model of the same name that IPP could serve.\<close>

definition other_model :: ExternalModel where
  "other_model = (sample_model ''gpt'' None)\<lparr>em_Meta := sample_meta ''gpt-2''\<rparr>"

theorem handoff_retry_loses_names_witness:
  "\<exists>s' e'. model_Reconcile (\<lambda>_. Found served_model) (Inl (Errorf ''timeout'' [])) \<lparr>nn_Namespace = ''team'', nn_Name = ''gpt''\<rparr>
       (sample_store2 ''gpt'' None) = (s', Inl e') \<and>
     model_Reconcile (\<lambda>_. Found served_model) (Inr [other_model]) \<lparr>nn_Namespace = ''team'', nn_Name = ''gpt''\<rparr> s' = (s', Inr 0) \<and>
     getModelByName s' ''gpt'' = None \<and> clientModelName other_model = ''gpt'' \<and> \<not> excludedFromStore other_model \<and>
     resolve_refs sample_store other_model \<noteq> []"
proof -
  have "\<not> meta_Deleted (em_Meta served_model) \<and> excludedFromStore served_model" by code_simp
  moreover have "clientModelName other_model = ''gpt'' \<and> \<not> excludedFromStore other_model" by code_simp
  moreover have "length (resolve_refs sample_store other_model) = 1" by code_simp
  then have "resolve_refs sample_store other_model \<noteq> []" by auto
  moreover obtain info where "getModelByName (sample_store2 ''gpt'' None) ''gpt'' = Some info"
    "mi_owner info = \<lparr>nn_Namespace = ''team'', nn_Name = ''gpt''\<rparr>"
    using sample_entry by blast
  ultimately show ?thesis
    using handoff_retry_loses_names [OF reachable_ok [OF sample_reachable [of "''gpt''" None]],
        where get = "\<lambda>_. Found served_model" and model = served_model and name = "''gpt''" and items = "[other_model]"
          and e = "Errorf ''timeout'' []"]
    by simp
qed

text \<open>A rename leaves a stale name behind. After the sample model is published as \<^verbatim>\<open>gpt\<close> and its
  \<^verbatim>\<open>spec.modelName\<close> is then changed to \<^verbatim>\<open>gpt-new\<close>, both names resolve to it in the reachable store.\<close>

theorem renamed_model_keeps_old_name:
  "case model_Reconcile (\<lambda>_. Found (sample_model ''gpt-new'' None)) (Inr [])
      \<lparr>nn_Namespace = ''team'', nn_Name = ''gpt''\<rparr> (sample_store2 ''gpt'' None) of
     (s', res) \<Rightarrow> res = Inr 0 \<and>
       map_option mi_owner (getModelByName s' ''gpt'') = Some \<lparr>nn_Namespace = ''team'', nn_Name = ''gpt''\<rparr> \<and>
       map_option mi_owner (getModelByName s' ''gpt-new'') = Some \<lparr>nn_Namespace = ''team'', nn_Name = ''gpt''\<rparr>"
  by code_simp

end
