(* ===== verification/Dynamic_Metadata.thy ===== *)
theory Dynamic_Metadata
  imports Framework
begin

text \<open>
  \<^verbatim>\<open>pkg/dynamicmetadata\<close>: how the resolver hands endpoint subsets to Envoy. \<^verbatim>\<open>SetEndpointSubset\<close> writes
  them to a pseudo-header of the request; the stream wrapper takes the pseudo-header out of every
  message it sends and turns it into dynamic metadata. JSON encoding of the entry is passed in; the
  decoder returns the entry it filled in and whether it succeeded, because \<^verbatim>\<open>json.Unmarshal\<close> may
  have stored some fields before it fails. Of the Envoy messages the model keeps what the code looks at.
\<close>

abbreviation pseudoHeader where "pseudoHeader \<equiv> ''x-ipp-internal-dynamic-metadata''"

record entry =
  entry_Namespace :: string
  entry_Key :: string
  entry_Values :: "string list"

type_synonym entry_encoder = "entry \<Rightarrow> string option"
type_synonym entry_decoder = "string \<Rightarrow> entry \<Rightarrow> entry \<times> bool"

definition SetEndpointSubset ::
  "entry_encoder \<Rightarrow> 'cs framework \<Rightarrow> string list \<Rightarrow> InferenceRequest \<Rightarrow> InferenceRequest result" where
  "SetEndpointSubset marshal fw endpoints request =
     (let e = \<lparr>entry_Namespace = ''envoy.lb.subset_hint'', entry_Key = ''x-gateway-destination-endpoint-subset'',
               entry_Values = endpoints\<rparr>
      in case marshal e of
           None \<Rightarrow> Inl (Errorf ''failed to marshal dynamic metadata entry: %w'' [])
         | Some data \<Rightarrow> Inr (SetHeader fw pseudoHeader data request))"

section \<open>The stream wrapper\<close>

record HeaderValue =
  hv_Key :: string
  hv_RawValue :: string

record HeaderMutation =
  SetHeaders :: "HeaderValue option list"

record CommonResponse =
  cr_HeaderMutation :: "HeaderMutation option"

text \<open>
  The \<^verbatim>\<open>oneof\<close> of a \<^verbatim>\<open>ProcessingResponse\<close>. The outer option is the message pointer of the variant,
  the inner one its \<^verbatim>\<open>Response\<close> pointer.
\<close>

datatype response_variant =
    PR_RequestHeaders "CommonResponse option option"
  | PR_ResponseHeaders "CommonResponse option option"
  | PR_RequestBody "CommonResponse option option"
  | PR_ResponseBody "CommonResponse option option"
  | PR_Other

record ProcessingResponse =
  pr_Response :: response_variant
  pr_DynamicMetadata :: "(string \<times> string \<times> string list) option"

fun commonResponse :: "response_variant \<Rightarrow> CommonResponse option" where
  "commonResponse (PR_RequestHeaders (Some r)) = r"
| "commonResponse (PR_ResponseHeaders (Some r)) = r"
| "commonResponse (PR_RequestBody (Some r)) = r"
| "commonResponse (PR_ResponseBody (Some r)) = r"
| "commonResponse _ = None"

text \<open>Writing through the pointer \<^verbatim>\<open>commonResponse\<close> returned.\<close>

fun set_commonResponse :: "CommonResponse \<Rightarrow> response_variant \<Rightarrow> response_variant" where
  "set_commonResponse cr (PR_RequestHeaders _) = PR_RequestHeaders (Some (Some cr))"
| "set_commonResponse cr (PR_ResponseHeaders _) = PR_ResponseHeaders (Some (Some cr))"
| "set_commonResponse cr (PR_RequestBody _) = PR_RequestBody (Some (Some cr))"
| "set_commonResponse cr (PR_ResponseBody _) = PR_ResponseBody (Some (Some cr))"
| "set_commonResponse cr PR_Other = PR_Other"

definition is_pseudo :: "HeaderValue option \<Rightarrow> bool" where
  "is_pseudo h = (case h of None \<Rightarrow> False | Some hv \<Rightarrow> hv_Key hv = pseudoHeader)"

text \<open>The loop over the headers: the entry, whether one parsed, and the headers kept.\<close>

fun extract_loop ::
  "entry_decoder \<Rightarrow> HeaderValue option list \<Rightarrow> entry \<Rightarrow> bool \<Rightarrow> HeaderValue option list \<Rightarrow>
     entry \<times> bool \<times> HeaderValue option list" where
  "extract_loop unmarshal [] e parsed filtered = (e, parsed, filtered)"
| "extract_loop unmarshal (h # hs) e parsed filtered =
     (if is_pseudo h then
        (case unmarshal (hv_RawValue (the h)) e of
           (e', ok) \<Rightarrow> extract_loop unmarshal hs e' (parsed \<or> ok) filtered)
      else extract_loop unmarshal hs e parsed (filtered @ [h]))"

definition extractAndInjectMetadata :: "entry_decoder \<Rightarrow> ProcessingResponse \<Rightarrow> ProcessingResponse" where
  "extractAndInjectMetadata unmarshal resp =
     (case commonResponse (pr_Response resp) of
        None \<Rightarrow> resp
      | Some cr \<Rightarrow>
          (case cr_HeaderMutation cr of
             None \<Rightarrow> resp
           | Some hm \<Rightarrow>
               if SetHeaders hm = [] then resp
               else
                 (case extract_loop unmarshal (SetHeaders hm)
                         \<lparr>entry_Namespace = [], entry_Key = [], entry_Values = []\<rparr> False [] of
                    (e, parsed, filtered) \<Rightarrow>
                      if \<not> list_ex is_pseudo (SetHeaders hm) then resp
                      else
                        (let resp = resp\<lparr>pr_Response :=
                               set_commonResponse (cr\<lparr>cr_HeaderMutation := Some (hm\<lparr>SetHeaders := filtered\<rparr>)\<rparr>)
                                 (pr_Response resp)\<rparr>
                         in if \<not> parsed then resp
                            else resp\<lparr>pr_DynamicMetadata :=
                                        Some (entry_Namespace e, entry_Key e, entry_Values e)\<rparr>))))"

text \<open>A server is what it sends on the stream for what it receives; the wrapper's stream converts each
  message on its way to the stream it wraps.\<close>

type_synonym ext_proc_server = "string \<Rightarrow> ProcessingResponse list"

definition wrapped_Send :: "entry_decoder \<Rightarrow> ProcessingResponse list \<Rightarrow> ProcessingResponse \<Rightarrow> ProcessingResponse list" where
  "wrapped_Send unmarshal sent resp = sent @ [extractAndInjectMetadata unmarshal resp]"

definition WrapServer :: "entry_decoder \<Rightarrow> ext_proc_server \<Rightarrow> ext_proc_server" where
  "WrapServer unmarshal inner srv = foldl (wrapped_Send unmarshal) [] (inner srv)"

section \<open>Properties\<close>

definition sent_headers :: "ProcessingResponse \<Rightarrow> HeaderValue option list" where
  "sent_headers resp =
     (case commonResponse (pr_Response resp) of
        None \<Rightarrow> []
      | Some cr \<Rightarrow> (case cr_HeaderMutation cr of None \<Rightarrow> [] | Some hm \<Rightarrow> SetHeaders hm))"

lemma extract_loop_filtered:
  "snd (snd (extract_loop unmarshal hs e parsed acc)) = acc @ filter (\<lambda>h. \<not> is_pseudo h) hs"
  by (induction unmarshal hs e parsed acc rule: extract_loop.induct) (auto split: prod.splits)

lemma extract_loop_one:
  "filter is_pseudo hs = [h] \<Longrightarrow>
     extract_loop unmarshal hs e parsed acc =
       (fst (unmarshal (hv_RawValue (the h)) e), parsed \<or> snd (unmarshal (hv_RawValue (the h)) e),
        acc @ filter (\<lambda>h. \<not> is_pseudo h) hs)"
proof (induction hs arbitrary: e parsed acc)
  case (Cons x hs)
  have none: "filter is_pseudo hs = [] \<Longrightarrow>
      extract_loop unmarshal hs e' p acc = (e', p, acc @ filter (\<lambda>h. \<not> is_pseudo h) hs)" for e' p acc
    by (induction hs arbitrary: acc) (auto split: if_splits)
  show ?case
  proof (cases "is_pseudo x")
    case True
    with Cons.prems none show ?thesis by (simp add: case_prod_beta)
  next
    case False
    with Cons show ?thesis by simp
  qed
qed simp

lemma commonResponse_set [simp]:
  "commonResponse v = Some cr \<Longrightarrow> commonResponse (set_commonResponse cr' v) = Some cr'"
  by (cases v rule: commonResponse.cases) auto

lemma WrapServer_sends: "WrapServer unmarshal inner srv = map (extractAndInjectMetadata unmarshal) (inner srv)"
proof -
  have "foldl (wrapped_Send unmarshal) sent resps = sent @ map (extractAndInjectMetadata unmarshal) resps" for sent resps
    by (induction resps arbitrary: sent) (auto simp: wrapped_Send_def)
  then show ?thesis by (simp add: WrapServer_def)
qed

text \<open>The pseudo-header never leaves the processor. For every kind of message, what is sent carries
  exactly the other headers, in their order, whether or not the pseudo-header could be decoded.\<close>

theorem pseudo_header_stripped:
  "sent_headers (extractAndInjectMetadata unmarshal resp) = filter (\<lambda>h. \<not> is_pseudo h) (sent_headers resp)"
proof -
  have keep: "\<not> list_ex is_pseudo hs \<Longrightarrow> filter (\<lambda>h. \<not> is_pseudo h) hs = hs" for hs
    by (simp add: filter_id_conv list_ex_iff)
  show ?thesis
  proof (cases "commonResponse (pr_Response resp)")
    case (Some cr)
    then show ?thesis
      using extract_loop_filtered [of unmarshal _ "\<lparr>entry_Namespace = [], entry_Key = [], entry_Values = []\<rparr>" False "[]"]
      by (cases "cr_HeaderMutation cr")
        (auto simp: extractAndInjectMetadata_def sent_headers_def Let_def keep case_prod_beta)
  qed (simp add: extractAndInjectMetadata_def sent_headers_def)
qed

text \<open>What the resolver proposes reaches Envoy. When the entry that \<^verbatim>\<open>SetEndpointSubset\<close> wrote is read
  back by the decoder and is the one pseudo-header of a message, the message carries the endpoint
  list as dynamic metadata under the load balancer's subset key.\<close>

theorem endpoint_subset_delivered:
  assumes "ipp_framework fw" "SetEndpointSubset marshal fw endpoints r = Inr r'"
    and "map_of (Headers r') pseudoHeader = Some data"
    and "\<forall>e s e0. marshal e = Some s \<longrightarrow> unmarshal s e0 = (e, True)"
    and "filter is_pseudo (sent_headers resp) = [Some \<lparr>hv_Key = pseudoHeader, hv_RawValue = data\<rparr>]"
  shows "pr_DynamicMetadata (extractAndInjectMetadata unmarshal resp) =
    Some (''envoy.lb.subset_hint'', ''x-gateway-destination-endpoint-subset'', endpoints)"
proof -
  let ?e = "\<lparr>entry_Namespace = ''envoy.lb.subset_hint'', entry_Key = ''x-gateway-destination-endpoint-subset'',
             entry_Values = endpoints\<rparr>"
  from assms(1-3) have "marshal ?e = Some data"
    by (auto simp: SetEndpointSubset_def Let_def ipp_framework.Headers_SetHeader split: option.splits)
  with assms(4) have dec: "unmarshal data e0 = (?e, True)" for e0 by blast
  from assms(5) obtain cr hm where cr: "commonResponse (pr_Response resp) = Some cr" "cr_HeaderMutation cr = Some hm"
    "SetHeaders hm = sent_headers resp"
    by (auto simp: sent_headers_def split: option.splits)
  have one: "filter is_pseudo (SetHeaders hm) = [Some \<lparr>hv_Key = pseudoHeader, hv_RawValue = data\<rparr>]"
    using assms(5) cr by simp
  then have "SetHeaders hm \<noteq> []" "list_ex is_pseudo (SetHeaders hm)"
    by (auto simp: list_ex_iff filter_empty_conv) (metis filter_empty_conv list.discI)
  with cr dec extract_loop_one [OF one] show ?thesis
    by (simp add: extractAndInjectMetadata_def Let_def)
qed


definition sample_subset :: entry where
  "sample_subset = \<lparr>entry_Namespace = ''envoy.lb.subset_hint'', entry_Key = ''x-gateway-destination-endpoint-subset'',
     entry_Values = [''spoke-a:443'']\<rparr>"

definition sample_response :: ProcessingResponse where
  "sample_response =
     \<lparr>pr_Response = PR_RequestBody (Some (Some \<lparr>cr_HeaderMutation = Some \<lparr>SetHeaders =
        [Some \<lparr>hv_Key = ''host'', hv_RawValue = ''h''\<rparr>, Some \<lparr>hv_Key = pseudoHeader, hv_RawValue = ''e''\<rparr>]\<rparr>\<rparr>)),
      pr_DynamicMetadata = None\<rparr>"

theorem endpoint_subset_delivered_witness:
  "pr_DynamicMetadata (extractAndInjectMetadata (\<lambda>s e0. if s = ''e'' then (sample_subset, True) else (e0, False))
       sample_response) =
     Some (''envoy.lb.subset_hint'', ''x-gateway-destination-endpoint-subset'', [''spoke-a:443''])"
proof (rule endpoint_subset_delivered [OF ref_framework_ok])
  show "SetEndpointSubset (\<lambda>e. if e = sample_subset then Some ''e'' else None) ref_framework [''spoke-a:443'']
      \<lparr>Headers = [], Body = []\<rparr> = Inr \<lparr>Headers = [(pseudoHeader, ''e'')], Body = []\<rparr>"
    by (simp add: SetEndpointSubset_def Let_def sample_subset_def)
  show "filter is_pseudo (sent_headers sample_response) = [Some \<lparr>hv_Key = pseudoHeader, hv_RawValue = ''e''\<rparr>]"
    by (simp add: sample_response_def sent_headers_def is_pseudo_def)
qed (auto split: if_splits)

end
