(* ===== verification/Provider_Resolver.thy ===== *)
theory Provider_Resolver
  imports Resolver_Reconcilers Dynamic_Metadata
begin

text \<open>
  \<^verbatim>\<open>model-provider-resolver/plugin.go\<close>: the plugin that turns the model name of a request into a
  provider. \<open>intN\<close> is \<^verbatim>\<open>rand.IntN\<close> for the draw of this request.
\<close>

record ModelProviderResolverPlugin =
  mpr_store :: infoStore
  hubMode :: bool
  clusterName :: string

abbreviation SelectedProviderHeader where "SelectedProviderHeader \<equiv> ''x-ipp-selected-provider''"
abbreviation "ModelNameHeader \<equiv> ''x-gateway-model-name''"
abbreviation "DestinationHeader \<equiv> ''x-gateway-destination-endpoint''"

section \<open>Paths and hosts\<close>

definition sanitizePath :: "string \<Rightarrow> string" where
  "sanitizePath relativeUrlPath =
     (let path = trimSpace relativeUrlPath;
          path = (case indexOf ''?'' path of Some i \<Rightarrow> take i path | None \<Rightarrow> path)
      in trimSlash path)"

definition detectInputAPIFormat :: "string \<Rightarrow> string" where
  "detectInputAPIFormat path =
     (if hasSuffix path ''/v1/chat/completions'' \<or> path = ''v1/chat/completions'' then OpenAIChatCompletions
      else if hasSuffix path ''/v1/embeddings'' \<or> path = ''v1/embeddings'' then OpenAIEmbeddings
      else if hasSuffix path ''/v1/messages'' \<or> path = ''v1/messages'' then Messages
      else if hasSuffix path ''/v1/responses'' \<or> path = ''v1/responses'' then OpenAIResponses
      else [])"

definition stripPort :: "string \<Rightarrow> string" where
  "stripPort hostport = (case splitHostPort hostport of Some (h, _) \<Rightarrow> h | None \<Rightarrow> hostport)"

section \<open>Choosing a provider\<close>

definition totalWeight :: "resolvedProviderRef list \<Rightarrow> int" where
  "totalWeight refs = fold (\<lambda>ref t. if rr_weight ref > 0 then wrap64 (t + rr_weight ref) else t) refs 0"

fun select_loop :: "resolvedProviderRef list \<Rightarrow> int \<Rightarrow> resolvedProviderRef option" where
  "select_loop [] r = None"
| "select_loop (ref # refs) r =
     (if rr_weight ref \<le> 0 then select_loop refs r
      else if r - rr_weight ref < 0 then Some ref
      else select_loop refs (r - rr_weight ref))"

text \<open>
  \<^verbatim>\<open>rand.IntN\<close> panics on an argument that is not positive, which a wrapped-around total can be. The
  loop subtracts positive weights from a number that is not negative, so it does not wrap.
\<close>

definition selectByWeight :: "(int \<Rightarrow> int) \<Rightarrow> resolvedProviderRef list \<Rightarrow> resolvedProviderRef option result" where
  "selectByWeight intN refs =
     (let total = totalWeight refs
      in if total = 0 then Inr None
         else if total < 0 then Inl (Panicked ''invalid argument to IntN'')
         else case select_loop refs (intN total) of
                Some ref \<Rightarrow> Inr (Some ref)
              | None \<Rightarrow> Inr (Some (last refs)))"

fun findRefByEndpoint :: "resolvedProviderRef list \<Rightarrow> string \<Rightarrow> resolvedProviderRef option" where
  "findRefByEndpoint [] destination = None"
| "findRefByEndpoint (ref # refs) destination =
     (if rr_weight ref \<le> 0 then findRefByEndpoint refs destination
      else if stripPort (rr_endpoint ref) = stripPort destination then Some ref
      else findRefByEndpoint refs destination)"

definition propose ::
  "entry_encoder \<Rightarrow> 'cs framework \<Rightarrow> InferenceRequest \<Rightarrow> externalModelInfo \<Rightarrow> InferenceRequest result" where
  "propose marshal fw request modelInfo =
     (let endpoints = map rr_endpoint (filter (\<lambda>ref. rr_weight ref > 0) (mi_refs modelInfo))
      in if endpoints = [] then Inr request else SetEndpointSubset marshal fw endpoints request)"

section \<open>Routing loops\<close>

definition originCluster :: "'cs framework \<Rightarrow> 'cs \<Rightarrow> InferenceRequest \<Rightarrow> string" where
  "originCluster fw cycleState request =
     (let captured = (case read_str fw OriginClusterKey cycleState of Some c \<Rightarrow> trimSpace c | None \<Rightarrow> [])
      in if captured \<noteq> [] then captured
         else case find (\<lambda>(key, value). equalFold key OriginClusterHeader) (Headers request) of
                Some (key, value) \<Rightarrow> trimSpace value
              | None \<Rightarrow> [])"

definition checkRoutingLoop ::
  "ModelProviderResolverPlugin \<Rightarrow> 'cs framework \<Rightarrow> 'cs \<Rightarrow> InferenceRequest \<Rightarrow> err option" where
  "checkRoutingLoop p fw cycleState request =
     (if clusterName p = [] then None
      else
        (let origin = originCluster fw cycleState request
         in if origin = [] \<or> \<not> equalFold origin (clusterName p) then None
            else Some (CommonError Forbidden ''routing loop detected: request originated from this cluster'' [])))"

definition shouldInjectOrigin :: "resolvedProviderRef \<Rightarrow> bool \<Rightarrow> bool" where
  "shouldInjectOrigin ref hub = (if hub then True else equalFold (rr_provider ref) provider_RemoteMaaS)"

definition restoreOrMarkOrigin ::
  "ModelProviderResolverPlugin \<Rightarrow> 'cs framework \<Rightarrow> 'cs \<Rightarrow> InferenceRequest \<Rightarrow> resolvedProviderRef \<Rightarrow>
     InferenceRequest" where
  "restoreOrMarkOrigin p fw cycleState request ref =
     (if \<not> shouldInjectOrigin ref (hubMode p) then request
      else
        (let origin = originCluster fw cycleState request;
             origin = (if origin = [] then clusterName p else origin)
         in if origin = [] then request else SetHeader fw OriginClusterHeader origin request))"

section \<open>The request\<close>

text \<open>The values of the chosen provider, written for the plugins downstream.\<close>

definition write_ref :: "'cs framework \<Rightarrow> resolvedProviderRef \<Rightarrow> 'cs \<Rightarrow> 'cs" where
  "write_ref fw ref cs =
     (let cs = Write fw ProviderKey (CStr (rr_provider ref)) cs;
          cs = Write fw ModelKey (CStr (rr_targetModel ref)) cs;
          cs = Write fw APIFormatKey (CFormat (rr_apiFormat ref)) cs;
          cs = Write fw AuthTypeKey (CAuth (rr_auth ref)) cs;
          cs = Write fw EndpointKey (CStr (rr_endpoint ref)) cs;
          cs = Write fw PathKey (CStr (rr_path ref)) cs;
          cs = Write fw CredsRefName (CStr (rr_secretName ref)) cs;
          cs = Write fw CredsRefNamespace (CStr (rr_secretNamespace ref)) cs;
          cs = Write fw ModelConfigKey (CStrMap (rr_config ref)) cs
      in cs)"

definition choose_ref ::
  "ModelProviderResolverPlugin \<Rightarrow> (int \<Rightarrow> int) \<Rightarrow> externalModelInfo \<Rightarrow> string \<Rightarrow> InferenceRequest \<Rightarrow>
     resolvedProviderRef result" where
  "choose_ref p intN modelInfo modelName request =
     (if hubMode p then
        (case findRefByEndpoint (mi_refs modelInfo) (gstr (Headers request) DestinationHeader) of
           None \<Rightarrow> Inl (CommonError BadRequest ''no ExternalProvider matches destination %s''
                          [ArgS (gstr (Headers request) DestinationHeader)])
         | Some ref \<Rightarrow> Inr ref)
      else
        (case selectByWeight intN (mi_refs modelInfo) of
           Inl e \<Rightarrow> Inl e
         | Inr None \<Rightarrow> Inl (CommonError BadRequest ''all providers for model %s are disabled (weight 0)''
                              [ArgS modelName])
         | Inr (Some ref) \<Rightarrow> Inr ref))"

definition resolver_ProcessRequest ::
  "ModelProviderResolverPlugin \<Rightarrow> entry_encoder \<Rightarrow> (int \<Rightarrow> int) \<Rightarrow> 'cs framework \<Rightarrow> 'cs \<Rightarrow> InferenceRequest \<Rightarrow>
     ('cs \<times> InferenceRequest) result" where
  "resolver_ProcessRequest p marshal intN fw cycleState request =
     (let model = str_of (idx (Body request) ''model'')
      in if model = [] then Inr (cycleState, request)
         else
           (let headerName = gstr (Headers request) ModelNameHeader;
                modelName = (if headerName = [] then model else headerName);
                relativePath = sanitizePath (gstr (Headers request) '':path'');
                inputFormat = detectInputAPIFormat relativePath;
                cycleState = (if inputFormat \<noteq> [] then Write fw InputAPIFormatKey (CFormat inputFormat) cycleState
                              else cycleState)
            in case getModelByName (mpr_store p) modelName of
                 None \<Rightarrow>
                   (let parts = splitN2 ''/models/'' modelName
                    in if hasPrefix modelName ''publishers/'' \<and> length parts = 2 \<and> parts ! 1 \<noteq> [] then
                         Inr (Write fw ModelKey (CStr modelName) cycleState,
                              SetBodyField fw ''model'' (VStr (parts ! 1)) request)
                       else Inr (cycleState, request))
               | Some modelInfo \<Rightarrow>
                   (case checkRoutingLoop p fw cycleState request of
                      Some e \<Rightarrow> Inl e
                    | None \<Rightarrow>
                        if hubMode p \<and> gstr (Headers request) DestinationHeader = [] then
                          (case propose marshal fw request modelInfo of
                             Inl e \<Rightarrow> Inl e
                           | Inr request \<Rightarrow> Inr (cycleState, request))
                        else if inputFormat = [] then
                          Inl (CommonError BadRequest ''unsupported API endpoint'' [])
                        else
                          (case choose_ref p intN modelInfo modelName request of
                             Inl e \<Rightarrow> Inl e
                           | Inr ref \<Rightarrow>
                               (let request = SetHeader fw SelectedProviderHeader (rr_providerName ref) request;
                                    request = SetHeader fw ''Host'' (rr_endpoint ref) request;
                                    request = (if model \<noteq> rr_targetModel ref
                                               then SetBodyField fw ''model'' (VStr (rr_targetModel ref)) request
                                               else request);
                                    cycleState = write_ref fw ref cycleState
                                in Inr (cycleState, restoreOrMarkOrigin p fw cycleState request ref))))))"

section \<open>Weighted selection\<close>

definition pos_sum :: "resolvedProviderRef list \<Rightarrow> int" where
  "pos_sum refs = sum_list (map (\<lambda>ref. max 0 (rr_weight ref)) refs)"

text \<open>The share of a provider: its weight, counted for every time it is listed.\<close>

definition share :: "resolvedProviderRef \<Rightarrow> resolvedProviderRef list \<Rightarrow> int" where
  "share ref refs = pos_sum (filter (\<lambda>x. x = ref) refs)"

lemma pos_sum_simps [simp]:
  "pos_sum [] = 0" "pos_sum (ref # refs) = max 0 (rr_weight ref) + pos_sum refs"
  by (simp_all add: pos_sum_def)

lemma pos_sum_nonneg: "0 \<le> pos_sum refs"
  by (induction refs) auto

lemma fold_totalWeight:
  "0 \<le> t \<Longrightarrow> t + pos_sum refs \<le> max_int \<Longrightarrow>
     fold (\<lambda>ref t. if rr_weight ref > 0 then wrap64 (t + rr_weight ref) else t) refs t = t + pos_sum refs"
proof (induction refs arbitrary: t)
  case (Cons ref refs)
  have "wrap64 (t + rr_weight ref) = t + rr_weight ref" if "rr_weight ref > 0"
    using that Cons.prems pos_sum_nonneg [of refs]
    by (intro wrap64_id) (auto simp: in_int_def min_int_def)
  with Cons show ?case by auto
qed simp

lemma totalWeight_exact: "pos_sum refs \<le> max_int \<Longrightarrow> totalWeight refs = pos_sum refs"
  by (simp add: totalWeight_def fold_totalWeight)

lemma select_loop_total:
  "0 \<le> r \<Longrightarrow> r < pos_sum refs \<Longrightarrow> \<exists>ref \<in> set refs. select_loop refs r = Some ref \<and> 0 < rr_weight ref"
proof (induction refs arbitrary: r)
  case (Cons ref refs)
  then show ?case
    using Cons.IH [of "r - rr_weight ref"] Cons.IH [of r] by (auto simp: max_def split: if_splits)
qed simp

definition draws :: "resolvedProviderRef \<Rightarrow> resolvedProviderRef list \<Rightarrow> int set" where
  "draws ref refs = {r. 0 \<le> r \<and> r < pos_sum refs \<and> select_loop refs r = Some ref}"

lemma finite_draws: "finite (draws ref refs)"
  by (rule finite_subset [of _ "{0 ..< pos_sum refs}"]) (auto simp: draws_def)

lemma draws_Cons:
  assumes "0 < rr_weight x"
  shows "draws ref (x # refs) =
    (if x = ref then {0 ..< rr_weight x} else {}) \<union> (\<lambda>r. r + rr_weight x) ` draws ref refs"
proof -
  have "r \<in> draws ref (x # refs) \<longleftrightarrow> (if r < rr_weight x then 0 \<le> r \<and> x = ref else r - rr_weight x \<in> draws ref refs)"
    for r using assms pos_sum_nonneg [of refs] by (auto simp: draws_def)
  moreover have "r \<in> (\<lambda>r. r + rr_weight x) ` draws ref refs \<longleftrightarrow> r - rr_weight x \<in> draws ref refs" for r
    by (auto simp: image_iff) (metis diff_add_cancel)
  ultimately show ?thesis
    using assms by (auto simp: draws_def)
qed

lemma card_draws: "int (card (draws ref refs)) = share ref refs"
proof (induction refs)
  case (Cons x refs)
  show ?case
  proof (cases "0 < rr_weight x")
    case True
    have "{0 ..< rr_weight x} \<inter> (\<lambda>r. r + rr_weight x) ` draws ref refs = {}"
      by (auto simp: draws_def)
    moreover have "card ((\<lambda>r. r + rr_weight x) ` draws ref refs) = card (draws ref refs)"
      by (rule card_image) (auto intro: inj_onI)
    ultimately show ?thesis
      using Cons True finite_draws [of ref refs]
      by (auto simp: draws_Cons [OF True] card_Un_disjoint share_def)
  next
    case False
    then have "draws ref (x # refs) = draws ref refs"
      by (auto simp: draws_def)
    with Cons False show ?thesis by (auto simp: share_def)
  qed
qed (simp add: draws_def share_def)

lemma selectByWeight_select:
  assumes "pos_sum refs \<le> max_int" "0 < pos_sum refs" "0 \<le> intN (pos_sum refs)" "intN (pos_sum refs) < pos_sum refs"
  shows "\<exists>ref \<in> set refs. selectByWeight intN refs = Inr (Some ref) \<and> 0 < rr_weight ref \<and>
    select_loop refs (intN (pos_sum refs)) = Some ref"
  using select_loop_total [OF assms(3,4)] totalWeight_exact [OF assms(1)] assms(2)
  by (auto simp: selectByWeight_def Let_def)

text \<open>C14: Traffic is split by weight. With weights whose positive part adds up without overflow, nothing
  is selected exactly when every weight is zero or less; otherwise every draw below the total selects
  an enabled provider of the model, and among the equally likely draws the number that selects a
  provider is exactly its weight.\<close>

theorem selectByWeight_fair:
  assumes "pos_sum refs \<le> max_int"
  shows "(selectByWeight intN refs = Inr None \<longleftrightarrow> \<not> list_ex (\<lambda>ref. 0 < rr_weight ref) refs) \<and>
    (0 \<le> intN (pos_sum refs) \<and> intN (pos_sum refs) < pos_sum refs \<longrightarrow>
       (\<exists>ref \<in> set refs. selectByWeight intN refs = Inr (Some ref) \<and> 0 < rr_weight ref)) \<and>
    (0 < rr_weight ref \<longrightarrow>
       int (card {d. 0 \<le> d \<and> d < pos_sum refs \<and> selectByWeight (\<lambda>_. d) refs = Inr (Some ref)}) = share ref refs)"
proof -
  have zero: "pos_sum refs = 0 \<longleftrightarrow> \<not> list_ex (\<lambda>ref. 0 < rr_weight ref) refs"
  proof (induction refs)
    case (Cons x refs)
    then show ?case using pos_sum_nonneg [of refs] by (auto simp: max_def)
  qed simp
  have none: "selectByWeight intN refs = Inr None \<longleftrightarrow> pos_sum refs = 0"
    using totalWeight_exact [OF assms] pos_sum_nonneg [of refs]
    by (auto simp: selectByWeight_def Let_def split: option.splits)
  have "{d. 0 \<le> d \<and> d < pos_sum refs \<and> selectByWeight (\<lambda>_. d) refs = Inr (Some ref)} = draws ref refs"
    using selectByWeight_select [OF assms, of "\<lambda>_. d" for d] by (fastforce simp: draws_def)
  then show ?thesis
    using zero none card_draws [of ref refs] selectByWeight_select [OF assms, of intN]
    by force
qed

definition sample_resolved :: "string \<Rightarrow> int \<Rightarrow> resolvedProviderRef" where
  "sample_resolved prov w =
     \<lparr>rr_provider = prov, rr_providerName = prov, rr_targetModel = ''m'', rr_apiFormat = OpenAIChatCompletions,
      rr_auth = APIKey, rr_endpoint = prov @ ''.example.com'', rr_path = ''/v1/chat/completions'',
      rr_secretName = ''key'', rr_secretNamespace = ''team'', rr_config = [], rr_weight = w\<rparr>"

theorem selectByWeight_fair_witness:
  "int (card {d. 0 \<le> d \<and> d < 4 \<and>
       selectByWeight (\<lambda>_. d) [sample_resolved ''openai'' 3, sample_resolved ''off'' 0, sample_resolved ''azure'' 1] =
         Inr (Some (sample_resolved ''openai'' 3))}) = 3"
proof -
  let ?refs = "[sample_resolved ''openai'' 3, sample_resolved ''off'' 0, sample_resolved ''azure'' 1]"
  have "pos_sum ?refs = 4" "share (sample_resolved ''openai'' 3) ?refs = 3"
    by (simp_all add: sample_resolved_def share_def)
  with selectByWeight_fair [of ?refs "\<lambda>_. 0" "sample_resolved ''openai'' 3"] show ?thesis
    by (simp add: max_int_def sample_resolved_def)
qed


section \<open>Routing\<close>

text \<open>The name a request is resolved by.\<close>

definition requested_model :: "InferenceRequest \<Rightarrow> string" where
  "requested_model r =
     (if gstr (Headers r) ModelNameHeader = [] then str_of (idx (Body r) ''model'')
      else gstr (Headers r) ModelNameHeader)"

definition external_request ::
  "ModelProviderResolverPlugin \<Rightarrow> InferenceRequest \<Rightarrow> externalModelInfo \<Rightarrow> bool" where
  "external_request p r info \<longleftrightarrow>
     str_of (idx (Body r) ''model'') \<noteq> [] \<and> getModelByName (mpr_store p) (requested_model r) = Some info"

lemma findRefByEndpoint_Some:
  "findRefByEndpoint refs d = Some ref \<Longrightarrow>
     ref \<in> set refs \<and> 0 < rr_weight ref \<and> stripPort (rr_endpoint ref) = stripPort d"
  by (induction refs d rule: findRefByEndpoint.induct) (auto split: if_splits)

text \<open>What the random generator and the weights of an entry must satisfy.\<close>

definition draw_ok :: "(int \<Rightarrow> int) \<Rightarrow> externalModelInfo \<Rightarrow> bool" where
  "draw_ok intN info \<longleftrightarrow>
     pos_sum (mi_refs info) \<le> max_int \<and> (\<forall>n > 0. 0 \<le> intN n \<and> intN n < n)"

lemma choose_ref_enabled:
  assumes "choose_ref p intN info name r = Inr ref" "draw_ok intN info"
  shows "ref \<in> set (mi_refs info) \<and> 0 < rr_weight ref"
proof (cases "hubMode p")
  case True
  with assms(1) show ?thesis
    by (auto simp: choose_ref_def dest: findRefByEndpoint_Some split: option.splits)
next
  case False
  with assms(1) have sel: "selectByWeight intN (mi_refs info) = Inr (Some ref)"
    by (auto simp: choose_ref_def split: sum.splits option.splits)
  moreover have "0 < pos_sum (mi_refs info)"
    using sel assms(2) pos_sum_nonneg [of "mi_refs info"] totalWeight_exact [of "mi_refs info"]
    by (auto simp: selectByWeight_def Let_def draw_ok_def split: if_splits)
  ultimately show ?thesis
    using selectByWeight_select [of "mi_refs info" intN] assms(2) by (auto simp: draw_ok_def)
qed

lemma read_write_ref:
  assumes "ipp_framework fw"
  shows "read_str fw ProviderKey (write_ref fw ref cs) = Some (rr_provider ref)"
    "read_str fw ModelKey (write_ref fw ref cs) = Some (rr_targetModel ref)"
    "read_format fw APIFormatKey (write_ref fw ref cs) = rr_apiFormat ref"
    "read_auth fw AuthTypeKey (write_ref fw ref cs) = Some (rr_auth ref)"
    "read_str fw EndpointKey (write_ref fw ref cs) = Some (rr_endpoint ref)"
    "read_str fw PathKey (write_ref fw ref cs) = Some (rr_path ref)"
    "read_str fw CredsRefName (write_ref fw ref cs) = Some (rr_secretName ref)"
    "read_str fw CredsRefNamespace (write_ref fw ref cs) = Some (rr_secretNamespace ref)"
    "read_strmap fw ModelConfigKey (write_ref fw ref cs) = Some (rr_config ref)"
    "read_format fw InputAPIFormatKey (write_ref fw ref cs) = read_format fw InputAPIFormatKey cs"
    "read_str fw OriginClusterKey (write_ref fw ref cs) = read_str fw OriginClusterKey cs"
  by (simp_all add: write_ref_def Let_def cs_reads ipp_framework.Read_Write [OF assms])

lemma Headers_restoreOrMarkOrigin:
  assumes "ipp_framework fw"
  shows "k \<noteq> OriginClusterHeader \<Longrightarrow>
      map_of (Headers (restoreOrMarkOrigin p fw cs r ref)) k = map_of (Headers r) k"
    and "Body (restoreOrMarkOrigin p fw cs r ref) = Body r"
  using assms
  by (auto simp: restoreOrMarkOrigin_def Let_def ipp_framework.Headers_SetHeader ipp_framework.Body_SetHeader)

definition input_format :: "InferenceRequest \<Rightarrow> string" where
  "input_format r = detectInputAPIFormat (sanitizePath (gstr (Headers r) '':path''))"

definition with_format :: "'cs framework \<Rightarrow> InferenceRequest \<Rightarrow> 'cs \<Rightarrow> 'cs" where
  "with_format fw r cs =
     (if input_format r \<noteq> [] then Write fw InputAPIFormatKey (CFormat (input_format r)) cs else cs)"

definition routed :: "'cs framework \<Rightarrow> resolvedProviderRef \<Rightarrow> InferenceRequest \<Rightarrow> InferenceRequest" where
  "routed fw ref r =
     (let r' = SetHeader fw ''Host'' (rr_endpoint ref) (SetHeader fw SelectedProviderHeader (rr_providerName ref) r)
      in if str_of (idx (Body r) ''model'') \<noteq> rr_targetModel ref
         then SetBodyField fw ''model'' (VStr (rr_targetModel ref)) r' else r')"

text \<open>The plugin on a request for an external model, in these terms.\<close>

lemma external_cases:
  assumes "external_request p r info"
  shows "resolver_ProcessRequest p marshal intN fw cs r =
    (case checkRoutingLoop p fw (with_format fw r cs) r of
       Some e \<Rightarrow> Inl e
     | None \<Rightarrow>
         if hubMode p \<and> gstr (Headers r) DestinationHeader = [] then
           (case propose marshal fw r info of Inl e \<Rightarrow> Inl e | Inr r' \<Rightarrow> Inr (with_format fw r cs, r'))
         else if input_format r = [] then Inl (CommonError BadRequest ''unsupported API endpoint'' [])
         else case choose_ref p intN info (requested_model r) r of
                Inl e \<Rightarrow> Inl e
              | Inr ref \<Rightarrow>
                  Inr (write_ref fw ref (with_format fw r cs),
                       restoreOrMarkOrigin p fw (write_ref fw ref (with_format fw r cs)) (routed fw ref r) ref))"
  using assms
  unfolding resolver_ProcessRequest_def external_request_def requested_model_def with_format_def routed_def
    input_format_def Let_def
  by (simp split del: if_split)

lemma originCluster_with_format:
  "ipp_framework fw \<Longrightarrow> originCluster fw (with_format fw r cs) r' = originCluster fw cs r'"
  by (simp add: originCluster_def with_format_def read_str_def ipp_framework.Read_Write)

lemma choose_ref_not_forbidden:
  "choose_ref p intN info name r = Inl e \<Longrightarrow> err_code e \<noteq> Some Forbidden"
  by (auto simp: choose_ref_def selectByWeight_def Let_def split: if_splits option.splits sum.splits)

lemma propose_not_forbidden: "propose marshal fw r info = Inl e \<Longrightarrow> err_code e \<noteq> Some Forbidden"
  by (auto simp: propose_def SetEndpointSubset_def Let_def split: if_splits option.splits)

lemma routing_loop:
  assumes "ipp_framework fw" "external_request p r info"
  shows "(\<exists>e. resolver_ProcessRequest p marshal intN fw cs r = Inl e \<and> err_code e = Some Forbidden) \<longleftrightarrow>
    clusterName p \<noteq> [] \<and> originCluster fw cs r \<noteq> [] \<and> equalFold (originCluster fw cs r) (clusterName p)"
  unfolding external_cases [OF assms(2)]
  by (auto simp: checkRoutingLoop_def Let_def originCluster_with_format [OF assms(1)]
      dest: choose_ref_not_forbidden propose_not_forbidden split: if_splits sum.splits option.splits)

text \<open>Loop detection is exact. A request for an external model is refused with \<^verbatim>\<open>Forbidden\<close> if and only
  if this cluster has a name and the request's recorded origin is that name (up to letter case); a
  request from another cluster, or without an origin, is never refused for it.\<close>

theorem routing_loop_exact:
  assumes "ipp_framework fw" "external_request p r info"
  shows "(\<exists>e. resolver_ProcessRequest p marshal intN fw cs r = Inl e \<and> err_code e = Some Forbidden) \<longleftrightarrow>
    clusterName p \<noteq> [] \<and> originCluster fw cs r \<noteq> [] \<and> equalFold (originCluster fw cs r) (clusterName p)"
  using assms by (rule routing_loop)

text \<open>A plugin of cluster hub-a that serves the model m through another MaaS cluster.\<close>

definition sample_plugin :: ModelProviderResolverPlugin where
  "sample_plugin =
     \<lparr>mpr_store = \<lparr>providers = [], models =
        [(''m'', \<lparr>mi_owner = \<lparr>nn_Namespace = ''team'', nn_Name = ''m''\<rparr>, mi_modelName = ''m'',
                 mi_refs = [sample_resolved ''remote-maas'' 1]\<rparr>)]\<rparr>,
      hubMode = False, clusterName = ''hub-a''\<rparr>"

definition sample_info :: externalModelInfo where
  "sample_info = \<lparr>mi_owner = \<lparr>nn_Namespace = ''team'', nn_Name = ''m''\<rparr>, mi_modelName = ''m'',
                  mi_refs = [sample_resolved ''remote-maas'' 1]\<rparr>"

definition sample_request :: "string gomap \<Rightarrow> InferenceRequest" where
  "sample_request hs =
     \<lparr>Headers = ('':path'', ''/team/m/v1/chat/completions'') # hs, Body = [(''model'', VStr ''m''), (''messages'', VList [VNil])]\<rparr>"

lemma sample_external: "external_request sample_plugin (sample_request []) sample_info"
  by (simp add: external_request_def sample_plugin_def sample_info_def sample_request_def requested_model_def
      gstr_def str_of_def getModelByName_def)

lemma sample_external_origin: "external_request sample_plugin (sample_request [(''x-origin-cluster'', c)]) sample_info"
  by (simp add: external_request_def sample_plugin_def sample_info_def sample_request_def requested_model_def
      gstr_def str_of_def getModelByName_def)

theorem routing_loop_exact_witness:
  "\<exists>e. resolver_ProcessRequest sample_plugin (\<lambda>_. None) (\<lambda>_. 0) ref_framework []
         (sample_request [(''x-origin-cluster'', ''HUB-A'')]) = Inl e \<and> err_code e = Some Forbidden"
proof -
  have "originCluster ref_framework [] (sample_request [(''x-origin-cluster'', ''HUB-A'')]) = ''HUB-A''
      \<and> equalFold ''HUB-A'' ''hub-a''"
    by code_simp
  with routing_loop_exact [OF ref_framework_ok sample_external_origin [of "''HUB-A''"]] show ?thesis
    by (simp add: sample_plugin_def)
qed


text \<open>What a successful resolution amounts to, outside the proposal phase of a hub.\<close>

lemma resolved_request:
  assumes "external_request p r info" "\<not> (hubMode p \<and> gstr (Headers r) DestinationHeader = [])"
    and "resolver_ProcessRequest p marshal intN fw cs r = Inr (cs', r')"
  obtains ref where "choose_ref p intN info (requested_model r) r = Inr ref" "input_format r \<noteq> []"
    "cs' = write_ref fw ref (with_format fw r cs)"
    "r' = restoreOrMarkOrigin p fw cs' (routed fw ref r) ref"
  using assms(2,3) unfolding external_cases [OF assms(1)]
  by (auto split: option.splits if_splits sum.splits)

lemma routed_request:
  assumes "ipp_framework fw"
  shows "map_of (Headers (routed fw ref r)) =
      (map_of (Headers r))(SelectedProviderHeader \<mapsto> rr_providerName ref, ''Host'' \<mapsto> rr_endpoint ref)"
    and "str_of (idx (Body (routed fw ref r)) ''model'') = rr_targetModel ref"
    and "k \<noteq> ''model'' \<Longrightarrow> idx (Body (routed fw ref r)) k = idx (Body r) k"
  using assms
  by (auto simp: routed_def Let_def ipp_framework.Headers_SetHeader ipp_framework.Headers_SetBodyField
      ipp_framework.Body_SetHeader ipp_framework.idx_SetBodyField str_of_def)

lemma resolver_routes:
  assumes "ipp_framework fw" "external_request p r info" "draw_ok intN info"
    and "\<not> (hubMode p \<and> gstr (Headers r) DestinationHeader = [])"
    and "resolver_ProcessRequest p marshal intN fw cs r = Inr (cs', r')"
  shows "\<exists>ref \<in> set (mi_refs info). 0 < rr_weight ref \<and>
    map_of (Headers r') SelectedProviderHeader = Some (rr_providerName ref) \<and>
    map_of (Headers r') ''Host'' = Some (rr_endpoint ref) \<and>
    str_of (idx (Body r') ''model'') = rr_targetModel ref \<and>
    (\<forall>k. k \<noteq> ''model'' \<longrightarrow> idx (Body r') k = idx (Body r) k) \<and>
    read_str fw ProviderKey cs' = Some (rr_provider ref) \<and>
    read_str fw ModelKey cs' = Some (rr_targetModel ref) \<and>
    read_format fw InputAPIFormatKey cs' = input_format r \<and> input_format r \<noteq> [] \<and>
    read_format fw APIFormatKey cs' = rr_apiFormat ref \<and>
    read_auth fw AuthTypeKey cs' = Some (rr_auth ref) \<and>
    read_str fw PathKey cs' = Some (rr_path ref) \<and>
    read_str fw CredsRefName cs' = Some (rr_secretName ref) \<and>
    read_str fw CredsRefNamespace cs' = Some (rr_secretNamespace ref) \<and>
    read_strmap fw ModelConfigKey cs' = Some (rr_config ref)"
proof -
  from assms(2,4,5) obtain ref where ref: "choose_ref p intN info (requested_model r) r = Inr ref"
    "input_format r \<noteq> []" "cs' = write_ref fw ref (with_format fw r cs)"
    "r' = restoreOrMarkOrigin p fw cs' (routed fw ref r) ref"
    by (rule resolved_request)
  have "read_format fw InputAPIFormatKey (with_format fw r cs) = input_format r"
    using ref(2) by (simp add: with_format_def read_format_def ipp_framework.Read_Write [OF assms(1)])
  moreover have "ref \<in> set (mi_refs info) \<and> 0 < rr_weight ref"
    using choose_ref_enabled [OF ref(1) assms(3)] .
  ultimately show ?thesis
    using ref(2) routed_request [OF assms(1), where ref = ref and r = r]
    by (intro bexI [of _ ref])
      (simp_all add: ref(3,4) read_write_ref [OF assms(1)] Headers_restoreOrMarkOrigin [OF assms(1)])
qed



text \<open>A request without any spelling of the origin header, as the headers guard leaves it.\<close>

definition origin_stripped :: "InferenceRequest \<Rightarrow> bool" where
  "origin_stripped r \<longleftrightarrow> (\<forall>k \<in> fst ` set (Headers r). \<not> equalFold k OriginClusterHeader)"

definition captured_origin :: "'cs framework \<Rightarrow> 'cs \<Rightarrow> string" where
  "captured_origin fw cs = (case read_str fw OriginClusterKey cs of Some c \<Rightarrow> trimSpace c | None \<Rightarrow> [])"

lemma originCluster_stripped:
  assumes "origin_stripped r"
  shows "originCluster fw cs r = captured_origin fw cs"
proof -
  have "find (\<lambda>(key, value). equalFold key OriginClusterHeader) (Headers r) = None"
    using assms by (force simp: find_None_iff origin_stripped_def)
  then show ?thesis by (simp add: originCluster_def captured_origin_def Let_def)
qed

lemma keys_dom: "fst ` set m = dom (map_of m)"
  by (rule dom_map_of_conv_image_fst [symmetric])

lemma header_names_not_origin:
  "\<not> equalFold SelectedProviderHeader OriginClusterHeader" "\<not> equalFold ''Host'' OriginClusterHeader"
  by code_simp+

lemma routed_stripped: "ipp_framework fw \<Longrightarrow> origin_stripped r \<Longrightarrow> origin_stripped (routed fw ref r)"
  using header_names_not_origin by (auto simp: origin_stripped_def keys_dom routed_request)

lemma captured_origin_kept:
  "ipp_framework fw \<Longrightarrow> captured_origin fw (write_ref fw ref (with_format fw r cs)) = captured_origin fw cs"
  by (simp add: captured_origin_def read_write_ref)
    (simp add: with_format_def read_str_def ipp_framework.Read_Write)

lemma origin_marked:
  assumes "ipp_framework fw" "external_request p r info" "origin_stripped r"
    and "\<not> (hubMode p \<and> gstr (Headers r) DestinationHeader = [])"
    and "resolver_ProcessRequest p marshal intN fw cs r = Inr (cs', r')"
  shows "\<exists>provider. read_str fw ProviderKey cs' = Some provider \<and>
    (if hubMode p \<or> equalFold provider provider_RemoteMaaS
     then gstr (Headers r') OriginClusterHeader =
       (if captured_origin fw cs = [] then clusterName p else captured_origin fw cs)
     else origin_stripped r')"
proof -
  from assms(2,4,5) obtain ref where ref: "cs' = write_ref fw ref (with_format fw r cs)"
    "r' = restoreOrMarkOrigin p fw cs' (routed fw ref r) ref"
    by (rule resolved_request)
  have strip: "origin_stripped (routed fw ref r)"
    by (rule routed_stripped [OF assms(1,3)])
  have org: "originCluster fw cs' (routed fw ref r) = captured_origin fw cs"
    by (simp add: originCluster_stripped [OF strip] ref(1) captured_origin_kept [OF assms(1)])
  have "map_of (Headers (routed fw ref r)) OriginClusterHeader = None"
    using strip by (force simp: origin_stripped_def map_of_eq_None_iff)
  then show ?thesis
    using strip org ipp_framework.Headers_SetHeader [OF assms(1)]
    by (auto simp: ref(1) ref(2) read_write_ref [OF assms(1)] restoreOrMarkOrigin_def shouldInjectOrigin_def
        Let_def gstr_def)
qed

text \<open>The origin marker travels only between MaaS clusters. Behind the headers guard, a request routed
  to a remote MaaS cluster (or over any hub hop) leaves with the origin it came with, else with this
  cluster's name; a request routed to a third-party provider leaves without the header.\<close>

theorem origin_marked_for_clusters_only:
  assumes "ipp_framework fw" "external_request p r info" "origin_stripped r"
    and "\<not> (hubMode p \<and> gstr (Headers r) DestinationHeader = [])"
    and "resolver_ProcessRequest p marshal intN fw cs r = Inr (cs', r')"
  shows "\<exists>provider. read_str fw ProviderKey cs' = Some provider \<and>
    (if hubMode p \<or> equalFold provider provider_RemoteMaaS
     then gstr (Headers r') OriginClusterHeader =
       (if captured_origin fw cs = [] then clusterName p else captured_origin fw cs)
     else origin_stripped r')"
  using assms by (rule origin_marked)

theorem origin_marked_for_clusters_only_witness:
  "\<exists>cs' r'. resolver_ProcessRequest sample_plugin (\<lambda>_. None) (\<lambda>_. 0) ref_framework [(OriginClusterKey, CStr ''hub-b'')]
         (sample_request []) = Inr (cs', r') \<and>
     gstr (Headers r') OriginClusterHeader = ''hub-b''"
proof -
  let ?cs = "[(OriginClusterKey, CStr ''hub-b'')]"
  have ok: "\<not> isl (resolver_ProcessRequest sample_plugin (\<lambda>_. None) (\<lambda>_. 0) ref_framework ?cs (sample_request [])) \<and>
      captured_origin ref_framework ?cs = ''hub-b'' \<and> \<not> equalFold '':path'' OriginClusterHeader"
    by code_simp
  then obtain cs' r' where *:
    "resolver_ProcessRequest sample_plugin (\<lambda>_. None) (\<lambda>_. 0) ref_framework ?cs (sample_request []) = Inr (cs', r')"
    by (metis sum.collapse(2) surj_pair)
  have hub: "\<not> (hubMode sample_plugin \<and> gstr (Headers (sample_request [])) DestinationHeader = [])"
    by (simp add: sample_plugin_def)
  have strip: "origin_stripped (sample_request [])"
    using ok by (simp add: origin_stripped_def sample_request_def)
  have "draw_ok (\<lambda>_. 0) sample_info" by (simp add: draw_ok_def sample_info_def sample_resolved_def max_int_def)
  have prov: "read_str ref_framework ProviderKey cs' = Some ''remote-maas''"
  proof -
    from sample_external hub * obtain ref where ref:
      "choose_ref sample_plugin (\<lambda>_. 0) sample_info (requested_model (sample_request [])) (sample_request []) = Inr ref"
      "cs' = write_ref ref_framework ref (with_format ref_framework (sample_request []) ?cs)"
      by (rule resolved_request)
    have "ref \<in> set (mi_refs sample_info)"
      using choose_ref_enabled [OF ref(1) \<open>draw_ok _ _\<close>] by simp
    then show ?thesis
      unfolding ref(2) read_write_ref [OF ref_framework_ok] by (simp add: sample_info_def sample_resolved_def)
  qed
  from origin_marked_for_clusters_only [OF ref_framework_ok sample_external strip hub *] * prov ok show ?thesis
    by auto
qed

end
