(* ===== verification/Headers_Guard.thy ===== *)
theory Headers_Guard
  imports Framework
begin

text \<open>
  \<^verbatim>\<open>maas-headers-guard/plugin.go\<close>: the first plugin of the chain. It takes the gateway's internal headers
  off the request, keeping the \<^verbatim>\<open>x-maas-*\<close> headers and the origin cluster in the CycleState, and drops
  the client's credentials. Each \<^verbatim>\<open>range\<close> over the headers deletes only keys it has reached, so it visits
  every header once.
\<close>

abbreviation headerPrefix where "headerPrefix \<equiv> ''x-maas-''"
abbreviation modelNameHeader where "modelNameHeader \<equiv> ''x-gateway-model-name''"
abbreviation selectedProviderHeader where "selectedProviderHeader \<equiv> ''x-ipp-selected-provider''"
abbreviation MaaSHeadersKey where "MaaSHeadersKey \<equiv> ''maas-headers''"

record HeadersGuard =
  stripRoutingHeaders :: bool

definition is_internal :: "string \<Rightarrow> bool" where
  "is_internal key \<longleftrightarrow> hasPrefix (toLower key) headerPrefix"

definition is_origin :: "string \<Rightarrow> bool" where
  "is_origin key \<longleftrightarrow> equalFold key OriginClusterHeader"

definition is_routing :: "string \<Rightarrow> bool" where
  "is_routing key \<longleftrightarrow> equalFold key modelNameHeader \<or> equalFold key selectedProviderHeader"

definition headers_where :: "(string \<Rightarrow> bool) \<Rightarrow> InferenceRequest \<Rightarrow> string gomap" where
  "headers_where P request = filter (\<lambda>(key, value). P key) (Headers request)"

definition guard_ProcessRequest ::
  "HeadersGuard \<Rightarrow> 'cs framework \<Rightarrow> 'cs \<Rightarrow> InferenceRequest \<Rightarrow> ('cs \<times> InferenceRequest) result" where
  "guard_ProcessRequest p fw cycleState request =
     (let internal = headers_where is_internal request;
          captured = gcopy [] internal;
          request = remove_headers fw (map fst internal) request;
          origins = headers_where is_origin request;
          cycleState = fold (\<lambda>(key, value) cs. Write fw OriginClusterKey (CStr value) cs) origins cycleState;
          request = remove_headers fw (map fst origins) request;
          request = (if stripRoutingHeaders p
                     then remove_headers fw (map fst (headers_where is_routing request)) request else request);
          request = RemoveHeader fw ''authorization'' request;
          request = RemoveHeader fw ''x-api-key'' request;
          cycleState = Write fw MaaSHeadersKey (CStrMap captured) cycleState
      in Inr (cycleState, request))"

section \<open>Lemmas\<close>

lemma keys_headers_where: "set (map fst (headers_where P r)) = {k. map_of (Headers r) k \<noteq> None \<and> P k}"
  by (force simp: headers_where_def map_of_eq_None_iff)

lemma headers_removed:
  assumes "ipp_framework fw"
  shows "map_of (Headers (remove_headers fw (map fst (headers_where P r)) r)) k =
    (if P k then None else map_of (Headers r) k)"
proof -
  have "map_of (Headers (remove_headers fw (map fst (headers_where P r)) r)) k =
      (if k \<in> set (map fst (headers_where P r)) then None else map_of (Headers r) k)"
    by (simp add: ipp_framework.Headers_remove_headers [OF assms] restrict_map_def)
  also have "\<dots> = (if P k then None else map_of (Headers r) k)"
    unfolding keys_headers_where by auto
  finally show ?thesis .
qed

lemma read_origins:
  assumes "ipp_framework fw"
  shows "read_str fw OriginClusterKey (fold (\<lambda>(key, value) cs. Write fw OriginClusterKey (CStr value) cs) hs cs) =
    (if hs = [] then read_str fw OriginClusterKey cs else Some (snd (last hs)))"
  by (induction hs arbitrary: cs)
    (auto simp: read_str_def ipp_framework.Read_Write [OF assms] split: prod.splits)

lemma map_of_headers_where:
  "map_of (headers_where P r) k = (if P k then map_of (Headers r) k else None)"
proof -
  have "map_of (filter (\<lambda>(key, value). P key) m) k = (if P k then map_of m k else None)" for m :: "string gomap"
    by (induction m) auto
  then show ?thesis by (simp add: headers_where_def)
qed

section \<open>Property\<close>

text \<open>The headers the guard takes away.\<close>

definition guarded :: "HeadersGuard \<Rightarrow> string \<Rightarrow> bool" where
  "guarded p key \<longleftrightarrow>
     is_internal key \<or> is_origin key \<or> (stripRoutingHeaders p \<and> is_routing key) \<or>
     key = ''authorization'' \<or> key = ''x-api-key''"

lemma guard_spec:
  assumes "ipp_framework fw" "wf_map (Headers r)"
  shows "\<exists>cs' r' captured. guard_ProcessRequest p fw cs r = Inr (cs', r') \<and> Body r' = Body r \<and>
    (\<forall>k. map_of (Headers r') k = (if guarded p k then None else map_of (Headers r) k)) \<and>
    read_strmap fw MaaSHeadersKey cs' = Some captured \<and>
    (\<forall>k. map_of captured k = (if is_internal k then map_of (Headers r) k else None)) \<and>
    (\<forall>k v. is_origin k \<and> \<not> is_internal k \<and> map_of (Headers r) k = Some v \<longrightarrow>
       (\<exists>k' v'. is_origin k' \<and> map_of (Headers r) k' = Some v' \<and> read_str fw OriginClusterKey cs' = Some v'))"
proof -
  let ?internal = "headers_where is_internal r"
  let ?r1 = "remove_headers fw (map fst ?internal) r"
  let ?origins = "headers_where is_origin ?r1"
  let ?r2 = "remove_headers fw (map fst ?origins) ?r1"
  let ?r3 = "if stripRoutingHeaders p then remove_headers fw (map fst (headers_where is_routing ?r2)) ?r2 else ?r2"
  let ?cs = "fold (\<lambda>(key, value) cs. Write fw OriginClusterKey (CStr value) cs) ?origins cs"
  have wf: "wf_map ?internal"
    using assms(2) by (simp add: headers_where_def wf_map_def distinct_map_filter)
  have hs: "map_of (Headers (RemoveHeader fw ''x-api-key'' (RemoveHeader fw ''authorization'' ?r3))) k =
      (if guarded p k then None else map_of (Headers r) k)" for k
    by (simp add: ipp_framework.Headers_RemoveHeader [OF assms(1)] headers_removed [OF assms(1)] guarded_def)
  have body: "Body (RemoveHeader fw ''x-api-key'' (RemoveHeader fw ''authorization'' ?r3)) = Body r"
    by (simp add: ipp_framework.Body_RemoveHeader [OF assms(1)] ipp_framework.Body_remove_headers [OF assms(1)])
  have origin: "\<exists>k' v'. is_origin k' \<and> map_of (Headers r) k' = Some v' \<and> read_str fw OriginClusterKey ?cs = Some v'"
    if "is_origin k" "\<not> is_internal k" "map_of (Headers r) k = Some v" for k v
  proof -
    have "map_of ?origins k = Some v"
      using that by (simp add: map_of_headers_where headers_removed [OF assms(1)])
    then have ne: "?origins \<noteq> []" by auto
    obtain k' v' where last: "last ?origins = (k', v')" by (cases "last ?origins")
    with ne have "(k', v') \<in> set ?origins" by (metis last_in_set)
    moreover have "wf_map (Headers ?r1)"
      using assms by (simp add: ipp_framework.wf_remove_headers)
    ultimately have "is_origin k'" "map_of (Headers ?r1) k' = Some v'"
      by (auto simp: headers_where_def in_set_map_of)
    with ne last show ?thesis
      using read_origins [OF assms(1), of ?origins cs] headers_removed [OF assms(1), of is_internal r k']
      by (auto split: if_splits)
  qed
  let ?cs' = "Write fw MaaSHeadersKey (CStrMap (gcopy [] ?internal)) ?cs"
  have captured: "map_of (gcopy [] ?internal) k = (if is_internal k then map_of (Headers r) k else None)" for k
    by (simp add: map_of_gcopy [OF wf] map_of_headers_where)
  have result: "guard_ProcessRequest p fw cs r =
      Inr (?cs', RemoveHeader fw ''x-api-key'' (RemoveHeader fw ''authorization'' ?r3))"
    unfolding guard_ProcessRequest_def Let_def ..
  have reads: "read_strmap fw MaaSHeadersKey ?cs' = Some (gcopy [] ?internal)"
    "read_str fw OriginClusterKey ?cs' = read_str fw OriginClusterKey ?cs"
    by (simp_all add: read_str_def read_strmap_def ipp_framework.Read_Write [OF assms(1)])
  have origin': "\<exists>k' v'. is_origin k' \<and> map_of (Headers r) k' = Some v' \<and> read_str fw OriginClusterKey ?cs' = Some v'"
    if "is_origin k \<and> \<not> is_internal k \<and> map_of (Headers r) k = Some v" for k v
    using origin that unfolding reads(2) by blast
  show ?thesis
    by (rule exI [of _ ?cs'], rule exI [of _ "RemoveHeader fw ''x-api-key'' (RemoveHeader fw ''authorization'' ?r3)"],
        rule exI [of _ "gcopy [] ?internal"], intro conjI allI impI)
      (rule result body hs reads(1) captured origin', assumption?)+
qed

text \<open>C5: The guard takes exactly the internal headers off. The request keeps every header but the
  \<^verbatim>\<open>x-maas-*\<close> ones (in any letter case), the origin cluster, the client's credentials and, where
  configured, the routing headers; the body is untouched; the \<^verbatim>\<open>x-maas-*\<close> headers are in the CycleState
  with their values, and so is the origin cluster when one was sent.\<close>

theorem guard_strips_and_captures:
  assumes "ipp_framework fw" "wf_map (Headers r)"
  shows "\<exists>cs' r' captured. guard_ProcessRequest p fw cs r = Inr (cs', r') \<and> Body r' = Body r \<and>
    (\<forall>k. map_of (Headers r') k = (if guarded p k then None else map_of (Headers r) k)) \<and>
    read_strmap fw MaaSHeadersKey cs' = Some captured \<and>
    (\<forall>k. map_of captured k = (if is_internal k then map_of (Headers r) k else None)) \<and>
    (\<forall>k v. is_origin k \<and> \<not> is_internal k \<and> map_of (Headers r) k = Some v \<longrightarrow>
       (\<exists>k' v'. is_origin k' \<and> map_of (Headers r) k' = Some v' \<and> read_str fw OriginClusterKey cs' = Some v'))"
  using assms by (rule guard_spec)

theorem guard_strips_and_captures_witness:
  "\<exists>cs' r'. guard_ProcessRequest \<lparr>stripRoutingHeaders = True\<rparr> ref_framework []
       \<lparr>Headers = [(''X-MaaS-User'', ''u''), (''authorization'', ''Bearer k''), (''accept'', ''*'')], Body = []\<rparr> =
         Inr (cs', r') \<and>
     map_of (Headers r') ''X-MaaS-User'' = None \<and> map_of (Headers r') ''authorization'' = None"
proof -
  let ?r = "\<lparr>Headers = [(''X-MaaS-User'', ''u''), (''authorization'', ''Bearer k''), (''accept'', ''*'')], Body = []\<rparr>"
  have "wf_map (Headers ?r)" by simp
  moreover have "guarded \<lparr>stripRoutingHeaders = True\<rparr> ''X-MaaS-User''"
    and "guarded \<lparr>stripRoutingHeaders = True\<rparr> ''authorization''"
    by code_simp+
  ultimately show ?thesis
    using guard_strips_and_captures [OF ref_framework_ok, of ?r "\<lparr>stripRoutingHeaders = True\<rparr>" "[]"] by metis
qed

end
