(* ===== verification/Stream_Usage.thy ===== *)
theory Stream_Usage
  imports Framework
begin

text \<open>
  \<^verbatim>\<open>stream-usage-enforcer/plugin.go\<close>: makes streaming chat requests report their token usage.
\<close>

definition enforcer_ProcessRequest :: "'cs framework \<Rightarrow> 'cs \<Rightarrow> InferenceRequest \<Rightarrow> InferenceRequest result" where
  "enforcer_ProcessRequest fw cycleState request =
     (case as_bool (idx (Body request) ''stream'') of
        None \<Rightarrow> Inr request
      | Some stream \<Rightarrow>
          if \<not> stream then Inr request
          else
            (let inputFormat = read_format fw InputAPIFormatKey cycleState
             in if inputFormat \<noteq> [] \<and> inputFormat \<noteq> OpenAIChatCompletions then Inr request
                else
                  (let streamOptions = obj_of (idx (Body request) ''stream_options'')
                   in if as_bool (idx streamOptions ''include_usage'') = Some True then Inr request
                      else Inr (SetBodyField fw ''stream_options''
                                  (VMap (gset ''include_usage'' (VBool True) streamOptions)) request))))"

text \<open>The requests the enforcer is about.\<close>

definition streaming_chat :: "'cs framework \<Rightarrow> 'cs \<Rightarrow> InferenceRequest \<Rightarrow> bool" where
  "streaming_chat fw cs r \<longleftrightarrow>
     idx (Body r) ''stream'' = VBool True \<and>
     read_format fw InputAPIFormatKey cs \<in> {[], OpenAIChatCompletions}"

lemma as_bool_Some: "as_bool v = Some b \<longleftrightarrow> v = VBool b"
  by (cases v) auto

lemma enforcer_spec:
  assumes "ipp_framework fw"
  shows "\<exists>r'. enforcer_ProcessRequest fw cs r = Inr r' \<and> Headers r' = Headers r \<and>
    (\<forall>k. k \<noteq> ''stream_options'' \<longrightarrow> map_of (Body r') k = map_of (Body r) k) \<and>
    (if streaming_chat fw cs r
     then idx (obj_of (idx (Body r') ''stream_options'')) ''include_usage'' = VBool True \<and>
       (\<forall>k. k \<noteq> ''include_usage'' \<longrightarrow>
          idx (obj_of (idx (Body r') ''stream_options'')) k = idx (obj_of (idx (Body r) ''stream_options'')) k)
     else r' = r)"
  by (auto simp: enforcer_ProcessRequest_def streaming_chat_def Let_def as_bool_Some obj_of_def [of "VMap _"]
      ipp_framework.Headers_SetBodyField [OF assms] ipp_framework.Body_SetBodyField [OF assms]
      ipp_framework.idx_SetBodyField [OF assms] split: option.split bool.split)

text \<open>The enforcer makes every streaming chat request ask for usage, and touches nothing else. It never
  fails; afterwards \<^verbatim>\<open>stream_options.include_usage\<close> is true for a streaming chat request, the other stream
  options and all other fields and the headers are the client's, and any other request is unchanged.\<close>

theorem enforcer_requests_usage:
  assumes "ipp_framework fw"
  shows "\<exists>r'. enforcer_ProcessRequest fw cs r = Inr r' \<and> Headers r' = Headers r \<and>
    (\<forall>k. k \<noteq> ''stream_options'' \<longrightarrow> map_of (Body r') k = map_of (Body r) k) \<and>
    (if streaming_chat fw cs r
     then idx (obj_of (idx (Body r') ''stream_options'')) ''include_usage'' = VBool True \<and>
       (\<forall>k. k \<noteq> ''include_usage'' \<longrightarrow>
          idx (obj_of (idx (Body r') ''stream_options'')) k = idx (obj_of (idx (Body r) ''stream_options'')) k)
     else r' = r)"
  using assms by (rule enforcer_spec)

theorem enforcer_requests_usage_witness:
  "\<exists>r'. enforcer_ProcessRequest ref_framework []
       \<lparr>Headers = [], Body = [(''stream'', VBool True), (''stream_options'', VMap [(''x'', VInt 1)])]\<rparr> = Inr r' \<and>
     idx (obj_of (idx (Body r') ''stream_options'')) ''include_usage'' = VBool True \<and>
     idx (obj_of (idx (Body r') ''stream_options'')) ''x'' = VInt 1"
proof -
  let ?r = "\<lparr>Headers = [], Body = [(''stream'', VBool True), (''stream_options'', VMap [(''x'', VInt 1)])]\<rparr>"
  have "streaming_chat ref_framework [] ?r" by (simp add: streaming_chat_def read_format_def)
  with enforcer_requests_usage [OF ref_framework_ok, of "[]" ?r] show ?thesis
    by (auto simp: obj_of_def [of "VMap [(''x'', VInt 1)]"])
qed

end
