(* ===== verification/Secret_Store.thy ===== *)
theory Secret_Store
  imports Keyed_Store
begin

text \<open>
  \<^verbatim>\<open>apikey-injection/store.go\<close> and \<^verbatim>\<open>reconciler.go\<close>: the in-memory store of provider credentials and the
  reconciler that fills it from the labelled Secrets.
\<close>

record Secret =
  sec_Labels :: "string gomap"
  sec_Deleted :: bool
  sec_Data :: "string gomap"

record secretStore =
  secret_data :: "string gomap gomap gomap"

definition newSecretStore :: secretStore where
  "newSecretStore = \<lparr>secret_data = []\<rparr>"

definition secret_delete :: "string \<Rightarrow> string \<Rightarrow> secretStore \<Rightarrow> secretStore" where
  "secret_delete namespace name s =
     (case map_of (secret_data s) namespace of
        None \<Rightarrow> s
      | Some secretsByName \<Rightarrow>
          (let secretsByName = gdel name secretsByName
           in if secretsByName = [] then s\<lparr>secret_data := gdel namespace (secret_data s)\<rparr>
              else s\<lparr>secret_data := gset namespace secretsByName (secret_data s)\<rparr>))"

definition secret_get :: "secretStore \<Rightarrow> string \<Rightarrow> string \<Rightarrow> string gomap option" where
  "secret_get s namespace name =
     (case map_of (secret_data s) namespace of
        None \<Rightarrow> None
      | Some secretsByName \<Rightarrow> map_of secretsByName name)"

text \<open>The locked part of \<^verbatim>\<open>addOrUpdate\<close>.\<close>

definition store_credentials :: "string \<Rightarrow> string \<Rightarrow> string gomap \<Rightarrow> secretStore \<Rightarrow> secretStore" where
  "store_credentials namespace name credentials s =
     (let byName = (case map_of (secret_data s) namespace of None \<Rightarrow> [] | Some m \<Rightarrow> m)
      in s\<lparr>secret_data := gset namespace (gset name credentials byName) (secret_data s)\<rparr>)"

definition addOrUpdate :: "string \<Rightarrow> string \<Rightarrow> Secret \<Rightarrow> secretStore \<Rightarrow> secretStore \<times> err option" where
  "addOrUpdate namespace name secret s =
     (let key = namespace @ ''/'' @ name
      in if sec_Data secret = [] then
           (secret_delete namespace name s, Some (Errorf ''secret '%s' has no data fields'' [ArgS key]))
         else
           (case find (\<lambda>(field, value). value = []) (sec_Data secret) of
              Some (field, value) \<Rightarrow>
                (secret_delete namespace name s,
                 Some (Errorf (''secret '%s' has empty field '%s'' @ [CHR 0x27]) [ArgS key, ArgS field]))
            | None \<Rightarrow> (store_credentials namespace name (gcopy [] (sec_Data secret)) s, None)))"

abbreviation managedLabel where "managedLabel \<equiv> ''inference.llm-d.ai/ipp-managed''"

definition hasManagedLabel :: "Secret \<Rightarrow> bool" where
  "hasManagedLabel secret \<longleftrightarrow> gstr (sec_Labels secret) managedLabel = ''true''"

definition secret_Reconcile ::
  "(NamespacedName \<Rightarrow> Secret fetched) \<Rightarrow> NamespacedName \<Rightarrow> secretStore \<Rightarrow> secretStore \<times> err option" where
  "secret_Reconcile get req s =
     (case get req of
        Failed e \<Rightarrow> (s, Some (WrapErr ''unable to get Secret: %w'' [] e))
      | NotFound \<Rightarrow> (secret_delete (nn_Namespace req) (nn_Name req) s, None)
      | Found secret \<Rightarrow>
          if sec_Deleted secret \<or> \<not> hasManagedLabel secret then
            (secret_delete (nn_Namespace req) (nn_Name req) s, None)
          else
            (case addOrUpdate (nn_Namespace req) (nn_Name req) secret s of
               (s', Some e) \<Rightarrow> (s', Some (WrapErr ''unable to add or update Secret %s: %w'' [ArgS (nn_String req)] e))
             | (s', None) \<Rightarrow> (s', None)))"

section \<open>Laws\<close>

lemma secret_get_delete:
  "secret_get (secret_delete ns name s) ns' name' =
     (if ns' = ns \<and> name' = name then None else secret_get s ns' name')"
proof (cases "map_of (secret_data s) ns")
  case (Some byName)
  have "map_of byName name' = None" if "gdel name byName = []" "name' \<noteq> name"
    using that map_of_gdel [of name byName] by (metis fun_upd_other map_of.simps(1))
  with Some show ?thesis
    by (auto simp: secret_get_def secret_delete_def Let_def)
qed (auto simp: secret_get_def secret_delete_def)

lemma secret_get_store:
  "secret_get (store_credentials ns name creds s) ns' name' =
     (if ns' = ns \<and> name' = name then Some creds else secret_get s ns' name')"
  by (auto simp: secret_get_def store_credentials_def Let_def split: option.split)

interpretation credential_store: keyed_store "\<lambda>s (ns, name). secret_get s ns name"
    "\<lambda>(ns, name) creds. store_credentials ns name creds" "\<lambda>(ns, name). secret_delete ns name"
    "\<lambda>_. True" "\<lambda>_. True"
  by unfold_locales (auto simp: secret_get_store secret_get_delete split: if_splits)

section \<open>Property\<close>

text \<open>The credentials a Secret offers: none unless it is live, labelled, non-empty and free of empty fields.\<close>

definition offered :: "Secret \<Rightarrow> bool" where
  "offered secret \<longleftrightarrow>
     \<not> sec_Deleted secret \<and> hasManagedLabel secret \<and> sec_Data secret \<noteq> [] \<and>
     list_all (\<lambda>(field, value). value \<noteq> []) (sec_Data secret)"

text \<open>After a Secret is reconciled the store holds its credentials if and only if the Secret exists, is
  not being deleted, carries the managed label and has data without empty fields; in every other case
  the old credentials are gone, other Secrets are untouched, and when the read failed nothing
  changes.\<close>

theorem secret_Reconcile_reflects:
  "(case get req of
      Failed _ \<Rightarrow> fst (secret_Reconcile get req s) = s
    | NotFound \<Rightarrow> secret_get (fst (secret_Reconcile get req s)) (nn_Namespace req) (nn_Name req) = None
    | Found secret \<Rightarrow>
        (case secret_get (fst (secret_Reconcile get req s)) (nn_Namespace req) (nn_Name req) of
           None \<Rightarrow> \<not> offered secret
         | Some creds \<Rightarrow> offered secret \<and> creds = gcopy [] (sec_Data secret))) \<and>
   (\<forall>ns name. (ns, name) = (nn_Namespace req, nn_Name req) \<or>
      secret_get (fst (secret_Reconcile get req s)) ns name = secret_get s ns name)"
proof (cases "get req")
  case (Found secret)
  have find: "find (\<lambda>(field, value). value = []) m = None \<longleftrightarrow> list_all (\<lambda>(field, value). value \<noteq> []) m"
    for m :: "string gomap"
    by (induction m) auto
  show ?thesis
  proof (cases "offered secret")
    case True
    then show ?thesis
      using find [of "sec_Data secret"]
      by (auto simp: Found secret_Reconcile_def offered_def addOrUpdate_def Let_def secret_get_store)
  next
    case False
    then show ?thesis
      using find [of "sec_Data secret"]
      by (auto simp: Found secret_Reconcile_def offered_def addOrUpdate_def Let_def secret_get_delete
          split: option.splits)
  qed
qed (auto simp: secret_Reconcile_def secret_get_delete)

end
