(* ===== verification/Api_Key_Injection.thy ===== *)
theory Api_Key_Injection
  imports Secret_Store Framework
begin

text \<open>
  \<^verbatim>\<open>apikey-injection/plugin.go\<close> and \<^verbatim>\<open>auth-generator/\<close>: the plugin that adds the provider's credentials to
  a request. The three generators are values of one interface; the OAuth2 generator keeps a token
  cache, so a generator maps the credentials and the cache to the headers and the new cache.

  Passed in: \<^verbatim>\<open>json.Marshal\<close> of the body, SHA-256, the AWS signer and \<^verbatim>\<open>http.NewRequest\<close>, Google's token
  endpoint and the clock (in nanoseconds).
\<close>

section \<open>Parameters\<close>

record outside_world =
  w_marshal :: encoder
  w_sha256 :: "string \<Rightarrow> string"
  w_newRequest :: "string \<Rightarrow> err option"
  w_signHTTP :: "string \<Rightarrow> string \<Rightarrow> string \<Rightarrow> string \<Rightarrow> string \<Rightarrow> string \<Rightarrow> string \<Rightarrow> (string \<times> string) result"
  w_parseServiceAccount :: "string \<Rightarrow> err option"
  w_fetchToken :: "string \<Rightarrow> (string \<times> int) result"
  w_now :: int

text \<open>\<^verbatim>\<open>fmt.Sprintf("%x", h)\<close> and \<^verbatim>\<open>hex.EncodeToString\<close>\<close>

definition hex_digit :: "nat \<Rightarrow> char" where
  "hex_digit n = (if n < 10 then char_of (48 + n) else char_of (87 + n))"

definition hex_encode :: "string \<Rightarrow> string" where
  "hex_encode s = concat (map (\<lambda>c. [hex_digit (of_char c div 16), hex_digit (of_char c mod 16)]) s)"

definition sha256Hex :: "outside_world \<Rightarrow> string \<Rightarrow> string" where
  "sha256Hex w data = hex_encode (w_sha256 w data)"

section \<open>Generators\<close>

record cachedToken =
  ct_token :: "string option"
  ct_expiresAt :: int

type_synonym token_cache = "cachedToken gomap"

record 'cs AuthHeadersGenerator =
  ExtractRequestData :: "'cs framework \<Rightarrow> 'cs \<Rightarrow> InferenceRequest \<Rightarrow> string gomap result"
  GenerateAuthHeaders :: "string gomap \<Rightarrow> token_cache \<Rightarrow> string gomap result \<times> token_cache"

abbreviation apiKeyField where "apiKeyField \<equiv> ''api-key''"
abbreviation defaultAuthHeader where "defaultAuthHeader \<equiv> ''Authorization''"
abbreviation defaultAuthValuePrefix where "defaultAuthValuePrefix \<equiv> ''Bearer ''"

definition apikey_ExtractRequestData :: "'cs framework \<Rightarrow> 'cs \<Rightarrow> InferenceRequest \<Rightarrow> string gomap result" where
  "apikey_ExtractRequestData fw cycleState request =
     (case read_strmap fw ModelConfigKey cycleState of
        None \<Rightarrow> Inl (Errorf ''failed to extract config from cycle state - %w'' [])
      | Some config \<Rightarrow>
          (let headerName = gstr config APIKeyAuthHeaderName;
               authHeader = (if headerName \<noteq> [] then headerName else defaultAuthHeader);
               authValuePrefix =
                 (if headerName \<noteq> []
                  then (case map_of config APIKeyAuthValuePrefix of Some valuePrefix \<Rightarrow> valuePrefix | None \<Rightarrow> [])
                  else defaultAuthValuePrefix)
           in Inr [(APIKeyAuthHeaderName, authHeader), (APIKeyAuthValuePrefix, authValuePrefix)]))"

definition apikey_GenerateAuthHeaders :: "string gomap \<Rightarrow> string gomap result" where
  "apikey_GenerateAuthHeaders credentialsData =
     (case map_of credentialsData apiKeyField of
        None \<Rightarrow> Inl (Errorf ''credentials missing required field %s'' [ArgS apiKeyField])
      | Some apiKey \<Rightarrow>
          (case map_of credentialsData APIKeyAuthHeaderName of
             None \<Rightarrow> Inl (Errorf ''credentials missing required field %s'' [ArgS APIKeyAuthHeaderName])
           | Some headerName \<Rightarrow>
               (case map_of credentialsData APIKeyAuthValuePrefix of
                  None \<Rightarrow> Inl (Errorf ''credentials missing required field %s'' [ArgS APIKeyAuthValuePrefix])
                | Some valuePrefix \<Rightarrow> Inr [(headerName, valuePrefix @ apiKey)])))"

definition NewAPIKeyAuthGenerator :: "'cs AuthHeadersGenerator" where
  "NewAPIKeyAuthGenerator =
     \<lparr> ExtractRequestData = apikey_ExtractRequestData,
       GenerateAuthHeaders = (\<lambda>creds cache. (apikey_GenerateAuthHeaders creds, cache)) \<rparr>"

abbreviation awsAccessKeyField where "awsAccessKeyField \<equiv> ''aws-access-key-id''"
abbreviation awsSecretKeyField where "awsSecretKeyField \<equiv> ''aws-secret-access-key''"
abbreviation awsSessionTokenField where "awsSessionTokenField \<equiv> ''aws-session-token''"
abbreviation bodyField where "bodyField \<equiv> ''request_body''"
abbreviation endpointField where "endpointField \<equiv> ''endpoint''"
abbreviation pathField where "pathField \<equiv> ''path''"
abbreviation regionField where "regionField \<equiv> ''region''"
abbreviation serviceField where "serviceField \<equiv> ''service''"

definition regionFromEndpoint :: "string \<Rightarrow> string result" where
  "regionFromEndpoint endpoint =
     (if contains endpoint ''://'' then
        Inl (Errorf ''endpoint must be a bare hostname without scheme: %q'' [ArgS endpoint])
      else
        (let parts = split ''.'' endpoint
         in if length parts \<noteq> 4 \<or> parts ! 2 \<noteq> ''amazonaws'' \<or> parts ! 3 \<noteq> ''com'' then
              Inl (Errorf (''cannot extract region from non-standard endpoint %q -- set '' @ [CHR 0x22] @ ''region''
                           @ [CHR 0x22] @ '' explicitly in ExternalProvider.spec.config'') [ArgS endpoint])
            else Inr (parts ! 1)))"

definition sigv4_ExtractRequestData ::
  "outside_world \<Rightarrow> 'cs framework \<Rightarrow> 'cs \<Rightarrow> InferenceRequest \<Rightarrow> string gomap result" where
  "sigv4_ExtractRequestData w fw cycleState request =
     (case w_marshal w (VMap (Body request)) of
        None \<Rightarrow> Inl (Errorf ''failed to marshal request body: %w'' [])
      | Some bodyBytes \<Rightarrow>
          (let endpoint = or_empty (read_str fw EndpointKey cycleState)
           in if endpoint = [] then
                Inl (Errorf ''missing or empty endpoint in CycleState (key %q)'' [ArgS EndpointKey])
              else
                (let path = gstr (Headers request) '':path''
                 in if path = [] then Inl (Errorf ''missing :path pseudo-header in request'' [])
                    else
                      (let config = (case read_strmap fw ModelConfigKey cycleState of Some m \<Rightarrow> m | None \<Rightarrow> []);
                           region = (if gstr config ''region'' \<noteq> [] then Inr (gstr config ''region'')
                                     else regionFromEndpoint endpoint)
                       in case region of
                            Inl e \<Rightarrow> Inl (WrapErr ''failed to resolve region: %w'' [] e)
                          | Inr region \<Rightarrow>
                              (let service = gstr config ''service''
                               in if service = [] then
                                    Inl (Errorf (''missing '' @ [CHR 0x22] @ ''service'' @ [CHR 0x22]
                                            @ '' in ExternalProvider.spec.config -- set the AWS service name (e.g. ''
                                            @ [CHR 0x22] @ ''bedrock'' @ [CHR 0x22] @ '', '' @ [CHR 0x22] @ ''sagemaker''
                                            @ [CHR 0x22] @ '')'') [])
                                  else Inr [(bodyField, bodyBytes), (endpointField, endpoint), (pathField, path),
                                            (regionField, region), (serviceField, service)])))))"

definition sigv4_GenerateAuthHeaders :: "outside_world \<Rightarrow> string gomap \<Rightarrow> string gomap result" where
  "sigv4_GenerateAuthHeaders w credentialsData =
     (let accessKey = gstr credentialsData awsAccessKeyField;
          secretKey = gstr credentialsData awsSecretKeyField
      in if accessKey = [] then
           Inl (Errorf ''credentials missing required field %s'' [ArgS awsAccessKeyField])
         else if secretKey = [] then
           Inl (Errorf ''credentials missing required field %s'' [ArgS awsSecretKeyField])
         else
           (let sessionToken = gstr credentialsData awsSessionTokenField;
                bodyHash = sha256Hex w (gstr credentialsData bodyField);
                endpoint = gstr credentialsData endpointField;
                path = gstr credentialsData pathField;
                region = gstr credentialsData regionField;
                service = gstr credentialsData serviceField;
                url = ''https://'' @ endpoint @ path
            in case w_newRequest w url of
                 Some e \<Rightarrow> Inl (WrapErr ''failed to build HTTP request for signing: %w'' [] e)
               | None \<Rightarrow>
                   (case w_signHTTP w accessKey secretKey sessionToken url bodyHash service region of
                      Inl e \<Rightarrow> Inl (WrapErr ''SigV4 signing failed: %w'' [] e)
                    | Inr (authorization, date) \<Rightarrow>
                        (let headers = [(''Authorization'', authorization), (''X-Amz-Date'', date),
                                        (''X-Amz-Content-Sha256'', bodyHash)]
                         in Inr (if sessionToken \<noteq> [] then gset ''X-Amz-Security-Token'' sessionToken headers
                                 else headers)))))"

definition NewSigV4AuthGenerator :: "outside_world \<Rightarrow> 'cs AuthHeadersGenerator" where
  "NewSigV4AuthGenerator w =
     \<lparr> ExtractRequestData = sigv4_ExtractRequestData w,
       GenerateAuthHeaders = (\<lambda>creds cache. (sigv4_GenerateAuthHeaders w creds, cache)) \<rparr>"

abbreviation gcpServiceAccountField where "gcpServiceAccountField \<equiv> ''gcp-service-account-json''"

definition cacheKey :: "outside_world \<Rightarrow> string \<Rightarrow> string" where
  "cacheKey w serviceAccountJSON = hex_encode (w_sha256 w serviceAccountJSON)"

text \<open>\<^verbatim>\<open>time.Now().Add(5 * time.Minute).Before(cached.expiresAt)\<close>\<close>

definition isTokenValid :: "outside_world \<Rightarrow> cachedToken \<Rightarrow> bool" where
  "isTokenValid w cached =
     (if ct_token cached = None then False else w_now w + 5 * 60 * 1000000000 < ct_expiresAt cached)"

definition getOrRefreshToken ::
  "outside_world \<Rightarrow> string \<Rightarrow> token_cache \<Rightarrow> string result \<times> token_cache" where
  "getOrRefreshToken w serviceAccountJSON cache =
     (let key = cacheKey w serviceAccountJSON;
          cached = (case map_of cache key of
                      Some c \<Rightarrow> if isTokenValid w c then ct_token c else None
                    | None \<Rightarrow> None)
      in case cached of
           Some token \<Rightarrow> (Inr token, cache)
         | None \<Rightarrow>
             (case w_parseServiceAccount w serviceAccountJSON of
                Some e \<Rightarrow> (Inl (WrapErr ''failed to parse service account JSON: %w'' [] e), cache)
              | None \<Rightarrow>
                  (case w_fetchToken w serviceAccountJSON of
                     Inl e \<Rightarrow> (Inl (WrapErr ''failed to obtain OAuth2 token: %w'' [] e), cache)
                   | Inr (token, expiry) \<Rightarrow>
                       (Inr token, gset key \<lparr>ct_token = Some token, ct_expiresAt = expiry\<rparr> cache))))"

definition gcp_ExtractRequestData :: "'cs framework \<Rightarrow> 'cs \<Rightarrow> InferenceRequest \<Rightarrow> string gomap result" where
  "gcp_ExtractRequestData fw cycleState request = Inr []"

definition gcp_GenerateAuthHeaders ::
  "outside_world \<Rightarrow> string gomap \<Rightarrow> token_cache \<Rightarrow> string gomap result \<times> token_cache" where
  "gcp_GenerateAuthHeaders w credentials cache =
     (case map_of credentials gcpServiceAccountField of
        None \<Rightarrow> (Inl (Errorf ''credentials missing required field %s'' [ArgS gcpServiceAccountField]), cache)
      | Some serviceAccountJSON \<Rightarrow>
          (case getOrRefreshToken w serviceAccountJSON cache of
             (Inl e, cache') \<Rightarrow> (Inl (WrapErr ''failed to get OAuth2 token: %w'' [] e), cache')
           | (Inr token, cache') \<Rightarrow> (Inr [(''Authorization'', ''Bearer '' @ token)], cache')))"

definition NewGCPOAuth2Generator :: "outside_world \<Rightarrow> 'cs AuthHeadersGenerator" where
  "NewGCPOAuth2Generator w =
     \<lparr> ExtractRequestData = gcp_ExtractRequestData, GenerateAuthHeaders = gcp_GenerateAuthHeaders w \<rparr>"

section \<open>The plugin\<close>

record ApiKeyInjectionPlugin =
  aki_store :: secretStore
  aki_cache :: token_cache

definition authHeadersGenerators :: "outside_world \<Rightarrow> (string \<times> 'cs AuthHeadersGenerator) list" where
  "authHeadersGenerators w =
     [(APIKey, NewAPIKeyAuthGenerator), (SigV4, NewSigV4AuthGenerator w), (OAuth2, NewGCPOAuth2Generator w)]"

definition injection_ProcessRequest ::
  "outside_world \<Rightarrow> 'cs framework \<Rightarrow> 'cs \<Rightarrow> InferenceRequest \<Rightarrow> ApiKeyInjectionPlugin \<Rightarrow>
     InferenceRequest result \<times> ApiKeyInjectionPlugin" where
  "injection_ProcessRequest w fw cycleState request p =
     (let authType = or_empty (read_auth fw AuthTypeKey cycleState)
      in if authType = [] then (Inr request, p)
         else if authType = AuthNone then (Inr (RemoveHeader fw ''authorization'' request), p)
         else
           (let credsName = or_empty (read_str fw CredsRefName cycleState);
                credsNamespace = or_empty (read_str fw CredsRefNamespace cycleState)
            in if credsName = [] then
                 (Inl (CommonError Internal ''authType '%s' is missing credentialRef'' [ArgS authType]), p)
               else if credsNamespace = [] then
                 (Inl (CommonError Internal ''authType '%s' is missing credentialRef namespace'' [ArgS authType]), p)
               else
                 (case secret_get (aki_store p) credsNamespace credsName of
                    None \<Rightarrow> (Inl (CommonError Internal ''authType '%s' credentials not found'' [ArgS authType]), p)
                  | Some credentialsData \<Rightarrow>
                      (case map_of (authHeadersGenerators w) authType of
                         None \<Rightarrow> (Inl (CommonError Internal (''unsupported authType - '%s'' @ [CHR 0x27]) [ArgS authType]), p)
                       | Some generator \<Rightarrow>
                           (case ExtractRequestData generator fw cycleState request of
                              Inl e \<Rightarrow>
                                (Inl (CommonError Internal ''failed to extract request data for authType '%s': %v''
                                        [ArgS authType, ArgE e]), p)
                            | Inr extraData \<Rightarrow>
                                (let credentialsData = (if extraData \<noteq> [] then gcopy (gcopy [] credentialsData) extraData
                                                        else credentialsData)
                                 in case GenerateAuthHeaders generator credentialsData (aki_cache p) of
                                      (Inl e, cache) \<Rightarrow>
                                        (Inl (CommonError Internal ''failed to generate auth headers for authType '%s': %v''
                                                [ArgS authType, ArgE e]), p\<lparr>aki_cache := cache\<rparr>)
                                    | (Inr authHeaders, cache) \<Rightarrow>
                                        (Inr (set_headers fw authHeaders request), p\<lparr>aki_cache := cache\<rparr>)))))))"

section \<open>The contract of a generator\<close>

locale auth_generator =
  fixes gen :: "'cs AuthHeadersGenerator"
  assumes headers_wf: "GenerateAuthHeaders gen creds cache = (Inr hs, cache') \<Longrightarrow> wf_map hs"
    and headers_nonempty: "GenerateAuthHeaders gen creds cache = (Inr hs, cache') \<Longrightarrow> hs \<noteq> []"
    and extracted_wf: "ExtractRequestData gen fw cs r = Inr extra \<Longrightarrow> wf_map extra"
begin

lemma injected_headers:
  assumes "ipp_framework fw" "GenerateAuthHeaders gen creds cache = (Inr hs, cache')"
  shows "map_of (Headers (set_headers fw hs r)) = map_of (Headers r) ++ map_of hs"
  using ipp_framework.Headers_set_headers [OF assms(1) headers_wf [OF assms(2)]] .

end

interpretation apikey_gen: auth_generator NewAPIKeyAuthGenerator
  by unfold_locales
    (auto simp: NewAPIKeyAuthGenerator_def apikey_GenerateAuthHeaders_def apikey_ExtractRequestData_def Let_def
      split: option.splits)

interpretation sigv4_gen: auth_generator "NewSigV4AuthGenerator w" for w
  by unfold_locales
    (auto simp: NewSigV4AuthGenerator_def sigv4_GenerateAuthHeaders_def sigv4_ExtractRequestData_def Let_def
      split: option.splits sum.splits if_splits)

interpretation gcp_gen: auth_generator "NewGCPOAuth2Generator w" for w
  by unfold_locales
    (auto simp: NewGCPOAuth2Generator_def gcp_GenerateAuthHeaders_def gcp_ExtractRequestData_def
      split: option.splits sum.splits prod.splits)

lemma registered_generator: "map_of (authHeadersGenerators w) authType = Some gen \<Longrightarrow> auth_generator gen"
  by (auto simp: authHeadersGenerators_def apikey_gen.auth_generator_axioms sigv4_gen.auth_generator_axioms
      gcp_gen.auth_generator_axioms split: if_splits)

text \<open>What a successful injection amounts to.\<close>

lemma injected_request:
  assumes "injection_ProcessRequest w fw cs r p = (Inr r', p')"
    and "read_auth fw AuthTypeKey cs = Some authType" "authType \<noteq> []" "authType \<noteq> AuthNone"
  obtains ns name creds gen extra hs cache where
    "read_str fw CredsRefNamespace cs = Some ns" "read_str fw CredsRefName cs = Some name"
    "secret_get (aki_store p) ns name = Some creds" "map_of (authHeadersGenerators w) authType = Some gen"
    "ExtractRequestData gen fw cs r = Inr extra"
    "GenerateAuthHeaders gen (if extra \<noteq> [] then gcopy (gcopy [] creds) extra else creds) (aki_cache p) = (Inr hs, cache)"
    "r' = set_headers fw hs r" "p' = p\<lparr>aki_cache := cache\<rparr>"
proof -
  from assms obtain ns name creds gen extra hs cache where
    "or_empty (read_str fw CredsRefNamespace cs) = ns" "ns \<noteq> []"
    "or_empty (read_str fw CredsRefName cs) = name" "name \<noteq> []"
    "secret_get (aki_store p) ns name = Some creds" "map_of (authHeadersGenerators w) authType = Some gen"
    "ExtractRequestData gen fw cs r = Inr extra"
    "GenerateAuthHeaders gen (if extra \<noteq> [] then gcopy (gcopy [] creds) extra else creds) (aki_cache p) = (Inr hs, cache)"
    "r' = set_headers fw hs r" "p' = p\<lparr>aki_cache := cache\<rparr>"
    by (auto simp: injection_ProcessRequest_def Let_def split: if_splits option.splits sum.splits prod.splits)
  with that show thesis
    by (cases "read_str fw CredsRefNamespace cs"; cases "read_str fw CredsRefName cs") auto
qed

section \<open>Properties\<close>

lemma injection_spec:
  assumes "ipp_framework fw" "read_auth fw AuthTypeKey cs = Some authType" "authType \<noteq> []" "authType \<noteq> AuthNone"
  shows "case fst (injection_ProcessRequest w fw cs r p) of
     Inl e \<Rightarrow> err_code e = Some Internal
   | Inr r' \<Rightarrow> authType \<in> {APIKey, SigV4, OAuth2} \<and> Body r' = Body r \<and>
       (\<exists>ns name creds hs. read_str fw CredsRefNamespace cs = Some ns \<and> read_str fw CredsRefName cs = Some name \<and>
          secret_get (aki_store p) ns name = Some creds \<and> hs \<noteq> [] \<and>
          map_of (Headers r') = map_of (Headers r) ++ map_of hs)"
proof (cases "injection_ProcessRequest w fw cs r p")
  case (Pair res p')
  show ?thesis
  proof (cases res)
    case (Inl e)
    with Pair assms(2-4) show ?thesis
      by (auto simp: injection_ProcessRequest_def Let_def split: if_splits option.splits sum.splits prod.splits)
  next
    case (Inr r')
    with Pair have "injection_ProcessRequest w fw cs r p = (Inr r', p')" by simp
    then obtain ns name creds gen extra hs cache where *:
      "read_str fw CredsRefNamespace cs = Some ns" "read_str fw CredsRefName cs = Some name"
      "secret_get (aki_store p) ns name = Some creds" "map_of (authHeadersGenerators w) authType = Some gen"
      "ExtractRequestData gen fw cs r = Inr extra"
      "GenerateAuthHeaders gen (if extra \<noteq> [] then gcopy (gcopy [] creds) extra else creds) (aki_cache p) = (Inr hs, cache)"
      "r' = set_headers fw hs r" "p' = p\<lparr>aki_cache := cache\<rparr>"
      using assms(2-4) by (rule injected_request)
    have "auth_generator gen" by (rule registered_generator [OF *(4)])
    from auth_generator.headers_nonempty [OF this *(6)] auth_generator.injected_headers [OF this assms(1) *(6)]
    have "hs \<noteq> []" "map_of (Headers r') = map_of (Headers r) ++ map_of hs" "Body r' = Body r"
      by (simp_all add: *(7) ipp_framework.Body_set_headers [OF assms(1)])
    moreover have "authType \<in> {APIKey, SigV4, OAuth2}"
      using *(4) by (auto simp: authHeadersGenerators_def split: if_splits)
    ultimately show ?thesis using * Pair Inr by auto
  qed
qed


definition no_world :: outside_world where
  "no_world =
     \<lparr>w_marshal = (\<lambda>_. Some ''{}''), w_sha256 = (\<lambda>s. s), w_newRequest = (\<lambda>_. None),
      w_signHTTP = (\<lambda>_ _ _ _ _ _ _. Inr (''AWS4'', ''now'')), w_parseServiceAccount = (\<lambda>_. None),
      w_fetchToken = (\<lambda>_. Inr (''tok'', 0)), w_now = 0\<rparr>"

definition sample_state :: "string \<Rightarrow> csval gomap" where
  "sample_state authType =
     [(AuthTypeKey, CAuth authType), (CredsRefName, CStr ''key''), (CredsRefNamespace, CStr ''team''),
      (ModelConfigKey, CStrMap [(''service'', ''bedrock'')]), (EndpointKey, CStr ''bedrock.us-east-1.amazonaws.com'')]"

definition sample_injection :: ApiKeyInjectionPlugin where
  "sample_injection =
     \<lparr>aki_store = \<lparr>secret_data = [(''team'', [(''key'',
        [(''api-key'', ''sk-1''), (''aws-access-key-id'', ''AK''), (''aws-secret-access-key'', ''SK''), (''path'', ''/evil'')])])]\<rparr>,
      aki_cache = []\<rparr>"

definition sample_req :: InferenceRequest where
  "sample_req = \<lparr>Headers = [('':path'', ''/v1'')], Body = []\<rparr>"






section \<open>The token cache\<close>

lemma hex_digit_inj:
  assumes "m < 16" "n < 16" "hex_digit m = hex_digit n"
  shows "m = n"
proof -
  have v: "(of_char (hex_digit k) :: nat) = (if k < 10 then 48 + k else 87 + k)" if "k < 16" for k
    using that by (simp add: hex_digit_def)
  from assms(3) have "(of_char (hex_digit m) :: nat) = of_char (hex_digit n)" by simp
  with assms(1,2) show ?thesis by (simp add: v split: if_splits)
qed

lemma hex_encode_inj: "hex_encode s = hex_encode t \<Longrightarrow> s = t"
proof (induction s arbitrary: t)
  case Nil
  then show ?case by (cases t) (auto simp: hex_encode_def)
next
  case (Cons c s)
  then obtain d t' where t: "t = d # t'" by (cases t) (auto simp: hex_encode_def)
  with Cons.prems have "hex_digit (of_char c div 16) = hex_digit (of_char d div 16)"
    "hex_digit (of_char c mod 16) = hex_digit (of_char d mod 16)" and rest: "hex_encode s = hex_encode t'"
    by (auto simp: hex_encode_def)
  moreover have "(of_char x :: nat) div 16 < 16" for x :: char
    using nat_of_char_less_256 [of x] by linarith
  ultimately have "(of_char c :: nat) div 16 = of_char d div 16" "(of_char c :: nat) mod 16 = of_char d mod 16"
    using hex_digit_inj by auto
  then have "(of_char c :: nat) = of_char d" by (metis div_mult_mod_eq)
  with Cons.IH [OF rest] t show ?case by simp
qed

text \<open>Every token of the cache was issued for the service account it is filed under.\<close>

definition cache_ok :: "outside_world \<Rightarrow> (string \<Rightarrow> string \<Rightarrow> bool) \<Rightarrow> token_cache \<Rightarrow> bool" where
  "cache_ok w issued cache \<longleftrightarrow>
     (\<forall>json c tok. map_of cache (cacheKey w json) = Some c \<longrightarrow> ct_token c = Some tok \<longrightarrow> issued json tok)"

lemma getOrRefreshToken_cases:
  assumes "getOrRefreshToken w json cache = (Inr tok, cache')"
  obtains (cached) c where "map_of cache (cacheKey w json) = Some c" "isTokenValid w c" "ct_token c = Some tok"
      "cache' = cache"
    | (fresh) ex where "w_fetchToken w json = Inr (tok, ex)"
      "cache' = gset (cacheKey w json) \<lparr>ct_token = Some tok, ct_expiresAt = ex\<rparr> cache"
proof (cases "case map_of cache (cacheKey w json) of Some c \<Rightarrow> if isTokenValid w c then ct_token c else None | None \<Rightarrow> None")
  case (Some t)
  with assms have "t = tok" "cache' = cache" by (simp_all add: getOrRefreshToken_def)
  with Some cached show ?thesis by (simp split: option.splits if_splits)
next
  case None
  with assms fresh show ?thesis
    by (simp add: getOrRefreshToken_def split: option.splits sum.splits prod.splits)
qed



end
