(* ===== verification/Level_Triggered.thy ===== *)
theory Level_Triggered
  imports Keyed_Store
begin

text \<open>
  A controller of controller-runtime, as far as the reconcilers of the plugins depend on it: the
  objects of the cluster, the informer cache that lags behind them, and the work queue. A key is
  \<^emph>\<open>pending\<close> from the delivery of an event until a worker takes it, \<^emph>\<open>running\<close> (with the object the
  worker read from the cache) until the reconcile is done, and \<^emph>\<open>retrying\<close> after a reconcile that
  asked for another one. A key that receives an event while it runs becomes pending again, and no key
  is run by two workers at once; both are what the work queue documents.

  The locale states what a level-triggered reconciler promises: the store answers for the key with
  what the object read asks for, and for other keys as before. Its lemmas show that the store then
  mirrors the cache wherever the queue is drained, whatever the interleaving. The reconcilers of
  providers and of Secrets are its instances.
\<close>

record ('k, 'o) controller =
  ctl_cluster :: "'k \<Rightarrow> 'o option"
  ctl_cache :: "'k \<Rightarrow> 'o option"
  ctl_pending :: "'k set"
  ctl_running :: "'k \<Rightarrow> 'o option option"
  ctl_retrying :: "'k set"

definition idle_controller :: "('k, 'o) controller" where
  "idle_controller =
     \<lparr>ctl_cluster = (\<lambda>_. None), ctl_cache = (\<lambda>_. None), ctl_pending = {}, ctl_running = (\<lambda>_. None),
      ctl_retrying = {}\<rparr>"

text \<open>The cluster changes; the informer sees the current object, filtered by its selector, and queues
  the key; events of other objects may queue keys too; a worker takes a key; a worker is done.\<close>

definition ctl_change :: "'k \<Rightarrow> 'o option \<Rightarrow> ('k, 'o) controller \<Rightarrow> ('k, 'o) controller" where
  "ctl_change k x c = c\<lparr>ctl_cluster := (ctl_cluster c)(k := x)\<rparr>"

definition ctl_enqueue :: "'k set \<Rightarrow> ('k, 'o) controller \<Rightarrow> ('k, 'o) controller" where
  "ctl_enqueue ks c = c\<lparr>ctl_pending := ctl_pending c \<union> ks\<rparr>"

definition ctl_deliver :: "('o option \<Rightarrow> 'o option) \<Rightarrow> 'k \<Rightarrow> ('k, 'o) controller \<Rightarrow> ('k, 'o) controller" where
  "ctl_deliver select k c =
     ctl_enqueue {k} (c\<lparr>ctl_cache := (ctl_cache c)(k := select (ctl_cluster c k))\<rparr>)"

definition ctl_can_start :: "'k \<Rightarrow> ('k, 'o) controller \<Rightarrow> bool" where
  "ctl_can_start k c \<longleftrightarrow> k \<in> ctl_pending c \<union> ctl_retrying c \<and> ctl_running c k = None"

definition ctl_start :: "'k \<Rightarrow> ('k, 'o) controller \<Rightarrow> ('k, 'o) controller" where
  "ctl_start k c =
     c\<lparr>ctl_pending := ctl_pending c - {k}, ctl_running := (ctl_running c)(k \<mapsto> ctl_cache c k),
       ctl_retrying := ctl_retrying c - {k}\<rparr>"

definition ctl_finish :: "'k \<Rightarrow> bool \<Rightarrow> ('k, 'o) controller \<Rightarrow> ('k, 'o) controller" where
  "ctl_finish k again c =
     c\<lparr>ctl_running := (ctl_running c)(k := None),
       ctl_retrying := (if again then insert k (ctl_retrying c) else ctl_retrying c)\<rparr>"

definition ctl_drained :: "('k, 'o) controller \<Rightarrow> 'k \<Rightarrow> bool" where
  "ctl_drained c k \<longleftrightarrow> k \<notin> ctl_pending c \<and> ctl_running c k = None"

definition ctl_quiet :: "('k, 'o) controller \<Rightarrow> bool" where
  "ctl_quiet c \<longleftrightarrow> ctl_pending c = {} \<and> ctl_running c = (\<lambda>_. None) \<and> ctl_retrying c = {}"

lemmas ctl_ops = ctl_change_def ctl_enqueue_def ctl_deliver_def ctl_start_def ctl_finish_def

lemma idle_controller_simps [simp]:
  "ctl_cluster idle_controller k = None" "ctl_cache idle_controller k = None"
  "ctl_pending idle_controller = {}" "ctl_running idle_controller k = None" "ctl_retrying idle_controller = {}"
  by (simp_all add: idle_controller_def)

text \<open>Every key is queued, or being worked on with the object of the cache, or done.\<close>

definition mirrors ::
  "('s \<Rightarrow> 'k \<Rightarrow> 'v option) \<Rightarrow> ('k \<Rightarrow> 'o option \<Rightarrow> 'v option) \<Rightarrow> ('k, 'o) controller \<Rightarrow> 's \<Rightarrow> 'k \<Rightarrow> bool" where
  "mirrors lookup desired c s k \<longleftrightarrow>
     k \<in> ctl_pending c \<or> ctl_running c k = Some (ctl_cache c k) \<or>
     ctl_running c k = None \<and> lookup s k = desired k (ctl_cache c k)"

text \<open>The cached objects are what the selector keeps of the cluster's, except where an event is on its way.\<close>

definition cache_current :: "('o option \<Rightarrow> 'o option) \<Rightarrow> ('k, 'o) controller \<Rightarrow> bool" where
  "cache_current select c \<longleftrightarrow> ctl_cache c = (\<lambda>k. select (ctl_cluster c k))"

locale level_triggered =
  fixes lookup :: "'s \<Rightarrow> 'k \<Rightarrow> 'v option"
    and sync :: "'k \<Rightarrow> 'o option \<Rightarrow> 's \<Rightarrow> 's"
    and desired :: "'k \<Rightarrow> 'o option \<Rightarrow> 'v option"
    and ok :: "'k \<Rightarrow> bool"
  assumes lookup_sync:
    "ok k \<Longrightarrow> ok k' \<Longrightarrow> lookup (sync k x s) k' = (if k' = k then desired k x else lookup s k')"
begin

lemma mirrors_change: "mirrors lookup desired c s k \<Longrightarrow> mirrors lookup desired (ctl_change k' x c) s k"
  by (simp add: mirrors_def ctl_change_def)

lemma mirrors_enqueue: "mirrors lookup desired c s k \<Longrightarrow> mirrors lookup desired (ctl_enqueue ks c) s k"
  by (auto simp: mirrors_def ctl_enqueue_def)

lemma mirrors_deliver: "mirrors lookup desired c s k \<Longrightarrow> mirrors lookup desired (ctl_deliver select k' c) s k"
  by (auto simp: mirrors_def ctl_deliver_def ctl_enqueue_def)

lemma mirrors_start: "mirrors lookup desired c s k \<Longrightarrow> mirrors lookup desired (ctl_start k' c) s k"
  by (auto simp: mirrors_def ctl_start_def)

lemma mirrors_finish:
  "mirrors lookup desired c s k \<Longrightarrow> ctl_running c k' = Some x \<Longrightarrow> ok k \<Longrightarrow> ok k' \<Longrightarrow>
     mirrors lookup desired (ctl_finish k' again c) (sync k' x s) k"
  by (auto simp: mirrors_def ctl_finish_def lookup_sync)

lemma mirrors_other_store:
  "mirrors lookup desired c s k \<Longrightarrow> lookup s' k = lookup s k \<Longrightarrow> mirrors lookup desired c s' k"
  by (simp add: mirrors_def)

lemma mirrors_drained:
  "mirrors lookup desired c s k \<Longrightarrow> ctl_drained c k \<Longrightarrow> lookup s k = desired k (ctl_cache c k)"
  by (auto simp: mirrors_def ctl_drained_def)

end

section \<open>Draining a queue\<close>

text \<open>The work of a controller between two events: workers take pending keys and finish them.\<close>

inductive drain_step :: "('k \<Rightarrow> 'o option \<Rightarrow> 's \<Rightarrow> 's \<times> bool) \<Rightarrow> ('k, 'o) controller \<times> 's \<Rightarrow> ('k, 'o) controller \<times> 's \<Rightarrow> bool"
  for rec where
  take_key: "k \<in> ctl_pending c \<Longrightarrow> ctl_running c k = None \<Longrightarrow> drain_step rec (c, s) (ctl_start k c, s)"
| put_back: "ctl_running c k = Some x \<Longrightarrow> rec k x s = (s', again) \<Longrightarrow>
    drain_step rec (c, s) (ctl_finish k again c, s')"

inductive_cases drain_stepE: "drain_step rec (c, s) (c', s')"

definition ctl_working :: "('k, 'o) controller \<Rightarrow> 'k set" where
  "ctl_working c = {k. ctl_running c k \<noteq> None}"

definition ctl_finite :: "('k, 'o) controller \<Rightarrow> bool" where
  "ctl_finite c \<longleftrightarrow> finite (ctl_pending c) \<and> finite (ctl_working c)"

definition backlog :: "('k, 'o) controller \<Rightarrow> nat" where
  "backlog c = 2 * card (ctl_pending c) + card (ctl_working c)"

lemma ctl_working_simps [simp]:
  "ctl_working (ctl_start k c) = insert k (ctl_working c)"
  "ctl_working (ctl_finish k again c) = ctl_working c - {k}"
  by (auto simp: ctl_working_def ctl_start_def ctl_finish_def)

lemma ctl_pending_simps [simp]:
  "ctl_pending (ctl_start k c) = ctl_pending c - {k}"
  "ctl_pending (ctl_finish k again c) = ctl_pending c"
  by (simp_all add: ctl_start_def ctl_finish_def)

lemma drain_step_backlog:
  assumes "drain_step rec (c, s) (c', s')" "ctl_finite c"
  shows "ctl_finite c' \<and> Suc (backlog c') = backlog c"
  using assms(1)
proof (cases rule: drain_step.cases)
  case (take_key k)
  then have "k \<in> ctl_pending c" "k \<notin> ctl_working c" by (auto simp: ctl_working_def)
  moreover from this have "0 < card (ctl_pending c)" using assms(2) by (auto simp: ctl_finite_def card_gt_0_iff)
  ultimately show ?thesis using take_key assms(2) by (auto simp: ctl_finite_def backlog_def)
next
  case (put_back k x again)
  then have "k \<in> ctl_working c" by (auto simp: ctl_working_def)
  moreover from this have "0 < card (ctl_working c)" using assms(2) by (auto simp: ctl_finite_def card_gt_0_iff)
  ultimately show ?thesis using put_back assms(2) by (auto simp: ctl_finite_def backlog_def)
qed

inductive drain_run ::
  "('k \<Rightarrow> 'o option \<Rightarrow> 's \<Rightarrow> 's \<times> bool) \<Rightarrow> nat \<Rightarrow> ('k, 'o) controller \<times> 's \<Rightarrow> ('k, 'o) controller \<times> 's \<Rightarrow> bool"
  for rec where
  drain_none: "drain_run rec 0 cs cs"
| drain_more: "drain_step rec cs cs' \<Longrightarrow> drain_run rec n cs' cs'' \<Longrightarrow> drain_run rec (Suc n) cs cs''"

lemma drain_run_backlog:
  assumes "drain_run rec n (c, s) (c', s')" "ctl_finite c"
  shows "ctl_finite c' \<and> n + backlog c' = backlog c"
proof -
  have "drain_run rec n cs cs' \<Longrightarrow> ctl_finite (fst cs) \<Longrightarrow>
      ctl_finite (fst cs') \<and> n + backlog (fst cs') = backlog (fst cs)" for cs cs'
  proof (induction rule: drain_run.induct)
    case (drain_more cs cs' n cs'')
    obtain c s c' s' where "cs = (c, s)" "cs' = (c', s')" by (metis prod.collapse)
    with drain_more drain_step_backlog [of rec c s c' s'] show ?case by auto
  qed simp
  from this [of "(c, s)" "(c', s')"] assms show ?thesis by simp
qed

lemma drain_stuck_iff:
  assumes "ctl_finite c"
  shows "(\<nexists>cs'. drain_step rec (c, s) cs') \<longleftrightarrow> ctl_pending c = {} \<and> ctl_working c = {}"
proof
  assume stuck: "\<nexists>cs'. drain_step rec (c, s) cs'"
  have idle: "ctl_working c = {}"
  proof (rule ccontr)
    assume "ctl_working c \<noteq> {}"
    then obtain k x where x: "ctl_running c k = Some x" by (auto simp: ctl_working_def)
    obtain s' again where "rec k x s = (s', again)" by (metis prod.collapse)
    from put_back [of c k x rec s s' again] x this stuck show False by blast
  qed
  moreover have "ctl_pending c = {}"
  proof (rule ccontr)
    assume "ctl_pending c \<noteq> {}"
    then obtain k where "k \<in> ctl_pending c" by auto
    with idle take_key [of k c rec s] stuck show False by (auto simp: ctl_working_def)
  qed
  ultimately show "ctl_pending c = {} \<and> ctl_working c = {}" by simp
next
  assume "ctl_pending c = {} \<and> ctl_working c = {}"
  then show "\<nexists>cs'. drain_step rec (c, s) cs'"
    by (auto simp: ctl_working_def elim!: drain_stepE)
qed

text \<open>From every state the queue can be drained, and every schedule that goes on long enough drains it.\<close>

lemma drain_exists:
  assumes "ctl_finite c"
  shows "\<exists>c' s'. drain_run rec (backlog c) (c, s) (c', s') \<and> ctl_pending c' = {} \<and> ctl_working c' = {}"
  using assms
proof (induction "backlog c" arbitrary: c s)
  case 0
  then have "ctl_pending c = {} \<and> ctl_working c = {}"
    by (auto simp: backlog_def ctl_finite_def)
  then show ?case using 0(1) drain_none by metis
next
  case (Suc n)
  then have "\<not> (ctl_pending c = {} \<and> ctl_working c = {})"
    by (auto simp: backlog_def)
  then obtain c1 s1 where step: "drain_step rec (c, s) (c1, s1)"
    using drain_stuck_iff [OF Suc.prems, of rec s] by (metis prod.collapse)
  from drain_step_backlog [OF step Suc.prems] Suc.hyps(2)
  have n: "n = backlog c1" "ctl_finite c1" by auto
  from Suc.hyps(1) [OF n, of s1] obtain c' s' where
    "drain_run rec n (c1, s1) (c', s')" "ctl_pending c' = {}" "ctl_working c' = {}"
    using n(1) by metis
  then show ?case using drain_more [OF step] Suc.hyps(2) by metis
qed

end
