(* ===== verification/Plugin_Stores.thy ===== *)
theory Plugin_Stores
  imports Level_Triggered Resolver_Reconcilers Secret_Store
begin

text \<open>
  The three store controllers of the plugins running side by side, as
  \<^verbatim>\<open>NewModelProviderResolver\<close> and \<^verbatim>\<open>NewAPIKeyInjectionPlugin\<close> register them: each has its own work
  queue, the providers and the models share the \<^verbatim>\<open>infoStore\<close>, and an event of a provider also queues
  the models that refer to it. The reconcilers are those of the component theories; a reconcile reads
  its object from the cache when it starts and writes the store when it ends, so that every
  interleaving of events and workers is a run of this system. Reads and lists come from the cache and
  do not fail, except the list of \<^verbatim>\<open>restoreModelNames\<close>, which may.
\<close>

definition fetched_of :: "'a option \<Rightarrow> 'a fetched" where
  "fetched_of x = (case x of None \<Rightarrow> NotFound | Some a \<Rightarrow> Found a)"

section \<open>Providers and Secrets mirror their caches\<close>

definition provider_sync :: "NamespacedName \<Rightarrow> ExternalProvider option \<Rightarrow> infoStore \<Rightarrow> infoStore" where
  "provider_sync k x s = fst (provider_Reconcile (\<lambda>_. fetched_of x) k s)"

text \<open>What the store should hold for a provider of the cluster.\<close>

definition provider_entry :: "NamespacedName \<Rightarrow> ExternalProvider option \<Rightarrow> providerInfo option" where
  "provider_entry k x =
     (case x of
        None \<Rightarrow> None
      | Some p \<Rightarrow>
          if meta_Deleted (ep_Meta p) then None
          else Some \<lparr>pi_provider = Provider (ep_Spec p), pi_endpoint = Endpoint (ep_Spec p),
                     pi_auth = mapCRDAuthType (auth_Type (Auth (ep_Spec p))),
                     pi_secretName = nameref_Name (auth_SecretRef (Auth (ep_Spec p))),
                     pi_secretNamespace = nn_Namespace k,
                     pi_config = buildConfigWithDefaults (Provider (ep_Spec p)) (Config (ep_Spec p))\<rparr>)"

interpretation provider_mirror: level_triggered getProvider provider_sync provider_entry valid_key
  by unfold_locales
    (simp add: provider_sync_def provider_Reconcile_def provider_entry_def fetched_of_def Let_def
      provider_store.lookup_put provider_store.lookup_del split: option.split)

definition secret_sync :: "NamespacedName \<Rightarrow> Secret option \<Rightarrow> secretStore \<Rightarrow> secretStore" where
  "secret_sync k x s = fst (secret_Reconcile (\<lambda>_. fetched_of x) k s)"

definition secret_of :: "secretStore \<Rightarrow> NamespacedName \<Rightarrow> string gomap option" where
  "secret_of s k = secret_get s (nn_Namespace k) (nn_Name k)"

definition secret_entry :: "NamespacedName \<Rightarrow> Secret option \<Rightarrow> string gomap option" where
  "secret_entry k x =
     (case x of None \<Rightarrow> None | Some secret \<Rightarrow> if offered secret then Some (gcopy [] (sec_Data secret)) else None)"

lemma secret_of_sync:
  "secret_of (secret_sync k x s) k' = (if k' = k then secret_entry k x else secret_of s k')"
proof -
  have "k' = k \<longleftrightarrow> (nn_Namespace k', nn_Name k') = (nn_Namespace k, nn_Name k)" by auto
  then show ?thesis
    using secret_Reconcile_reflects [of "\<lambda>_. fetched_of x" k s]
    by (cases x) (auto simp: secret_sync_def secret_of_def secret_entry_def fetched_of_def split: option.splits)
qed

interpretation secret_mirror: level_triggered secret_of secret_sync secret_entry "\<lambda>_. True"
  by unfold_locales (simp add: secret_of_sync)

text \<open>The label selector of \<^verbatim>\<open>newFilteredSecretCache\<close>: the informer never sees an unlabelled Secret.\<close>

definition filteredSecret :: "Secret option \<Rightarrow> Secret option" where
  "filteredSecret x = (case x of None \<Rightarrow> None | Some secret \<Rightarrow> if hasManagedLabel secret then Some secret else None)"

lemma secret_entry_filtered [simp]: "secret_entry k (filteredSecret x) = secret_entry k x"
  by (auto simp: secret_entry_def filteredSecret_def offered_def split: option.split)

section \<open>The system\<close>

record plugin_system =
  provider_ctl :: "(NamespacedName, ExternalProvider) controller"
  model_ctl :: "(NamespacedName, ExternalModel) controller"
  secret_ctl :: "(NamespacedName, Secret) controller"
  sys_info :: infoStore
  sys_creds :: secretStore

definition initial_system :: plugin_system where
  "initial_system =
     \<lparr>provider_ctl = idle_controller, model_ctl = idle_controller, secret_ctl = idle_controller,
      sys_info = newInfoStore, sys_creds = newSecretStore\<rparr>"

text \<open>The models that the cross-watch queues for a provider, from the models listed.\<close>

definition watched_models :: "ExternalModel list \<Rightarrow> ExternalProvider option \<Rightarrow> NamespacedName set" where
  "watched_models items x =
     (case x of
        None \<Rightarrow> {}
      | Some p \<Rightarrow> set (mapProviderToModels
                        (\<lambda>ns. Inr (filter (\<lambda>m. meta_Namespace (em_Meta m) = ns) items)) p))"

definition see_provider :: "NamespacedName \<Rightarrow> ExternalModel list \<Rightarrow> plugin_system \<Rightarrow> plugin_system" where
  "see_provider k items sys =
     (let c = provider_ctl sys
      in sys\<lparr>provider_ctl := ctl_deliver (\<lambda>x. x) k c,
             model_ctl := ctl_enqueue (watched_models items (ctl_cache c k) \<union> watched_models items (ctl_cluster c k))
                            (model_ctl sys)\<rparr>)"

definition finish_provider :: "NamespacedName \<Rightarrow> ExternalProvider option \<Rightarrow> plugin_system \<Rightarrow> plugin_system" where
  "finish_provider k x sys =
     sys\<lparr>provider_ctl := ctl_finish k False (provider_ctl sys), sys_info := provider_sync k x (sys_info sys)\<rparr>"

definition finish_secret :: "NamespacedName \<Rightarrow> Secret option \<Rightarrow> plugin_system \<Rightarrow> plugin_system" where
  "finish_secret k x sys =
     (case secret_Reconcile (\<lambda>_. fetched_of x) k (sys_creds sys) of
        (s, e) \<Rightarrow> sys\<lparr>secret_ctl := ctl_finish k (e \<noteq> None) (secret_ctl sys), sys_creds := s\<rparr>)"

definition finish_model ::
  "NamespacedName \<Rightarrow> ExternalModel option \<Rightarrow> ExternalModel list result \<Rightarrow> plugin_system \<Rightarrow> plugin_system" where
  "finish_model k x listed sys =
     (case model_Reconcile (\<lambda>_. fetched_of x) listed k (sys_info sys) of
        (s, r) \<Rightarrow> sys\<lparr>model_ctl := ctl_finish k (r \<noteq> Inr 0) (model_ctl sys), sys_info := s\<rparr>)"

text \<open>A list call answers with the models of the cache, in any order.\<close>

definition lists_cache :: "ExternalModel list \<Rightarrow> plugin_system \<Rightarrow> bool" where
  "lists_cache items sys \<longleftrightarrow> set items = ran (ctl_cache (model_ctl sys))"

text \<open>The steps. \<open>admit\<close> restricts when a worker takes a model and \<open>named\<close> which models the cluster may
  hold; the system as it is written has neither restriction. The cluster only holds objects under
  their own key.\<close>

inductive plugin_step ::
  "(plugin_system \<Rightarrow> NamespacedName \<Rightarrow> bool) \<Rightarrow> (ExternalModel \<Rightarrow> bool) \<Rightarrow> plugin_system \<Rightarrow> plugin_system \<Rightarrow> bool"
  for admit named where
  provider_changed: "valid_key k \<Longrightarrow> pred_option (\<lambda>p. object_key (ep_Meta p) = k) x \<Longrightarrow>
    plugin_step admit named sys (sys\<lparr>provider_ctl := ctl_change k x (provider_ctl sys)\<rparr>)"
| model_changed: "pred_option (\<lambda>m. object_key (em_Meta m) = k \<and> named m) x \<Longrightarrow> valid_key k \<Longrightarrow>
    plugin_step admit named sys (sys\<lparr>model_ctl := ctl_change k x (model_ctl sys)\<rparr>)"
| secret_changed: "plugin_step admit named sys (sys\<lparr>secret_ctl := ctl_change k y (secret_ctl sys)\<rparr>)"
| provider_seen: "valid_key k \<Longrightarrow> lists_cache items sys \<Longrightarrow>
    ctl_cache (provider_ctl sys) k \<noteq> None \<or> ctl_cluster (provider_ctl sys) k \<noteq> None \<Longrightarrow>
    plugin_step admit named sys (see_provider k items sys)"
| model_seen: "valid_key k \<Longrightarrow>
    plugin_step admit named sys (sys\<lparr>model_ctl := ctl_deliver (\<lambda>x. x) k (model_ctl sys)\<rparr>)"
| secret_seen: "plugin_step admit named sys (sys\<lparr>secret_ctl := ctl_deliver filteredSecret k (secret_ctl sys)\<rparr>)"
| provider_taken: "ctl_can_start k (provider_ctl sys) \<Longrightarrow>
    plugin_step admit named sys (sys\<lparr>provider_ctl := ctl_start k (provider_ctl sys)\<rparr>)"
| model_taken: "ctl_can_start k (model_ctl sys) \<Longrightarrow> admit sys k \<Longrightarrow>
    plugin_step admit named sys (sys\<lparr>model_ctl := ctl_start k (model_ctl sys)\<rparr>)"
| secret_taken: "ctl_can_start k (secret_ctl sys) \<Longrightarrow>
    plugin_step admit named sys (sys\<lparr>secret_ctl := ctl_start k (secret_ctl sys)\<rparr>)"
| provider_done: "ctl_running (provider_ctl sys) k = Some x \<Longrightarrow> plugin_step admit named sys (finish_provider k x sys)"
| model_done: "ctl_running (model_ctl sys) k = Some x \<Longrightarrow> lists_cache items sys \<Longrightarrow> listed \<in> {Inr items} \<union> range Inl \<Longrightarrow>
    plugin_step admit named sys (finish_model k x listed sys)"
| secret_done: "ctl_running (secret_ctl sys) k = Some y \<Longrightarrow> plugin_step admit named sys (finish_secret k y sys)"

inductive plugin_reach ::
  "(plugin_system \<Rightarrow> NamespacedName \<Rightarrow> bool) \<Rightarrow> (ExternalModel \<Rightarrow> bool) \<Rightarrow> plugin_system \<Rightarrow> bool"
  for admit named where
  system_start: "plugin_reach admit named initial_system"
| system_step: "plugin_reach admit named sys \<Longrightarrow> plugin_step admit named sys sys' \<Longrightarrow> plugin_reach admit named sys'"

text \<open>The system as it is written.\<close>

abbreviation "reachable_system \<equiv> plugin_reach (\<lambda>_ _. True) (\<lambda>_. True)"

section \<open>Every interleaving mirrors the cluster\<close>

lemma providers_restore_loop [simp]: "providers (restore_loop names items s) = providers s"
  by (induction names items s rule: restore_loop.induct) auto

lemma providers_model_Reconcile [simp]: "providers (fst (model_Reconcile get listed req s)) = providers s"
  by (auto simp: model_Reconcile_def restoreModelNames_def case_prod_beta split: fetched.split sum.split)

lemma models_provider_sync [simp]: "models (provider_sync k x s) = models s"
  by (auto simp: provider_sync_def provider_Reconcile_def Let_def fetched_of_def split: option.split)

lemma provider_ctl_simps [simp]:
  "provider_ctl (finish_secret k y sys) = provider_ctl sys" "provider_ctl (finish_model k z listed sys) = provider_ctl sys"
  "provider_ctl (finish_provider k x sys) = ctl_finish k False (provider_ctl sys)"
  "provider_ctl (see_provider k items sys) = ctl_deliver (\<lambda>x. x) k (provider_ctl sys)"
  by (simp_all add: finish_secret_def finish_model_def finish_provider_def see_provider_def Let_def case_prod_beta)

lemma secret_ctl_simps [simp]:
  "secret_ctl (finish_provider k x sys) = secret_ctl sys" "secret_ctl (finish_model k z listed sys) = secret_ctl sys"
  "secret_ctl (see_provider k items sys) = secret_ctl sys"
  by (simp_all add: finish_model_def finish_provider_def see_provider_def Let_def case_prod_beta)

lemma model_ctl_simps [simp]:
  "model_ctl (finish_provider k x sys) = model_ctl sys" "model_ctl (finish_secret k y sys) = model_ctl sys"
  by (simp_all add: finish_secret_def finish_provider_def case_prod_beta)

lemma info_simps [simp]:
  "sys_info (finish_provider k x sys) = provider_sync k x (sys_info sys)" "sys_info (finish_secret k y sys) = sys_info sys"
  "sys_info (see_provider k items sys) = sys_info sys"
  "providers (sys_info (finish_model k z listed sys)) = providers (sys_info sys)"
  by (simp_all add: finish_secret_def finish_model_def finish_provider_def see_provider_def Let_def case_prod_beta)

lemma creds_simps [simp]:
  "sys_creds (finish_provider k x sys) = sys_creds sys" "sys_creds (finish_model k z listed sys) = sys_creds sys"
  "sys_creds (see_provider k items sys) = sys_creds sys" "sys_creds (finish_secret k y sys) = secret_sync k y (sys_creds sys)"
  by (simp_all add: finish_secret_def finish_model_def finish_provider_def see_provider_def secret_sync_def Let_def
      case_prod_beta)

lemma getProvider_providers: "providers s = providers s' \<Longrightarrow> getProvider s k = getProvider s' k"
  by (simp add: getProvider_def)

text \<open>Only valid keys enter the queue of a controller that filters its events so.\<close>

definition keys_valid :: "(NamespacedName, 'o) controller \<Rightarrow> bool" where
  "keys_valid c \<longleftrightarrow> (\<forall>k. k \<in> ctl_pending c \<or> k \<in> ctl_retrying c \<or> ctl_running c k \<noteq> None \<longrightarrow> valid_key k)"

lemma keys_valid_ops [intro]:
  "keys_valid c \<Longrightarrow> keys_valid (ctl_change k x c)"
  "keys_valid c \<Longrightarrow> valid_key k \<Longrightarrow> keys_valid (ctl_deliver select k c)"
  "keys_valid c \<Longrightarrow> ctl_can_start k c \<Longrightarrow> keys_valid (ctl_start k c)"
  "keys_valid c \<Longrightarrow> ctl_running c k = Some y \<Longrightarrow> keys_valid (ctl_finish k again c)"
  by (auto simp: keys_valid_def ctl_ops ctl_can_start_def)

definition providers_mirrored :: "plugin_system \<Rightarrow> bool" where
  "providers_mirrored sys \<longleftrightarrow> keys_valid (provider_ctl sys) \<and>
     (\<forall>k. valid_key k \<longrightarrow> mirrors getProvider provider_entry (provider_ctl sys) (sys_info sys) k)"

definition secrets_mirrored :: "plugin_system \<Rightarrow> bool" where
  "secrets_mirrored sys \<longleftrightarrow> (\<forall>k. mirrors secret_of secret_entry (secret_ctl sys) (sys_creds sys) k)"

lemma plugin_step_providers:
  assumes "plugin_step admit named sys sys'" "providers_mirrored sys"
  shows "providers_mirrored sys'"
  using assms
proof (cases rule: plugin_step.cases)
  case (provider_done k x)
  then have "valid_key k" using assms(2) by (auto simp: providers_mirrored_def keys_valid_def)
  with provider_done assms(2) show ?thesis
    by (auto simp: providers_mirrored_def intro: provider_mirror.mirrors_finish)
next
  case (model_done k x items listed)
  then have "getProvider (sys_info sys') k' = getProvider (sys_info sys) k'" for k'
    by (intro getProvider_providers) simp
  with model_done assms(2) show ?thesis
    by (auto simp: providers_mirrored_def intro: provider_mirror.mirrors_other_store)
qed (auto simp: providers_mirrored_def intro: provider_mirror.mirrors_change provider_mirror.mirrors_deliver
       provider_mirror.mirrors_start)

lemma plugin_step_secrets:
  assumes "plugin_step admit named sys sys'" "secrets_mirrored sys"
  shows "secrets_mirrored sys'"
  using assms
proof (cases rule: plugin_step.cases)
  case (secret_done k x)
  then have "secret_ctl sys' = ctl_finish k (snd (secret_Reconcile (\<lambda>_. fetched_of x) k (sys_creds sys)) \<noteq> None) (secret_ctl sys)"
    by (simp add: finish_secret_def case_prod_beta)
  with secret_done assms(2) show ?thesis
    by (auto simp: secrets_mirrored_def intro: secret_mirror.mirrors_finish)
qed (auto simp: secrets_mirrored_def intro: secret_mirror.mirrors_change secret_mirror.mirrors_deliver
       secret_mirror.mirrors_start)

lemma plugin_reach_mirrored:
  assumes "plugin_reach admit named sys"
  shows "providers_mirrored sys \<and> secrets_mirrored sys"
  using assms
proof induction
  case system_start
  show ?case
    by (simp add: providers_mirrored_def secrets_mirrored_def keys_valid_def mirrors_def initial_system_def
        newInfoStore_def newSecretStore_def getProvider_def secret_of_def secret_get_def provider_entry_def
        secret_entry_def)
qed (blast intro: plugin_step_providers plugin_step_secrets)

text \<open>C8: Whatever the interleaving of cluster changes, informer deliveries and workers, including events that
  arrive while their object is being reconciled, the stores end up with what the cluster says. Once the
  informer has caught up and the queue of a provider is drained, the provider store answers with the
  entry of the provider in the cluster; likewise the credential store holds the data of a Secret if and
  only if the Secret in the cluster is live, labelled and free of empty fields, although the informer of
  Secrets never sees one without the label.\<close>

theorem stores_mirror_cluster:
  assumes "reachable_system sys"
  shows "(cache_current (\<lambda>x. x) (provider_ctl sys) \<longrightarrow>
      (\<forall>k. valid_key k \<and> ctl_drained (provider_ctl sys) k \<longrightarrow>
         getProvider (sys_info sys) k = provider_entry k (ctl_cluster (provider_ctl sys) k))) \<and>
    (cache_current filteredSecret (secret_ctl sys) \<longrightarrow>
      (\<forall>k. ctl_drained (secret_ctl sys) k \<longrightarrow>
         secret_get (sys_creds sys) (nn_Namespace k) (nn_Name k) =
           (case ctl_cluster (secret_ctl sys) k of
              None \<Rightarrow> None
            | Some secret \<Rightarrow> if offered secret then Some (gcopy [] (sec_Data secret)) else None)))"
proof -
  from plugin_reach_mirrored [OF assms] have m: "providers_mirrored sys" "secrets_mirrored sys" by auto
  have "getProvider (sys_info sys) k = provider_entry k (ctl_cluster (provider_ctl sys) k)"
    if "cache_current (\<lambda>x. x) (provider_ctl sys)" "valid_key k" "ctl_drained (provider_ctl sys) k" for k
    using m(1) that provider_mirror.mirrors_drained [of "provider_ctl sys" "sys_info sys" k]
    by (simp add: providers_mirrored_def cache_current_def)
  moreover have "secret_of (sys_creds sys) k = secret_entry k (ctl_cluster (secret_ctl sys) k)"
    if "cache_current filteredSecret (secret_ctl sys)" "ctl_drained (secret_ctl sys) k" for k
    using m(2) that secret_mirror.mirrors_drained [of "secret_ctl sys" "sys_creds sys" k]
    by (simp add: secrets_mirrored_def cache_current_def)
  ultimately show ?thesis by (simp add: secret_of_def secret_entry_def)
qed

section \<open>The race between providers and models\<close>

lemma ctl_cache_simps [simp]:
  "ctl_cache (ctl_change k x c) = ctl_cache c" "ctl_cache (ctl_enqueue ks c) = ctl_cache c"
  "ctl_cache (ctl_deliver select k c) = (ctl_cache c)(k := select (ctl_cluster c k))"
  "ctl_cache (ctl_start k c) = ctl_cache c" "ctl_cache (ctl_finish k again c) = ctl_cache c"
  by (simp_all add: ctl_ops)

lemma ctl_cluster_simps [simp]:
  "ctl_cluster (ctl_change k x c) = (ctl_cluster c)(k := x)" "ctl_cluster (ctl_enqueue ks c) = ctl_cluster c"
  "ctl_cluster (ctl_deliver select k c) = ctl_cluster c"
  "ctl_cluster (ctl_start k c) = ctl_cluster c" "ctl_cluster (ctl_finish k again c) = ctl_cluster c"
  by (simp_all add: ctl_ops)

abbreviation "key_openai \<equiv> \<lparr>nn_Namespace = ''team'', nn_Name = ''openai''\<rparr>"
abbreviation "key_gpt \<equiv> \<lparr>nn_Namespace = ''team'', nn_Name = ''gpt''\<rparr>"
abbreviation "gpt_model \<equiv> sample_model ''gpt'' None"

text \<open>The sample provider after an edit that moves it to another endpoint with another key.\<close>

definition moved_provider :: ExternalProvider where
  "moved_provider =
     sample_provider\<lparr>ep_Spec := (ep_Spec sample_provider)\<lparr>Endpoint := ''eu.openai.com'',
       Auth := \<lparr>auth_Type = ''simple'', auth_SecretRef = \<lparr>nameref_Name = ''key-eu''\<rparr>\<rparr>\<rparr>\<rparr>"

text \<open>A history: the provider and then the model are created and reconciled; then the provider is moved.
  Its event queues the provider and, by the cross-watch, the model, and the worker of the models is
  the faster one.\<close>

definition with_provider :: "ExternalProvider \<Rightarrow> ExternalModel list \<Rightarrow> plugin_system \<Rightarrow> plugin_system" where
  "with_provider p items sys =
     see_provider key_openai items (sys\<lparr>provider_ctl := ctl_change key_openai (Some p) (provider_ctl sys)\<rparr>)"

definition run_provider :: "ExternalProvider \<Rightarrow> plugin_system \<Rightarrow> plugin_system" where
  "run_provider p sys =
     finish_provider key_openai (Some p) (sys\<lparr>provider_ctl := ctl_start key_openai (provider_ctl sys)\<rparr>)"

definition with_model :: "plugin_system \<Rightarrow> plugin_system" where
  "with_model sys =
     sys\<lparr>model_ctl := ctl_deliver (\<lambda>x. x) key_gpt (ctl_change key_gpt (Some gpt_model) (model_ctl sys))\<rparr>"

definition run_model :: "plugin_system \<Rightarrow> plugin_system" where
  "run_model sys =
     finish_model key_gpt (Some gpt_model) (Inr [gpt_model]) (sys\<lparr>model_ctl := ctl_start key_gpt (model_ctl sys)\<rparr>)"

lemma reach_with_provider:
  assumes "plugin_reach admit named sys" "object_key (ep_Meta p) = key_openai"
    "set items = ran (ctl_cache (model_ctl sys))"
  shows "plugin_reach admit named (with_provider p items sys)"
  unfolding with_provider_def
  by (rule system_step [OF system_step [OF assms(1) provider_changed] provider_seen])
    (simp_all add: valid_key_def assms lists_cache_def)

lemma reach_run_provider:
  assumes "plugin_reach admit named sys" "ctl_can_start key_openai (provider_ctl sys)"
    "ctl_cache (provider_ctl sys) key_openai = Some p"
  shows "plugin_reach admit named (run_provider p sys)"
  unfolding run_provider_def
  by (rule system_step [OF system_step [OF assms(1) provider_taken [OF assms(2)]] provider_done])
    (simp add: assms ctl_start_def)

lemma reach_with_model:
  assumes "plugin_reach admit named sys" "named gpt_model"
  shows "plugin_reach admit named (with_model sys)"
proof -
  have k: "object_key (em_Meta gpt_model) = key_gpt" by code_simp
  show ?thesis
    using system_step [OF system_step [OF assms(1) model_changed] model_seen, of key_gpt "Some gpt_model" key_gpt] assms(2) k
    by (simp add: valid_key_def with_model_def)
qed

lemma reach_run_model:
  assumes "plugin_reach admit named sys" "ctl_can_start key_gpt (model_ctl sys)" "admit sys key_gpt"
    "ctl_cache (model_ctl sys) = [key_gpt \<mapsto> gpt_model]"
  shows "plugin_reach admit named (run_model sys)"
  unfolding run_model_def
  by (rule system_step [OF system_step [OF assms(1) model_taken [where admit = admit, OF assms(2,3)]] model_done [where items = "[gpt_model]"]])
    (simp_all add: assms ctl_start_def lists_cache_def)

definition published :: plugin_system where
  "published = run_model (with_model (run_provider sample_provider (with_provider sample_provider [] initial_system)))"

definition raced :: plugin_system where
  "raced = run_provider moved_provider (run_model (with_provider moved_provider [gpt_model] published))"

lemma model_cache_simps [simp]:
  "ctl_cache (model_ctl (with_provider p items sys)) = ctl_cache (model_ctl sys)"
  "ctl_cache (model_ctl (run_provider p sys)) = ctl_cache (model_ctl sys)"
  "ctl_cache (model_ctl (run_model sys)) = ctl_cache (model_ctl sys)"
  "ctl_cache (model_ctl (with_model sys)) = (ctl_cache (model_ctl sys))(key_gpt \<mapsto> gpt_model)"
  by (simp_all add: with_provider_def run_provider_def run_model_def with_model_def see_provider_def Let_def
      finish_model_def case_prod_beta)

lemma provider_cache_simps [simp]:
  "ctl_cache (provider_ctl (with_provider p items sys)) = (ctl_cache (provider_ctl sys))(key_openai \<mapsto> p)"
  "ctl_cache (provider_ctl (run_model sys)) = ctl_cache (provider_ctl sys)"
  by (simp_all add: with_provider_def run_model_def)

lemma initial_caches [simp]:
  "ctl_cache (model_ctl initial_system) = (\<lambda>_. None)" "ctl_cache (provider_ctl initial_system) = (\<lambda>_. None)"
  by (simp_all add: initial_system_def idle_controller_def)

lemma published_reachable:
  assumes "named gpt_model" "admit (with_model (run_provider sample_provider (with_provider sample_provider [] initial_system))) key_gpt"
  shows "plugin_reach admit named published"
  unfolding published_def
proof (rule reach_run_model [OF reach_with_model [OF reach_run_provider [OF reach_with_provider [OF system_start]]]])
  show "ctl_can_start key_openai (provider_ctl (with_provider sample_provider [] initial_system))" by code_simp
  show "ctl_can_start key_gpt (model_ctl (with_model (run_provider sample_provider (with_provider sample_provider [] initial_system))))"
    by code_simp
  show "object_key (ep_Meta sample_provider) = key_openai" by code_simp
qed (simp_all add: assms)

lemma raced_reachable: "reachable_system raced"
  unfolding raced_def
proof (rule reach_run_provider [OF reach_run_model [OF reach_with_provider [OF published_reachable]]])
  show "object_key (ep_Meta moved_provider) = key_openai" by code_simp
  show "ctl_can_start key_gpt (model_ctl (with_provider moved_provider [gpt_model] published))" by code_simp
  show "ctl_can_start key_openai (provider_ctl (run_model (with_provider moved_provider [gpt_model] published)))"
    by code_simp
qed (simp_all add: published_def)

lemma ctl_running_simps [simp]:
  "ctl_running (ctl_change k x c) = ctl_running c" "ctl_running (ctl_deliver select k c) = ctl_running c"
  "ctl_running (ctl_enqueue ks c) = ctl_running c"
  "ctl_running (ctl_start k c) = (ctl_running c)(k \<mapsto> ctl_cache c k)"
  "ctl_running (ctl_finish k again c) = (ctl_running c)(k := None)"
  by (simp_all add: ctl_ops)

lemma raced_simps:
  "ctl_running (provider_ctl raced) = (\<lambda>_. None)" "ctl_running (model_ctl raced) = (\<lambda>_. None)"
  "secret_ctl raced = idle_controller" "ctl_running idle_controller = (\<lambda>_. None)"
  "ctl_cluster (provider_ctl raced) = [key_openai \<mapsto> moved_provider]"
  "ctl_cache (provider_ctl raced) = [key_openai \<mapsto> moved_provider]"
  "ctl_cluster (model_ctl raced) = [key_gpt \<mapsto> gpt_model]" "ctl_cache (model_ctl raced) = [key_gpt \<mapsto> gpt_model]"
  by (simp_all add: raced_def published_def with_provider_def run_provider_def with_model_def run_model_def
      see_provider_def finish_model_def case_prod_beta Let_def initial_system_def idle_controller_def fun_eq_iff)

lemma published_simps:
  "ctl_running (provider_ctl published) = (\<lambda>_. None)" "ctl_running (model_ctl published) = (\<lambda>_. None)"
  "secret_ctl published = idle_controller"
  "ctl_cluster (provider_ctl published) = [key_openai \<mapsto> sample_provider]"
  "ctl_cache (provider_ctl published) = [key_openai \<mapsto> sample_provider]"
  "ctl_cluster (model_ctl published) = [key_gpt \<mapsto> gpt_model]" "ctl_cache (model_ctl published) = [key_gpt \<mapsto> gpt_model]"
  by (simp_all add: published_def with_provider_def run_provider_def with_model_def run_model_def
      see_provider_def finish_model_def case_prod_beta Let_def initial_system_def idle_controller_def fun_eq_iff)

text \<open>After a run, a labelled Secret is created and reconciled.\<close>

abbreviation "key_secret \<equiv> \<lparr>nn_Namespace = ''team'', nn_Name = ''key-eu''\<rparr>"

definition sample_secret :: Secret where
  "sample_secret = \<lparr>sec_Labels = [(managedLabel, ''true'')], sec_Deleted = False, sec_Data = [(''api-key'', ''s3cret'')]\<rparr>"

definition with_secret :: "NamespacedName \<Rightarrow> plugin_system \<Rightarrow> plugin_system" where
  "with_secret k sys =
     finish_secret k (Some sample_secret)
       (sys\<lparr>secret_ctl := ctl_start k (ctl_deliver filteredSecret k
                          (ctl_change k (Some sample_secret) (secret_ctl sys)))\<rparr>)"

lemma with_secret_reachable:
  assumes "plugin_reach admit named sys" "secret_ctl sys = idle_controller"
  shows "plugin_reach admit named (with_secret k sys)"
proof -
  let ?sys = "sys\<lparr>secret_ctl := ctl_deliver filteredSecret k (ctl_change k (Some sample_secret) (secret_ctl sys))\<rparr>"
  have seen: "plugin_reach admit named ?sys"
    using system_step [OF system_step [OF assms(1) secret_changed] secret_seen] by simp
  have "ctl_can_start k (secret_ctl ?sys)" by (simp add: assms(2) ctl_can_start_def ctl_ops idle_controller_def)
  from system_step [OF seen secret_taken [OF this]] show ?thesis
    unfolding with_secret_def
    by (intro system_step [OF _ secret_done])
      (simp_all add: filteredSecret_def hasManagedLabel_def sample_secret_def gstr_def)
qed

lemma with_secret_simps [simp]:
  "provider_ctl (with_secret k sys) = provider_ctl sys" "model_ctl (with_secret k sys) = model_ctl sys"
  "sys_info (with_secret k sys) = sys_info sys"
  by (simp_all add: with_secret_def)

lemma secret_ctl_with_secret:
  assumes "secret_ctl sys = idle_controller"
  shows "secret_ctl (with_secret k sys) = ctl_finish k False (ctl_start k (ctl_deliver filteredSecret k
      (ctl_change k (Some sample_secret) idle_controller)))"
proof -
  have "snd (secret_Reconcile (\<lambda>_. fetched_of (Some sample_secret)) k s) = None" for s
    by (simp add: secret_Reconcile_def fetched_of_def sample_secret_def hasManagedLabel_def gstr_def addOrUpdate_def)
  then show ?thesis by (simp add: with_secret_def finish_secret_def case_prod_beta assms)
qed

theorem stores_mirror_cluster_witness:
  "map_option pi_endpoint (getProvider (sys_info (with_secret key_secret raced)) key_openai) = Some ''eu.openai.com'' \<and>
     secret_get (sys_creds (with_secret key_secret raced)) ''team'' ''key-eu'' = Some [(''api-key'', ''s3cret'')]"
proof -
  let ?sys = "with_secret key_secret raced"
  note sc = secret_ctl_with_secret [OF raced_simps(3), of key_secret]
  have p: "provider_ctl ?sys = provider_ctl raced" by simp
  have d: "ctl_pending (provider_ctl raced) = {}" by code_simp
  have k: "valid_key key_openai" by (simp add: valid_key_def)
  have "cache_current (\<lambda>x. x) (provider_ctl ?sys)" "ctl_drained (provider_ctl ?sys) key_openai"
    "cache_current filteredSecret (secret_ctl ?sys)" "ctl_drained (secret_ctl ?sys) key_secret"
    by (simp_all add: p sc d cache_current_def raced_simps ctl_drained_def fun_eq_iff filteredSecret_def)
  with stores_mirror_cluster [OF with_secret_reachable [OF raced_reachable raced_simps(3)]] k
  have "getProvider (sys_info ?sys) key_openai = provider_entry key_openai (ctl_cluster (provider_ctl ?sys) key_openai)"
    "secret_of (sys_creds ?sys) key_secret = secret_entry key_secret (ctl_cluster (secret_ctl ?sys) key_secret)"
    unfolding secret_of_def secret_entry_def by blast+
  moreover have "map_option pi_endpoint (provider_entry key_openai (Some moved_provider)) = Some ''eu.openai.com''"
    "secret_entry key_secret (Some sample_secret) = Some [(''api-key'', ''s3cret'')]"
    by code_simp code_simp
  ultimately show ?thesis by (simp add: p sc raced_simps secret_of_def)
qed

text \<open>C11: A credential or endpoint change may never reach the requests. There is a run of the system, with every
  informer caught up and every queue empty at its end, in which a model is still served with the
  endpoint and the Secret its provider had before it was edited: the edit queues both the provider and
  the model, the model is reconciled first, against the old entry of the provider, and nothing queues
  it again when the provider's entry changes.\<close>

theorem provider_change_lost:
  "\<exists>sys. reachable_system sys \<and>
     ctl_quiet (provider_ctl sys) \<and> ctl_quiet (model_ctl sys) \<and> ctl_quiet (secret_ctl sys) \<and>
     cache_current (\<lambda>x. x) (provider_ctl sys) \<and> cache_current (\<lambda>x. x) (model_ctl sys) \<and>
     ctl_cluster (provider_ctl sys) = [key_openai \<mapsto> moved_provider] \<and>
     ctl_cluster (model_ctl sys) = [key_gpt \<mapsto> gpt_model] \<and>
     map_option (\<lambda>i. (pi_endpoint i, pi_secretName i)) (getProvider (sys_info sys) key_openai) =
       Some (''eu.openai.com'', ''key-eu'') \<and>
     map_option (\<lambda>i. map (\<lambda>r. (rr_endpoint r, rr_secretName r)) (mi_refs i)) (getModelByName (sys_info sys) ''gpt'') =
       Some [(''api.openai.com'', ''key'')]"
proof (intro exI [of _ raced] conjI)
  have p: "ctl_pending (provider_ctl raced) = {} \<and> ctl_retrying (provider_ctl raced) = {}" by code_simp
  have m: "ctl_pending (model_ctl raced) = {} \<and> ctl_retrying (model_ctl raced) = {}" by code_simp
  show "reachable_system raced" by (rule raced_reachable)
  show "ctl_quiet (provider_ctl raced)" "ctl_quiet (model_ctl raced)" "ctl_quiet (secret_ctl raced)"
    using p m by (simp_all add: ctl_quiet_def raced_simps)
  show "ctl_cluster (provider_ctl raced) = [key_openai \<mapsto> moved_provider]"
    "ctl_cluster (model_ctl raced) = [key_gpt \<mapsto> gpt_model]"
    by (simp_all add: raced_simps)
  show "cache_current (\<lambda>x. x) (provider_ctl raced)" "cache_current (\<lambda>x. x) (model_ctl raced)"
    by (simp_all add: cache_current_def raced_simps fun_eq_iff)
qed (code_simp, code_simp)

section \<open>Models that wait for their providers\<close>

text \<open>The store of a run is a store that some history of reconciles produces.\<close>

lemma reach_store:
  assumes "plugin_reach admit named sys"
  shows "reachable_store (sys_info sys)"
  using assms
proof (induction)
  case (system_step sys sys')
  have valid: "keys_valid (provider_ctl sys)"
    using plugin_reach_mirrored [OF system_step.hyps(1)] by (simp add: providers_mirrored_def)
  from system_step.hyps(2) system_step.IH show ?case
  proof (cases rule: plugin_step.cases)
    case (provider_done k x)
    then have "valid_key k" using valid by (auto simp: keys_valid_def)
    from step [OF system_step.IH provider_event [OF this]] provider_done show ?thesis
      by (simp add: provider_sync_def)
  next
    case (model_done k x items listed)
    from step [OF system_step.IH model_event] model_done show ?thesis
      by (simp add: finish_model_def case_prod_beta)
  qed simp_all
qed (simp add: initial_system_def start)

definition provider_keys :: "ExternalModel \<Rightarrow> NamespacedName list" where
  "provider_keys model =
     map (\<lambda>ref. \<lparr>nn_Namespace = meta_Namespace (em_Meta model), nn_Name = pref_Name (Ref ref)\<rparr>)
       (ExternalProviderRefs (em_Spec model))"

text \<open>The discipline the code does not have: a worker takes a model only when the queue is drained of
  the providers it refers to.\<close>

definition providers_settled :: "plugin_system \<Rightarrow> NamespacedName \<Rightarrow> bool" where
  "providers_settled sys k \<longleftrightarrow>
     (case ctl_cache (model_ctl sys) k of
        None \<Rightarrow> True
      | Some model \<Rightarrow> list_all (ctl_drained (provider_ctl sys)) (provider_keys model))"

text \<open>Every model keeps one client-facing name.\<close>

definition named_by :: "(NamespacedName \<Rightarrow> string) \<Rightarrow> ExternalModel \<Rightarrow> bool" where
  "named_by nm model \<longleftrightarrow> clientModelName model = nm (object_key (em_Meta model))"

text \<open>The entry that a model of the cache should have.\<close>

definition entry_exact :: "infoStore \<Rightarrow> (NamespacedName \<Rightarrow> string) \<Rightarrow> NamespacedName \<Rightarrow> ExternalModel option \<Rightarrow> bool" where
  "entry_exact s nm k x \<longleftrightarrow>
     (case x of
        None \<Rightarrow> getModelByName s (nm k) = None
      | Some model \<Rightarrow>
          if meta_Deleted (em_Meta model) \<or> excludedFromStore model then getModelByName s (nm k) = None
          else resolve_refs s model = [] \<or>
               getModelByName s (nm k) = Some \<lparr>mi_owner = k, mi_modelName = nm k, mi_refs = resolve_refs s model\<rparr>)"

definition entries_owned :: "infoStore \<Rightarrow> (NamespacedName \<Rightarrow> string) \<Rightarrow> bool" where
  "entries_owned s nm \<longleftrightarrow>
     (\<forall>name i. getModelByName s name = Some i \<longrightarrow> valid_key (mi_owner i) \<and> name = nm (mi_owner i))"

definition own_object :: "(NamespacedName \<Rightarrow> string) \<Rightarrow> NamespacedName \<Rightarrow> ExternalModel \<Rightarrow> bool" where
  "own_object nm k model \<longleftrightarrow> object_key (em_Meta model) = k \<and> named_by nm model \<and> valid_key k"

lemma resolve_refs_depends:
  assumes "\<And>pk. pk \<in> set (provider_keys model) \<Longrightarrow> getProvider s pk = getProvider s' pk"
  shows "resolve_refs s model = resolve_refs s' model"
proof -
  have "resolveRef s (meta_Namespace (em_Meta model)) ref = resolveRef s' (meta_Namespace (em_Meta model)) ref"
    if "ref \<in> set (ExternalProviderRefs (em_Spec model))" for ref
    using that assms [of "\<lparr>nn_Namespace = meta_Namespace (em_Meta model), nn_Name = pref_Name (Ref ref)\<rparr>"]
    by (simp add: resolveRef_def provider_keys_def)
  then show ?thesis by (simp add: resolve_refs_def List.map_filter_def cong: map_cong filter_cong)
qed

text \<open>A reconcile of one model touches only the name of that model.\<close>

lemma deleteModel_owned:
  assumes "entries_owned s nm" "wf_map (models s)" "inj_on nm {k. valid_key k}" "valid_key k"
  shows "getModelByName (fst (deleteModel k s)) name = (if name = nm k then None else getModelByName s name)"
    and "set (snd (deleteModel k s)) \<subseteq> {nm k}"
proof -
  have owner: "mi_owner i = k \<longleftrightarrow> name = nm k" if "getModelByName s name = Some i" for i name
    using assms(1,3,4) that by (auto simp: entries_owned_def inj_on_def)
  then show "getModelByName (fst (deleteModel k s)) name = (if name = nm k then None else getModelByName s name)"
    by (auto simp: getModelByName_deleteModel [OF assms(2)] split: option.split)
  show "set (snd (deleteModel k s)) \<subseteq> {nm k}"
    using assms(1) by (auto simp: deleteModel_removed [OF assms(2)] entries_owned_def)
qed

lemma model_Reconcile_owned:
  assumes "entries_owned s nm" "wf_map (models s)" "inj_on nm {k. valid_key k}" "valid_key k"
    and "pred_option (own_object nm k) x"
  shows "name \<noteq> nm k \<Longrightarrow>
    getModelByName (fst (model_Reconcile (\<lambda>_. fetched_of x) listed k s)) name = getModelByName s name"
proof -
  note del = deleteModel_owned [OF assms(1-4)]
  assume name: "name \<noteq> nm k"
  have loop: "getModelByName (restore_loop (snd (deleteModel k s)) items (fst (deleteModel k s))) name =
      getModelByName s name" for items
  proof -
    have "filter (\<lambda>m. eligible (fst (deleteModel k s)) (snd (deleteModel k s)) m \<and> clientModelName m = name) items = []"
      using del(2) name by (auto simp: filter_empty_conv eligible_def)
    then show ?thesis by (simp add: restore_loop_lookup del(1) name)
  qed
  show ?thesis
  proof (cases x)
    case None
    then show ?thesis by (simp add: model_Reconcile_def fetched_of_def del(1) name)
  next
    case (Some model)
    with assms(5) have "clientModelName model = nm k" by (simp add: own_object_def named_by_def)
    then show ?thesis
      using Some name loop
      by (auto simp: model_Reconcile_def fetched_of_def del(1) restoreModelNames_def case_prod_beta
          getModelByName_cacheModel split: sum.split)
  qed
qed

lemma own_object_unique:
  "inj_on nm {k. valid_key k} \<Longrightarrow> own_object nm k m \<Longrightarrow> own_object nm k' m' \<Longrightarrow> clientModelName m = clientModelName m' \<Longrightarrow>
     k = k'"
  by (auto simp: own_object_def named_by_def inj_on_def)

text \<open>Its own name is exact afterwards, when the object it was given is the one the cache lists.\<close>

lemma model_Reconcile_exact:
  assumes "entries_owned s nm" "wf_map (models s)" "inj_on nm {k. valid_key k}" "valid_key k"
    and "pred_option (own_object nm k) (cache k)" "\<And>m. m \<in> set items \<Longrightarrow> \<exists>k'. cache k' = Some m \<and> own_object nm k' m"
    and "listed \<in> {Inr items} \<union> range Inl"
  shows "entry_exact (fst (model_Reconcile (\<lambda>_. fetched_of (cache k)) listed k s)) nm k (cache k)"
proof -
  note del = deleteModel_owned [OF assms(1-4)]
  let ?s = "fst (model_Reconcile (\<lambda>_. fetched_of (cache k)) listed k s)"
  have same: "resolve_refs ?s = resolve_refs s"
    by (rule ext, rule resolve_refs_cong) simp
  show ?thesis
  proof (cases "cache k")
    case None
    then show ?thesis by (simp add: entry_exact_def model_Reconcile_def fetched_of_def del(1))
  next
    case (Some model)
    with assms(5) have own: "clientModelName model = nm k" "object_key (em_Meta model) = k" "own_object nm k model"
      by (auto simp: own_object_def named_by_def)
    have loop: "getModelByName (restore_loop (snd (deleteModel k s)) items (fst (deleteModel k s))) (nm k) = None"
      if "excludedFromStore model"
    proof -
      have "\<not> (eligible (fst (deleteModel k s)) (snd (deleteModel k s)) m \<and> clientModelName m = nm k)"
        if mem: "m \<in> set items" for m
      proof
        assume el: "eligible (fst (deleteModel k s)) (snd (deleteModel k s)) m \<and> clientModelName m = nm k"
        obtain k' where k': "cache k' = Some m" "own_object nm k' m" using assms(6) [OF mem] by blast
        with own_object_unique [OF assms(3) own(3) k'(2)] own(1) el have "m = model" using Some by simp
        with el \<open>excludedFromStore model\<close> show False by (simp add: eligible_def)
      qed
      then have "filter (\<lambda>m. eligible (fst (deleteModel k s)) (snd (deleteModel k s)) m \<and> clientModelName m = nm k) items = []"
        by (simp add: filter_empty_conv)
      then show ?thesis by (simp add: restore_loop_lookup del(1))
    qed
    have "getModelByName (fst (deleteModel k s)) (nm k) = None" by (simp add: del(1))
    then show ?thesis
      unfolding entry_exact_def same
      using Some own loop assms(7)
      by (auto simp: model_Reconcile_def fetched_of_def restoreModelNames_def case_prod_beta
          getModelByName_cacheModel)
  qed
qed

lemma entries_owned_cacheModel:
  "entries_owned s nm \<Longrightarrow> own_object nm k m \<Longrightarrow> entries_owned (fst (cacheModel m s)) nm"
  by (auto simp: entries_owned_def getModelByName_cacheModel own_object_def named_by_def split: if_splits)

lemma entries_owned_restore_loop:
  "entries_owned s nm \<Longrightarrow> (\<And>m. m \<in> set items \<Longrightarrow> \<exists>k. own_object nm k m) \<Longrightarrow>
     entries_owned (restore_loop names items s) nm"
proof (induction names items s rule: restore_loop.induct)
  case (2 names model items s)
  from "2.prems"(2) obtain k where "own_object nm k model" by auto
  with 2 show ?case by (auto intro: entries_owned_cacheModel)
qed simp

lemma entries_owned_deleteModel:
  "entries_owned s nm \<Longrightarrow> wf_map (models s) \<Longrightarrow> entries_owned (fst (deleteModel k s)) nm"
  by (auto simp: entries_owned_def getModelByName_deleteModel split: option.splits if_splits)

lemma model_Reconcile_keeps_owned:
  assumes "entries_owned s nm" "wf_map (models s)" "pred_option (own_object nm k) x"
    and "\<And>m. m \<in> set items \<Longrightarrow> \<exists>k'. own_object nm k' m" "listed \<in> {Inr items} \<union> range Inl"
  shows "entries_owned (fst (model_Reconcile (\<lambda>_. fetched_of x) listed k s)) nm"
proof -
  note del = entries_owned_deleteModel [OF assms(1,2), of k]
  note loop = entries_owned_restore_loop [OF del assms(4)]
  show ?thesis
  proof (cases x)
    case None
    then show ?thesis by (simp add: model_Reconcile_def fetched_of_def del)
  next
    case (Some model)
    with assms(3) have "entries_owned (fst (cacheModel model s)) nm"
      using entries_owned_cacheModel [OF assms(1)] by simp
    then show ?thesis
      using Some assms(5) loop del
      by (auto simp: model_Reconcile_def fetched_of_def restoreModelNames_def case_prod_beta)
  qed
qed

text \<open>The invariant of the disciplined system.\<close>

definition models_own :: "(NamespacedName \<Rightarrow> string) \<Rightarrow> (NamespacedName, ExternalModel) controller \<Rightarrow> bool" where
  "models_own nm c \<longleftrightarrow>
     (\<forall>k. pred_option (own_object nm k) (ctl_cluster c k) \<and> pred_option (own_object nm k) (ctl_cache c k) \<and>
        pred_option (pred_option (own_object nm k)) (ctl_running c k)) \<and> keys_valid c"

definition providers_own :: "(NamespacedName, ExternalProvider) controller \<Rightarrow> bool" where
  "providers_own c \<longleftrightarrow> ctl_retrying c = {} \<and>
     (\<forall>k. pred_option (\<lambda>p. object_key (ep_Meta p) = k) (ctl_cluster c k) \<and>
          pred_option (\<lambda>p. object_key (ep_Meta p) = k) (ctl_cache c k))"

definition models_wait :: "plugin_system \<Rightarrow> bool" where
  "models_wait sys \<longleftrightarrow>
     (\<forall>k model pk. ctl_cache (model_ctl sys) k = Some model \<and> pk \<in> set (provider_keys model) \<and>
        \<not> ctl_drained (provider_ctl sys) pk \<longrightarrow> k \<in> ctl_pending (model_ctl sys))"

definition models_exact :: "(NamespacedName \<Rightarrow> string) \<Rightarrow> plugin_system \<Rightarrow> bool" where
  "models_exact nm sys \<longleftrightarrow>
     (\<forall>k. valid_key k \<longrightarrow> k \<in> ctl_pending (model_ctl sys) \<or>
        ctl_running (model_ctl sys) k = Some (ctl_cache (model_ctl sys) k) \<or>
        ctl_running (model_ctl sys) k = None \<and> entry_exact (sys_info sys) nm k (ctl_cache (model_ctl sys) k))"

abbreviation "ordered_reach nm \<equiv> plugin_reach providers_settled (named_by nm)"
abbreviation "ordered_step nm \<equiv> plugin_step providers_settled (named_by nm)"

lemma models_own_ops:
  "models_own nm c \<Longrightarrow> pred_option (own_object nm k) x \<Longrightarrow> models_own nm (ctl_change k x c)"
  "models_own nm c \<Longrightarrow> valid_key k \<Longrightarrow> models_own nm (ctl_deliver (\<lambda>x. x) k c)"
  "models_own nm c \<Longrightarrow> (\<And>k. k \<in> ks \<Longrightarrow> valid_key k) \<Longrightarrow> models_own nm (ctl_enqueue ks c)"
  "models_own nm c \<Longrightarrow> ctl_can_start k c \<Longrightarrow> models_own nm (ctl_start k c)"
  "models_own nm c \<Longrightarrow> ctl_running c k = Some y \<Longrightarrow> models_own nm (ctl_finish k again c)"
proof -
  assume c: "models_own nm c"
  show "pred_option (own_object nm k) x \<Longrightarrow> models_own nm (ctl_change k x c)"
    using c by (simp add: models_own_def keys_valid_ops)
  show "valid_key k \<Longrightarrow> models_own nm (ctl_deliver (\<lambda>x. x) k c)"
    using c by (simp add: models_own_def keys_valid_ops)
  show "(\<And>k. k \<in> ks \<Longrightarrow> valid_key k) \<Longrightarrow> models_own nm (ctl_enqueue ks c)"
    using c by (auto simp: models_own_def keys_valid_def ctl_enqueue_def)
  show "ctl_can_start k c \<Longrightarrow> models_own nm (ctl_start k c)"
    using c by (simp add: models_own_def keys_valid_ops)
  show "ctl_running c k = Some y \<Longrightarrow> models_own nm (ctl_finish k again c)"
    using c keys_valid_ops(4) [of c k y again] by (simp add: models_own_def)
qed

lemma models_ownD:
  assumes "models_own nm c"
  shows "ctl_cache c k = Some m \<Longrightarrow> own_object nm k m"
    and "ctl_running c k = Some x \<Longrightarrow> pred_option (own_object nm k) x \<and> valid_key k"
  using assms by (auto simp: models_own_def keys_valid_def) (metis option.pred_inject(2))+

lemma providers_own_ops:
  "providers_own c \<Longrightarrow> pred_option (\<lambda>p. object_key (ep_Meta p) = k) x \<Longrightarrow> providers_own (ctl_change k x c)"
  "providers_own c \<Longrightarrow> providers_own (ctl_deliver (\<lambda>x. x) k c)"
  "providers_own c \<Longrightarrow> providers_own (ctl_start k c)"
  "providers_own c \<Longrightarrow> providers_own (ctl_finish k False c)"
  by (simp_all add: providers_own_def ctl_ops)

lemma watched_models_keys:
  "watched_models items x \<subseteq> (\<lambda>m. object_key (em_Meta m)) ` set items"
  by (auto simp: watched_models_def mapProviderToModels_def split: option.splits)

lemma listed_own:
  "lists_cache items sys \<Longrightarrow> models_own nm (model_ctl sys) \<Longrightarrow> m \<in> set items \<Longrightarrow>
     \<exists>k. ctl_cache (model_ctl sys) k = Some m \<and> own_object nm k m"
  by (auto simp: lists_cache_def ran_def dest: models_ownD(1))

lemma ordered_models_own:
  assumes "ordered_step nm sys sys'" "models_own nm (model_ctl sys)"
  shows "models_own nm (model_ctl sys')"
  using assms(1)
proof (cases rule: plugin_step.cases)
  case (model_changed k x)
  then have "pred_option (own_object nm k) x" by (auto simp: own_object_def pred_option_def)
  with model_changed models_own_ops(1) [OF assms(2)] show ?thesis by simp
next
  case (provider_seen k items)
  have "valid_key k'" if k': "k' \<in> watched_models items x" for x k'
  proof -
    from subsetD [OF watched_models_keys k'] obtain m where m: "m \<in> set items" "k' = object_key (em_Meta m)" by blast
    with listed_own [OF provider_seen(3) assms(2) m(1)] show ?thesis by (auto simp: own_object_def)
  qed
  then show ?thesis
    using provider_seen(1) by (auto simp: see_provider_def Let_def intro!: models_own_ops(3) assms(2))
next
  case (model_done k x items listed)
  with models_own_ops(5) [OF assms(2)] show ?thesis by (simp add: finish_model_def case_prod_beta)
qed (simp_all add: assms(2) models_own_ops)

lemma ordered_providers_own:
  assumes "ordered_step nm sys sys'" "providers_own (provider_ctl sys)"
  shows "providers_own (provider_ctl sys')"
  using assms(1) by (cases rule: plugin_step.cases) (simp_all add: assms(2) providers_own_ops)

text \<open>The cross-watch queues every model that refers to the provider.\<close>

lemma watched_models_complete:
  assumes "m \<in> set items" "pk \<in> set (provider_keys m)" "x = Some p" "object_key (ep_Meta p) = pk"
  shows "object_key (em_Meta m) \<in> watched_models items x"
proof -
  from assms(2) obtain ref where "ref \<in> set (ExternalProviderRefs (em_Spec m))"
    "pk = \<lparr>nn_Namespace = meta_Namespace (em_Meta m), nn_Name = pref_Name (Ref ref)\<rparr>"
    by (auto simp: provider_keys_def)
  with assms show ?thesis
    by (auto simp: watched_models_def mapProviderToModels_def object_key_def intro!: bexI [of _ m] bexI [of _ ref])
qed

lemma ctl_drained_simps [simp]:
  "ctl_drained (ctl_change k x c) k' = ctl_drained c k'"
  "ctl_drained (ctl_deliver select k c) k' \<longleftrightarrow> k' \<noteq> k \<and> ctl_drained c k'"
  "ctl_drained (ctl_start k c) k' \<longleftrightarrow> k' \<noteq> k \<and> ctl_drained c k'"
  "ctl_drained (ctl_finish k again c) k' \<longleftrightarrow> k' \<notin> ctl_pending c \<and> (k' = k \<or> ctl_running c k' = None)"
  by (auto simp: ctl_drained_def ctl_ops)

lemma ctl_pending_more [simp]:
  "ctl_pending (ctl_change k x c) = ctl_pending c" "ctl_pending (ctl_enqueue ks c) = ctl_pending c \<union> ks"
  "ctl_pending (ctl_deliver select k c) = insert k (ctl_pending c)"
  by (simp_all add: ctl_ops)

lemma ordered_models_wait:
  assumes "ordered_step nm sys sys'" "models_wait sys" "models_own nm (model_ctl sys)" "providers_own (provider_ctl sys)"
  shows "models_wait sys'"
  using assms(1)
proof (cases rule: plugin_step.cases)
  case (provider_seen k items)
  obtain x p where x: "x \<in> {ctl_cache (provider_ctl sys) k, ctl_cluster (provider_ctl sys) k}" "x = Some p"
    using provider_seen(4) by (metis insertCI not_None_eq)
  with assms(4) have p: "object_key (ep_Meta p) = k"
    by (auto simp: providers_own_def) (metis option.pred_inject(2))+
  have "k' \<in> watched_models items x" if "ctl_cache (model_ctl sys) k' = Some m" "k \<in> set (provider_keys m)" for k' m
  proof -
    have "object_key (em_Meta m) = k'" using models_ownD(1) [OF assms(3) that(1)] by (simp add: own_object_def)
    moreover have "m \<in> set items" using provider_seen(3) that(1) by (auto simp: lists_cache_def ran_def)
    ultimately show ?thesis using watched_models_complete [OF _ that(2) x(2) p] by simp
  qed
  with provider_seen(1) assms(2) x(1) show ?thesis
    by (fastforce simp: models_wait_def see_provider_def Let_def)
next
  case (model_taken k)
  with assms(2) show ?thesis
    by (auto simp: models_wait_def providers_settled_def list_all_iff split: option.splits)
next
  case (provider_taken k)
  then have "\<not> ctl_drained (provider_ctl sys) k"
    using assms(4) by (auto simp: ctl_can_start_def ctl_drained_def providers_own_def)
  with provider_taken assms(2) show ?thesis by (auto simp: models_wait_def)
next
  case (provider_done k x)
  with assms(2) show ?thesis by (auto simp: models_wait_def ctl_drained_def)
next
  case (model_done k x items listed)
  with assms(2) show ?thesis by (auto simp: models_wait_def finish_model_def case_prod_beta)
next
  case (model_seen k)
  with assms(2) show ?thesis by (auto simp: models_wait_def)
qed (use assms(2) in \<open>simp_all add: models_wait_def\<close>)

lemma entry_exact_depends:
  assumes "models s = models s'"
    and "\<And>model pk. x = Some model \<Longrightarrow> pk \<in> set (provider_keys model) \<Longrightarrow> getProvider s pk = getProvider s' pk"
  shows "entry_exact s nm k x = entry_exact s' nm k x"
proof (cases x)
  case (Some model)
  with assms(2) have "resolve_refs s model = resolve_refs s' model" by (intro resolve_refs_depends) blast
  with Some assms(1) show ?thesis by (simp add: entry_exact_def getModelByName_def)
qed (simp add: entry_exact_def getModelByName_def assms(1))

definition ordered_inv :: "(NamespacedName \<Rightarrow> string) \<Rightarrow> plugin_system \<Rightarrow> bool" where
  "ordered_inv nm sys \<longleftrightarrow>
     models_own nm (model_ctl sys) \<and> providers_own (provider_ctl sys) \<and> keys_valid (provider_ctl sys) \<and>
     models_wait sys \<and> wf_map (models (sys_info sys)) \<and> entries_owned (sys_info sys) nm \<and> models_exact nm sys"

lemma finish_provider_exact:
  assumes "ordered_inv nm sys" "ctl_running (provider_ctl sys) pk = Some x"
  shows "models_exact nm (finish_provider pk x sys)"
  unfolding models_exact_def
proof (intro allI impI)
  fix k assume valid: "valid_key k"
  have pk: "valid_key pk" "\<not> ctl_drained (provider_ctl sys) pk"
    using assms by (auto simp: ordered_inv_def keys_valid_def ctl_drained_def)
  have "entry_exact (provider_sync pk x (sys_info sys)) nm k (ctl_cache (model_ctl sys) k) =
      entry_exact (sys_info sys) nm k (ctl_cache (model_ctl sys) k)" if "k \<notin> ctl_pending (model_ctl sys)"
  proof (rule entry_exact_depends)
    fix model pk' assume m: "ctl_cache (model_ctl sys) k = Some model" "pk' \<in> set (provider_keys model)"
    then have "object_key (em_Meta model) = k"
      using assms(1) models_ownD(1) by (auto simp: ordered_inv_def own_object_def)
    then have "valid_key pk'" using m(2) valid by (auto simp: provider_keys_def valid_key_def object_key_def)
    moreover have "pk' \<noteq> pk" using m that assms(1) pk(2) by (auto simp: ordered_inv_def models_wait_def)
    ultimately show "getProvider (provider_sync pk x (sys_info sys)) pk' = getProvider (sys_info sys) pk'"
      using provider_mirror.lookup_sync [OF pk(1)] by simp
  qed simp
  then show "k \<in> ctl_pending (model_ctl (finish_provider pk x sys)) \<or>
      ctl_running (model_ctl (finish_provider pk x sys)) k = Some (ctl_cache (model_ctl (finish_provider pk x sys)) k) \<or>
      ctl_running (model_ctl (finish_provider pk x sys)) k = None \<and>
        entry_exact (sys_info (finish_provider pk x sys)) nm k (ctl_cache (model_ctl (finish_provider pk x sys)) k)"
    using assms(1) valid by (auto simp: ordered_inv_def models_exact_def)
qed

lemma finish_model_exact:
  assumes "ordered_inv nm sys" "inj_on nm {k. valid_key k}" "ctl_running (model_ctl sys) k = Some x"
    and "lists_cache items sys" "listed \<in> {Inr items} \<union> range Inl"
  shows "entries_owned (sys_info (finish_model k x listed sys)) nm \<and> models_exact nm (finish_model k x listed sys)"
proof
  let ?c = "model_ctl sys" and ?s = "fst (model_Reconcile (\<lambda>_. fetched_of x) listed k (sys_info sys))"
  have fin: "model_ctl (finish_model k x listed sys) = ctl_finish k (snd (model_Reconcile (\<lambda>_. fetched_of x) listed k (sys_info sys)) \<noteq> Inr 0) ?c"
    "sys_info (finish_model k x listed sys) = ?s"
    by (simp_all add: finish_model_def case_prod_beta)
  from assms(1) have own: "models_own nm ?c" "entries_owned (sys_info sys) nm" "wf_map (models (sys_info sys))"
    and ex: "models_exact nm sys" by (auto simp: ordered_inv_def)
  from own(1) assms(3) have x: "pred_option (own_object nm k) x" "valid_key k"
    using models_ownD(2) by blast+
  note listed = listed_own [OF assms(4) own(1)]
  show "entries_owned (sys_info (finish_model k x listed sys)) nm"
    unfolding fin using listed by (intro model_Reconcile_keeps_owned [OF own(2,3) x(1) _ assms(5)]) blast
  have other: "entry_exact ?s nm k' y = entry_exact (sys_info sys) nm k' y" if "k' \<noteq> k" "valid_key k'" for k' y
  proof -
    have "nm k' \<noteq> nm k" using assms(2) that x(2) by (auto simp: inj_on_def)
    moreover have "resolve_refs ?s = resolve_refs (sys_info sys)" by (rule ext, rule resolve_refs_cong) simp
    ultimately show ?thesis
      using model_Reconcile_owned [OF own(2,3) assms(2) x(2,1)] by (cases y) (simp_all add: entry_exact_def)
  qed
  have self: "entry_exact ?s nm k x" if "x = ctl_cache ?c k"
    using that model_Reconcile_exact [OF own(2,3) assms(2) x(2), where cache = "ctl_cache ?c", OF _ listed assms(5)] x(1)
    by simp
  show "models_exact nm (finish_model k x listed sys)"
    using ex other self assms(3) by (auto simp: models_exact_def fin)
qed

lemma ordered_models_exact_step:
  assumes "ordered_step nm sys sys'" "ordered_inv nm sys" "inj_on nm {k. valid_key k}"
  shows "entries_owned (sys_info sys') nm \<and> models_exact nm sys'"
  using assms(1)
proof (cases rule: plugin_step.cases)
  case (provider_done k x)
  then show ?thesis
    using finish_provider_exact [OF assms(2)] assms(2)
    by (auto simp: ordered_inv_def entries_owned_def getModelByName_def)
next
  case (model_done k x items listed)
  then show ?thesis using finish_model_exact [OF assms(2,3)] by blast
qed (use assms(2) in \<open>auto simp: ordered_inv_def models_exact_def see_provider_def Let_def\<close>)

lemma ordered_reach_inv:
  assumes "ordered_reach nm sys" "inj_on nm {k. valid_key k}"
  shows "ordered_inv nm sys"
  using assms(1)
proof (induction)
  case system_start
  show ?case
    by (simp add: ordered_inv_def initial_system_def models_own_def providers_own_def keys_valid_def models_wait_def
        models_exact_def entry_exact_def entries_owned_def newInfoStore_def getModelByName_def)
next
  case (system_step sys sys')
  have store: "wf_map (models (sys_info sys'))"
    using reachable_ok [OF reach_store [OF plugin_reach.system_step [OF system_step.hyps]]] by (simp add: store_ok_def)
  have valid: "keys_valid (provider_ctl sys')"
    using plugin_reach_mirrored [OF plugin_reach.system_step [OF system_step.hyps]] by (simp add: providers_mirrored_def)
  from system_step.IH have inv: "models_own nm (model_ctl sys)" "providers_own (provider_ctl sys)" "models_wait sys"
    by (auto simp: ordered_inv_def)
  show ?case
    unfolding ordered_inv_def
    using ordered_models_own [OF system_step.hyps(2) inv(1)] ordered_providers_own [OF system_step.hyps(2) inv(2)]
      ordered_models_wait [OF system_step.hyps(2) inv(3,1,2)]
      ordered_models_exact_step [OF system_step.hyps(2) system_step.IH assms(2)] store valid
    by blast
qed


text \<open>The sample model keeps the name \<^verbatim>\<open>gpt\<close>.\<close>

definition sample_names :: "NamespacedName \<Rightarrow> string" where
  "sample_names k = (if k = key_gpt then ''gpt'' else nn_String k)"

lemma sample_names_inj: "inj_on sample_names {k. valid_key k}"
proof (rule inj_onI)
  fix a b :: NamespacedName
  assume "a \<in> {k. valid_key k}" "b \<in> {k. valid_key k}" "sample_names a = sample_names b"
  moreover have "nn_String k \<noteq> ''gpt''" for k
  proof
    have "CHR ''/'' \<in> set (nn_String k)" by (simp add: nn_String_def)
    also assume "nn_String k = ''gpt''"
    finally show False by simp
  qed
  moreover from this have "''gpt'' \<noteq> nn_String k" for k by metis
  ultimately show "a = b" by (auto simp: sample_names_def nn_String_eq_iff split: if_splits)
qed


section \<open>Start-up\<close>

lemma drain_run_mirrored:
  assumes "drain_run (\<lambda>k x s. (provider_sync k x s, False)) n (c, s) (c', s')"
    and "keys_valid c" "\<And>k. valid_key k \<Longrightarrow> mirrors getProvider provider_entry c s k"
  shows "valid_key k \<Longrightarrow> mirrors getProvider provider_entry c' s' k \<and> ctl_cache c' = ctl_cache c"
proof -
  have "drain_run (\<lambda>k x s. (provider_sync k x s, False)) n cs cs' \<Longrightarrow> keys_valid (fst cs) \<Longrightarrow>
      (\<forall>k. valid_key k \<longrightarrow> mirrors getProvider provider_entry (fst cs) (snd cs) k) \<Longrightarrow>
      (\<forall>k. valid_key k \<longrightarrow> mirrors getProvider provider_entry (fst cs') (snd cs') k) \<and>
      ctl_cache (fst cs') = ctl_cache (fst cs)" for cs cs'
  proof (induction rule: drain_run.induct)
    case (drain_more cs cs' n cs'')
    from drain_more.hyps(1) have "keys_valid (fst cs') \<and>
        (\<forall>k. valid_key k \<longrightarrow> mirrors getProvider provider_entry (fst cs') (snd cs') k) \<and>
        ctl_cache (fst cs') = ctl_cache (fst cs)"
    proof (cases rule: drain_step.cases)
      case (take_key k c s)
      with drain_more.prems show ?thesis
        using keys_valid_ops(3) [of c k] provider_mirror.mirrors_start by (auto simp: ctl_can_start_def)
    next
      case (put_back c k x s s' again)
      then have "valid_key k" using drain_more.prems by (auto simp: keys_valid_def)
      with put_back drain_more.prems show ?thesis
        using keys_valid_ops(4) [of c k x again] provider_mirror.mirrors_finish by auto
    qed
    with drain_more.IH show ?case by auto
  qed simp
  from this [OF assms(1)] assms(2,3) show "valid_key k \<Longrightarrow>
      mirrors getProvider provider_entry c' s' k \<and> ctl_cache c' = ctl_cache c" by simp
qed



end
