(* ===== verification/Request_Chain.thy ===== *)
theory Request_Chain
  imports Api_Translation Provider_Resolver Headers_Guard Stream_Usage Api_Key_Injection Plugin_Stores
begin

text \<open>
  The default request profile of \<^verbatim>\<open>deploy/payload-processing/values.yaml\<close>: what leaves the chain, for any stores,
  and what leaves it when the stores are those that the store controllers of \<open>Plugin_Stores\<close> have filled from
  the cluster.
\<close>

section \<open>The request chain\<close>

text \<open>
  The default profile of \<^verbatim>\<open>deploy/payload-processing/values.yaml\<close>: the headers guard, the model
  extractor, the resolver, the usage enforcer, api-translation and apikey-injection, each stopping the
  request when it fails. The model extractor (\<^verbatim>\<open>body-field-to-header\<close>) belongs to the framework and is
  the argument \<open>extractor\<close>.
\<close>

definition request_chain ::
  "HeadersGuard \<Rightarrow> (InferenceRequest \<Rightarrow> InferenceRequest) \<Rightarrow> ModelProviderResolverPlugin \<Rightarrow> APITranslationPlugin \<Rightarrow>
   outside_world \<Rightarrow> entry_encoder \<Rightarrow> (int \<Rightarrow> int) \<Rightarrow> 'cs framework \<Rightarrow> 'cs \<Rightarrow> InferenceRequest \<Rightarrow>
   ApiKeyInjectionPlugin \<Rightarrow> InferenceRequest result" where
  "request_chain guard extractor resolver api w marshal intN fw cs r injection =
     (case guard_ProcessRequest guard fw cs r of
        Inl e \<Rightarrow> Inl e
      | Inr (cs, r) \<Rightarrow>
          (case resolver_ProcessRequest resolver marshal intN fw cs (extractor r) of
             Inl e \<Rightarrow> Inl e
           | Inr (cs, r) \<Rightarrow>
               (case enforcer_ProcessRequest fw cs r of
                  Inl e \<Rightarrow> Inl e
                | Inr r \<Rightarrow>
                    (case api_ProcessRequest api fw cs r of
                       Inl e \<Rightarrow> Inl e
                     | Inr r \<Rightarrow> fst (injection_ProcessRequest w fw cs r injection)))))"

text \<open>
  What the documentation says of \<^verbatim>\<open>body-field-to-header\<close>: it copies a body field to a header and changes
  nothing else.
\<close>

definition extractor_ok :: "(InferenceRequest \<Rightarrow> InferenceRequest) \<Rightarrow> bool" where
  "extractor_ok extractor \<longleftrightarrow>
     (\<forall>r. Body (extractor r) = Body r \<and>
          (\<forall>k. equalFold k modelNameHeader \<or> map_of (Headers (extractor r)) k = map_of (Headers r) k))"

lemma not_model_header:
  "\<not> equalFold ''authorization'' modelNameHeader" "\<not> equalFold ''x-api-key'' modelNameHeader"
  by code_simp+

text \<open>Headers a registered generator produced from the given credentials.\<close>

definition generated :: "outside_world \<Rightarrow> 'cs framework \<Rightarrow> 'cs \<Rightarrow> string \<Rightarrow> string gomap \<Rightarrow> string gomap \<Rightarrow> bool" where
  "generated w fw cs authType creds hs \<longleftrightarrow>
     (\<exists>gen r extra cache cache'. map_of (authHeadersGenerators w) authType = Some gen \<and>
        ExtractRequestData gen fw cs r = Inr extra \<and>
        GenerateAuthHeaders gen (if extra \<noteq> [] then gcopy (gcopy [] creds) extra else creds) cache = (Inr hs, cache'))"

text \<open>What the injection plugin does to the headers, for any auth type.\<close>

lemma injection_headers:
  assumes "ipp_framework fw" "fst (injection_ProcessRequest w fw cs r p) = Inr r'"
    and "read_auth fw AuthTypeKey cs = Some authType"
    and "read_str fw CredsRefNamespace cs = Some ns" "read_str fw CredsRefName cs = Some name"
  shows "\<exists>hs. (if authType \<in> {[], AuthNone} then hs = []
      else \<exists>creds. secret_get (aki_store p) ns name = Some creds \<and> generated w fw cs authType creds hs) \<and>
    (\<forall>k. map_of (Headers r') k =
      (case map_of hs k of Some v \<Rightarrow> Some v
       | None \<Rightarrow> if authType = AuthNone \<and> k = ''authorization'' then None else map_of (Headers r) k))"
proof (cases "authType \<in> {[], AuthNone}")
  case True
  with assms have "r' = (if authType = AuthNone then RemoveHeader fw ''authorization'' r else r)"
    by (auto simp: injection_ProcessRequest_def)
  with True show ?thesis
    by (intro exI [of _ "[]"]) (auto simp: ipp_framework.Headers_RemoveHeader [OF assms(1)])
next
  case False
  then have at: "authType \<noteq> []" "authType \<noteq> AuthNone" by auto
  obtain p' where "injection_ProcessRequest w fw cs r p = (Inr r', p')"
    using assms(2) by (metis prod.collapse)
  from this assms(3) at obtain ns' name' creds gen extra hs cache where *:
    "read_str fw CredsRefNamespace cs = Some ns'" "read_str fw CredsRefName cs = Some name'"
    "secret_get (aki_store p) ns' name' = Some creds" "map_of (authHeadersGenerators w) authType = Some gen"
    "ExtractRequestData gen fw cs r = Inr extra"
    "GenerateAuthHeaders gen (if extra \<noteq> [] then gcopy (gcopy [] creds) extra else creds) (aki_cache p) = (Inr hs, cache)"
    "r' = set_headers fw hs r" "p' = p\<lparr>aki_cache := cache\<rparr>"
    by (rule injected_request)
  have "map_of (Headers r') = map_of (Headers r) ++ map_of hs"
    using auth_generator.injected_headers [OF registered_generator [OF *(4)] assms(1) *(6)] *(7) by simp
  moreover have "generated w fw cs authType creds hs"
    using *(4-6) unfolding generated_def by blast
  ultimately show ?thesis
    using * assms(4,5) False by (intro exI [of _ hs]) (auto simp: map_add_def)
qed

section \<open>The chain as a whole\<close>

lemma chain_steps:
  assumes "request_chain g ex p api w marshal intN fw cs r injp = Inr r'"
    and "guard_ProcessRequest g fw cs r = Inr (cs1, r1)"
  obtains cs2 r2 r3 r4 where "resolver_ProcessRequest p marshal intN fw cs1 (ex r1) = Inr (cs2, r2)"
    "enforcer_ProcessRequest fw cs2 r2 = Inr r3" "api_ProcessRequest api fw cs2 r3 = Inr r4"
    "fst (injection_ProcessRequest w fw cs2 r4 injp) = Inr r'"
  using assms by (auto simp: request_chain_def split: sum.splits)

lemma guard_removes:
  assumes "ipp_framework fw" "wf_map (Headers r)" "guard_ProcessRequest g fw cs r = Inr (cs1, r1)"
  shows "map_of (Headers r1) k = (if guarded g k then None else map_of (Headers r) k)"
  using guard_spec [OF assms(1,2), of g cs] assms(3) by auto

lemma resolver_other_headers:
  assumes "ipp_framework fw" "external_request p r info" "\<not> hubMode p"
    and "resolver_ProcessRequest p marshal intN fw cs r = Inr (cs', r')"
    and "k \<notin> {SelectedProviderHeader, ''Host'', OriginClusterHeader}"
  shows "map_of (Headers r') k = map_of (Headers r) k"
proof -
  have "\<not> (hubMode p \<and> gstr (Headers r) DestinationHeader = [])" using assms(3) by simp
  with assms(2) obtain ref where "r' = restoreOrMarkOrigin p fw cs' (routed fw ref r) ref"
    using assms(4) by (rule resolved_request)
  with assms(5) show ?thesis
    by (simp add: Headers_restoreOrMarkOrigin [OF assms(1)] routed_request [OF assms(1)])
qed

lemma chain_credentials_gone:
  assumes "ipp_framework fw" "wf_map (Headers r)" "extractor_ok ex"
    and "guard_ProcessRequest g fw cs r = Inr (cs1, r1)" "external_request p (ex r1) info" "\<not> hubMode p"
    and "resolver_ProcessRequest p emarshal intN fw cs1 (ex r1) = Inr (cs2, r2)"
    and "k \<in> {''authorization'', ''x-api-key''}"
  shows "map_of (Headers r2) k = None"
proof -
  have "map_of (Headers (ex r1)) k = map_of (Headers r1) k"
    using assms(3,8) not_model_header unfolding extractor_ok_def by blast
  moreover have "map_of (Headers r1) k = None"
    using guard_removes [OF assms(1,2,4)] assms(8) by (auto simp: guarded_def)
  ultimately show ?thesis
    using resolver_other_headers [OF assms(1,5,6,7), of k] assms(8) by auto
qed

lemma translation_keeps_credentials_out:
  assumes "api_translation fw api" "api_ProcessRequest api fw cs r = Inr r'"
    and "map_of (Headers r) k = None" "k \<in> {''authorization'', ''x-api-key''}"
  shows "map_of (Headers r') k = None"
proof (cases "k = ''authorization''")
  case True
  have "formats_known fw cs \<or> r' = r"
    using assms(2) by (auto simp: api_ProcessRequest_def formats_known_def)
  with True assms(3) api_translation.no_client_credentials [OF assms(1,2)] show ?thesis
    by auto
next
  case False
  with assms(4) have "k = ''x-api-key''" by simp
  with assms(3) api_translation.other_headers_kept [OF assms(1,2), of k] show ?thesis by simp
qed

lemma chain_forwards:
  assumes "ipp_framework fw" "wf_map (Headers r)" "extractor_ok ex"
    and "guard_ProcessRequest g fw cs r = Inr (cs1, r1)" "external_request p (ex r1) info" "draw_ok intN info"
    and "\<not> hubMode p"
    and "request_chain g ex p (NewAPITranslationPlugin unmarshal marshal now) w emarshal intN fw cs r injp = Inr r'"
  shows "\<exists>ref \<in> set (mi_refs info). \<exists>cs2 hs. 0 < rr_weight ref \<and>
    (if rr_auth ref \<in> {[], AuthNone} then hs = []
     else \<exists>creds. secret_get (aki_store injp) (rr_secretNamespace ref) (rr_secretName ref) = Some creds \<and>
       generated w fw cs2 (rr_auth ref) creds hs) \<and>
    (\<forall>k. map_of hs k = None \<longrightarrow>
       (k \<in> {''authorization'', ''x-api-key''} \<longrightarrow> map_of (Headers r') k = None) \<and>
       (k = ''Host'' \<longrightarrow> map_of (Headers r') k = Some (rr_endpoint ref)) \<and>
       (k = SelectedProviderHeader \<longrightarrow> map_of (Headers r') k = Some (rr_providerName ref)) \<and>
       (k = '':path'' \<and> rr_apiFormat ref \<noteq> [] \<longrightarrow> map_of (Headers r') k = Some (rr_path ref)))"
proof -
  let ?api = "NewAPITranslationPlugin unmarshal marshal now"
  from assms(8,4) obtain cs2 r2 r3 r4 where
    res: "resolver_ProcessRequest p emarshal intN fw cs1 (ex r1) = Inr (cs2, r2)" and
    enf: "enforcer_ProcessRequest fw cs2 r2 = Inr r3" and api: "api_ProcessRequest ?api fw cs2 r3 = Inr r4" and
    injd: "fst (injection_ProcessRequest w fw cs2 r4 injp) = Inr r'"
    by (rule chain_steps)
  have nohub: "\<not> (hubMode p \<and> gstr (Headers (ex r1)) DestinationHeader = [])" using assms(7) by simp
  obtain ref where ref: "ref \<in> set (mi_refs info)" "0 < rr_weight ref"
    "map_of (Headers r2) SelectedProviderHeader = Some (rr_providerName ref)"
    "map_of (Headers r2) ''Host'' = Some (rr_endpoint ref)"
    "read_format fw InputAPIFormatKey cs2 \<noteq> []" "read_format fw APIFormatKey cs2 = rr_apiFormat ref"
    "read_auth fw AuthTypeKey cs2 = Some (rr_auth ref)" "read_str fw PathKey cs2 = Some (rr_path ref)"
    "read_str fw CredsRefName cs2 = Some (rr_secretName ref)"
    "read_str fw CredsRefNamespace cs2 = Some (rr_secretNamespace ref)"
    using resolver_routes [OF assms(1,5,6) nohub res] by metis
  have at: "api_translation fw ?api" by (rule api_translation_plugin [OF assms(1)])
  have hdr3: "Headers r3 = Headers r2"
    using enforcer_spec [OF assms(1), of cs2 r2] enf by auto
  have kept: "map_of (Headers r4) k = map_of (Headers r2) k"
    if "k \<notin> {''anthropic-version'', ''content-type'', '':path'', ''authorization'', anthropicBetaHeader}" for k
    using api_translation.other_headers_kept [OF at api that] by (simp add: hdr3)
  have auth4: "map_of (Headers r4) k = None" if "k \<in> {''authorization'', ''x-api-key''}" for k
    using translation_keeps_credentials_out [OF at api _ that] that
      chain_credentials_gone [OF assms(1-5,7) res that] by (simp add: hdr3)
  have path4: "map_of (Headers r4) '':path'' = Some (rr_path ref)" if "rr_apiFormat ref \<noteq> []"
    using api_translation.path_override [OF at api _ ref(8)] ref(5,6) that by (simp add: formats_known_def)
  have "map_of (Headers r4) ''Host'' = Some (rr_endpoint ref)"
    "map_of (Headers r4) SelectedProviderHeader = Some (rr_providerName ref)"
    using kept [of "''Host''"] kept [of SelectedProviderHeader] ref(3,4) by simp_all
  moreover obtain hs where hs: "if rr_auth ref \<in> {[], AuthNone} then hs = []
      else \<exists>creds. secret_get (aki_store injp) (rr_secretNamespace ref) (rr_secretName ref) = Some creds \<and>
        generated w fw cs2 (rr_auth ref) creds hs"
    "\<forall>k. map_of (Headers r') k = (case map_of hs k of Some v \<Rightarrow> Some v
       | None \<Rightarrow> if rr_auth ref = AuthNone \<and> k = ''authorization'' then None else map_of (Headers r4) k)"
    using injection_headers [OF assms(1) injd ref(7,10,9)] by blast
  ultimately show ?thesis
    using ref(1,2) hs auth4 path4
    by (intro bexI [of _ ref] exI [of _ cs2] exI [of _ hs] conjI allI impI) auto
qed


text \<open>A model extractor and a chain for the witness.\<close>

definition sample_extractor :: "InferenceRequest \<Rightarrow> InferenceRequest" where
  "sample_extractor r = r\<lparr>Headers := gset modelNameHeader (str_of (idx (Body r) ''model'')) (Headers r)\<rparr>"

lemma sample_extractor_ok: "extractor_ok sample_extractor"
  by (auto simp: extractor_ok_def sample_extractor_def)

definition open_info :: externalModelInfo where
  "open_info = sample_info\<lparr>mi_refs := [(sample_resolved ''remote-maas'' 1)\<lparr>rr_auth := AuthNone\<rparr>]\<rparr>"

definition open_plugin :: ModelProviderResolverPlugin where
  "open_plugin = sample_plugin\<lparr>mpr_store := \<lparr>providers = [], models = [(''m'', open_info)]\<rparr>\<rparr>"

definition open_request :: InferenceRequest where
  "open_request = sample_request [(''authorization'', ''Bearer client''), (''x-api-key'', ''client'')]"


section \<open>From the cluster to the provider\<close>

text \<open>
  What the cluster says of a reference: the provider it names exists in the model's namespace and its path
  resolves with the provider's configuration under the model's.
\<close>

definition upstream :: "plugin_system \<Rightarrow> ExternalModel \<Rightarrow> ExternalProviderRef \<Rightarrow> ExternalProvider \<Rightarrow> string \<Rightarrow> bool" where
  "upstream sys model ref prov path \<longleftrightarrow>
     ref \<in> set (ExternalProviderRefs (em_Spec model)) \<and>
     pref_Namespace (Ref ref) \<in> {[], meta_Namespace (em_Meta model)} \<and>
     ctl_cluster (provider_ctl sys) \<lparr>nn_Namespace = meta_Namespace (em_Meta model), nn_Name = pref_Name (Ref ref)\<rparr> = Some prov \<and>
     \<not> meta_Deleted (ep_Meta prov) \<and>
     ResolvePath (Path ref)
       (mergeConfig (buildConfigWithDefaults (Provider (ep_Spec prov)) (Config (ep_Spec prov))) (RefConfig ref))
       (TargetModel ref) = Inr path"

definition upstream_auth :: "ExternalProviderRef \<Rightarrow> ExternalProvider \<Rightarrow> string" where
  "upstream_auth ref prov =
     (case RefAuth ref of None \<Rightarrow> mapCRDAuthType (auth_Type (Auth (ep_Spec prov))) | Some a \<Rightarrow> auth_Type a)"

definition upstream_secret :: "ExternalModel \<Rightarrow> ExternalProviderRef \<Rightarrow> ExternalProvider \<Rightarrow> NamespacedName" where
  "upstream_secret model ref prov =
     \<lparr>nn_Namespace = meta_Namespace (em_Meta model),
      nn_Name = nameref_Name (auth_SecretRef (case RefAuth ref of None \<Rightarrow> Auth (ep_Spec prov) | Some a \<Rightarrow> a))\<rparr>"

text \<open>Informers that have caught up and queues that are empty\<close>

definition settled_system :: "plugin_system \<Rightarrow> bool" where
  "settled_system sys \<longleftrightarrow>
     cache_current (\<lambda>x. x) (provider_ctl sys) \<and> cache_current (\<lambda>x. x) (model_ctl sys) \<and>
     cache_current filteredSecret (secret_ctl sys) \<and>
     ctl_quiet (provider_ctl sys) \<and> ctl_quiet (model_ctl sys) \<and> ctl_quiet (secret_ctl sys)"

lemma quiet_drained: "ctl_quiet c \<Longrightarrow> ctl_drained c k"
  by (simp add: ctl_quiet_def ctl_drained_def)

lemma settled_provider:
  assumes "plugin_reach admit named sys" "settled_system sys" "valid_key k"
  shows "getProvider (sys_info sys) k = provider_entry k (ctl_cluster (provider_ctl sys) k)"
  using plugin_reach_mirrored [OF assms(1)] assms(2,3)
    provider_mirror.mirrors_drained [of "provider_ctl sys" "sys_info sys" k]
  by (simp add: quiet_drained providers_mirrored_def settled_system_def cache_current_def)

lemma settled_secret:
  assumes "plugin_reach admit named sys" "settled_system sys"
  shows "secret_get (sys_creds sys) (nn_Namespace k) (nn_Name k) = secret_entry k (ctl_cluster (secret_ctl sys) k)"
  using plugin_reach_mirrored [OF assms(1)] assms(2) secret_mirror.mirrors_drained [of "secret_ctl sys" "sys_creds sys" k]
  by (simp add: quiet_drained secrets_mirrored_def settled_system_def cache_current_def secret_of_def)

lemma settled_resolveRef:
  assumes "plugin_reach admit named sys" "settled_system sys" "valid_key (object_key (em_Meta model))"
    and "ref \<in> set (ExternalProviderRefs (em_Spec model))"
  shows "resolveRef (sys_info sys) (meta_Namespace (em_Meta model)) ref = Inr rr \<longleftrightarrow>
    (\<exists>prov path. upstream sys model ref prov path \<and>
       rr = \<lparr>rr_provider = Provider (ep_Spec prov), rr_providerName = pref_Name (Ref ref), rr_targetModel = TargetModel ref,
             rr_apiFormat = APIFormat ref, rr_auth = upstream_auth ref prov, rr_endpoint = Endpoint (ep_Spec prov),
             rr_path = path, rr_secretName = nn_Name (upstream_secret model ref prov),
             rr_secretNamespace = nn_Namespace (upstream_secret model ref prov),
             rr_config = mergeConfig (buildConfigWithDefaults (Provider (ep_Spec prov)) (Config (ep_Spec prov))) (RefConfig ref),
             rr_weight = (case Weight ref of None \<Rightarrow> 1 | Some w \<Rightarrow> w)\<rparr>)"
proof -
  let ?k = "\<lparr>nn_Namespace = meta_Namespace (em_Meta model), nn_Name = pref_Name (Ref ref)\<rparr>"
  have "valid_key ?k" using assms(3) by (simp add: valid_key_def object_key_def)
  from settled_provider [OF assms(1,2) this] assms(4) show ?thesis
    by (auto simp: resolveRef_def upstream_def upstream_auth_def upstream_secret_def provider_entry_def Let_def
        split: option.splits sum.splits if_splits)
qed

lemma settled_model_entry:
  assumes "plugin_reach providers_settled (named_by nm) sys" "inj_on nm {k. valid_key k}" "settled_system sys"
    and "valid_key k" "ctl_cluster (model_ctl sys) k = Some model"
    and "\<not> meta_Deleted (em_Meta model)" "\<not> excludedFromStore model" "resolve_refs (sys_info sys) model \<noteq> []"
  shows "object_key (em_Meta model) = k \<and> clientModelName model = nm k \<and>
    getModelByName (sys_info sys) (nm k) =
      Some \<lparr>mi_owner = k, mi_modelName = nm k, mi_refs = resolve_refs (sys_info sys) model\<rparr>"
proof -
  have cache: "ctl_cache (model_ctl sys) k = Some model"
    using assms(3,5) by (simp add: settled_system_def cache_current_def)
  note inv = ordered_reach_inv [OF assms(1,2)]
  have "own_object nm k model" using inv models_ownD(1) [OF _ cache] by (auto simp: ordered_inv_def)
  moreover have "ctl_drained (model_ctl sys) k" using assms(3) by (simp add: quiet_drained settled_system_def)
  then have "entry_exact (sys_info sys) nm k (Some model)"
    using inv assms(4) cache by (auto simp: ordered_inv_def models_exact_def ctl_drained_def)
  ultimately show ?thesis using assms(6-8) by (auto simp: entry_exact_def own_object_def named_by_def)
qed


text \<open>The limits of the CRD schema on the references of a model: at most 64, with weights from 0 to 100\<close>

definition refs_admitted :: "ExternalModel \<Rightarrow> bool" where
  "refs_admitted model \<longleftrightarrow>
     length (ExternalProviderRefs (em_Spec model)) \<le> 64 \<and>
     list_all (\<lambda>ref. case Weight ref of None \<Rightarrow> True | Some w \<Rightarrow> 0 \<le> w \<and> w \<le> 100) (ExternalProviderRefs (em_Spec model))"

lemma pos_sum_bound:
  "(\<And>r. r \<in> set rs \<Longrightarrow> rr_weight r \<le> b) \<Longrightarrow> 0 \<le> b \<Longrightarrow> pos_sum rs \<le> b * int (length rs)"
proof (induction rs)
  case (Cons r rs)
  then have "pos_sum rs \<le> b * int (length rs)" "rr_weight r \<le> b" by auto
  with Cons.prems(2) show ?case by (auto simp: algebra_simps)
qed simp

lemma resolved_weight:
  "resolveRef s ns ref = Inr rr \<Longrightarrow> rr_weight rr = (case Weight ref of None \<Rightarrow> 1 | Some w \<Rightarrow> w)"
  by (auto simp: resolveRef_def Let_def split: if_splits option.splits sum.splits)

lemma admitted_draw_ok:
  assumes "refs_admitted model" "\<forall>n>0. 0 \<le> intN n \<and> intN n < n"
  shows "draw_ok intN \<lparr>mi_owner = k, mi_modelName = name, mi_refs = resolve_refs s model\<rparr>"
proof -
  have "rr_weight r \<le> 100" if "r \<in> set (resolve_refs s model)" for r
    using that assms(1)
    by (force simp: in_resolve_refs refs_admitted_def list_all_iff dest!: resolved_weight split: option.splits)
  then have "pos_sum (resolve_refs s model) \<le> 100 * int (length (resolve_refs s model))"
    by (intro pos_sum_bound) auto
  also have "length (resolve_refs s model) \<le> 64"
    using assms(1) length_filter_le le_trans
    unfolding resolve_refs_def List.map_filter_def refs_admitted_def length_map by blast
  finally show ?thesis using assms(2) by (auto simp: draw_ok_def max_int_def)
qed


text \<open>The published system with the provider's Secret, and a request for its model\<close>

abbreviation "key_key \<equiv> \<lparr>nn_Namespace = ''team'', nn_Name = ''key''\<rparr>"

definition served_system :: plugin_system where
  "served_system = with_secret key_key published"

definition gpt_request :: InferenceRequest where
  "gpt_request = \<lparr>Headers = [('':path'', ''/team/gpt/v1/chat/completions''), (''authorization'', ''Bearer client'')],
     Body = [(''model'', VStr ''gpt''), (''messages'', VList [VNil])]\<rparr>"

lemma served_reachable: "plugin_reach providers_settled (named_by sample_names) served_system"
proof -
  have n: "named_by sample_names gpt_model" by code_simp
  have a: "providers_settled (with_model (run_provider sample_provider (with_provider sample_provider [] initial_system))) key_gpt"
    by code_simp
  show ?thesis unfolding served_system_def
    by (rule with_secret_reachable [OF published_reachable [where named = "named_by sample_names" and admit = providers_settled, OF n a]
          published_simps(3)])
qed

lemma served_settled: "settled_system served_system"
proof -
  have p: "ctl_pending (provider_ctl published) = {} \<and> ctl_retrying (provider_ctl published) = {}" by code_simp
  have m: "ctl_pending (model_ctl published) = {} \<and> ctl_retrying (model_ctl published) = {}" by code_simp
  note sc = secret_ctl_with_secret [OF published_simps(3), of key_key]
  have "cache_current filteredSecret (secret_ctl served_system)" "ctl_quiet (secret_ctl served_system)"
    by (simp_all add: served_system_def sc cache_current_def ctl_quiet_def ctl_ops idle_controller_def fun_eq_iff filteredSecret_def)
  with p m show ?thesis
    by (simp add: settled_system_def served_system_def cache_current_def published_simps ctl_quiet_def fun_eq_iff)
qed


end
