(* ===== verification/Profile_Picker.thy ===== *)
theory Profile_Picker
  imports Framework
begin

text \<open>
  \<^verbatim>\<open>passthrough-profile-picker/picker.go\<close>: chooses between the translation and the passthrough profile
  from the formats the resolver wrote.
\<close>

abbreviation defaultTranslationProfile where "defaultTranslationProfile \<equiv> ''translation''"
abbreviation defaultPassthroughProfile where "defaultPassthroughProfile \<equiv> ''passthrough''"

record PassthroughProfilePicker =
  translationProfile :: string
  passthroughProfile :: string

definition picker_isPassthrough :: "string \<Rightarrow> string \<Rightarrow> bool" where
  "picker_isPassthrough inputFormat outputFormat =
     (if inputFormat = [] then False
      else if outputFormat = [] then True
      else if inputFormat \<noteq> outputFormat then False
      else inputFormat \<noteq> OpenAIChatCompletions)"

definition Pick :: "PassthroughProfilePicker \<Rightarrow> 'cs framework \<Rightarrow> 'cs \<Rightarrow> 'profile gomap \<Rightarrow> 'profile result" where
  "Pick p fw cycleState profiles =
     (let inputFormat = read_format fw InputAPIFormatKey cycleState;
          outputFormat = read_format fw APIFormatKey cycleState;
          profileName = (if picker_isPassthrough inputFormat outputFormat then passthroughProfile p
                         else translationProfile p)
      in case map_of profiles profileName of
           None \<Rightarrow> Inl (Errorf ''profile %q not found'' [ArgS profileName])
         | Some profile \<Rightarrow> Inr profile)"

end
