(* ===== verification/Http_Client.thy ===== *)
theory Http_Client
  imports Go_Any
begin

text \<open>
  What the plugins see of \<^verbatim>\<open>net/http\<close> and \<^verbatim>\<open>net/url\<close> when they call another service. The network is an
  argument of the operations: a function from the request to what comes back, which is an error while
  the request is built, an error of the call, or an answer with a status and a body. Reading the body
  through \<^verbatim>\<open>io.LimitReader\<close> is the function of the answer that takes the limit.
\<close>

datatype http_result =
    RequestFailed err
  | CallFailed err
  | Answered int "nat \<Rightarrow> string result"

abbreviation "StatusOK \<equiv> 200"
abbreviation "StatusNoContent \<equiv> 204"

text \<open>A \<^verbatim>\<open>time.Duration\<close> in nanoseconds; the product with \<^verbatim>\<open>time.Second\<close> wraps around.\<close>

definition seconds :: "int \<Rightarrow> int" where
  "seconds n = wrap64 (n * 1000000000)"

text \<open>\<^verbatim>\<open>json.Unmarshal\<close> into a nil \<^verbatim>\<open>map[string]any\<close>: only an object or \<^verbatim>\<open>null\<close> is accepted, and \<^verbatim>\<open>null\<close>
  leaves the map nil (the inner \<open>None\<close>).\<close>

definition unmarshal_map :: "decoder \<Rightarrow> string \<Rightarrow> body option option" where
  "unmarshal_map unmarshal s =
     (case unmarshal s of Some (VMap m) \<Rightarrow> Some (Some m) | Some VNil \<Rightarrow> Some None | _ \<Rightarrow> None)"

text \<open>An answer with a status and a body, for the examples.\<close>

definition answer :: "int \<Rightarrow> string \<Rightarrow> http_result" where
  "answer status text = Answered status (\<lambda>n. Inr (take n text))"

end
