(* ===== verification/Nemo.thy ===== *)
theory Nemo
  imports Framework Http_Client "HOL-Library.Sublist" "HOL-Library.List_Lexorder" "HOL-Library.Char_ord"
begin

text \<open>
  \<^verbatim>\<open>pkg/plugins/nemo\<close>: the guards that ask a NeMo Guardrails service about the text of a request and of a
  response. The extractor turns the three payload formats into messages (\<^verbatim>\<open>extractor.go\<close>), the base posts
  them and reads the verdict (\<^verbatim>\<open>nemo_guard_base.go\<close>), and the two plugins refuse what the verdict does not
  allow (\<^verbatim>\<open>request_guard.go\<close>, \<^verbatim>\<open>response_guard.go\<close>).

  The service, \<^verbatim>\<open>url.ParseRequestURI\<close> and the JSON codec are arguments. A nil and an empty slice are the
  same list; the code only asks for their length. The messages of a response, a \<^verbatim>\<open>[]map[string]string\<close>, go
  into the payload as a list of \<^verbatim>\<open>map[string]string\<close>, which marshals to the same text.
\<close>

section \<open>Extraction\<close>

text \<open>The message that every branch of the extractor builds.\<close>

definition nemo_message :: "string \<Rightarrow> string \<Rightarrow> any" where
  "nemo_message role content = VStrMap [(''role'', role), (''content'', content)]"

definition extractOpenAIMessages :: "any \<Rightarrow> any list result" where
  "extractOpenAIMessages raw =
     (case as_list raw of None \<Rightarrow> Inl (Errorf ''messages is not an array'' []) | Some slice \<Rightarrow> Inr slice)"

definition extractMCPArguments :: "body \<Rightarrow> any list result" where
  "extractMCPArguments body =
     (case as_map (idx body ''params'') of
        None \<Rightarrow> Inr []
      | Some params \<Rightarrow>
          (case as_map (idx params ''arguments'') of
             None \<Rightarrow> Inr []
           | Some args \<Rightarrow>
               (let keys = sort (map fst args);
                    parts = List.map_filter (\<lambda>k. as_str (idx args k)) keys
                in if parts = [] then Inr []
                   else Inr [nemo_message ''user'' (join [CHR 0x0A] parts)])))"

text \<open>One block of a content array.\<close>

definition content_block :: "nat \<Rightarrow> any \<Rightarrow> string list result" where
  "content_block i block =
     (case as_map block of
        None \<Rightarrow> Inl (Errorf ''content[%d] has unsupported type'' [ArgI (int i)])
      | Some blockMap \<Rightarrow>
          (let text = str_of (idx blockMap ''text'')
           in if str_of (idx blockMap ''type'') \<in> {''output_text'', ''input_text'', ''text''} \<and> text \<noteq> []
              then Inr [text] else Inr []))"

definition extractOpenResponsesTextContent :: "any \<Rightarrow> string result" where
  "extractOpenResponsesTextContent raw =
     (case raw of
        VNil \<Rightarrow> Inr []
      | VStr v \<Rightarrow> Inr v
      | VList v \<Rightarrow> (case collect content_block 0 v of Inl e \<Rightarrow> Inl e | Inr parts \<Rightarrow> Inr (join '' '' parts))
      | _ \<Rightarrow> Inl (Errorf ''content has unsupported type'' []))"

text \<open>One item of an input array.\<close>

definition input_item :: "nat \<Rightarrow> any \<Rightarrow> any list result" where
  "input_item i raw =
     (case as_map raw of
        None \<Rightarrow> Inl (Errorf ''input[%d] has unsupported type'' [ArgI (int i)])
      | Some item \<Rightarrow>
          (let itemType = str_of (idx item ''type'')
           in if itemType = ''message'' then
                (let role = str_of (idx item ''role'');
                     role = (if role = [] then ''user'' else role)
                 in case extractOpenResponsesTextContent (idx item ''content'') of
                      Inl e \<Rightarrow> Inl (WrapErr ''input[%d]: %w'' [ArgI (int i)] e)
                    | Inr content \<Rightarrow> if content = [] then Inr [] else Inr [nemo_message role content])
              else if itemType = ''function_call'' then
                (let name = str_of (idx item ''name''); args = str_of (idx item ''arguments'')
                 in if name = [] \<and> args = [] then Inr []
                    else Inr [nemo_message ''assistant'' (name @ ''('' @ args @ '')'')])
              else if itemType = ''function_call_output'' then
                (let out = str_of (idx item ''output'')
                 in if out = [] then Inr [] else Inr [nemo_message ''tool'' out])
              else Inr []))"

definition extractOpenResponsesInputItems :: "any list \<Rightarrow> any list result" where
  "extractOpenResponsesInputItems items = collect input_item 0 items"

definition extractOpenResponsesInput :: "body \<Rightarrow> any list result" where
  "extractOpenResponsesInput body =
     (let instructions = str_of (idx body ''instructions'');
          messages = (if instructions \<noteq> [] then [nemo_message ''system'' instructions] else [])
      in case map_of body ''input'' of
           None \<Rightarrow> Inr messages
         | Some (VStr v) \<Rightarrow> if v = [] then Inr messages else Inr (messages @ [nemo_message ''user'' v])
         | Some (VList v) \<Rightarrow>
             (case extractOpenResponsesInputItems v of
                Inl e \<Rightarrow> Inl e
              | Inr itemMessages \<Rightarrow> Inr (messages @ itemMessages))
         | Some _ \<Rightarrow> Inl (Errorf ''input has unsupported type'' []))"

text \<open>The input format is an argument of the function and is not used.\<close>

definition nemo_extractMessages :: "body \<Rightarrow> string \<Rightarrow> any list result" where
  "nemo_extractMessages body inputFormat =
     (case map_of body ''messages'' of
        Some raw \<Rightarrow> extractOpenAIMessages raw
      | None \<Rightarrow>
          if map_of body ''jsonrpc'' \<noteq> None then extractMCPArguments body
          else if map_of body ''input'' \<noteq> None then extractOpenResponsesInput body
          else Inr [])"

text \<open>One choice of a chat completion.\<close>

definition choice_item :: "nat \<Rightarrow> any \<Rightarrow> any list result" where
  "choice_item i choice =
     (case as_map choice of
        None \<Rightarrow> Inl (Errorf ''choice[%d] has unsupported type'' [ArgI (int i)])
      | Some choiceMap \<Rightarrow>
          (case (case as_map (idx choiceMap ''message'') of
                   Some msg \<Rightarrow> Some msg | None \<Rightarrow> as_map (idx choiceMap ''delta'')) of
             None \<Rightarrow> Inl (Errorf ''choice[%d] has no message or delta field'' [ArgI (int i)])
           | Some msg \<Rightarrow>
               (case idx msg ''content'' of
                  VNil \<Rightarrow> Inr []
                | VStr content \<Rightarrow> if content = [] then Inr [] else Inr [nemo_message ''assistant'' content]
                | _ \<Rightarrow> Inl (Errorf ''choice[%d] content is not a string'' [ArgI (int i)]))))"

definition extractOpenAIAssistantMessagesFromChoices :: "any \<Rightarrow> any list result" where
  "extractOpenAIAssistantMessagesFromChoices raw =
     (case as_list raw of
        None \<Rightarrow> Inl (Errorf ''choices field has unsupported type'' [])
      | Some choiceSlice \<Rightarrow> collect choice_item 0 choiceSlice)"

text \<open>One item of an output array.\<close>

definition output_item :: "nat \<Rightarrow> any \<Rightarrow> any list result" where
  "output_item i raw =
     (case as_map raw of
        None \<Rightarrow> Inl (Errorf ''output[%d] has unsupported type'' [ArgI (int i)])
      | Some item \<Rightarrow>
          if str_of (idx item ''type'') \<noteq> ''message'' then Inr []
          else
            (let role = str_of (idx item ''role'')
             in if role \<noteq> [] \<and> role \<noteq> ''assistant'' then Inr []
                else case extractOpenResponsesTextContent (idx item ''content'') of
                       Inl e \<Rightarrow> Inl (WrapErr ''output[%d]: %w'' [ArgI (int i)] e)
                     | Inr content \<Rightarrow> if content = [] then Inr [] else Inr [nemo_message ''assistant'' content]))"

definition extractOpenResponsesOutput :: "body \<Rightarrow> any list result" where
  "extractOpenResponsesOutput body =
     (case map_of body ''output'' of
        None \<Rightarrow> Inr []
      | Some rawOutput \<Rightarrow>
          (case as_list rawOutput of
             None \<Rightarrow> Inl (Errorf ''output is not an array'' [])
           | Some outputSlice \<Rightarrow> collect output_item 0 outputSlice))"

text \<open>One item of an MCP result.\<close>

definition mcp_item :: "nat \<Rightarrow> any \<Rightarrow> any list result" where
  "mcp_item i item =
     (let entry = obj_of item
      in if idx entry ''type'' \<noteq> VStr ''text'' then Inr []
         else case as_str (idx entry ''text'') of
                None \<Rightarrow> Inl (Errorf ''mcp text content is not a string'' [])
              | Some text \<Rightarrow> if text \<noteq> [] then Inr [nemo_message ''assistant'' text] else Inr [])"

definition extractMCPTextContent :: "body \<Rightarrow> any list result" where
  "extractMCPTextContent body =
     collect mcp_item 0 (list_of (idx (obj_of (idx body ''result'')) ''content''))"

definition extractAssistantMessages :: "body \<Rightarrow> string \<Rightarrow> any list result" where
  "extractAssistantMessages body inputFormat =
     (if inputFormat = OpenAIResponses then extractOpenResponsesOutput body
      else case map_of body ''choices'' of
             Some raw \<Rightarrow> extractOpenAIAssistantMessagesFromChoices raw
           | None \<Rightarrow>
               if map_of body ''jsonrpc'' \<noteq> None then extractMCPTextContent body
               else if map_of body ''output'' \<noteq> None then extractOpenResponsesOutput body
               else Inr [])"

section \<open>The service\<close>

abbreviation nemoStatusSuccess where "nemoStatusSuccess \<equiv> ''success''"
abbreviation nemoStatusModified where "nemoStatusModified \<equiv> ''modified''"
abbreviation nemoStatusBlocked where "nemoStatusBlocked \<equiv> ''blocked''"
abbreviation nemoStatusError where "nemoStatusError \<equiv> ''error''"

definition nemo_defaultTimeoutSec :: int where "nemo_defaultTimeoutSec = 360"
definition maxNemoResponseBytes :: nat where "maxNemoResponseBytes = 2 ^ 20"

record nemoResponse =
  nr_Status :: string
  nr_RailsStatus :: "string gomap"
  nr_GuardrailsData :: body

record nemoGuardBase =
  nemoURL :: string
  nemo_Timeout :: int

text \<open>\<open>parseURI\<close> is \<^verbatim>\<open>url.ParseRequestURI\<close>: the scheme and the host.\<close>

definition newNemoGuardBase :: "(string \<Rightarrow> (string \<times> string) result) \<Rightarrow> string \<Rightarrow> int \<Rightarrow> nemoGuardBase result" where
  "newNemoGuardBase parseURI url timeoutSeconds =
     (if url = [] then Inl (Errorf ''nemoURL is required'' [])
      else case parseURI url of
             Inl e \<Rightarrow> Inl (WrapErr ''invalid nemoURL: %w'' [] e)
           | Inr (scheme, host) \<Rightarrow>
               if scheme \<noteq> ''https'' then Inl (Errorf ''nemoURL must use https:// scheme, got %q'' [ArgS scheme])
               else if host = [] then Inl (Errorf ''nemoURL must include a host'' [])
               else
                 (let timeout = seconds timeoutSeconds;
                      timeout = (if timeout \<le> 0 then seconds nemo_defaultTimeoutSec else timeout)
                  in Inr \<lparr>nemoURL = url, nemo_Timeout = timeout\<rparr>))"

text \<open>
  The network as the guards see it: the \<^verbatim>\<open>POST\<close> of a payload to a URL, and the decoding of the answer
  into \<open>nemoResponse\<close>.
\<close>

record nemo_world =
  nw_post :: "string \<Rightarrow> string \<Rightarrow> http_result"
  nw_decode :: "string \<Rightarrow> nemoResponse option"
  nw_marshal :: encoder

definition callNemoGuard :: "nemo_world \<Rightarrow> nemoGuardBase \<Rightarrow> string \<Rightarrow> errcode \<times> err option" where
  "callNemoGuard w b payload =
     (case nw_post w (nemoURL b) payload of
        RequestFailed e \<Rightarrow> (Internal, Some (WrapErr ''failed to create nemo request: %w'' [] e))
      | CallFailed e \<Rightarrow> (ServiceUnavailable, Some (WrapErr ''nemo call failed: %w'' [] e))
      | Answered statusCode read \<Rightarrow>
          if statusCode \<noteq> StatusOK then
            (ServiceUnavailable, Some (Errorf ''unexpected status %d'' [ArgI statusCode]))
          else
            (case read maxNemoResponseBytes of
               Inl e \<Rightarrow> (ServiceUnavailable, Some (WrapErr ''failed to read nemo response: %w'' [] e))
             | Inr body \<Rightarrow>
                 (case nw_decode w body of
                    None \<Rightarrow> (ServiceUnavailable, Some (Errorf ''failed to decode nemo response: %w'' []))
                  | Some nemoResp \<Rightarrow>
                      (let status = trimSpace (nr_Status nemoResp)
                       in if status = nemoStatusSuccess then (NoCode, None)
                          else if status = nemoStatusModified then (NoCode, None)
                          else if status = nemoStatusBlocked then
                            (Forbidden, Some (Errorf ''blocked by NeMo guardrails'' []))
                          else if status = nemoStatusError then
                            (let errMsg = str_of (idx (nr_GuardrailsData nemoResp) ''error'');
                                 errMsg = (if errMsg = [] then ''unspecified error'' else errMsg)
                             in (ServiceUnavailable, Some (Errorf ''nemo guardrails error: %s'' [ArgS errMsg])))
                          else
                            (Internal,
                             Some (Errorf ''unknown NeMo guardrails status %q'' [ArgS (nr_Status nemoResp)]))))))"

section \<open>The plugins\<close>

definition nemo_payload :: "string \<Rightarrow> any list \<Rightarrow> any" where
  "nemo_payload model messages = VMap [(''model'', VStr model), (''messages'', VList messages)]"

text \<open>The verdict on a payload, with the message for a block; both plugins end with this code.\<close>

definition nemo_verdict :: "nemo_world \<Rightarrow> nemoGuardBase \<Rightarrow> string \<Rightarrow> string \<Rightarrow> err option" where
  "nemo_verdict w b blocked payload =
     (case callNemoGuard w b payload of
        (code, None) \<Rightarrow> None
      | (code, Some callErr) \<Rightarrow>
          if code = Forbidden then Some (CommonError code blocked [])
          else Some (CommonError code ''%v'' [ArgE callErr]))"

definition nemo_ProcessRequest ::
  "nemo_world \<Rightarrow> nemoGuardBase \<Rightarrow> 'cs framework \<Rightarrow> 'cs \<Rightarrow> InferenceRequest \<Rightarrow> err option" where
  "nemo_ProcessRequest w b fw cycleState request =
     (let model = str_of (idx (Body request) ''model'');
          inputFormat = read_format fw InputAPIFormatKey cycleState
      in case nemo_extractMessages (Body request) inputFormat of
           Inl e \<Rightarrow> Some (CommonError BadRequest ''malformed request body: %v'' [ArgE e])
         | Inr messages \<Rightarrow>
             if messages = [] then None
             else case nw_marshal w (nemo_payload model messages) of
                    None \<Rightarrow> Some (CommonError Internal ''marshal request: %v'' [])
                  | Some payload \<Rightarrow> nemo_verdict w b ''request blocked by NeMo guardrails'' payload)"

definition nemo_ProcessResponse ::
  "nemo_world \<Rightarrow> nemoGuardBase \<Rightarrow> 'cs framework \<Rightarrow> 'cs \<Rightarrow> InferenceResponse \<Rightarrow> err option" where
  "nemo_ProcessResponse w b fw cycleState response =
     (let inputFormat = read_format fw InputAPIFormatKey cycleState
      in case extractAssistantMessages (RespBody response) inputFormat of
           Inl e \<Rightarrow> Some (CommonError Internal ''malformed response body: %v'' [ArgE e])
         | Inr messages \<Rightarrow>
             if messages = [] then None
             else
               (let model = str_of (idx (RespBody response) ''model'')
                in case nw_marshal w (nemo_payload model messages) of
                     None \<Rightarrow> Some (CommonError Internal ''marshal request: %v'' [])
                   | Some payload \<Rightarrow> nemo_verdict w b ''response blocked by NeMo guardrails'' payload))"

section \<open>The guards fail closed\<close>

text \<open>The status the service gave on a payload, if it gave one that can be read.\<close>

definition nemo_status :: "nemo_world \<Rightarrow> nemoGuardBase \<Rightarrow> string \<Rightarrow> string option" where
  "nemo_status w b payload =
     (case nw_post w (nemoURL b) payload of
        Answered code read \<Rightarrow>
          (if code = StatusOK then
             (case read maxNemoResponseBytes of
                Inr body \<Rightarrow> map_option (\<lambda>r. trimSpace (nr_Status r)) (nw_decode w body)
              | Inl _ \<Rightarrow> None)
           else None)
      | _ \<Rightarrow> None)"

lemma callNemoGuard_exact:
  "snd (callNemoGuard w b payload) = None \<longleftrightarrow>
     nemo_status w b payload \<in> {Some nemoStatusSuccess, Some nemoStatusModified}"
  "fst (callNemoGuard w b payload) = Forbidden \<longleftrightarrow> nemo_status w b payload = Some nemoStatusBlocked"
  by (auto simp: callNemoGuard_def nemo_status_def Let_def split: http_result.split sum.split option.split)

lemma nemo_verdict_exact:
  "nemo_verdict w b blocked payload = None \<longleftrightarrow>
     nemo_status w b payload \<in> {Some nemoStatusSuccess, Some nemoStatusModified}"
  "(\<exists>e. nemo_verdict w b blocked payload = Some e \<and> err_code e = Some Forbidden) \<longleftrightarrow>
     nemo_status w b payload = Some nemoStatusBlocked"
  using callNemoGuard_exact [of w b payload]
  by (auto simp: nemo_verdict_def split: prod.splits option.splits)

text \<open>What the service must have said for extracted messages to pass.\<close>

definition cleared :: "nemo_world \<Rightarrow> nemoGuardBase \<Rightarrow> string \<Rightarrow> any list result \<Rightarrow> bool" where
  "cleared w b model extracted =
     (case extracted of
        Inl e \<Rightarrow> False
      | Inr messages \<Rightarrow> messages = [] \<or>
          (case nw_marshal w (nemo_payload model messages) of
             None \<Rightarrow> False
           | Some payload \<Rightarrow> nemo_status w b payload \<in> {Some nemoStatusSuccess, Some nemoStatusModified}))"


section \<open>What the service gets to see\<close>

text \<open>The texts of a content field, of an input item and of a Responses request, written down directly.\<close>

definition is_text_block :: "any \<Rightarrow> bool" where
  "is_text_block block \<longleftrightarrow>
     str_of (idx (obj_of block) ''type'') \<in> {''output_text'', ''input_text'', ''text''}"

definition content_texts :: "any \<Rightarrow> string list" where
  "content_texts content =
     (case content of
        VStr s \<Rightarrow> [s]
      | VList blocks \<Rightarrow> map (\<lambda>block. str_of (idx (obj_of block) ''text'')) (filter is_text_block blocks)
      | _ \<Rightarrow> [])"

definition item_texts :: "any \<Rightarrow> string list" where
  "item_texts raw =
     (let item = obj_of raw; kind = str_of (idx item ''type'')
      in if kind = ''message'' then content_texts (idx item ''content'')
         else if kind = ''function_call'' then [str_of (idx item ''name''), str_of (idx item ''arguments'')]
         else if kind = ''function_call_output'' then [str_of (idx item ''output'')]
         else [])"

definition responses_texts :: "body \<Rightarrow> string list" where
  "responses_texts body =
     str_of (idx body ''instructions'') #
     (case idx body ''input'' of
        VStr s \<Rightarrow> [s]
      | VList items \<Rightarrow> concat (map item_texts items)
      | _ \<Rightarrow> [])"

definition shown :: "string \<Rightarrow> any list \<Rightarrow> bool" where
  "shown t messages \<longleftrightarrow> (\<exists>role content. nemo_message role content \<in> set messages \<and> sublist t content)"

lemma shown_mono: "shown t ms \<Longrightarrow> set ms \<subseteq> set ms' \<Longrightarrow> shown t ms'"
  unfolding shown_def by blast

lemma shown_single [simp]: "shown t [nemo_message role content] \<longleftrightarrow> sublist t content"
  by (auto simp: shown_def nemo_message_def)

lemma sublist_join: "t \<in> set ts \<Longrightarrow> sublist t (join sep ts)"
proof (induction ts)
  case (Cons s ts)
  show ?case
  proof (cases "ts = []")
    case True
    with Cons.prems show ?thesis by simp
  next
    case False
    then have join: "join sep (s # ts) = s @ sep @ join sep ts" by (rule join_Cons)
    from Cons.prems consider "t = s" | "t \<in> set ts" by auto
    then show ?thesis
    proof cases
      case 1
      then show ?thesis unfolding join by (simp add: sublist_append_rightI)
    next
      case 2
      then show ?thesis unfolding join using Cons.IH by (metis append_assoc sublist_appendI sublist_order.order_trans append_Nil2)
    qed
  qed
qed simp

lemma content_text_shown:
  assumes "extractOpenResponsesTextContent content = Inr out" "t \<in> set (content_texts content)" "t \<noteq> []"
  shows "sublist t out"
proof (cases "\<exists>blocks. content = VList blocks")
  case True
  then obtain blocks where blocks: "content = VList blocks" ..
  with assms(1) obtain parts where parts: "collect content_block 0 blocks = Inr parts" "out = join '' '' parts"
    by (auto simp: extractOpenResponsesTextContent_def split: sum.splits)
  from assms(2) blocks obtain block where
    block: "block \<in> set blocks" "is_text_block block" "t = str_of (idx (obj_of block) ''text'')"
    by (auto simp: content_texts_def)
  from collect_Inr_covers [OF parts(1) block(1)] obtain j ys where
    "content_block j block = Inr ys" "set ys \<subseteq> set parts" by blast
  with block(2,3) assms(3) have "t \<in> set parts"
    by (auto simp: content_block_def is_text_block_def obj_of_def Let_def split: option.splits if_splits)
  then show ?thesis unfolding parts(2) by (rule sublist_join)
next
  case False
  with assms show ?thesis
    by (auto simp: extractOpenResponsesTextContent_def content_texts_def split: any.splits)
qed

lemma item_text_shown:
  assumes "input_item i raw = Inr ms" "t \<in> set (item_texts raw)" "t \<noteq> []"
  shows "shown t ms"
proof -
  obtain item where item: "raw = VMap item"
    using assms(1) by (auto simp: input_item_def split: option.splits)
  consider "str_of (idx item ''type'') = ''message''" | "str_of (idx item ''type'') = ''function_call''"
    | "str_of (idx item ''type'') = ''function_call_output''"
    using assms(2) item by (auto simp: item_texts_def Let_def split: if_splits)
  then show ?thesis
  proof cases
    case 1
    then have t: "t \<in> set (content_texts (idx item ''content''))"
      using assms(2) item by (simp add: item_texts_def)
    from 1 assms(1) item obtain out where out: "extractOpenResponsesTextContent (idx item ''content'') = Inr out"
      by (auto simp: input_item_def Let_def split: sum.splits)
    with content_text_shown [OF out t assms(3)] assms(1,3) 1 item show ?thesis
      by (auto simp: input_item_def Let_def split: if_splits)
  next
    case 2
    with assms item have "t = str_of (idx item ''name'') \<or> t = str_of (idx item ''arguments'')"
      by (simp add: item_texts_def)
    moreover have "sublist (str_of (idx item ''arguments''))
        ((str_of (idx item ''name'') @ ''('') @ str_of (idx item ''arguments'') @ '')'')"
      by (rule sublist_appendI)
    ultimately show ?thesis
      using 2 assms(1,3) item by (auto simp: input_item_def Let_def split: if_splits)
  next
    case 3
    with assms item show ?thesis
      by (auto simp: input_item_def item_texts_def Let_def split: if_splits)
  qed
qed

text \<open>Nothing in a Responses request escapes the guard. When a request in that format is accepted for
  screening, every non-empty text it carries (the instructions, the input string, the texts of message
  items, the name, arguments and result of a function call) stands in one of the messages the guard
  sends.\<close>

theorem nemo_sees_responses_text:
  assumes "map_of body ''messages'' = None" "map_of body ''jsonrpc'' = None" "map_of body ''input'' \<noteq> None"
    and "nemo_extractMessages body fmt = Inr messages" "t \<in> set (responses_texts body)" "t \<noteq> []"
  shows "shown t messages"
proof -
  let ?sys = "if str_of (idx body ''instructions'') \<noteq> [] then [nemo_message ''system'' (str_of (idx body ''instructions''))] else []"
  from assms(3) obtain input where input: "map_of body ''input'' = Some input" "idx body ''input'' = input"
    by (auto simp: idx_def)
  have ext: "extractOpenResponsesInput body = Inr messages"
    using assms(1-4) by (simp add: nemo_extractMessages_def)
  then have sys: "set ?sys \<subseteq> set messages"
    using input by (auto simp: extractOpenResponsesInput_def Let_def split: any.splits if_splits sum.splits)
  show ?thesis
  proof (cases "t = str_of (idx body ''instructions'')")
    case True
    with assms(6) have "shown t ?sys" by simp
    then show ?thesis using sys by (rule shown_mono)
  next
    case False
    with assms(5) input consider "input = VStr t" | items raw where "input = VList items" "raw \<in> set items" "t \<in> set (item_texts raw)"
      by (auto simp: responses_texts_def split: any.splits)
    then show ?thesis
    proof cases
      case 1
      with ext input assms(6) have "nemo_message ''user'' t \<in> set messages"
        by (auto simp: extractOpenResponsesInput_def Let_def split: if_splits)
      then show ?thesis by (auto simp: shown_def)
    next
      case 2
      with ext input obtain items' where items: "collect input_item 0 items = Inr items'" "messages = ?sys @ items'"
        by (auto simp: extractOpenResponsesInput_def extractOpenResponsesInputItems_def Let_def split: sum.splits if_splits)
      from collect_Inr_covers [OF items(1) 2(2)] obtain j ys where "input_item j raw = Inr ys" "set ys \<subseteq> set items'"
        by blast
      moreover have "set items' \<subseteq> set messages" unfolding items(2) by simp
      ultimately show ?thesis
        using item_text_shown [OF _ 2(3) assms(6)] by (meson shown_mono subset_trans)
    qed
  qed
qed

definition sample_responses :: body where
  "sample_responses =
     [(''model'', VStr ''m''), (''instructions'', VStr ''be brief''),
      (''input'', VList [VMap [(''type'', VStr ''message''), (''content'',
          VList [VMap [(''type'', VStr ''input_text''), (''text'', VStr ''hello'')],
                 VMap [(''type'', VStr ''input_text''), (''text'', VStr ''world'')]])]])]"

theorem nemo_sees_responses_text_witness:
  "\<exists>messages. nemo_extractMessages sample_responses OpenAIResponses = Inr messages \<and> shown ''world'' messages"
proof -
  have "\<not> isl (nemo_extractMessages sample_responses OpenAIResponses)" by code_simp
  then obtain messages where ms: "nemo_extractMessages sample_responses OpenAIResponses = Inr messages"
    by (metis sum.collapse(2))
  have "map_of sample_responses ''messages'' = None" "map_of sample_responses ''jsonrpc'' = None"
    "map_of sample_responses ''input'' \<noteq> None"
    by (simp_all add: sample_responses_def)
  moreover have "''world'' \<in> set (responses_texts sample_responses)"
    by (simp add: sample_responses_def responses_texts_def item_texts_def content_texts_def is_text_block_def)
  ultimately show ?thesis
    using nemo_sees_responses_text [OF _ _ _ ms] ms by blast
qed

text \<open>An empty \<^verbatim>\<open>messages\<close> array hides the rest of the request from the guard. For every service, one
  that blocks everything included, and for every input format, the Responses format included, a request
  with \<^verbatim>\<open>messages: []\<close> passes, whatever its \<^verbatim>\<open>input\<close> and \<^verbatim>\<open>instructions\<close> say.\<close>

theorem nemo_empty_messages_bypass:
  assumes "map_of (Body r) ''messages'' = Some (VList [])"
  shows "nemo_ProcessRequest w b fw cs r = None"
  using assms by (simp add: nemo_ProcessRequest_def nemo_extractMessages_def extractOpenAIMessages_def Let_def)

definition blocking_world :: nemo_world where
  "blocking_world =
     \<lparr>nw_post = (\<lambda>url payload. answer StatusOK ''no''),
      nw_decode = (\<lambda>text. Some \<lparr>nr_Status = nemoStatusBlocked, nr_RailsStatus = [], nr_GuardrailsData = []\<rparr>),
      nw_marshal = (\<lambda>v. Some ''{}'')\<rparr>"

definition sample_guard :: nemoGuardBase where
  "sample_guard = \<lparr>nemoURL = ''https://nemo/v1/guardrail/checks'', nemo_Timeout = seconds 5\<rparr>"

text \<open>The same input is blocked without the empty array.\<close>

theorem nemo_empty_messages_bypass_witness:
  "nemo_ProcessRequest blocking_world sample_guard ref_framework [(InputAPIFormatKey, CFormat OpenAIResponses)]
       \<lparr>Headers = [], Body = [(''input'', VStr ''attack''), (''messages'', VList [])]\<rparr> = None \<and>
   nemo_ProcessRequest blocking_world sample_guard ref_framework [(InputAPIFormatKey, CFormat OpenAIResponses)]
       \<lparr>Headers = [], Body = [(''input'', VStr ''attack'')]\<rparr> \<noteq> None"
proof (rule conjI)
  show "nemo_ProcessRequest blocking_world sample_guard ref_framework [(InputAPIFormatKey, CFormat OpenAIResponses)]
       \<lparr>Headers = [], Body = [(''input'', VStr ''attack''), (''messages'', VList [])]\<rparr> = None"
    by (rule nemo_empty_messages_bypass) simp
  have "trimSpace nemoStatusBlocked = nemoStatusBlocked" by code_simp
  then show "nemo_ProcessRequest blocking_world sample_guard ref_framework [(InputAPIFormatKey, CFormat OpenAIResponses)]
       \<lparr>Headers = [], Body = [(''input'', VStr ''attack'')]\<rparr> \<noteq> None"
    by (simp add: nemo_ProcessRequest_def nemo_extractMessages_def extractOpenResponsesInput_def nemo_verdict_def
        callNemoGuard_def blocking_world_def answer_def Let_def)
qed

text \<open>A guard is only ever configured with an https URL, a host and a positive timeout.\<close>

lemma newNemoGuardBase_secure:
  assumes "newNemoGuardBase parseURI url t = Inr b"
  shows "(\<exists>host. parseURI url = Inr (''https'', host) \<and> host \<noteq> []) \<and> nemoURL b = url \<and> 0 < nemo_Timeout b"
proof -
  have "0 < seconds nemo_defaultTimeoutSec" by code_simp
  with assms show ?thesis
    by (auto simp: newNemoGuardBase_def Let_def split: if_splits sum.splits)
qed

end
