(* ===== verification/Go_Url.thy ===== *)
theory Go_Url
  imports Go_Strings
begin

text \<open>
  The escaping functions of Go's \<^verbatim>\<open>net/url\<close>, over byte strings: \<^verbatim>\<open>PathEscape\<close> for one path segment and
  \<^verbatim>\<open>QueryEscape\<close> for a query value. Decoding is the inverse; what is escaped cannot leave its segment.
\<close>

definition upper_hex :: "nat \<Rightarrow> char" where
  "upper_hex n = (if n < 10 then char_of (48 + n) else char_of (55 + n))"

definition percent :: "char \<Rightarrow> string" where
  "percent c = [CHR ''%'', upper_hex (of_char c div 16), upper_hex (of_char c mod 16)]"

definition is_alphanum :: "char \<Rightarrow> bool" where
  "is_alphanum c \<longleftrightarrow>
     (let n = (of_char c :: nat) in 97 \<le> n \<and> n \<le> 122 \<or> 65 \<le> n \<and> n \<le> 90 \<or> 48 \<le> n \<and> n \<le> 57)"

text \<open>\<^verbatim>\<open>shouldEscape\<close> in the modes \<^verbatim>\<open>encodePathSegment\<close> and \<^verbatim>\<open>encodeQueryComponent\<close>.\<close>

definition path_plain :: "char \<Rightarrow> bool" where
  "path_plain c \<longleftrightarrow> is_alphanum c \<or> c \<in> set ''-_.~$&+=:@''"

definition query_plain :: "char \<Rightarrow> bool" where
  "query_plain c \<longleftrightarrow> is_alphanum c \<or> c \<in> set ''-_.~''"

definition pathEscape :: "string \<Rightarrow> string" where
  "pathEscape s = concat (map (\<lambda>c. if path_plain c then [c] else percent c) s)"

definition queryEscape :: "string \<Rightarrow> string" where
  "queryEscape s =
     concat (map (\<lambda>c. if query_plain c then [c] else if c = CHR '' '' then ''+'' else percent c) s)"

section \<open>Decoding\<close>

definition unhex :: "char \<Rightarrow> nat" where
  "unhex c = (if (of_char c :: nat) < 58 then of_char c - 48 else of_char c - 55)"

fun pathUnescape :: "string \<Rightarrow> string" where
  "pathUnescape [] = []"
| "pathUnescape [c] = [c]"
| "pathUnescape [c, d] = [c, d]"
| "pathUnescape (c # d # e # s) =
     (if c = CHR ''%'' then char_of (16 * unhex d + unhex e) # pathUnescape s
      else c # pathUnescape (d # e # s))"

lemma unhex_upper_hex: "n < 16 \<Longrightarrow> unhex (upper_hex n) = n"
  by (auto simp: unhex_def upper_hex_def)

lemma pathUnescape_plain: "c \<noteq> CHR ''%'' \<Longrightarrow> pathUnescape (c # s) = c # pathUnescape s"
  by (cases s rule: pathUnescape.cases) auto

lemma not_plain_percent: "\<not> path_plain CHR ''%''"
  by code_simp

lemma pathUnescape_percent: "pathUnescape (percent c @ s) = c # pathUnescape s"
proof -
  have "(of_char c :: nat) div 16 < 16" using nat_of_char_less_256 [of c] by linarith
  then show ?thesis
    by (simp add: percent_def unhex_upper_hex)
qed

lemma pathUnescape_pathEscape [simp]: "pathUnescape (pathEscape s) = s"
proof (induction s)
  case (Cons c s)
  show ?case
  proof (cases "path_plain c")
    case True
    then have "c \<noteq> CHR ''%''" using not_plain_percent by auto
    with True Cons show ?thesis by (simp add: pathEscape_def pathUnescape_plain)
  next
    case False
    with Cons show ?thesis by (simp add: pathEscape_def pathUnescape_percent)
  qed
qed (simp add: pathEscape_def)

lemma upper_hex_plain: "n < 16 \<Longrightarrow> is_alphanum (upper_hex n)"
  by (auto simp: is_alphanum_def upper_hex_def Let_def)

lemma pathEscape_chars:
  assumes "c \<in> set (pathEscape s)"
  shows "path_plain c \<or> c = CHR ''%''"
proof -
  have hex: "path_plain (upper_hex n)" if "n < 16" for n
    using upper_hex_plain [OF that] by (simp add: path_plain_def)
  have "(of_char d :: nat) div 16 < 16" for d using nat_of_char_less_256 [of d] by linarith
  with assms hex show ?thesis
    by (auto simp: pathEscape_def percent_def split: if_splits)
qed

lemma pathEscape_separators: "c \<in> {CHR ''/'', CHR ''?'', CHR ''#''} \<Longrightarrow> c \<notin> set (pathEscape s)"
proof
  have "\<not> path_plain CHR ''/''" "\<not> path_plain CHR ''?''" "\<not> path_plain CHR ''#''" by code_simp+
  moreover assume "c \<in> {CHR ''/'', CHR ''?'', CHR ''#''}" "c \<in> set (pathEscape s)"
  ultimately show False
    using pathEscape_chars [of c s] by auto
qed

end
