(* ===== verification/External_Metering.thy ===== *)
theory External_Metering
  imports Framework Http_Client Go_Url
begin

text \<open>
  \<^verbatim>\<open>pkg/plugins/external-metering\<close>: the balance check on the request and the usage report on the
  response, for buffered (\<^verbatim>\<open>ExternalMeteringPlugin\<close>) and for streamed responses
  (\<^verbatim>\<open>ExternalMeteringStreamingPlugin\<close>), and the client of the metering service (\<^verbatim>\<open>client.go\<close>).

  The metering service, the JSON codec, the clock (nanoseconds and RFC 3339 text) and the generated event
  id are arguments. A report is the payload handed to \<^verbatim>\<open>reportUsage\<close>; its outcome is only logged.
\<close>

section \<open>The client\<close>

record entitlementValue =
  HasAccess :: bool
  Balance :: rat
  Usage :: rat
  Overage :: rat

record meteringClient =
  mc_Timeout :: int
  mc_baseURL :: string

record metering_world =
  mw_get :: "string \<Rightarrow> http_result"
  mw_post :: "string \<Rightarrow> string \<Rightarrow> http_result"
  mw_decode :: "string \<Rightarrow> entitlementValue option"
  mw_marshal :: encoder
  mw_unmarshal :: decoder
  mw_uuid :: string
  mw_now :: int
  mw_timestamp :: string

definition maxResponseBytes :: nat where "maxResponseBytes = 2 ^ 20"

definition newMeteringClient :: "string \<Rightarrow> int \<Rightarrow> meteringClient" where
  "newMeteringClient baseURL timeoutSeconds =
     (let timeout = seconds timeoutSeconds
      in \<lparr>mc_Timeout = (if timeout \<le> 0 then seconds 5 else timeout), mc_baseURL = baseURL\<rparr>)"

definition balance_url :: "meteringClient \<Rightarrow> string \<Rightarrow> string \<Rightarrow> string \<Rightarrow> string" where
  "balance_url c customerID feature model =
     mc_baseURL c @ ''/api/v1/customers/'' @ pathEscape customerID @ ''/entitlements/'' @ pathEscape feature
       @ ''/value?model='' @ queryEscape model"

definition checkBalance ::
  "metering_world \<Rightarrow> meteringClient \<Rightarrow> string \<Rightarrow> string \<Rightarrow> string \<Rightarrow> entitlementValue result" where
  "checkBalance w c customerID feature model =
     (case mw_get w (balance_url c customerID feature model) of
        RequestFailed e \<Rightarrow> Inl (WrapErr ''failed to create balance check request: %w'' [] e)
      | CallFailed e \<Rightarrow> Inl (WrapErr ''balance check call failed: %w'' [] e)
      | Answered statusCode read \<Rightarrow>
          if statusCode \<noteq> StatusOK then Inl (Errorf ''balance check returned status %d'' [ArgI statusCode])
          else case read maxResponseBytes of
                 Inl e \<Rightarrow> Inl (WrapErr ''failed to read balance check response: %w'' [] e)
               | Inr body \<Rightarrow>
                   (case mw_decode w body of
                      None \<Rightarrow> Inl (Errorf ''failed to decode balance check response: %w'' [])
                    | Some value \<Rightarrow> Inr value))"

definition reportUsage :: "metering_world \<Rightarrow> meteringClient \<Rightarrow> string \<Rightarrow> err option" where
  "reportUsage w c event =
     (case mw_post w (mc_baseURL c @ ''/api/v1/events'') event of
        RequestFailed e \<Rightarrow> Some (WrapErr ''failed to create usage report request: %w'' [] e)
      | CallFailed e \<Rightarrow> Some (WrapErr ''usage report call failed: %w'' [] e)
      | Answered statusCode read \<Rightarrow>
          if statusCode \<noteq> StatusNoContent \<and> statusCode \<noteq> StatusOK
          then Some (Errorf ''usage report returned status %d'' [ArgI statusCode]) else None)"

section \<open>Configuration\<close>

abbreviation defaultFeatureKey where "defaultFeatureKey \<equiv> ''inference-tokens''"
abbreviation defaultSource where "defaultSource \<equiv> ''maas-gateway''"
definition defaultTimeoutSec :: int where "defaultTimeoutSec = 5"

record externalMeteringConfig =
  MeteringURL :: string
  TimeoutSeconds :: int
  FeatureKey :: string
  Source :: string
  FailOpen :: "bool option"

record meteringBase =
  mb_client :: meteringClient
  featureKey :: string
  mb_source :: string
  failOpen :: bool

text \<open>
  \<open>decode\<close> is \<^verbatim>\<open>json.Unmarshal\<close> of the plugin's parameters over the defaults; \<open>None\<close> for the parameters
  is the empty raw message.
\<close>

definition parseConfig ::
  "(string \<Rightarrow> externalMeteringConfig \<Rightarrow> externalMeteringConfig result) \<Rightarrow> string \<Rightarrow> string \<Rightarrow> meteringBase result" where
  "parseConfig decode pluginType rawParameters =
     (let defaults = \<lparr>MeteringURL = [], TimeoutSeconds = defaultTimeoutSec, FeatureKey = defaultFeatureKey,
                      Source = defaultSource, FailOpen = Some True\<rparr>
      in case (if rawParameters \<noteq> [] then decode rawParameters defaults else Inr defaults) of
           Inl e \<Rightarrow> Inl (WrapErr ''failed to parse the parameters of '%s' plugin - %w'' [ArgS pluginType] e)
         | Inr config \<Rightarrow>
             if MeteringURL config = [] then
               Inl (Errorf (CHR 0x27 # ''meteringURL' is required for '%s' plugin'') [ArgS pluginType])
             else
               Inr \<lparr>mb_client = newMeteringClient (MeteringURL config) (TimeoutSeconds config),
                    featureKey = (if FeatureKey config = [] then defaultFeatureKey else FeatureKey config),
                    mb_source = (if Source config = [] then defaultSource else Source config),
                    failOpen = (case FailOpen config of None \<Rightarrow> True | Some b \<Rightarrow> b)\<rparr>)"

section \<open>The request\<close>

abbreviation "maasHeadersKey \<equiv> ''maas-headers''"

text \<open>A header captured by the headers guard, in one of its two spellings.\<close>

definition captured_header :: "string gomap option \<Rightarrow> string \<Rightarrow> string \<Rightarrow> string" where
  "captured_header maasHeaders lower mixed =
     (case maasHeaders of
        None \<Rightarrow> []
      | Some m \<Rightarrow> if gstr m lower = [] then gstr m mixed else gstr m lower)"

text \<open>The caller as the plugin sees it: user, group and subscription.\<close>

definition metering_username :: "'cs framework \<Rightarrow> 'cs \<Rightarrow> InferenceRequest \<Rightarrow> string" where
  "metering_username fw cycleState request =
     (let username = captured_header (read_strmap fw maasHeadersKey cycleState) ''x-maas-username'' ''X-MaaS-Username''
      in if username = [] then gstr (Headers request) ''x-maas-username'' else username)"

definition metering_subscription :: "'cs framework \<Rightarrow> 'cs \<Rightarrow> InferenceRequest \<Rightarrow> string" where
  "metering_subscription fw cycleState request =
     (let subscription =
            captured_header (read_strmap fw maasHeadersKey cycleState) ''x-maas-subscription'' ''X-MaaS-Subscription''
      in if subscription = [] then gstr (Headers request) ''x-maas-subscription'' else subscription)"

definition metering_group :: "'cs framework \<Rightarrow> 'cs \<Rightarrow> InferenceRequest \<Rightarrow> string" where
  "metering_group fw cycleState request =
     (let group = captured_header (read_strmap fw maasHeadersKey cycleState) ''x-maas-group'' ''X-MaaS-Group'';
          group = (if group = [] then gstr (Headers request) ''x-maas-group'' else group)
      in if group = [] then metering_subscription fw cycleState request else group)"

definition metering_model :: "'cs framework \<Rightarrow> 'cs \<Rightarrow> InferenceRequest \<Rightarrow> string" where
  "metering_model fw cycleState request =
     (let model = or_empty (read_str fw ModelKey cycleState)
      in if model = [] then str_of (idx (Body request) ''model'') else model)"

definition metering_processRequest ::
  "metering_world \<Rightarrow> meteringBase \<Rightarrow> 'cs framework \<Rightarrow> 'cs \<Rightarrow> InferenceRequest \<Rightarrow> ('cs \<times> InferenceRequest) result" where
  "metering_processRequest w b fw cycleState request =
     (let username = metering_username fw cycleState request;
          subscription = metering_subscription fw cycleState request;
          group = metering_group fw cycleState request;
          model = metering_model fw cycleState request
      in if username = [] then Inr (cycleState, request)
         else
           (let userAgent = gstr (Headers request) ''user-agent'';
                cycleState = Write fw MeteringUsernameKey (CStr username) cycleState;
                cycleState = Write fw MeteringGroupKey (CStr group) cycleState;
                cycleState = Write fw MeteringSubscriptionKey (CStr subscription) cycleState;
                cycleState = Write fw MeteringModelKey (CStr model) cycleState;
                cycleState = Write fw MeteringUserAgentKey (CStr userAgent) cycleState;
                cycleState = Write fw MeteringRequestTimeKey (CTime (mw_now w)) cycleState
            in case checkBalance w (mb_client b) username (featureKey b) model of
                 Inl e \<Rightarrow>
                   if failOpen b then Inr (cycleState, request)
                   else Inl (CommonError ServiceUnavailable ''metering system unavailable'' [])
               | Inr value \<Rightarrow>
                   if \<not> HasAccess value then Inl (CommonError ResourceExhausted ''token budget exhausted'' [])
                   else Inr (cycleState, RemoveHeader fw ''accept-encoding'' request)))"

section \<open>The usage event\<close>

text \<open>\<^verbatim>\<open>json.Number.Int64\<close>: outside the range the nearest limit (the error is ignored), otherwise 0 when the
  text is not an integer.\<close>

definition number_int64 :: "string \<Rightarrow> int" where
  "number_int64 s =
     (case parse_int 64 s of
        Some i \<Rightarrow> i
      | None \<Rightarrow>
          (case parse_uint (if s \<noteq> [] \<and> hd s \<in> {CHR ''-'', CHR ''+''} then tl s else s) of
             None \<Rightarrow> 0
           | Some n \<Rightarrow> if hd s = CHR ''-'' then min_int else max_int))"

fun metering_toInt :: "any \<Rightarrow> int" where
  "metering_toInt (VFloat n) = float_to_int n"
| "metering_toInt (VInt n) = n"
| "metering_toInt (VNumber n) = number_int64 n"
| "metering_toInt _ = 0"

definition extractTokenCounts :: "body \<Rightarrow> int \<times> int \<times> int" where
  "extractTokenCounts usage =
     (let prompt = metering_toInt (idx usage ''prompt_tokens'');
          completion = metering_toInt (idx usage ''completion_tokens'');
          total = metering_toInt (idx usage ''total_tokens'');
          (prompt, completion) =
            (if prompt = 0 \<and> completion = 0
             then (metering_toInt (idx usage ''input_tokens''), metering_toInt (idx usage ''output_tokens''))
             else (prompt, completion));
          total = (if total = 0 then wrap64 (prompt + completion) else total)
      in (prompt, completion, total))"

text \<open>\<^verbatim>\<open>time.Since(t).Milliseconds()\<close>: the difference saturates, the division truncates.\<close>

definition since_ms :: "int \<Rightarrow> int \<Rightarrow> int" where
  "since_ms now t =
     (let d = max min_int (min max_int (now - t))
      in if 0 \<le> d then d div 1000000 else - ((- d) div 1000000))"

definition duration_ms :: "metering_world \<Rightarrow> 'cs framework \<Rightarrow> 'cs \<Rightarrow> int" where
  "duration_ms w fw cycleState =
     (case read_time fw MeteringRequestTimeKey cycleState of None \<Rightarrow> 0 | Some t \<Rightarrow> since_ms (mw_now w) t)"

text \<open>The envelope that both kinds of event share.\<close>

definition cloud_event :: "metering_world \<Rightarrow> meteringBase \<Rightarrow> string \<Rightarrow> string \<Rightarrow> body \<Rightarrow> any" where
  "cloud_event w b eventType username data =
     VMap [(''specversion'', VStr ''1.0''), (''id'', VStr (''evt-'' @ mw_uuid w)), (''source'', VStr (mb_source b)),
           (''type'', VStr eventType), (''subject'', VStr username), (''time'', VStr (mw_timestamp w)),
           (''datacontenttype'', VStr ''application/json''), (''data'', VMap data)]"

definition usage_event :: "metering_world \<Rightarrow> meteringBase \<Rightarrow> 'cs framework \<Rightarrow> 'cs \<Rightarrow> body \<Rightarrow> any" where
  "usage_event w b fw cycleState usage =
     (let username = or_empty (read_str fw MeteringUsernameKey cycleState);
          (promptTokens, completionTokens, totalTokens) = extractTokenCounts usage;
          v = metering_toInt (idx usage ''cache_read_input_tokens'');
          cachedInputTokens = (if v > 0 then v else 0);
          v = metering_toInt (idx usage ''cache_creation_input_tokens'');
          cacheCreationTokens = (if v > 0 then v else 0);
          cachedInputTokens =
            (if cachedInputTokens = 0 then
               (case as_map (idx usage ''prompt_tokens_details'') of
                  Some details \<Rightarrow> metering_toInt (idx details ''cached_tokens'')
                | None \<Rightarrow> cachedInputTokens)
             else cachedInputTokens);
          reasoningTokens =
            (case as_map (idx usage ''completion_tokens_details'') of
               Some details \<Rightarrow> metering_toInt (idx details ''reasoning_tokens'')
             | None \<Rightarrow> 0)
      in cloud_event w b ''inference.tokens.used'' username
           [(''user'', VStr username),
            (''group'', VStr (or_empty (read_str fw MeteringGroupKey cycleState))),
            (''subscription'', VStr (or_empty (read_str fw MeteringSubscriptionKey cycleState))),
            (''provider'', VStr (or_empty (read_str fw ProviderKey cycleState))),
            (''model'', VStr (or_empty (read_str fw MeteringModelKey cycleState))),
            (''prompt_tokens'', VInt promptTokens), (''completion_tokens'', VInt completionTokens),
            (''total_tokens'', VInt totalTokens), (''cached_input_tokens'', VInt cachedInputTokens),
            (''cache_creation_tokens'', VInt cacheCreationTokens), (''reasoning_tokens'', VInt reasoningTokens),
            (''duration_ms'', VInt64 (duration_ms w fw cycleState)),
            (''user_agent'', VStr (or_empty (read_str fw MeteringUserAgentKey cycleState)))])"

text \<open>The event names the user in its subject and in its data.\<close>

lemma usage_event_user:
  assumes "read_str fw MeteringUsernameKey cs = Some user"
  shows "\<exists>data. usage_event w b fw cs usage = cloud_event w b ''inference.tokens.used'' user ((''user'', VStr user) # data)"
  using assms by (cases "extractTokenCounts usage") (simp add: usage_event_def Let_def cloud_event_def or_empty_def)

text \<open>The payloads handed to \<^verbatim>\<open>reportUsage\<close>: one, or none when the event does not marshal.\<close>

definition send_event :: "metering_world \<Rightarrow> any \<Rightarrow> string list" where
  "send_event w event = (case mw_marshal w event of None \<Rightarrow> [] | Some eventJSON \<Rightarrow> [eventJSON])"

definition reportUsageEvent :: "metering_world \<Rightarrow> meteringBase \<Rightarrow> 'cs framework \<Rightarrow> 'cs \<Rightarrow> body \<Rightarrow> string list" where
  "reportUsageEvent w b fw cycleState usage = send_event w (usage_event w b fw cycleState usage)"

definition error_event :: "metering_world \<Rightarrow> meteringBase \<Rightarrow> 'cs framework \<Rightarrow> 'cs \<Rightarrow> body \<Rightarrow> any" where
  "error_event w b fw cycleState errorInfo =
     (let username = or_empty (read_str fw MeteringUsernameKey cycleState)
      in cloud_event w b ''inference.request.error'' username
           [(''user'', VStr username),
            (''group'', VStr (or_empty (read_str fw MeteringGroupKey cycleState))),
            (''subscription'', VStr (or_empty (read_str fw MeteringSubscriptionKey cycleState))),
            (''provider'', VStr (or_empty (read_str fw ProviderKey cycleState))),
            (''model'', VStr (or_empty (read_str fw MeteringModelKey cycleState))),
            (''status_code'', idx errorInfo ''status_code''), (''error_type'', idx errorInfo ''error_type''),
            (''error_message'', idx errorInfo ''error_message''),
            (''duration_ms'', VInt64 (duration_ms w fw cycleState)),
            (''user_agent'', VStr (or_empty (read_str fw MeteringUserAgentKey cycleState)))])"

definition reportErrorEvent :: "metering_world \<Rightarrow> meteringBase \<Rightarrow> 'cs framework \<Rightarrow> 'cs \<Rightarrow> body \<Rightarrow> string list" where
  "reportErrorEvent w b fw cycleState errorInfo = send_event w (error_event w b fw cycleState errorInfo)"

text \<open>The buffered response.\<close>

definition metering_ProcessResponse ::
  "metering_world \<Rightarrow> meteringBase \<Rightarrow> 'cs framework \<Rightarrow> 'cs \<Rightarrow> InferenceResponse \<Rightarrow> string list" where
  "metering_ProcessResponse w b fw cycleState response =
     (if or_empty (read_str fw MeteringUsernameKey cycleState) = [] then []
      else case as_map (idx (RespBody response) ''usage'') of
             None \<Rightarrow> []
           | Some usage \<Rightarrow> reportUsageEvent w b fw cycleState usage)"

section \<open>The streamed response\<close>

text \<open>One line of a chunk.\<close>

definition sse_line :: "string \<Rightarrow> string option" where
  "sse_line line =
     (let line = trimSpace line
      in if hasPrefix line ''data: '' then Some (trimSpace (trimPrefix line ''data: ''))
         else if line \<noteq> [] \<and> hd line = CHR ''{'' then Some (trimSpace line)
         else None)"

definition splitSSELines :: "string \<Rightarrow> string list" where
  "splitSSELines chunk = List.map_filter sse_line (split [CHR 0x0A] chunk)"

definition nested_usage :: "body \<Rightarrow> string \<Rightarrow> body option" where
  "nested_usage parsed k =
     (case as_map (idx parsed k) of None \<Rightarrow> None | Some m \<Rightarrow> as_map (idx m ''usage''))"

text \<open>The usage in one parsed line.\<close>

definition line_usage :: "body \<Rightarrow> body option" where
  "line_usage parsed =
     (case as_map (idx parsed ''usage'') of
        Some usage \<Rightarrow> Some usage
      | None \<Rightarrow>
          (case nested_usage parsed ''message'' of
             Some usage \<Rightarrow> Some usage
           | None \<Rightarrow>
               (case nested_usage parsed ''delta'' of
                  Some usage \<Rightarrow> Some usage
                | None \<Rightarrow> nested_usage parsed ''response'')))"

fun first_usage :: "decoder \<Rightarrow> string list \<Rightarrow> body option" where
  "first_usage unmarshal [] = None"
| "first_usage unmarshal (line # rest) =
     (case unmarshal_map unmarshal line of
        None \<Rightarrow> first_usage unmarshal rest
      | Some parsed \<Rightarrow>
          (case line_usage (case parsed of None \<Rightarrow> [] | Some m \<Rightarrow> m) of
             Some usage \<Rightarrow> Some usage
           | None \<Rightarrow> first_usage unmarshal rest))"

definition extractUsageFromChunk :: "decoder \<Rightarrow> string \<Rightarrow> body option" where
  "extractUsageFromChunk unmarshal chunk = first_usage unmarshal (splitSSELines chunk)"

definition extractUsageFromBody :: "decoder \<Rightarrow> string \<Rightarrow> body option" where
  "extractUsageFromBody unmarshal buf =
     (case unmarshal_map unmarshal buf of
        Some (Some parsed) \<Rightarrow>
          (case as_map (idx parsed ''usage'') of
             Some usage \<Rightarrow> Some usage
           | None \<Rightarrow>
               (case nested_usage parsed ''response'' of
                  Some usage \<Rightarrow> Some usage
                | None \<Rightarrow> extractUsageFromChunk unmarshal buf))
      | _ \<Rightarrow> extractUsageFromChunk unmarshal buf)"

definition maxErrorMessageLen :: nat where "maxErrorMessageLen = 256"

definition truncateErrorMessage :: "string \<Rightarrow> string" where
  "truncateErrorMessage msg =
     (if length msg \<le> maxErrorMessageLen then msg
      else take maxErrorMessageLen msg @ [CHR 0xE2, CHR 0x80, CHR 0xA6])"

text \<open>The first line that decodes, as the loop leaves it in \<^verbatim>\<open>parsed\<close>.\<close>

fun first_object :: "decoder \<Rightarrow> string list \<Rightarrow> body option" where
  "first_object unmarshal [] = None"
| "first_object unmarshal (line # rest) =
     (case unmarshal_map unmarshal line of Some parsed \<Rightarrow> parsed | None \<Rightarrow> first_object unmarshal rest)"

definition extractErrorFromResponse :: "decoder \<Rightarrow> string \<Rightarrow> InferenceResponse \<Rightarrow> body option" where
  "extractErrorFromResponse unmarshal buf response =
     (if buf = [] then None
      else
        case (case unmarshal_map unmarshal buf of
                Some parsed \<Rightarrow> parsed
              | None \<Rightarrow> first_object unmarshal (splitSSELines buf)) of
          None \<Rightarrow> None
        | Some parsed \<Rightarrow>
            (let (errorType, errorMessage) =
                   (case as_map (idx parsed ''error'') of
                      Some errObj \<Rightarrow> (str_of (idx errObj ''type''), str_of (idx errObj ''message''))
                    | None \<Rightarrow> ([], str_of (idx parsed ''error'')))
             in if errorType = [] \<and> errorMessage = [] then None
                else
                  (let statusCode =
                         (case map_of (RespHeaders response) '':status'' of
                            None \<Rightarrow> 0
                          | Some status \<Rightarrow> (case atoi status of Some code \<Rightarrow> code | None \<Rightarrow> 0))
                   in Some [(''status_code'', VInt statusCode), (''error_type'', VStr errorType),
                            (''error_message'', VStr (truncateErrorMessage errorMessage))])))"

abbreviation meteringChunkBufferKey where "meteringChunkBufferKey \<equiv> ''metering-chunk-buffer''"

text \<open>What the plugin remembers of a chunk.\<close>

definition remember_chunk :: "metering_world \<Rightarrow> 'cs framework \<Rightarrow> string \<Rightarrow> 'cs \<Rightarrow> 'cs" where
  "remember_chunk w fw chunk cycleState =
     (if chunk = [] then cycleState
      else case extractUsageFromChunk (mw_unmarshal w) chunk of
             Some usage \<Rightarrow> Write fw MeteringLastUsageKey (CAnyMap usage) cycleState
           | None \<Rightarrow>
               Write fw meteringChunkBufferKey
                 (CStr (or_empty (read_str fw meteringChunkBufferKey cycleState) @ chunk)) cycleState)"

definition metering_ProcessResponseChunk ::
  "metering_world \<Rightarrow> meteringBase \<Rightarrow> 'cs framework \<Rightarrow> 'cs \<Rightarrow> InferenceResponse \<Rightarrow> bool \<Rightarrow> 'cs \<times> string list" where
  "metering_ProcessResponseChunk w b fw cycleState response isFinal =
     (if or_empty (read_str fw MeteringUsernameKey cycleState) = [] then (cycleState, [])
      else
        (let cycleState = remember_chunk w fw (CurrentChunk response) cycleState
         in if \<not> isFinal then (cycleState, [])
            else
              (let buf = or_empty (read_str fw meteringChunkBufferKey cycleState);
                   lastUsage =
                     (case read_anymap fw MeteringLastUsageKey cycleState of
                        Some usage \<Rightarrow> Some usage
                      | None \<Rightarrow> if buf \<noteq> [] then extractUsageFromBody (mw_unmarshal w) buf else None)
               in case lastUsage of
                    None \<Rightarrow>
                      (case extractErrorFromResponse (mw_unmarshal w) buf response of
                         Some errorEvent \<Rightarrow> (cycleState, reportErrorEvent w b fw cycleState errorEvent)
                       | None \<Rightarrow> (cycleState, []))
                  | Some usage \<Rightarrow> (cycleState, reportUsageEvent w b fw cycleState usage))))"

section \<open>The balance check\<close>

lemma takeWhile_segment: "CHR ''/'' \<notin> set s \<Longrightarrow> takeWhile (\<lambda>c. c \<noteq> CHR ''/'') (s @ CHR ''/'' # t) = s"
  by (induction s) auto

lemma segment_inj:
  assumes "pathEscape s @ CHR ''/'' # t = pathEscape s' @ CHR ''/'' # t'"
  shows "s = s' \<and> t = t'"
proof -
  have "takeWhile (\<lambda>c. c \<noteq> CHR ''/'') (pathEscape s @ CHR ''/'' # t) = pathEscape s"
    "takeWhile (\<lambda>c. c \<noteq> CHR ''/'') (pathEscape s' @ CHR ''/'' # t') = pathEscape s'"
    by (rule takeWhile_segment, rule pathEscape_separators, simp)+
  with assms have "pathEscape s = pathEscape s'" by simp
  moreover from this assms have "t = t'" by simp
  ultimately show ?thesis by (metis pathUnescape_pathEscape)
qed

text \<open>A caller's name cannot point the balance check at somebody else. Whatever characters the user name
  and the feature contain, the URLs of two balance checks at the same service are equal only if they are
  about the same user and the same feature.\<close>

theorem balance_check_isolated:
  assumes "balance_url c user feature model = balance_url c user' feature' model'"
  shows "user = user' \<and> feature = feature'"
proof -
  let ?rest = "\<lambda>feature model. ''entitlements/'' @ pathEscape feature @ ''/value?model='' @ queryEscape model"
  have "pathEscape user @ CHR ''/'' # ?rest feature model = pathEscape user' @ CHR ''/'' # ?rest feature' model'"
    using assms by (simp add: balance_url_def)
  from segment_inj [OF this] have "user = user'"
    and rest: "pathEscape feature @ CHR ''/'' # ''value?model='' @ queryEscape model =
      pathEscape feature' @ CHR ''/'' # ''value?model='' @ queryEscape model'"
    by simp_all
  with segment_inj [OF rest] show ?thesis by simp
qed

theorem balance_check_isolated_witness:
  "balance_url (newMeteringClient ''https://m'' 5) ''a/entitlements/x'' ''f'' ''m'' \<noteq>
     balance_url (newMeteringClient ''https://m'' 5) ''a'' ''x/entitlements/f'' ''m''"
  using balance_check_isolated [of "newMeteringClient ''https://m'' 5" "''a/entitlements/x''" "''f''" "''m''" "''a''"
      "''x/entitlements/f''" "''m''"] by auto

text \<open>The state the request side leaves for the response side.\<close>

definition metering_written :: "metering_world \<Rightarrow> 'cs framework \<Rightarrow> 'cs \<Rightarrow> InferenceRequest \<Rightarrow> 'cs \<Rightarrow> bool" where
  "metering_written w fw cs r cs' \<longleftrightarrow>
     read_str fw MeteringUsernameKey cs' = Some (metering_username fw cs r) \<and>
     read_str fw MeteringGroupKey cs' = Some (metering_group fw cs r) \<and>
     read_str fw MeteringSubscriptionKey cs' = Some (metering_subscription fw cs r) \<and>
     read_str fw MeteringModelKey cs' = Some (metering_model fw cs r) \<and>
     read_time fw MeteringRequestTimeKey cs' = Some (mw_now w)"

lemma metering_request_spec:
  assumes "ipp_framework fw" "metering_username fw cs r \<noteq> []"
  shows "case metering_processRequest w b fw cs r of
      Inl e \<Rightarrow>
        (case checkBalance w (mb_client b) (metering_username fw cs r) (featureKey b) (metering_model fw cs r) of
           Inl _ \<Rightarrow> \<not> failOpen b \<and> err_code e = Some ServiceUnavailable
         | Inr value \<Rightarrow> \<not> HasAccess value \<and> err_code e = Some ResourceExhausted)
    | Inr (cs', r') \<Rightarrow>
        metering_written w fw cs r cs' \<and> Body r' = Body r \<and>
        (case checkBalance w (mb_client b) (metering_username fw cs r) (featureKey b) (metering_model fw cs r) of
           Inl _ \<Rightarrow> failOpen b \<and> r' = r
         | Inr value \<Rightarrow> HasAccess value \<and> map_of (Headers r') = (map_of (Headers r))(''accept-encoding'' := None))"
proof -
  note fw = ipp_framework.Read_Write [OF assms(1)] ipp_framework.Headers_RemoveHeader [OF assms(1)] ipp_framework.Body_RemoveHeader [OF assms(1)]
  show ?thesis
    using assms(2)
    by (auto simp: metering_processRequest_def Let_def metering_written_def cs_reads fw split: sum.split)
qed

text \<open>C27: The token budget is enforced. For an identified caller the request is stopped exactly when the
  service denies access, or when the balance cannot be determined and the plugin is configured to fail
  closed, each with its own error code; otherwise the caller's identity, the model and the time are in the
  CycleState for the report, the body is untouched, and \<^verbatim>\<open>accept-encoding\<close> is the only header removed. On the
  fail-open path, however, it stays.\<close>

theorem metering_budget_enforced:
  assumes "ipp_framework fw" "metering_username fw cs r \<noteq> []"
  shows "case metering_processRequest w b fw cs r of
      Inl e \<Rightarrow>
        (case checkBalance w (mb_client b) (metering_username fw cs r) (featureKey b) (metering_model fw cs r) of
           Inl _ \<Rightarrow> \<not> failOpen b \<and> err_code e = Some ServiceUnavailable
         | Inr value \<Rightarrow> \<not> HasAccess value \<and> err_code e = Some ResourceExhausted)
    | Inr (cs', r') \<Rightarrow>
        metering_written w fw cs r cs' \<and> Body r' = Body r \<and>
        (case checkBalance w (mb_client b) (metering_username fw cs r) (featureKey b) (metering_model fw cs r) of
           Inl _ \<Rightarrow> failOpen b \<and> r' = r
         | Inr value \<Rightarrow> HasAccess value \<and> map_of (Headers r') = (map_of (Headers r))(''accept-encoding'' := None))"
  using assms by (rule metering_request_spec)

text \<open>A service that is down, one that denies access, and a streaming service for the examples.\<close>

definition sample_metering :: "http_result \<Rightarrow> bool \<Rightarrow> metering_world" where
  "sample_metering reply access =
     \<lparr>mw_get = (\<lambda>url. reply), mw_post = (\<lambda>url payload. answer StatusNoContent []),
      mw_decode = (\<lambda>text. Some \<lparr>HasAccess = access, Balance = 0, Usage = 0, Overage = 0\<rparr>),
      mw_marshal = (\<lambda>v. Some ''event''),
      mw_unmarshal = (\<lambda>s. if s = ''{usage}'' then Some (VMap [(''usage'', VMap [(''total_tokens'', VInt 7)])]) else None),
      mw_uuid = ''1'', mw_now = 0, mw_timestamp = ''t''\<rparr>"

definition sample_base :: "bool \<Rightarrow> meteringBase" where
  "sample_base fo =
     \<lparr>mb_client = newMeteringClient ''https://m'' 5, featureKey = defaultFeatureKey, mb_source = defaultSource, failOpen = fo\<rparr>"

definition sample_caller :: "csval gomap" where
  "sample_caller = [(maasHeadersKey, CStrMap [(''x-maas-username'', ''alice'')])]"

lemma sample_caller_name: "metering_username ref_framework sample_caller r = ''alice''"
  by (simp add: metering_username_def sample_caller_def captured_header_def read_strmap_def gstr_def)

theorem metering_budget_enforced_witness:
  "\<exists>e. metering_processRequest (sample_metering (answer StatusOK ''{}'') False) (sample_base True) ref_framework sample_caller
        \<lparr>Headers = [], Body = []\<rparr> = Inl e \<and> err_code e = Some ResourceExhausted"
proof -
  let ?w = "sample_metering (answer StatusOK ''{}'') False" and ?r = "\<lparr>Headers = [], Body = []\<rparr>"
  let ?b = "sample_base True"
  obtain v where v: "checkBalance ?w (mb_client ?b) ''alice'' (featureKey ?b) (metering_model ref_framework sample_caller ?r) = Inr v"
    "\<not> HasAccess v"
    by (simp add: checkBalance_def sample_metering_def answer_def)
  have "metering_username ref_framework sample_caller ?r \<noteq> []" by (simp add: sample_caller_name)
  from metering_budget_enforced [OF ref_framework_ok this, where w = ?w and b = ?b] v show ?thesis
    unfolding sample_caller_name by (auto split: sum.splits)
qed

section \<open>The report of a streamed response\<close>

text \<open>The framework calls the plugin once per chunk, the last time with \<^verbatim>\<open>isFinal\<close>.\<close>

fun metering_stream ::
  "metering_world \<Rightarrow> meteringBase \<Rightarrow> 'cs framework \<Rightarrow> InferenceResponse \<Rightarrow> string list \<Rightarrow> 'cs \<Rightarrow> 'cs \<times> string list" where
  "metering_stream w b fw response [] cs = (cs, [])"
| "metering_stream w b fw response (chunk # rest) cs =
     (case metering_ProcessResponseChunk w b fw cs (response\<lparr>CurrentChunk := chunk\<rparr>) (rest = []) of
        (cs', posts) \<Rightarrow> (case metering_stream w b fw response rest cs' of (cs'', posts') \<Rightarrow> (cs'', posts @ posts')))"

text \<open>The usage of a chunked response, without the state: that of the last chunk that carries one by itself,
  and otherwise that of the whole text.\<close>

definition chunk_usages :: "decoder \<Rightarrow> string list \<Rightarrow> body list" where
  "chunk_usages unmarshal chunks = List.map_filter (extractUsageFromChunk unmarshal) chunks"

definition stream_usage :: "decoder \<Rightarrow> string list \<Rightarrow> body option" where
  "stream_usage unmarshal chunks =
     (if chunk_usages unmarshal chunks \<noteq> [] then Some (last (chunk_usages unmarshal chunks))
      else if concat chunks \<noteq> [] then extractUsageFromBody unmarshal (concat chunks)
      else None)"

lemma no_usage_in_empty_chunk: "extractUsageFromChunk unmarshal [] = None"
proof -
  have "splitSSELines [] = []" by code_simp
  then show ?thesis by (simp add: extractUsageFromChunk_def)
qed

lemma chunk_usages_simps [simp]:
  "chunk_usages u [] = []"
  "chunk_usages u (c # cs) =
     (case extractUsageFromChunk u c of None \<Rightarrow> chunk_usages u cs | Some x \<Rightarrow> x # chunk_usages u cs)"
  by (simp_all add: chunk_usages_def List.map_filter_simps split: option.split)

lemma remember_chunk_reads:
  assumes "ipp_framework fw"
  shows "read_anymap fw MeteringLastUsageKey (remember_chunk w fw c cs) =
      (case extractUsageFromChunk (mw_unmarshal w) c of Some u \<Rightarrow> Some u | None \<Rightarrow> read_anymap fw MeteringLastUsageKey cs)"
    and "or_empty (read_str fw meteringChunkBufferKey (remember_chunk w fw c cs)) =
      or_empty (read_str fw meteringChunkBufferKey cs) @ (if extractUsageFromChunk (mw_unmarshal w) c = None then c else [])"
    and "k \<notin> {MeteringLastUsageKey, meteringChunkBufferKey} \<Longrightarrow> Read fw k (remember_chunk w fw c cs) = Read fw k cs"
  by (auto simp: remember_chunk_def cs_reads ipp_framework.Read_Write [OF assms] no_usage_in_empty_chunk
      split: option.split)

text \<open>The state after a list of chunks.\<close>

abbreviation remember_all :: "metering_world \<Rightarrow> 'cs framework \<Rightarrow> string list \<Rightarrow> 'cs \<Rightarrow> 'cs" where
  "remember_all w fw \<equiv> fold (remember_chunk w fw)"

lemma remember_all_reads:
  assumes "ipp_framework fw"
  shows "read_anymap fw MeteringLastUsageKey (remember_all w fw chunks cs) =
      (if chunk_usages (mw_unmarshal w) chunks = [] then read_anymap fw MeteringLastUsageKey cs
       else Some (last (chunk_usages (mw_unmarshal w) chunks)))"
    and "chunk_usages (mw_unmarshal w) chunks = [] \<Longrightarrow>
      or_empty (read_str fw meteringChunkBufferKey (remember_all w fw chunks cs)) =
      or_empty (read_str fw meteringChunkBufferKey cs) @ concat chunks"
    and "k \<notin> {MeteringLastUsageKey, meteringChunkBufferKey} \<Longrightarrow>
      Read fw k (remember_all w fw chunks cs) = Read fw k cs"
  by (induction chunks arbitrary: cs)
    (auto simp: remember_chunk_reads [OF assms] split: option.splits)

lemma events_cong:
  assumes "\<And>k. k \<notin> {MeteringLastUsageKey, meteringChunkBufferKey} \<Longrightarrow> Read fw k cs' = Read fw k cs"
  shows "reportUsageEvent w b fw cs' usage = reportUsageEvent w b fw cs usage"
    and "reportErrorEvent w b fw cs' info = reportErrorEvent w b fw cs info"
  by (simp_all add: reportUsageEvent_def reportErrorEvent_def usage_event_def error_event_def duration_ms_def cs_reads assms)

text \<open>What the last call of the plugin reports.\<close>

definition final_report :: "metering_world \<Rightarrow> meteringBase \<Rightarrow> 'cs framework \<Rightarrow> InferenceResponse \<Rightarrow> 'cs \<Rightarrow> string list" where
  "final_report w b fw response cs =
     (let buf = or_empty (read_str fw meteringChunkBufferKey cs)
      in case (case read_anymap fw MeteringLastUsageKey cs of
                 Some usage \<Rightarrow> Some usage
               | None \<Rightarrow> if buf \<noteq> [] then extractUsageFromBody (mw_unmarshal w) buf else None) of
           Some usage \<Rightarrow> reportUsageEvent w b fw cs usage
         | None \<Rightarrow>
             (case extractErrorFromResponse (mw_unmarshal w) buf response of
                Some info \<Rightarrow> reportErrorEvent w b fw cs info
              | None \<Rightarrow> []))"

lemma chunk_call:
  assumes "or_empty (read_str fw MeteringUsernameKey cs) \<noteq> []"
  shows "metering_ProcessResponseChunk w b fw cs (response\<lparr>CurrentChunk := c\<rparr>) fin =
    (remember_chunk w fw c cs, if fin then final_report w b fw response (remember_chunk w fw c cs) else [])"
proof -
  have headers: "RespHeaders (response\<lparr>CurrentChunk := c\<rparr>) = RespHeaders response" by simp
  have "extractErrorFromResponse u buf (response\<lparr>CurrentChunk := c\<rparr>) = extractErrorFromResponse u buf response" for u buf
    unfolding extractErrorFromResponse_def headers ..
  with assms show ?thesis
    by (auto simp: metering_ProcessResponseChunk_def final_report_def Let_def split: option.splits)
qed

lemma metering_stream_fold:
  assumes "ipp_framework fw" "or_empty (read_str fw MeteringUsernameKey cs) \<noteq> []" "chunks \<noteq> []"
  shows "metering_stream w b fw response chunks cs =
    (remember_all w fw chunks cs, final_report w b fw response (remember_all w fw chunks cs))"
  using assms(2,3)
proof (induction chunks arbitrary: cs)
  case (Cons c rest)
  have "read_str fw MeteringUsernameKey (remember_chunk w fw c cs) = read_str fw MeteringUsernameKey cs"
    by (simp add: read_str_def remember_chunk_reads(3) [OF assms(1)])
  with Cons show ?case
    by (cases rest) (simp_all add: chunk_call)
qed simp

text \<open>C28: The usage of a streamed response is reported once, however the stream is cut into chunks. After the
  last chunk exactly one event is handed to the metering service: the usage of the last chunk that carries
  one by itself, else the usage of the reassembled body, and only if there is none anywhere the provider's
  error, if the body is one.\<close>

theorem metering_stream_report:
  assumes "ipp_framework fw" "or_empty (read_str fw MeteringUsernameKey cs) \<noteq> []" "chunks \<noteq> []"
    and "read_anymap fw MeteringLastUsageKey cs = None" "read_str fw meteringChunkBufferKey cs = None"
  shows "snd (metering_stream w b fw response chunks cs) =
    (case stream_usage (mw_unmarshal w) chunks of
       Some usage \<Rightarrow> reportUsageEvent w b fw cs usage
     | None \<Rightarrow>
         (case extractErrorFromResponse (mw_unmarshal w) (concat chunks) response of
            Some info \<Rightarrow> reportErrorEvent w b fw cs info
          | None \<Rightarrow> []))"
proof -
  let ?cs = "remember_all w fw chunks cs"
  note reads = remember_all_reads [OF assms(1), where w = w and chunks = chunks and cs = cs]
  have events: "reportUsageEvent w b fw ?cs usage = reportUsageEvent w b fw cs usage"
    "reportErrorEvent w b fw ?cs info = reportErrorEvent w b fw cs info" for usage info
    by (rule events_cong, rule reads(3), assumption)+
  have "snd (metering_stream w b fw response chunks cs) = final_report w b fw response ?cs"
    by (simp add: metering_stream_fold [OF assms(1-3)])
  also have "\<dots> = (case stream_usage (mw_unmarshal w) chunks of
       Some usage \<Rightarrow> reportUsageEvent w b fw ?cs usage
     | None \<Rightarrow>
         (case extractErrorFromResponse (mw_unmarshal w) (concat chunks) response of
            Some info \<Rightarrow> reportErrorEvent w b fw ?cs info
          | None \<Rightarrow> []))"
  proof (cases "chunk_usages (mw_unmarshal w) chunks = []")
    case True
    with reads(1,2) assms(4,5) show ?thesis
      by (simp add: final_report_def stream_usage_def Let_def)
  next
    case False
    with reads(1) show ?thesis by (simp add: final_report_def stream_usage_def Let_def)
  qed
  finally show ?thesis by (simp only: events)
qed

theorem metering_stream_report_witness:
  "snd (metering_stream (sample_metering (answer StatusOK []) True) (sample_base True) ref_framework
      \<lparr>RespHeaders = [], RespBody = [], CurrentChunk = []\<rparr> [''{us'', ''age}''] [(MeteringUsernameKey, CStr ''alice'')]) = [''event'']"
proof -
  let ?w = "sample_metering (answer StatusOK []) True" and ?cs = "[(MeteringUsernameKey, CStr ''alice'')]"
  let ?r = "\<lparr>RespHeaders = [], RespBody = [], CurrentChunk = []\<rparr>"
  have "stream_usage (mw_unmarshal ?w) [''{us'', ''age}''] = Some [(''total_tokens'', VInt 7)]"
    by code_simp
  moreover have "reportUsageEvent ?w (sample_base True) ref_framework ?cs [(''total_tokens'', VInt 7)] = [''event'']"
    by (simp add: reportUsageEvent_def send_event_def sample_metering_def)
  ultimately show ?thesis
    using metering_stream_report [OF ref_framework_ok, of ?cs "[''{us'', ''age}'']" ?w "sample_base True" ?r]
    by (simp add: cs_reads)
qed

text \<open>An error message is cut before it is stored.\<close>

lemma truncateErrorMessage_bound:
  "length (truncateErrorMessage msg) \<le> maxErrorMessageLen + 3 \<and>
   (length msg \<le> maxErrorMessageLen \<longrightarrow> truncateErrorMessage msg = msg)"
  by (auto simp: truncateErrorMessage_def maxErrorMessageLen_def)

text \<open>A configured plugin always has a URL, a positive timeout, a feature and a source.\<close>

lemma parseConfig_complete:
  assumes "parseConfig decode t raw = Inr b"
  shows "mc_baseURL (mb_client b) \<noteq> [] \<and> 0 < mc_Timeout (mb_client b) \<and> featureKey b \<noteq> [] \<and> mb_source b \<noteq> []"
proof -
  have "0 < seconds 5" by code_simp
  with assms show ?thesis
    by (auto simp: parseConfig_def newMeteringClient_def Let_def split: if_splits sum.splits)
qed

end
