(* ===== verification/Kube_Api.thy ===== *)
theory Kube_Api
  imports Keyed_Store
begin

text \<open>
  The Kubernetes client of the controllers, which is not part of this repository. The operations on one
  kind of object are a record of functions over the state \<open>'w\<close> of the API server; the helper functions of
  \<^verbatim>\<open>apimachinery\<close> and \<^verbatim>\<open>controller-runtime\<close> are another record. Two locales state what the controllers rely
  on, and a server that keeps its objects in maps keeps these promises. Defaulting and admission are not
  part of it: an object is stored with the fields the controller set.
\<close>

datatype delete_result = Deleted | AlreadyGone | DeleteFailed err

text \<open>\<^verbatim>\<open>metav1.Preconditions\<close> of a deletion, and whether the object that is stored meets them.\<close>

record Preconditions =
  pre_UID :: "string option"
  pre_ResourceVersion :: "string option"

definition meets :: "Preconditions \<Rightarrow> ObjectMeta \<Rightarrow> bool" where
  "meets pre m \<longleftrightarrow> pre_UID pre \<in> {None, Some (meta_UID m)} \<and>
     pre_ResourceVersion pre \<in> {None, Some (meta_ResourceVersion m)}"

record ('o, 'w) kube =
  kube_get :: "NamespacedName \<Rightarrow> 'w \<Rightarrow> 'o fetched"
  kube_create :: "'o \<Rightarrow> 'w \<Rightarrow> 'w \<times> err option"
  kube_update :: "'o \<Rightarrow> 'w \<Rightarrow> 'w \<times> err option"
  kube_delete :: "Preconditions \<Rightarrow> 'o \<Rightarrow> 'w \<Rightarrow> 'w \<times> delete_result"

record kube_lib =
  SetStatusCondition :: "Condition \<Rightarrow> Condition list \<Rightarrow> Condition list"
  SetControllerReference :: "ObjectMeta \<Rightarrow> ObjectMeta \<Rightarrow> ObjectMeta result"
  IsControlledBy :: "ObjectMeta \<Rightarrow> ObjectMeta \<Rightarrow> bool"
  DeepEqual :: "any \<Rightarrow> any \<Rightarrow> bool"

text \<open>An object that has not been created yet.\<close>

definition new_meta :: "string \<Rightarrow> string \<Rightarrow> string gomap \<Rightarrow> string gomap \<Rightarrow> ObjectMeta" where
  "new_meta name namespace labels annotations =
     \<lparr>meta_Name = name, meta_Namespace = namespace, meta_UID = [], meta_ResourceVersion = [], meta_Generation = 0,
      meta_Labels = labels, meta_Annotations = annotations, meta_Finalizers = [], meta_Deleted = False, meta_Owners = []\<rparr>"

text \<open>\<^verbatim>\<open>unstructured.Unstructured\<close>: the kind, the metadata and the decoded \<^verbatim>\<open>spec\<close> of an object.\<close>

record Unstructured =
  u_APIVersion :: string
  u_Kind :: string
  u_Meta :: ObjectMeta
  u_Spec :: any

text \<open>The string at a place in a decoded JSON value.\<close>

datatype place = Key string | Item nat

fun leaf :: "place list \<Rightarrow> any \<Rightarrow> string option" where
  "leaf [] (VStr s) = Some s"
| "leaf (Key k # p) (VMap m) = (case map_of m k of None \<Rightarrow> None | Some v \<Rightarrow> leaf p v)"
| "leaf (Item i # p) (VList xs) = (if i < length xs then leaf p (xs ! i) else None)"
| "leaf _ _ = None"

text \<open>
  The way every controller applies a desired object: create it when it is not there, leave it alone when
  it is as desired, and otherwise update what is there.
\<close>

definition apply_object ::
  "('o, 'w) kube \<Rightarrow> ('o \<Rightarrow> NamespacedName) \<Rightarrow> ('o \<Rightarrow> 'o \<Rightarrow> bool) \<Rightarrow> ('o \<Rightarrow> 'o \<Rightarrow> 'o) \<Rightarrow> 'o \<Rightarrow> 'w \<Rightarrow> 'w \<times> err option" where
  "apply_object api okey same merge desired w =
     (case kube_get api (okey desired) w of
        NotFound \<Rightarrow> kube_create api desired w
      | Failed e \<Rightarrow> (w, Some e)
      | Found existing \<Rightarrow> if same existing desired then (w, None) else kube_update api (merge existing desired) w)"

text \<open>The same for a controller that leaves an existing object alone unless it is its own.\<close>

definition apply_owned ::
  "('o, 'w) kube \<Rightarrow> ('o \<Rightarrow> NamespacedName) \<Rightarrow> ('o \<Rightarrow> bool) \<Rightarrow> ('o \<Rightarrow> 'o \<Rightarrow> bool) \<Rightarrow> ('o \<Rightarrow> 'o \<Rightarrow> 'o) \<Rightarrow> 'o \<Rightarrow> 'w \<Rightarrow>
     'w \<times> err option" where
  "apply_owned api okey own same merge desired w =
     (case kube_get api (okey desired) w of
        NotFound \<Rightarrow> kube_create api desired w
      | Failed e \<Rightarrow> (w, Some e)
      | Found existing \<Rightarrow>
          if \<not> own existing then (w, None)
          else if same existing desired then (w, None)
          else kube_update api (merge existing desired) w)"

text \<open>Writing objects of one kind leaves a part of the server's state alone.\<close>

definition keeps :: "('o, 'w) kube \<Rightarrow> ('w \<Rightarrow> 'f) \<Rightarrow> bool" where
  "keeps api f \<longleftrightarrow>
     (\<forall>x w. f (fst (kube_create api x w)) = f w) \<and> (\<forall>x w. f (fst (kube_update api x w)) = f w) \<and>
     (\<forall>pre x w. f (fst (kube_delete api pre x w)) = f w)"

lemma keeps_apply: "keeps api f \<Longrightarrow> f (fst (apply_object api okey same merge desired w)) = f w"
  by (auto simp: keeps_def apply_object_def split: fetched.split)

lemma keeps_apply_owned: "keeps api f \<Longrightarrow> f (fst (apply_owned api okey own same merge desired w)) = f w"
  by (auto simp: keeps_def apply_owned_def split: fetched.split)

text \<open>The first condition of a type.\<close>

definition condition_of :: "string \<Rightarrow> Condition list \<Rightarrow> Condition option" where
  "condition_of t conditions = find (\<lambda>c. cond_Type c = t) conditions"

section \<open>What the controllers rely on\<close>

text \<open>
  \<open>stored\<close> is what the server holds under a key, \<open>content\<close> the part of an object that it keeps as it was
  given (the rest, such as the resource version, is its own). A write that is refused changes nothing.
\<close>

locale kube_client =
  fixes api :: "('o, 'w) kube"
    and okey :: "'o \<Rightarrow> NamespacedName"
    and ometa :: "'o \<Rightarrow> ObjectMeta"
    and content :: "'o \<Rightarrow> 'c"
    and stored :: "'w \<Rightarrow> NamespacedName \<Rightarrow> 'o option"
  assumes get_Found: "kube_get api k w = Found x \<Longrightarrow> stored w k = Some x \<and> okey x = k"
    and get_NotFound: "kube_get api k w = NotFound \<Longrightarrow> stored w k = None"
    and create_done: "kube_create api x w = (w', None) \<Longrightarrow>
      \<exists>y. stored w' = (stored w)(okey x \<mapsto> y) \<and> okey y = okey x \<and> content y = content x"
    and create_refused: "kube_create api x w = (w', Some e) \<Longrightarrow> stored w' = stored w"
    and update_done: "kube_update api x w = (w', None) \<Longrightarrow>
      \<exists>y. stored w' = (stored w)(okey x \<mapsto> y) \<and> okey y = okey x \<and> content y = content x"
    and update_refused: "kube_update api x w = (w', Some e) \<Longrightarrow> stored w' = stored w"
    and delete_done: "kube_delete api pre x w = (w', r) \<Longrightarrow> r \<in> {Deleted, AlreadyGone} \<Longrightarrow>
      stored w' = (stored w)(okey x := None)"
    and delete_guarded: "kube_delete api pre x w = (w', Deleted) \<Longrightarrow>
      \<exists>y. stored w (okey x) = Some y \<and> meets pre (ometa y)"
    and delete_gone: "kube_delete api pre x w = (w', AlreadyGone) \<Longrightarrow> stored w (okey x) = None"
    and delete_refused: "kube_delete api pre x w = (w', DeleteFailed e) \<Longrightarrow> stored w' = stored w"
begin

text \<open>Applying an object that succeeds leaves the desired content under its key and touches no other key.\<close>

lemma apply_done:
  assumes "apply_object api okey same merge desired w = (w', None)"
    and "\<And>existing. same existing desired \<Longrightarrow> content existing = content desired"
    and "\<And>existing. okey existing = okey desired \<Longrightarrow>
      okey (merge existing desired) = okey desired \<and> content (merge existing desired) = content desired"
  shows "\<exists>y. stored w' = (stored w)(okey desired \<mapsto> y) \<and> okey y = okey desired \<and> content y = content desired"
proof (cases "kube_get api (okey desired) w")
  case (Found existing)
  note here = get_Found [OF Found]
  show ?thesis
  proof (cases "same existing desired")
    case True
    with assms(1,2) Found here show ?thesis
      by (intro exI [of _ existing]) (auto simp: apply_object_def fun_eq_iff)
  next
    case False
    with assms(1) Found have "kube_update api (merge existing desired) w = (w', None)"
      by (simp add: apply_object_def)
    from update_done [OF this] assms(3) here show ?thesis by auto
  qed
next
  case NotFound
  with assms(1) have "kube_create api desired w = (w', None)" by (simp add: apply_object_def)
  from create_done [OF this] show ?thesis .
next
  case (Failed e)
  with assms(1) show ?thesis by (simp add: apply_object_def)
qed

lemma apply_refused:
  "apply_object api okey same merge desired w = (w', Some e) \<Longrightarrow> stored w' = stored w"
  by (auto simp: apply_object_def dest: create_refused update_refused split: fetched.splits if_splits)

lemma apply_other:
  assumes "apply_object api okey same merge desired w = (w', r)" "k \<noteq> okey desired"
    and "\<And>existing. okey existing = okey desired \<Longrightarrow> okey (merge existing desired) = okey desired"
  shows "stored w' k = stored w k"
proof (cases r)
  case None
  show ?thesis
  proof (cases "kube_get api (okey desired) w")
    case (Found existing)
    note here = get_Found [OF Found]
    show ?thesis
    proof (cases "same existing desired")
      case True
      with assms(1) Found show ?thesis by (simp add: apply_object_def)
    next
      case False
      with assms(1) Found None have "kube_update api (merge existing desired) w = (w', None)"
        by (simp add: apply_object_def)
      moreover have "okey (merge existing desired) = okey desired" by (rule assms(3)) (simp add: here)
      ultimately show ?thesis using update_done assms(2) by fastforce
    qed
  next
    case NotFound
    with assms(1) None have "kube_create api desired w = (w', None)" by (simp add: apply_object_def)
    from create_done [OF this] assms(2) show ?thesis by auto
  next
    case (Failed e)
    with assms(1) None show ?thesis by (simp add: apply_object_def)
  qed
next
  case (Some e)
  with assms(1) have "apply_object api okey same merge desired w = (w', Some e)" by simp
  from apply_refused [OF this] show ?thesis by simp
qed

text \<open>Whatever its outcome, applying an object changes nothing or leaves the desired content under its key.\<close>

lemma apply_written:
  assumes "apply_object api okey same merge desired w = (w', r)"
    and "\<And>existing. same existing desired \<Longrightarrow> content existing = content desired"
    and "\<And>existing. okey existing = okey desired \<Longrightarrow>
      okey (merge existing desired) = okey desired \<and> content (merge existing desired) = content desired"
  shows "if r = None then \<exists>y. stored w' = (stored w)(okey desired \<mapsto> y) \<and> content y = content desired
    else stored w' = stored w"
proof (cases r)
  case None
  with assms(1) have "apply_object api okey same merge desired w = (w', None)" by simp
  from apply_done [OF this assms(2,3)] None show ?thesis by auto
next
  case (Some e)
  with assms(1) apply_refused show ?thesis by simp
qed

text \<open>
  Applying an owned object leaves the objects alone, or puts one that is \<open>ok\<close> where there was none or an
  owned one; after success the object there is \<open>ok\<close> or not an owned one.
\<close>

lemma owned_applied:
  assumes "apply_owned api okey own same merge desired w = (w', r)"
    and "ok desired" "\<And>x. own x \<Longrightarrow> same x desired \<Longrightarrow> ok x"
    and "\<And>x. own x \<Longrightarrow> okey x = okey desired \<Longrightarrow> ok (merge x desired) \<and> okey (merge x desired) = okey desired"
    and "\<And>x y. content x = content y \<Longrightarrow> ok x = ok y"
  shows "(stored w' = stored w \<or> (\<exists>y. stored w' = (stored w)(okey desired \<mapsto> y) \<and> ok y \<and>
      (\<forall>x. stored w (okey desired) = Some x \<longrightarrow> own x))) \<and>
    (r = None \<longrightarrow> (\<exists>y. stored w' (okey desired) = Some y \<and> (own y \<longrightarrow> ok y)))"
proof (cases "kube_get api (okey desired) w")
  case (Found x)
  note here = get_Found [OF Found]
  show ?thesis
  proof (cases "own x \<and> \<not> same x desired")
    case True
    with assms(1) Found have up: "kube_update api (merge x desired) w = (w', r)" by (simp add: apply_owned_def)
    from True here assms(4) have m: "ok (merge x desired)" "okey (merge x desired) = okey desired" by auto
    show ?thesis
    proof (cases r)
      case None
      from update_done [OF up [unfolded None]] obtain y where
        y: "stored w' = (stored w)(okey desired \<mapsto> y)" "content y = content (merge x desired)" by (auto simp: m)
      from assms(5) [OF y(2)] m y(1) True here show ?thesis by auto
    next
      case (Some e)
      from update_refused [OF up [unfolded Some]] Some show ?thesis by simp
    qed
  next
    case False
    with assms(1) Found have "w' = w" by (auto simp: apply_owned_def split: if_splits)
    with False here assms(3) show ?thesis by auto
  qed
next
  case NotFound
  with assms(1) have cr: "kube_create api desired w = (w', r)" by (simp add: apply_owned_def)
  show ?thesis
  proof (cases r)
    case None
    from create_done [OF cr [unfolded None]] obtain y where
      y: "stored w' = (stored w)(okey desired \<mapsto> y)" "content y = content desired" by blast
    from assms(5) [OF y(2)] assms(2) y(1) get_NotFound [OF NotFound] show ?thesis by auto
  next
    case (Some e)
    from create_refused [OF cr [unfolded Some]] Some show ?thesis by simp
  qed
next
  case (Failed e)
  with assms(1) show ?thesis by (auto simp: apply_owned_def)
qed

end

locale kube_library =
  fixes lib :: kube_lib
  assumes condition_set: "condition_of t (SetStatusCondition lib c cs) = (if t = cond_Type c then Some c else condition_of t cs)"
    and reference_set: "SetControllerReference lib owner m = Inr m' \<Longrightarrow> m' = m\<lparr>meta_Owners := meta_Owners m'\<rparr>"
    and reference_controls: "SetControllerReference lib owner m = Inr m' \<Longrightarrow> IsControlledBy lib m' owner"
    and equal_leaves: "DeepEqual lib a b \<Longrightarrow> leaf p a = leaf p b"

section \<open>A server that keeps its objects in maps\<close>

text \<open>One kind of object is found and replaced in the state by a lens.\<close>

definition ref_kube ::
  "('w \<Rightarrow> NamespacedName \<Rightarrow> 'o option) \<Rightarrow> ((NamespacedName \<Rightarrow> 'o option) \<Rightarrow> 'w \<Rightarrow> 'w) \<Rightarrow>
     ('o \<Rightarrow> NamespacedName) \<Rightarrow> ('o \<Rightarrow> ObjectMeta) \<Rightarrow> ('o, 'w) kube" where
  "ref_kube look put okey ometa =
     \<lparr> kube_get = (\<lambda>k w. case look w k of None \<Rightarrow> NotFound | Some x \<Rightarrow> Found x),
       kube_create = (\<lambda>x w. case look w (okey x) of
                              None \<Rightarrow> (put ((look w)(okey x \<mapsto> x)) w, None)
                            | Some _ \<Rightarrow> (w, Some (Errorf ''already exists'' []))),
       kube_update = (\<lambda>x w. case look w (okey x) of
                              None \<Rightarrow> (w, Some (Errorf ''not found'' []))
                            | Some _ \<Rightarrow> (put ((look w)(okey x \<mapsto> x)) w, None)),
       kube_delete = (\<lambda>pre x w. case look w (okey x) of
                              None \<Rightarrow> (w, AlreadyGone)
                            | Some y \<Rightarrow> if meets pre (ometa y) then (put ((look w)(okey x := None)) w, Deleted)
                                        else (w, DeleteFailed (Errorf ''conflict'' []))) \<rparr>"

text \<open>The objects of the server are filed under their own keys.\<close>

definition filed :: "('o \<Rightarrow> NamespacedName) \<Rightarrow> (NamespacedName \<Rightarrow> 'o option) \<Rightarrow> NamespacedName \<Rightarrow> 'o option" where
  "filed okey m k = (case m k of None \<Rightarrow> None | Some x \<Rightarrow> if okey x = k then Some x else None)"

lemma filed_simps [simp]:
  "filed okey (filed okey m) = filed okey m"
  "filed okey ((filed okey m)(okey x \<mapsto> x)) = (filed okey m)(okey x \<mapsto> x)"
  "filed okey ((filed okey m)(k := None)) = (filed okey m)(k := None)"
  by (auto simp: filed_def fun_eq_iff split: option.splits)

lemma filed_key: "filed okey m k = Some x \<Longrightarrow> okey x = k"
  by (auto simp: filed_def split: option.splits if_splits)

lemma filed_gone: "filed okey m k = None \<Longrightarrow> (filed okey m)(k := None) = filed okey m"
  by (auto simp: fun_eq_iff)

lemma ref_kube_client:
  assumes "\<And>m w. look (put m w) = m"
  shows "kube_client (ref_kube (\<lambda>w. filed okey (look w)) put okey ometa) okey ometa content (\<lambda>w. filed okey (look w))"
  by unfold_locales
    (auto simp: ref_kube_def assms filed_gone dest: filed_key split: option.splits if_splits)

lemma ref_keeps:
  "(\<And>m w. f (put m w) = f w) \<Longrightarrow> keeps (ref_kube look put okey ometa) f"
  by (auto simp: keeps_def ref_kube_def split: option.split)

definition ref_lib :: kube_lib where
  "ref_lib =
     \<lparr> SetStatusCondition = (\<lambda>c cs. if list_ex (\<lambda>d. cond_Type d = cond_Type c) cs
          then map (\<lambda>d. if cond_Type d = cond_Type c then c else d) cs else cs @ [c]),
       SetControllerReference = (\<lambda>owner m. Inr (m\<lparr>meta_Owners :=
          \<lparr>owner_APIVersion = ''inference.opendatahub.io/v1alpha1'', owner_Kind = ''Owner'', owner_Name = meta_Name owner,
           owner_UID = meta_UID owner, owner_Controller = True, owner_BlockOwnerDeletion = True\<rparr> # meta_Owners m\<rparr>)),
       IsControlledBy = (\<lambda>m owner. list_ex (\<lambda>o'. owner_Controller o' \<and> owner_UID o' = meta_UID owner) (meta_Owners m)),
       DeepEqual = (\<lambda>a b. a = b) \<rparr>"

lemma condition_of_simps:
  "condition_of t [] = None"
  "condition_of t (d # cs) = (if cond_Type d = t then Some d else condition_of t cs)"
  by (simp_all add: condition_of_def)

lemma condition_of_replaced:
  "list_ex (\<lambda>d. cond_Type d = cond_Type c) cs \<Longrightarrow>
     condition_of t (map (\<lambda>d. if cond_Type d = cond_Type c then c else d) cs) =
       (if t = cond_Type c then Some c else condition_of t cs)"
proof (induction cs)
  case (Cons d cs)
  show ?case
  proof (cases "list_ex (\<lambda>d. cond_Type d = cond_Type c) cs")
    case True
    with Cons.IH show ?thesis by (auto simp: condition_of_simps)
  next
    case False
    then have "map (\<lambda>d. if cond_Type d = cond_Type c then c else d) cs = cs"
      by (auto simp: list_ex_iff intro!: map_idI)
    with False Cons.prems show ?thesis by (auto simp: condition_of_simps)
  qed
qed simp

lemma condition_of_appended:
  "\<not> list_ex (\<lambda>d. cond_Type d = cond_Type c) cs \<Longrightarrow>
     condition_of t (cs @ [c]) = (if t = cond_Type c then Some c else condition_of t cs)"
  by (induction cs) (auto simp: condition_of_simps)

interpretation ref_library: kube_library ref_lib
  by unfold_locales (auto simp: ref_lib_def condition_of_replaced condition_of_appended)

lemma ref_library_ok: "kube_library ref_lib"
  by (rule ref_library.kube_library_axioms)

end
