(* ===== verification/External_Provider_Controller.thy ===== *)
theory External_Provider_Controller
  imports Kube_Api Controller_Common Secret_Store
begin

text \<open>
  \<^verbatim>\<open>pkg/controller/externalprovider/reconciler.go\<close>: the controller that creates the transport of an
  \<^verbatim>\<open>ExternalProvider\<close> (an ExternalName Service, an Istio ServiceEntry and a DestinationRule), reports on it in
  the provider's status, and removes it again when the AI gateway controller claims the provider.
\<close>

section \<open>The transport objects\<close>

record ServicePort =
  sp_Port :: int
  sp_TargetPort :: int

record ServiceSpec =
  svc_Type :: string
  svc_ExternalName :: string
  svc_Ports :: "ServicePort list"

record Service =
  svc_Meta :: ObjectMeta
  svc_Spec :: ServiceSpec

abbreviation labelExternalProvider where "labelExternalProvider \<equiv> ''inference.opendatahub.io/external-provider''"
abbreviation ep_managedByValue where "ep_managedByValue \<equiv> ''ipp-external-provider-reconciler''"
abbreviation aigcExternalProviderFinalizer where "aigcExternalProviderFinalizer \<equiv> ''inference.opendatahub.io/external-provider-cleanup''"

text \<open>The kinds of \<^verbatim>\<open>istioTransportGVKs\<close>, in its order.\<close>

definition istioTransportGVKs :: "string list" where
  "istioTransportGVKs = [''ServiceEntry'', ''DestinationRule'']"

definition ep_commonLabels :: "string \<Rightarrow> string gomap" where
  "ep_commonLabels providerName = [(LabelManagedBy, ep_managedByValue), (labelExternalProvider, providerName)]"

definition buildService :: "string \<Rightarrow> string \<Rightarrow> string \<Rightarrow> int \<Rightarrow> string gomap \<Rightarrow> Service" where
  "buildService endpoint name namespace port labels =
     \<lparr>svc_Meta = new_meta name namespace labels [],
      svc_Spec = \<lparr>svc_Type = ''ExternalName'', svc_ExternalName = endpoint,
                  svc_Ports = [\<lparr>sp_Port = port, sp_TargetPort = port\<rparr>]\<rparr>\<rparr>"

definition buildServiceEntry :: "string \<Rightarrow> string \<Rightarrow> string \<Rightarrow> int \<Rightarrow> bool \<Rightarrow> string gomap \<Rightarrow> Unstructured" where
  "buildServiceEntry endpoint name namespace port tlsEnabled labels =
     (let protocol = (if \<not> tlsEnabled then ''HTTP'' else ''HTTPS'');
          portName = (if \<not> tlsEnabled then ''http'' else ''https'')
      in \<lparr>u_APIVersion = ''networking.istio.io/v1'', u_Kind = ''ServiceEntry'', u_Meta = new_meta name namespace labels [],
          u_Spec = VMap [(''hosts'', VList [VStr endpoint]),
                         (''location'', VStr ''MESH_EXTERNAL''),
                         (''resolution'', VStr ''DNS''),
                         (''ports'', VList [VMap [(''number'', VInt64 port), (''name'', VStr portName),
                                                  (''protocol'', VStr protocol)]])]\<rparr>)"

definition buildDestinationRule :: "string \<Rightarrow> string \<Rightarrow> string \<Rightarrow> bool \<Rightarrow> string gomap \<Rightarrow> Unstructured" where
  "buildDestinationRule endpoint name namespace tlsEnabled labels =
     (let tlsMode = (if \<not> tlsEnabled then ''DISABLE'' else ''SIMPLE'')
      in \<lparr>u_APIVersion = ''networking.istio.io/v1'', u_Kind = ''DestinationRule'', u_Meta = new_meta name namespace labels [],
          u_Spec = VMap [(''host'', VStr endpoint),
                         (''trafficPolicy'', VMap [(''tls'', VMap [(''mode'', VStr tlsMode)])])]\<rparr>)"

definition setUnstructuredOwner :: "ExternalProvider \<Rightarrow> Unstructured \<Rightarrow> Unstructured" where
  "setUnstructuredOwner owner obj =
     obj\<lparr>u_Meta := (u_Meta obj)\<lparr>meta_Owners :=
       [\<lparr>owner_APIVersion = ''inference.opendatahub.io/v1alpha1'', owner_Kind = ''ExternalProvider'',
         owner_Name = meta_Name (ep_Meta owner), owner_UID = meta_UID (ep_Meta owner),
         owner_Controller = True, owner_BlockOwnerDeletion = True\<rparr>]\<rparr>\<rparr>"

section \<open>The reconciler\<close>

text \<open>The parts of the API server this controller works on; unstructured objects are kept by kind.\<close>

record 'w ep_client =
  ep_providers :: "(ExternalProvider, 'w) kube"
  ep_services :: "(Service, 'w) kube"
  ep_unstructured :: "string \<Rightarrow> (Unstructured, 'w) kube"
  ep_secret :: "NamespacedName \<Rightarrow> 'w \<Rightarrow> Secret fetched"
  ep_listModels :: "'w \<Rightarrow> ExternalModel list result"
  ep_updateStatus :: "ExternalProvider \<Rightarrow> 'w \<Rightarrow> 'w \<times> err option"

definition modelReferencesProvider :: "ExternalModel \<Rightarrow> ExternalProvider \<Rightarrow> bool" where
  "modelReferencesProvider model provider \<longleftrightarrow>
     list_ex (\<lambda>ref.
       (let namespace = (if pref_Namespace (Ref ref) = [] then meta_Namespace (em_Meta model) else pref_Namespace (Ref ref))
        in namespace = meta_Namespace (ep_Meta provider) \<and> pref_Name (Ref ref) = meta_Name (ep_Meta provider)))
       (ExternalProviderRefs (em_Spec model))"

text \<open>The loop of \<^verbatim>\<open>referencedByAGCOnly\<close> with its flag.\<close>

fun agc_only_loop :: "ExternalProvider \<Rightarrow> bool \<Rightarrow> ExternalModel list \<Rightarrow> bool" where
  "agc_only_loop provider agcOnly [] = agcOnly"
| "agc_only_loop provider agcOnly (model # models) =
     (if \<not> modelReferencesProvider model provider then agc_only_loop provider agcOnly models
      else if IsAGCManaged model then agc_only_loop provider True models
      else False)"

definition referencedByAGCOnly :: "'w ep_client \<Rightarrow> ExternalProvider \<Rightarrow> 'w \<Rightarrow> bool result" where
  "referencedByAGCOnly c provider w =
     (case ep_listModels c w of
        Inl e \<Rightarrow> Inl (WrapErr ''failed to list ExternalModels: %w'' [] e)
      | Inr items \<Rightarrow> Inr (agc_only_loop provider False items))"

definition MapModelToProviders :: "ExternalModel \<Rightarrow> NamespacedName list" where
  "MapModelToProviders model =
     map (\<lambda>ref.
       (let namespace = (if pref_Namespace (Ref ref) = [] then meta_Namespace (em_Meta model) else pref_Namespace (Ref ref))
        in \<lparr>nn_Namespace = namespace, nn_Name = pref_Name (Ref ref)\<rparr>))
       (ExternalProviderRefs (em_Spec model))"

definition svc_key :: "Service \<Rightarrow> NamespacedName" where
  "svc_key svc = object_key (svc_Meta svc)"

definition u_key :: "Unstructured \<Rightarrow> NamespacedName" where
  "u_key obj = object_key (u_Meta obj)"

definition same_service :: "Service \<Rightarrow> Service \<Rightarrow> bool" where
  "same_service existing desired \<longleftrightarrow>
     svc_Spec existing = svc_Spec desired \<and> gmap_eq (meta_Labels (svc_Meta existing)) (meta_Labels (svc_Meta desired)) \<and>
     meta_Owners (svc_Meta existing) = meta_Owners (svc_Meta desired)"

definition merge_service :: "Service \<Rightarrow> Service \<Rightarrow> Service" where
  "merge_service existing desired =
     existing\<lparr>svc_Spec := svc_Spec desired,
              svc_Meta := (svc_Meta existing)\<lparr>meta_Labels := meta_Labels (svc_Meta desired),
                                              meta_Owners := meta_Owners (svc_Meta desired)\<rparr>\<rparr>"

definition applyService :: "'w ep_client \<Rightarrow> Service \<Rightarrow> 'w \<Rightarrow> 'w \<times> err option" where
  "applyService c desired w = apply_object (ep_services c) svc_key same_service merge_service desired w"

definition same_unstructured :: "kube_lib \<Rightarrow> Unstructured \<Rightarrow> Unstructured \<Rightarrow> bool" where
  "same_unstructured lib existing desired \<longleftrightarrow>
     DeepEqual lib (u_Spec existing) (u_Spec desired) \<and>
     gmap_eq (meta_Labels (u_Meta existing)) (meta_Labels (u_Meta desired)) \<and>
     meta_Owners (u_Meta existing) = meta_Owners (u_Meta desired)"

definition replace_unstructured :: "Unstructured \<Rightarrow> Unstructured \<Rightarrow> Unstructured" where
  "replace_unstructured existing desired =
     desired\<lparr>u_Meta := (u_Meta desired)\<lparr>meta_ResourceVersion := meta_ResourceVersion (u_Meta existing)\<rparr>\<rparr>"

definition applyUnstructured :: "kube_lib \<Rightarrow> 'w ep_client \<Rightarrow> Unstructured \<Rightarrow> 'w \<Rightarrow> 'w \<times> err option" where
  "applyUnstructured lib c desired w =
     apply_object (ep_unstructured c (u_Kind desired)) u_key (same_unstructured lib) replace_unstructured desired w"

definition reconcileResources ::
  "kube_lib \<Rightarrow> 'w ep_client \<Rightarrow> ExternalProvider \<Rightarrow> ConnectionSettings \<Rightarrow> 'w \<Rightarrow> 'w \<times> err option" where
  "reconcileResources lib c provider conn w =
     (let name = meta_Name (ep_Meta provider); ns = meta_Namespace (ep_Meta provider);
          endpoint = Endpoint (ep_Spec provider); labels = ep_commonLabels name;
          svc = buildService endpoint name ns (Port conn) labels;
          se = setUnstructuredOwner provider (buildServiceEntry endpoint name ns (Port conn) (TLSEnabled conn) labels);
          dr = setUnstructuredOwner provider (buildDestinationRule endpoint name ns (TLSEnabled conn) labels)
      in case SetControllerReference lib (ep_Meta provider) (svc_Meta svc) of
           Inl e \<Rightarrow> (w, Some (WrapErr ''failed to set owner on Service: %w'' [] e))
         | Inr meta \<Rightarrow>
             (case applyService c (svc\<lparr>svc_Meta := meta\<rparr>) w of
                (w, Some e) \<Rightarrow> (w, Some (WrapErr ''failed to apply Service: %w'' [] e))
              | (w, None) \<Rightarrow>
                  (case applyUnstructured lib c se w of
                     (w, Some e) \<Rightarrow> (w, Some (WrapErr ''failed to apply ServiceEntry: %w'' [] e))
                   | (w, None) \<Rightarrow>
                       (case applyUnstructured lib c dr w of
                          (w, Some e) \<Rightarrow> (w, Some (WrapErr ''failed to apply DestinationRule: %w'' [] e))
                        | (w, None) \<Rightarrow> (w, None)))))"

definition transportDeletePreconditions :: "ObjectMeta \<Rightarrow> Preconditions" where
  "transportDeletePreconditions m =
     \<lparr>pre_UID = Some (meta_UID m), pre_ResourceVersion = Some (meta_ResourceVersion m)\<rparr>"

text \<open>
  The removal of one transport object, the same for the Service and for each unstructured kind. Other
  clients of the API server may act between the read and the deletion: \<open>env\<close> is what they do.
\<close>

definition cleanup_object ::
  "('w \<Rightarrow> 'w) \<Rightarrow> ('o, 'w) kube \<Rightarrow> ('o \<Rightarrow> ObjectMeta) \<Rightarrow> string \<Rightarrow> NamespacedName \<Rightarrow> 'w \<Rightarrow> 'w \<times> err option" where
  "cleanup_object env api ometa kind key w =
     (case kube_get api key w of
        Found obj \<Rightarrow>
          if gstr (meta_Labels (ometa obj)) LabelManagedBy = ep_managedByValue then
            (case kube_delete api (transportDeletePreconditions (ometa obj)) obj (env w) of
               (w, DeleteFailed e) \<Rightarrow>
                 (w, Some (WrapErr ''failed to delete %s %s/%s: %w'' [ArgS kind, ArgS (nn_Namespace key), ArgS (nn_Name key)] e))
             | (w, _) \<Rightarrow> (w, None))
          else (w, None)
      | NotFound \<Rightarrow> (w, None)
      | Failed e \<Rightarrow>
          (w, Some (WrapErr ''failed to get %s %s/%s: %w'' [ArgS kind, ArgS (nn_Namespace key), ArgS (nn_Name key)] e)))"

fun cleanup_kinds :: "('w \<Rightarrow> 'w) \<Rightarrow> 'w ep_client \<Rightarrow> NamespacedName \<Rightarrow> string list \<Rightarrow> 'w \<Rightarrow> 'w \<times> err option" where
  "cleanup_kinds env c key [] w = (w, None)"
| "cleanup_kinds env c key (kind # kinds) w =
     (case cleanup_object env (ep_unstructured c kind) u_Meta kind key w of
        (w, Some e) \<Rightarrow> (w, Some e)
      | (w, None) \<Rightarrow> cleanup_kinds env c key kinds w)"

definition cleanupTransport :: "('w \<Rightarrow> 'w) \<Rightarrow> 'w ep_client \<Rightarrow> ExternalProvider \<Rightarrow> 'w \<Rightarrow> 'w \<times> err option" where
  "cleanupTransport env c provider w =
     (case cleanup_object env (ep_services c) svc_Meta ''Service'' (object_key (ep_Meta provider)) w of
        (w, Some e) \<Rightarrow> (w, Some e)
      | (w, None) \<Rightarrow> cleanup_kinds env c (object_key (ep_Meta provider)) istioTransportGVKs w)"

definition validateSecretRef :: "'w ep_client \<Rightarrow> ExternalProvider \<Rightarrow> 'w \<Rightarrow> err option" where
  "validateSecretRef c provider w =
     (let key = \<lparr>nn_Namespace = meta_Namespace (ep_Meta provider),
                 nn_Name = nameref_Name (auth_SecretRef (Auth (ep_Spec provider)))\<rparr>
      in case ep_secret c key w of
           Found _ \<Rightarrow> None
         | NotFound \<Rightarrow> Some (Errorf ''secret %q not found in namespace %q'' [ArgS (nn_Name key), ArgS (nn_Namespace key)])
         | Failed e \<Rightarrow> Some (WrapErr ''failed to get secret %q: %w'' [ArgS (nn_Name key)] e))"

text \<open>The status update; its outcome is only logged.\<close>

definition ep_setStatus ::
  "kube_lib \<Rightarrow> 'w ep_client \<Rightarrow> string \<Rightarrow> string \<Rightarrow> string \<Rightarrow> string \<Rightarrow> ExternalProvider \<Rightarrow> 'w \<Rightarrow> ExternalProvider \<times> 'w" where
  "ep_setStatus lib c phase condStatus reason msg provider w =
     (let status = ep_Status provider;
          condition = \<lparr>cond_Type = ConditionTypeReady, cond_Status = condStatus, cond_Reason = reason,
                       cond_Message = msg, cond_ObservedGeneration = meta_Generation (ep_Meta provider)\<rparr>;
          provider = provider\<lparr>ep_Status := status\<lparr>ps_Phase := phase,
                                ps_Conditions := SetStatusCondition lib condition (ps_Conditions status)\<rparr>\<rparr>
      in (provider, fst (ep_updateStatus c provider w)))"

text \<open>The local \<^verbatim>\<open>setStatus\<close> of \<^verbatim>\<open>Reconcile\<close>, which does nothing when status writes are suppressed.\<close>

definition ep_report ::
  "bool \<Rightarrow> kube_lib \<Rightarrow> 'w ep_client \<Rightarrow> string \<Rightarrow> string \<Rightarrow> string \<Rightarrow> string \<Rightarrow> ExternalProvider \<Rightarrow> 'w \<Rightarrow> ExternalProvider \<times> 'w" where
  "ep_report statusSuppressed lib c phase condStatus reason msg provider w =
     (if statusSuppressed then (provider, w) else ep_setStatus lib c phase condStatus reason msg provider w)"

text \<open>\<^verbatim>\<open>Reconcile\<close> from the first status update on.\<close>

definition ep_serve ::
  "bool \<Rightarrow> kube_lib \<Rightarrow> 'w ep_client \<Rightarrow> (err \<Rightarrow> string) \<Rightarrow> ExternalProvider \<Rightarrow> 'w \<Rightarrow> 'w \<times> err option" where
  "ep_serve statusSuppressed lib c errText provider w =
     (case (if ps_Phase (ep_Status provider) = []
            then ep_report statusSuppressed lib c ''Pending'' ''False'' ''Reconciling'' ''Reconciliation in progress'' provider w
            else (provider, w)) of
        (provider, w) \<Rightarrow>
          (case validateSecretRef c provider w of
             Some e \<Rightarrow>
               (snd (ep_report statusSuppressed lib c ''Failed'' ''False'' ''SecretNotFound'' (errText e) provider w), Some e)
           | None \<Rightarrow>
               (case GetConnectionSettings (meta_Annotations (ep_Meta provider)) of
                  Inl e \<Rightarrow>
                    (snd (ep_report statusSuppressed lib c ''Failed'' ''False'' ''InvalidAnnotations''
                            (''invalid connection annotations: '' @ errText e) provider w), None)
                | Inr conn \<Rightarrow>
                    (case ValidateConnectionSecurity conn (auth_Type (Auth (ep_Spec provider))) of
                       Some e \<Rightarrow>
                         (snd (ep_report statusSuppressed lib c ''Failed'' ''False'' ''InsecureTransport''
                                 (''insecure transport configuration: '' @ errText e) provider w), None)
                     | None \<Rightarrow>
                         (case reconcileResources lib c provider conn w of
                            (w, Some e) \<Rightarrow>
                              (snd (ep_report statusSuppressed lib c ''Failed'' ''False'' ''ReconcileFailed'' (errText e) provider w),
                               Some e)
                          | (w, None) \<Rightarrow>
                              (snd (ep_report statusSuppressed lib c ''Ready'' ''True'' ''Reconciled''
                                      ''All resources created successfully'' provider w), None))))))"

definition ep_Reconcile ::
  "kube_lib \<Rightarrow> 'w ep_client \<Rightarrow> (err \<Rightarrow> string) \<Rightarrow> NamespacedName \<Rightarrow> 'w \<Rightarrow> 'w \<times> err option" where
  "ep_Reconcile lib c errText req w =
     (case kube_get (ep_providers c) req w of
        NotFound \<Rightarrow> (w, None)
      | Failed e \<Rightarrow> (w, Some e)
      | Found provider \<Rightarrow>
          if meta_Deleted (ep_Meta provider) then (w, None)
          else if aigcExternalProviderFinalizer \<in> set (meta_Finalizers (ep_Meta provider)) then
            (case cleanupTransport (\<lambda>w. w) c provider w of
               (w, Some e) \<Rightarrow> (w, Some e)
             | (w, None) \<Rightarrow> (w, None))
          else
            (case referencedByAGCOnly c provider w of
               Inl e \<Rightarrow> (w, Some e)
             | Inr statusSuppressed \<Rightarrow> ep_serve statusSuppressed lib c errText provider w))"

section \<open>What a reconcile leaves behind\<close>

text \<open>The parts of the objects that the API server keeps as they are given.\<close>

definition svc_content :: "Service \<Rightarrow> (string \<rightharpoonup> string) \<times> OwnerReference list \<times> ServiceSpec" where
  "svc_content svc = (map_of (meta_Labels (svc_Meta svc)), meta_Owners (svc_Meta svc), svc_Spec svc)"

definition u_content :: "Unstructured \<Rightarrow> (string \<rightharpoonup> string) \<times> OwnerReference list \<times> (place list \<Rightarrow> string option)" where
  "u_content obj = (map_of (meta_Labels (u_Meta obj)), meta_Owners (u_Meta obj), \<lambda>p. leaf p (u_Spec obj))"

text \<open>What the transport objects of a provider say.\<close>

definition se_says :: "string \<Rightarrow> string \<Rightarrow> Unstructured \<Rightarrow> bool" where
  "se_says endpoint protocol obj \<longleftrightarrow> leaf [Key ''hosts'', Item 0] (u_Spec obj) = Some endpoint \<and>
     leaf [Key ''ports'', Item 0, Key ''protocol''] (u_Spec obj) = Some protocol"

definition dr_says :: "string \<Rightarrow> string \<Rightarrow> Unstructured \<Rightarrow> bool" where
  "dr_says endpoint mode obj \<longleftrightarrow> leaf [Key ''host''] (u_Spec obj) = Some endpoint \<and>
     leaf [Key ''trafficPolicy'', Key ''tls'', Key ''mode''] (u_Spec obj) = Some mode"

definition svc_says :: "string \<Rightarrow> int \<Rightarrow> Service \<Rightarrow> bool" where
  "svc_says endpoint port svc \<longleftrightarrow> svc_Spec svc =
     \<lparr>svc_Type = ''ExternalName'', svc_ExternalName = endpoint, svc_Ports = [\<lparr>sp_Port = port, sp_TargetPort = port\<rparr>]\<rparr>"

text \<open>The objects under one key are replaced by one of which \<open>P\<close> holds.\<close>

definition replaced :: "NamespacedName \<Rightarrow> ('o \<Rightarrow> bool) \<Rightarrow> (NamespacedName \<Rightarrow> 'o option) \<Rightarrow> (NamespacedName \<Rightarrow> 'o option) \<Rightarrow> bool" where
  "replaced key P before after \<longleftrightarrow> (\<exists>y. after = before(key \<mapsto> y) \<and> P y)"

lemma replaced_content:
  assumes "if r = None then \<exists>y. after = before(key \<mapsto> y) \<and> content y = content x else after = before"
    and "\<And>y. content y = content x \<Longrightarrow> P y"
  shows "if r = None then replaced key P before after else after = before"
  using assms by (auto simp: replaced_def split: if_splits)

text \<open>The objects without the one under a key that carries the controller's label.\<close>

definition managed :: "ObjectMeta \<Rightarrow> bool" where
  "managed m \<longleftrightarrow> gstr (meta_Labels m) LabelManagedBy = ep_managedByValue"

definition drop_managed :: "('o \<Rightarrow> ObjectMeta) \<Rightarrow> NamespacedName \<Rightarrow> (NamespacedName \<Rightarrow> 'o option) \<Rightarrow> NamespacedName \<Rightarrow> 'o option" where
  "drop_managed ometa key m k =
     (case m k of None \<Rightarrow> None | Some x \<Rightarrow> if k = key \<and> managed (ometa x) then None else Some x)"

context kube_client
begin

lemma cleanup_done:
  assumes "cleanup_object (\<lambda>w. w) api ometa kind key w = (w', None)"
  shows "stored w' = drop_managed ometa key (stored w)"
proof (cases "kube_get api key w")
  case (Found obj)
  note here = get_Found [OF Found]
  show ?thesis
  proof (cases "managed (ometa obj)")
    case True
    with assms Found obtain pre r where "kube_delete api pre obj w = (w', r)" "r \<in> {Deleted, AlreadyGone}"
      by (auto simp: cleanup_object_def managed_def split: prod.splits delete_result.splits)
    from delete_done [OF this] here True show ?thesis by (auto simp: fun_eq_iff drop_managed_def split: option.splits)
  next
    case False
    with assms Found have "w' = w" by (auto simp: cleanup_object_def managed_def)
    with False here show ?thesis by (auto simp: fun_eq_iff drop_managed_def split: option.splits)
  qed
next
  case NotFound
  from get_NotFound [OF NotFound] assms NotFound show ?thesis
    by (auto simp: cleanup_object_def fun_eq_iff drop_managed_def split: option.splits)
next
  case (Failed e)
  with assms show ?thesis by (simp add: cleanup_object_def)
qed

text \<open>Other clients may act before the deletion, as long as a stored version identifies its object.\<close>

lemma cleanup_racing:
  assumes "cleanup_object env api ometa kind key w = (w', r)"
    and version: "\<And>x y. stored w key = Some x \<Longrightarrow> stored (env w) key = Some y \<Longrightarrow>
      meta_UID (ometa x) = meta_UID (ometa y) \<Longrightarrow> meta_ResourceVersion (ometa x) = meta_ResourceVersion (ometa y) \<Longrightarrow> x = y"
  shows "stored w' \<in> {stored w, stored (env w)} \<or>
    (\<exists>obj. stored (env w) key = Some obj \<and> managed (ometa obj) \<and> stored w' = (stored (env w))(key := None))"
proof (cases "w' = w")
  case False
  with assms(1) obtain obj res where del: "kube_get api key w = Found obj" "managed (ometa obj)"
    "kube_delete api (transportDeletePreconditions (ometa obj)) obj (env w) = (w', res)"
    by (auto simp: cleanup_object_def managed_def split: fetched.splits if_splits prod.splits delete_result.splits)
  note here = get_Found [OF del(1)]
  show ?thesis
  proof (cases res)
    case Deleted
    from delete_guarded [OF del(3) [unfolded Deleted]] here obtain y where
      y: "stored (env w) key = Some y" "meets (transportDeletePreconditions (ometa obj)) (ometa y)" by auto
    then have "obj = y" by (intro version) (auto simp: here meets_def transportDeletePreconditions_def)
    with y del(2) here delete_done [OF del(3)] Deleted show ?thesis by auto
  next
    case AlreadyGone
    from delete_gone [OF del(3) [unfolded AlreadyGone]] delete_done [OF del(3)] AlreadyGone here show ?thesis
      by (auto simp: fun_eq_iff)
  next
    case (DeleteFailed e)
    with delete_refused del(3) show ?thesis by auto
  qed
qed simp

end

lemma keeps_cleanup: "keeps api f \<Longrightarrow> f (fst (cleanup_object (\<lambda>w. w) api ometa kind key w)) = f w"
  by (auto simp: cleanup_object_def keeps_def dest: arg_cong [where f = "\<lambda>p. f (fst p)"]
      split: fetched.split prod.split delete_result.split)

lemma same_service_content: "same_service existing desired \<Longrightarrow> svc_content existing = svc_content desired"
  by (simp add: same_service_def svc_content_def gmap_eq_iff)

lemma merge_service_content:
  "svc_content (merge_service existing desired) = svc_content desired"
  "svc_key (merge_service existing desired) = svc_key existing"
  by (simp_all add: merge_service_def svc_content_def svc_key_def object_key_def)

lemma replace_content:
  "u_content (replace_unstructured existing desired) = u_content desired"
  "u_key (replace_unstructured existing desired) = u_key desired"
  by (simp_all add: replace_unstructured_def u_content_def u_key_def object_key_def)

lemma content_says:
  "svc_content a = svc_content b \<Longrightarrow> svc_says ep port a = svc_says ep port b"
  "u_content x = u_content y \<Longrightarrow> se_says ep p x = se_says ep p y"
  "u_content x = u_content y \<Longrightarrow> dr_says ep m x = dr_says ep m y"
  by (auto simp: svc_content_def svc_says_def u_content_def se_says_def dr_says_def fun_eq_iff)

text \<open>The three objects of a provider.\<close>

definition svc_for :: "ExternalProvider \<Rightarrow> ConnectionSettings \<Rightarrow> ObjectMeta \<Rightarrow> Service" where
  "svc_for provider conn meta =
     (buildService (Endpoint (ep_Spec provider)) (meta_Name (ep_Meta provider)) (meta_Namespace (ep_Meta provider))
        (Port conn) (ep_commonLabels (meta_Name (ep_Meta provider))))\<lparr>svc_Meta := meta\<rparr>"

definition se_for :: "ExternalProvider \<Rightarrow> ConnectionSettings \<Rightarrow> Unstructured" where
  "se_for provider conn = setUnstructuredOwner provider
     (buildServiceEntry (Endpoint (ep_Spec provider)) (meta_Name (ep_Meta provider)) (meta_Namespace (ep_Meta provider))
        (Port conn) (TLSEnabled conn) (ep_commonLabels (meta_Name (ep_Meta provider))))"

definition dr_for :: "ExternalProvider \<Rightarrow> ConnectionSettings \<Rightarrow> Unstructured" where
  "dr_for provider conn = setUnstructuredOwner provider
     (buildDestinationRule (Endpoint (ep_Spec provider)) (meta_Name (ep_Meta provider)) (meta_Namespace (ep_Meta provider))
        (TLSEnabled conn) (ep_commonLabels (meta_Name (ep_Meta provider))))"

lemma desired_facts:
  "u_Kind (se_for provider conn) = ''ServiceEntry''" "u_Kind (dr_for provider conn) = ''DestinationRule''"
  "u_key (se_for provider conn) = object_key (ep_Meta provider)" "u_key (dr_for provider conn) = object_key (ep_Meta provider)"
  "se_says (Endpoint (ep_Spec provider)) (if TLSEnabled conn then ''HTTPS'' else ''HTTP'') (se_for provider conn)"
  "dr_says (Endpoint (ep_Spec provider)) (if TLSEnabled conn then ''SIMPLE'' else ''DISABLE'') (dr_for provider conn)"
  by (simp_all add: se_for_def dr_for_def setUnstructuredOwner_def buildServiceEntry_def buildDestinationRule_def u_key_def
      object_key_def new_meta_def se_says_def dr_says_def)

lemma svc_for_says: "svc_says (Endpoint (ep_Spec provider)) (Port conn) (svc_for provider conn meta)"
  by (simp add: svc_for_def svc_says_def buildService_def)

text \<open>The ways through \<^verbatim>\<open>reconcileResources\<close>.\<close>

lemma reconcileResources_cases:
  assumes "reconcileResources lib c provider conn w = (w', r)"
  obtains "r \<noteq> None" "w' = w"
    | meta e where "r \<noteq> None" "applyService c (svc_for provider conn meta) w = (w', Some e)"
    | meta w1 e where "r \<noteq> None" "applyService c (svc_for provider conn meta) w = (w1, None)"
        "SetControllerReference lib (ep_Meta provider) (new_meta (meta_Name (ep_Meta provider))
           (meta_Namespace (ep_Meta provider)) (ep_commonLabels (meta_Name (ep_Meta provider))) []) = Inr meta"
        "applyUnstructured lib c (se_for provider conn) w1 = (w', Some e)"
    | meta w1 w2 r3 where "r = None \<longleftrightarrow> r3 = None" "applyService c (svc_for provider conn meta) w = (w1, None)"
        "SetControllerReference lib (ep_Meta provider) (new_meta (meta_Name (ep_Meta provider))
           (meta_Namespace (ep_Meta provider)) (ep_commonLabels (meta_Name (ep_Meta provider))) []) = Inr meta"
        "applyUnstructured lib c (se_for provider conn) w1 = (w2, None)"
        "applyUnstructured lib c (dr_for provider conn) w2 = (w', r3)"
proof (cases "SetControllerReference lib (ep_Meta provider) (new_meta (meta_Name (ep_Meta provider))
           (meta_Namespace (ep_Meta provider)) (ep_commonLabels (meta_Name (ep_Meta provider))) [])")
  case (Inl e)
  with assms that(1) show ?thesis by (auto simp: reconcileResources_def buildService_def Let_def)
next
  case (Inr meta)
  note def = assms [unfolded reconcileResources_def Let_def, folded se_for_def dr_for_def]
  have new: "svc_Meta (buildService ep n ns p ls) = new_meta n ns ls []" for ep n ns p ls by (simp add: buildService_def)
  obtain w1 r1 where 1: "applyService c (svc_for provider conn meta) w = (w1, r1)" by fastforce
  obtain w2 r2 where 2: "applyUnstructured lib c (se_for provider conn) w1 = (w2, r2)" by fastforce
  obtain w3 r3 where 3: "applyUnstructured lib c (dr_for provider conn) w2 = (w3, r3)" by fastforce
  show ?thesis
  proof (cases r1)
    case (Some e)
    with def Inr 1 that(2) show ?thesis by (auto simp: new svc_for_def)
  next
    case one: None
    show ?thesis
    proof (cases r2)
      case (Some e)
      with def Inr 1 2 one that(3) show ?thesis by (auto simp: new svc_for_def)
    next
      case None
      with def Inr 1 2 3 one have "w' = w3" "r = None \<longleftrightarrow> r3 = None"
        by (auto simp: new svc_for_def split: option.splits)
      with that(4) Inr 1 2 3 one None show ?thesis by simp
    qed
  qed
qed

text \<open>
  A cluster: each kind of object is kept as the client promises, and writing one kind or a status leaves
  the others alone.
\<close>

locale ep_cluster = kube_client "ep_services c" svc_key svc_Meta svc_content services + kube_library lib
  for c :: "'w ep_client" and lib :: kube_lib and services :: "'w \<Rightarrow> NamespacedName \<Rightarrow> Service option" +
  fixes us :: "string \<Rightarrow> 'w \<Rightarrow> NamespacedName \<Rightarrow> Unstructured option"
  assumes us_client: "kube_client (ep_unstructured c kind) u_key u_Meta u_content (us kind)"
    and services_keep: "keeps (ep_services c) (us kind)"
    and us_keep_services: "keeps (ep_unstructured c kind) services"
    and us_keep: "kind' \<noteq> kind \<Longrightarrow> keeps (ep_unstructured c kind) (us kind')"
    and status_keeps: "services (fst (ep_updateStatus c provider w)) = services w"
      "us kind (fst (ep_updateStatus c provider w)) = us kind w"
begin

lemma report_keeps [simp]:
  "services (snd (ep_report b lib c ph st rs msg provider w)) = services w"
  "us kind (snd (ep_report b lib c ph st rs msg provider w)) = us kind w"
  by (simp_all add: ep_report_def ep_setStatus_def Let_def status_keeps)

lemma applied_service:
  assumes "applyService c svc w = (w', r)"
  shows "us kind w' = us kind w" "if r = None then \<exists>y. services w' = (services w)(svc_key svc \<mapsto> y) \<and> svc_content y = svc_content svc
    else services w' = services w"
  using keeps_apply [OF services_keep, of kind svc_key same_service merge_service svc w] assms
    apply_written [OF assms [unfolded applyService_def]]
  by (auto simp: applyService_def same_service_content merge_service_content)

lemma same_u_content: "same_unstructured lib existing desired \<Longrightarrow> u_content existing = u_content desired"
  by (auto simp: same_unstructured_def u_content_def gmap_eq_iff equal_leaves)

lemma applied_unstructured:
  assumes "applyUnstructured lib c obj w = (w', r)"
  shows "services w' = services w" "kind \<noteq> u_Kind obj \<Longrightarrow> us kind w' = us kind w"
    "if r = None then \<exists>y. us (u_Kind obj) w' = (us (u_Kind obj) w)(u_key obj \<mapsto> y) \<and> u_content y = u_content obj
     else us (u_Kind obj) w' = us (u_Kind obj) w"
proof -
  show "services w' = services w"
    using keeps_apply [OF us_keep_services, of "u_Kind obj" u_key "same_unstructured lib" replace_unstructured obj w] assms
    by (simp add: applyUnstructured_def)
  show "us kind w' = us kind w" if "kind \<noteq> u_Kind obj"
    using keeps_apply [OF us_keep [OF that], of u_key "same_unstructured lib" replace_unstructured obj w] assms
    by (simp add: applyUnstructured_def)
  show "if r = None then \<exists>y. us (u_Kind obj) w' = (us (u_Kind obj) w)(u_key obj \<mapsto> y) \<and> u_content y = u_content obj
     else us (u_Kind obj) w' = us (u_Kind obj) w"
    by (rule kube_client.apply_written [OF us_client assms [unfolded applyUnstructured_def]])
      (auto simp: same_u_content replace_content)
qed

lemma svc_for_key:
  assumes "SetControllerReference lib (ep_Meta provider) (new_meta (meta_Name (ep_Meta provider))
     (meta_Namespace (ep_Meta provider)) labels annotations) = Inr meta"
  shows "svc_key (svc_for provider conn meta) = object_key (ep_Meta provider)"
proof -
  from reference_set [OF assms] obtain owners where
    "meta = (new_meta (meta_Name (ep_Meta provider)) (meta_Namespace (ep_Meta provider)) labels annotations)\<lparr>meta_Owners := owners\<rparr>"
    by blast
  then show ?thesis by (simp add: svc_for_def svc_key_def object_key_def new_meta_def)
qed

text \<open>Each step puts its object under the provider's key or changes nothing.\<close>

lemma service_step:
  assumes "applyService c (svc_for provider conn meta) w = (w', r)"
    and "SetControllerReference lib (ep_Meta provider) (new_meta (meta_Name (ep_Meta provider))
     (meta_Namespace (ep_Meta provider)) labels annotations) = Inr meta"
  shows "if r = None then replaced (object_key (ep_Meta provider)) (svc_says (Endpoint (ep_Spec provider)) (Port conn)) (services w) (services w')
    else services w' = services w"
  by (rule replaced_content [OF applied_service(2) [OF assms(1), unfolded svc_for_key [OF assms(2)]]])
    (rule content_says(1) [THEN iffD2, OF _ svc_for_says])

lemma entry_step:
  assumes "applyUnstructured lib c (se_for provider conn) w = (w', r)"
  shows "if r = None then replaced (object_key (ep_Meta provider)) (se_says (Endpoint (ep_Spec provider))
      (if TLSEnabled conn then ''HTTPS'' else ''HTTP'')) (us ''ServiceEntry'' w) (us ''ServiceEntry'' w')
    else us ''ServiceEntry'' w' = us ''ServiceEntry'' w"
  by (rule replaced_content [OF applied_unstructured(3) [OF assms, unfolded desired_facts]])
    (rule content_says(2) [THEN iffD2, OF _ desired_facts(5)])

lemma rule_step:
  assumes "applyUnstructured lib c (dr_for provider conn) w = (w', r)"
  shows "if r = None then replaced (object_key (ep_Meta provider)) (dr_says (Endpoint (ep_Spec provider))
      (if TLSEnabled conn then ''SIMPLE'' else ''DISABLE'')) (us ''DestinationRule'' w) (us ''DestinationRule'' w')
    else us ''DestinationRule'' w' = us ''DestinationRule'' w"
  by (rule replaced_content [OF applied_unstructured(3) [OF assms, unfolded desired_facts]])
    (rule content_says(3) [THEN iffD2, OF _ desired_facts(6)])

text \<open>What a store holds after a reconcile: the new object under the key, or after an error what it held.\<close>

lemma resources_written:
  assumes "reconcileResources lib c provider conn w = (w', r)"
  defines "key \<equiv> object_key (ep_Meta provider)" and "endpoint \<equiv> Endpoint (ep_Spec provider)"
  shows "(r \<noteq> None \<and> services w' = services w) \<or> replaced key (svc_says endpoint (Port conn)) (services w) (services w')"
    and "(r \<noteq> None \<and> us ''ServiceEntry'' w' = us ''ServiceEntry'' w) \<or>
      replaced key (se_says endpoint (if TLSEnabled conn then ''HTTPS'' else ''HTTP'')) (us ''ServiceEntry'' w) (us ''ServiceEntry'' w')"
    and "(r \<noteq> None \<and> us ''DestinationRule'' w' = us ''DestinationRule'' w) \<or>
      replaced key (dr_says endpoint (if TLSEnabled conn then ''SIMPLE'' else ''DISABLE'')) (us ''DestinationRule'' w) (us ''DestinationRule'' w')"
proof -
  have "((r \<noteq> None \<and> services w' = services w) \<or> replaced key (svc_says endpoint (Port conn)) (services w) (services w')) \<and>
    ((r \<noteq> None \<and> us ''ServiceEntry'' w' = us ''ServiceEntry'' w) \<or>
      replaced key (se_says endpoint (if TLSEnabled conn then ''HTTPS'' else ''HTTP'')) (us ''ServiceEntry'' w) (us ''ServiceEntry'' w')) \<and>
    ((r \<noteq> None \<and> us ''DestinationRule'' w' = us ''DestinationRule'' w) \<or>
      replaced key (dr_says endpoint (if TLSEnabled conn then ''SIMPLE'' else ''DISABLE'')) (us ''DestinationRule'' w) (us ''DestinationRule'' w'))"
    using assms(1)
  proof (cases rule: reconcileResources_cases)
    case 1
    then show ?thesis by simp
  next
    case (2 meta e)
    with applied_service [OF 2(2)] show ?thesis by simp
  next
    case (3 meta w1 e)
    note steps = service_step [OF 3(2,3)] applied_service(1) [OF 3(2)] entry_step [OF 3(4)] applied_unstructured(1,2) [OF 3(4)]
    from steps(1,2,3,4) steps(5) [of "''DestinationRule''"] 3(1) show ?thesis
      by (simp add: key_def endpoint_def desired_facts(1))
  next
    case (4 meta w1 w2 r3)
    note steps = service_step [OF 4(2,3)] applied_service(1) [OF 4(2)] entry_step [OF 4(4)] applied_unstructured(1,2) [OF 4(4)]
      rule_step [OF 4(5)] applied_unstructured(1,2) [OF 4(5)]
    from steps(1-4,6,7) steps(5) [of "''DestinationRule''"] steps(8) [of "''ServiceEntry''"] 4(1) show ?thesis
      by (cases r3) (simp_all add: key_def endpoint_def desired_facts(1,2))
  qed
  then show "(r \<noteq> None \<and> services w' = services w) \<or> replaced key (svc_says endpoint (Port conn)) (services w) (services w')"
    "(r \<noteq> None \<and> us ''ServiceEntry'' w' = us ''ServiceEntry'' w) \<or>
      replaced key (se_says endpoint (if TLSEnabled conn then ''HTTPS'' else ''HTTP'')) (us ''ServiceEntry'' w) (us ''ServiceEntry'' w')"
    "(r \<noteq> None \<and> us ''DestinationRule'' w' = us ''DestinationRule'' w) \<or>
      replaced key (dr_says endpoint (if TLSEnabled conn then ''SIMPLE'' else ''DISABLE'')) (us ''DestinationRule'' w) (us ''DestinationRule'' w')"
    by blast+
qed

end

text \<open>The provider when the transport is built: its metadata and spec are those that were read.\<close>

lemma ep_report_fields:
  "ep_Meta (fst (ep_report b lib c ph st rs msg provider w)) = ep_Meta provider"
  "ep_Spec (fst (ep_report b lib c ph st rs msg provider w)) = ep_Spec provider"
  by (simp_all add: ep_report_def ep_setStatus_def Let_def)

definition ep_started :: "bool \<Rightarrow> kube_lib \<Rightarrow> 'w ep_client \<Rightarrow> ExternalProvider \<Rightarrow> 'w \<Rightarrow> ExternalProvider \<times> 'w" where
  "ep_started b lib c provider w =
     (if ps_Phase (ep_Status provider) = []
      then ep_report b lib c ''Pending'' ''False'' ''Reconciling'' ''Reconciliation in progress'' provider w
      else (provider, w))"

lemma ep_started_fields:
  "ep_Meta (fst (ep_started b lib c provider w)) = ep_Meta provider"
  "ep_Spec (fst (ep_started b lib c provider w)) = ep_Spec provider"
  by (simp_all add: ep_started_def ep_report_fields)

text \<open>The ways through the reconcile of a provider that is not handed over.\<close>

lemma ep_serve_cases:
  assumes "ep_serve b lib c errText provider w = (w', r)"
  defines "p \<equiv> fst (ep_started b lib c provider w)" and "w0 \<equiv> snd (ep_started b lib c provider w)"
  obtains ph rs msg where "w' = snd (ep_report b lib c ph ''False'' rs msg p w0)"
      "r = None \<Longrightarrow> \<not> (\<exists>conn. GetConnectionSettings (meta_Annotations (ep_Meta provider)) = Inr conn \<and>
         ValidateConnectionSecurity conn (auth_Type (Auth (ep_Spec provider))) = None)"
    | conn w1 ph st rs msg where "GetConnectionSettings (meta_Annotations (ep_Meta provider)) = Inr conn"
      "ValidateConnectionSecurity conn (auth_Type (Auth (ep_Spec provider))) = None"
      "reconcileResources lib c p conn w0 = (w1, r)" "w' = snd (ep_report b lib c ph st rs msg p w1)"
      "r = None \<Longrightarrow> (ph, st, rs) = (''Ready'', ''True'', ''Reconciled'')"
proof -
  note fields = ep_started_fields [of b lib c provider w, folded p_def]
  have st: "ep_started b lib c provider w = (p, w0)" by (simp add: p_def w0_def)
  note def = assms(1) [unfolded ep_serve_def, folded ep_started_def, unfolded st prod.case fields]
  show thesis
  proof (cases "validateSecretRef c p w0")
    case (Some e)
    from def have "w' = snd (ep_report b lib c ''Failed'' ''False'' ''SecretNotFound'' (errText e) p w0)" "r \<noteq> None"
      by (auto simp: Some)
    then show ?thesis by (intro that(1)) auto
  next
    case secret: None
    show ?thesis
    proof (cases "GetConnectionSettings (meta_Annotations (ep_Meta provider))")
      case (Inl e)
      with def secret have "w' = snd (ep_report b lib c ''Failed'' ''False'' ''InvalidAnnotations''
          (''invalid connection annotations: '' @ errText e) p w0)" by auto
      with Inl show ?thesis by (intro that(1)) auto
    next
      case (Inr conn)
      show ?thesis
      proof (cases "ValidateConnectionSecurity conn (auth_Type (Auth (ep_Spec provider)))")
        case (Some e)
        with def secret Inr have "w' = snd (ep_report b lib c ''Failed'' ''False'' ''InsecureTransport''
            (''insecure transport configuration: '' @ errText e) p w0)" by auto
        with Inr Some show ?thesis by (intro that(1)) auto
      next
        case None
        obtain w1 r1 where run: "reconcileResources lib c p conn w0 = (w1, r1)" by fastforce
        have *: "r = r1 \<and> (\<exists>ph st rs msg. w' = snd (ep_report b lib c ph st rs msg p w1) \<and>
            (r1 = None \<longrightarrow> (ph, st, rs) = (''Ready'', ''True'', ''Reconciled'')))"
          using def secret Inr None run by (cases r1) auto
        then obtain ph st rs msg where "w' = snd (ep_report b lib c ph st rs msg p w1)"
          "r1 = None \<longrightarrow> (ph, st, rs) = (''Ready'', ''True'', ''Reconciled'')" by blast
        with * run Inr None show ?thesis by (intro that(2)) simp_all
      qed
    qed
  qed
qed

context ep_cluster
begin

lemma started_keeps:
  "services (snd (ep_started b lib c provider w)) = services w" "us kind (snd (ep_started b lib c provider w)) = us kind w"
  by (simp_all add: ep_started_def)

lemma serve_written:
  assumes "ep_serve b lib c errText provider w = (w', r)"
  defines "key \<equiv> object_key (ep_Meta provider)" and "endpoint \<equiv> Endpoint (ep_Spec provider)"
  shows "(services w' = services w \<and> us ''ServiceEntry'' w' = us ''ServiceEntry'' w \<and> us ''DestinationRule'' w' = us ''DestinationRule'' w) \<or>
    (\<exists>conn. GetConnectionSettings (meta_Annotations (ep_Meta provider)) = Inr conn \<and>
       ValidateConnectionSecurity conn (auth_Type (Auth (ep_Spec provider))) = None \<and>
       ((r \<noteq> None \<and> services w' = services w) \<or> replaced key (svc_says endpoint (Port conn)) (services w) (services w')) \<and>
       ((r \<noteq> None \<and> us ''ServiceEntry'' w' = us ''ServiceEntry'' w) \<or>
          replaced key (se_says endpoint (if TLSEnabled conn then ''HTTPS'' else ''HTTP'')) (us ''ServiceEntry'' w) (us ''ServiceEntry'' w')) \<and>
       ((r \<noteq> None \<and> us ''DestinationRule'' w' = us ''DestinationRule'' w) \<or>
          replaced key (dr_says endpoint (if TLSEnabled conn then ''SIMPLE'' else ''DISABLE'')) (us ''DestinationRule'' w) (us ''DestinationRule'' w')))"
  using assms(1)
proof (cases rule: ep_serve_cases)
  case (1 ph rs msg)
  then show ?thesis by (simp add: started_keeps)
next
  case (2 conn w1 ph st rs msg)
  note written = resources_written [OF 2(3), unfolded ep_started_fields started_keeps, folded key_def endpoint_def]
  have same: "services w' = services w1" "us kind w' = us kind w1" for kind using 2(4) by simp_all
  show ?thesis using 2(1,2) written unfolding same by blast
qed

lemma kinds_cleaned:
  assumes "cleanup_kinds (\<lambda>w. w) c key kinds w = (w', None)" "distinct kinds"
  shows "services w' = services w" "us kind w' = (if kind \<in> set kinds then drop_managed u_Meta key (us kind w) else us kind w)"
proof -
  have "services w' = services w \<and> us kind w' = (if kind \<in> set kinds then drop_managed u_Meta key (us kind w) else us kind w)"
    using assms
  proof (induction kinds arbitrary: w)
    case (Cons k kinds)
    then obtain w1 where run: "cleanup_object (\<lambda>w. w) (ep_unstructured c k) u_Meta k key w = (w1, None)"
      "cleanup_kinds (\<lambda>w. w) c key kinds w1 = (w', None)" by (auto split: prod.splits option.splits)
    have "services w1 = services w" using keeps_cleanup [OF us_keep_services, of k u_Meta k key w] run by simp
    moreover have "us k w1 = drop_managed u_Meta key (us k w)" by (rule kube_client.cleanup_done [OF us_client run(1)])
    moreover have "us kind w1 = us kind w" if "kind \<noteq> k" using keeps_cleanup [OF us_keep [OF that], of u_Meta k key w] run by simp
    ultimately show ?case using Cons.IH [OF run(2)] Cons.prems(2) by (cases "kind = k") auto
  qed simp
  then show "services w' = services w" "us kind w' = (if kind \<in> set kinds then drop_managed u_Meta key (us kind w) else us kind w)"
    by blast+
qed

lemma transport_cleaned:
  assumes "cleanupTransport (\<lambda>w. w) c provider w = (w', None)"
  shows "services w' = drop_managed svc_Meta (object_key (ep_Meta provider)) (services w) \<and>
    (\<forall>kind. us kind w' = (if kind \<in> set istioTransportGVKs then drop_managed u_Meta (object_key (ep_Meta provider)) (us kind w) else us kind w))"
proof -
  from assms obtain w1 where run: "cleanup_object (\<lambda>w. w) (ep_services c) svc_Meta ''Service'' (object_key (ep_Meta provider)) w = (w1, None)"
    "cleanup_kinds (\<lambda>w. w) c (object_key (ep_Meta provider)) istioTransportGVKs w1 = (w', None)"
    by (auto simp: cleanupTransport_def split: prod.splits option.splits)
  have "us kind w1 = us kind w" for kind
    using keeps_cleanup [OF services_keep, of kind svc_Meta "''Service''" "object_key (ep_Meta provider)" w] run(1) by simp
  with kinds_cleaned [OF run(2)] cleanup_done [OF run(1)] show ?thesis by (simp add: istioTransportGVKs_def)
qed

end

section \<open>A cluster with maps\<close>

record ep_state =
  es_providers :: "NamespacedName \<Rightarrow> ExternalProvider option"
  es_services :: "NamespacedName \<Rightarrow> Service option"
  es_unstructured :: "string \<Rightarrow> NamespacedName \<Rightarrow> Unstructured option"
  es_secrets :: "NamespacedName \<Rightarrow> Secret option"
  es_models :: "ExternalModel list"

abbreviation "ep_key p \<equiv> object_key (ep_Meta p)"

definition ref_ep :: "ep_state ep_client" where
  "ref_ep =
     \<lparr>ep_providers = ref_kube (\<lambda>s. filed (\<lambda>p. ep_key p) (es_providers s)) (\<lambda>m s. s\<lparr>es_providers := m\<rparr>) (\<lambda>p. ep_key p) ep_Meta,
      ep_services = ref_kube (\<lambda>s. filed svc_key (es_services s)) (\<lambda>m s. s\<lparr>es_services := m\<rparr>) svc_key svc_Meta,
      ep_unstructured = (\<lambda>kind. ref_kube (\<lambda>s. filed u_key (es_unstructured s kind))
        (\<lambda>m s. s\<lparr>es_unstructured := (es_unstructured s)(kind := m)\<rparr>) u_key u_Meta),
      ep_secret = (\<lambda>k s. case es_secrets s k of None \<Rightarrow> NotFound | Some x \<Rightarrow> Found x),
      ep_listModels = (\<lambda>s. Inr (es_models s)),
      ep_updateStatus = (\<lambda>p s. (s\<lparr>es_providers := (es_providers s)(ep_key p \<mapsto> p)\<rparr>, None))\<rparr>"

interpretation ref_services: kube_client "ep_services ref_ep" svc_key svc_Meta svc_content "\<lambda>s. filed svc_key (es_services s)"
  unfolding ref_ep_def ep_client.simps by (rule ref_kube_client) simp

interpretation ref_transport: ep_cluster ref_ep ref_lib "\<lambda>s. filed svc_key (es_services s)" "\<lambda>kind s. filed u_key (es_unstructured s kind)"
proof (rule ep_cluster.intro)
  show "kube_client (ep_services ref_ep) svc_key svc_Meta svc_content (\<lambda>s. filed svc_key (es_services s))"
    by (rule ref_services.kube_client_axioms)
  show "kube_library ref_lib" by (rule ref_library_ok)
  show "ep_cluster_axioms ref_ep (\<lambda>s. filed svc_key (es_services s)) (\<lambda>kind s. filed u_key (es_unstructured s kind))"
  proof (rule ep_cluster_axioms.intro)
    show "kube_client (ep_unstructured ref_ep kind) u_key u_Meta u_content (\<lambda>s. filed u_key (es_unstructured s kind))" for kind
      unfolding ref_ep_def ep_client.simps by (rule ref_kube_client) simp
  qed (auto simp: ref_ep_def intro!: ref_keeps)
qed

section \<open>Serving a provider\<close>

lemma ep_Reconcile_serves:
  assumes "kube_get (ep_providers c) req w = Found provider" "\<not> meta_Deleted (ep_Meta provider)"
    and "aigcExternalProviderFinalizer \<notin> set (meta_Finalizers (ep_Meta provider))"
    and "ep_Reconcile lib c errText req w = (w', r)"
  obtains e where "referencedByAGCOnly c provider w = Inl e" "w' = w" "r = Some e"
    | b where "referencedByAGCOnly c provider w = Inr b" "ep_serve b lib c errText provider w = (w', r)"
  using assms by (cases "referencedByAGCOnly c provider w") (auto simp: ep_Reconcile_def)

text \<open>The status that reports a provider ready.\<close>

lemma ready_report:
  assumes "kube_library lib" "w' = snd (ep_report False lib c ''Ready'' ''True'' rs msg provider w)"
  shows "\<exists>p w1 cond. w' = fst (ep_updateStatus c p w1) \<and> ps_Phase (ep_Status p) = ''Ready'' \<and>
    condition_of ''Ready'' (ps_Conditions (ep_Status p)) = Some cond \<and> cond_Status cond = ''True'' \<and>
    cond_ObservedGeneration cond = meta_Generation (ep_Meta provider)"
proof -
  let ?p = "fst (ep_setStatus lib c ''Ready'' ''True'' rs msg provider w)"
  have "w' = fst (ep_updateStatus c ?p w)" "ps_Phase (ep_Status ?p) = ''Ready''"
    "condition_of ''Ready'' (ps_Conditions (ep_Status ?p)) = Some \<lparr>cond_Type = ''Ready'', cond_Status = ''True'', cond_Reason = rs,
       cond_Message = msg, cond_ObservedGeneration = meta_Generation (ep_Meta provider)\<rparr>"
    using assms(2) by (simp_all add: ep_report_def ep_setStatus_def Let_def kube_library.condition_set [OF assms(1)])
  then show ?thesis by (metis Condition.select_convs(2,5))
qed

text \<open>C17: The transport of a provider with credentials is never created in plaintext. Whatever a reconcile of
  such a provider returns, also when it stops half way with an error, the DestinationRules are as before or
  changed under the provider's key to one that originates TLS (\<^verbatim>\<open>SIMPLE\<close>) for its endpoint, the ServiceEntries
  as before or changed under that key to one that speaks HTTPS to it, and no other object of these kinds is
  touched. The API server is a parameter that keeps the promises of \<open>ep_cluster\<close>.\<close>

theorem transport_never_plaintext:
  assumes "ep_cluster c lib services us" "kube_get (ep_providers c) req w = Found provider"
    and "\<not> meta_Deleted (ep_Meta provider)" "aigcExternalProviderFinalizer \<notin> set (meta_Finalizers (ep_Meta provider))"
    and "auth_Type (Auth (ep_Spec provider)) \<noteq> []" "ep_Reconcile lib c errText req w = (w', r)"
  shows "(us ''DestinationRule'' w' = us ''DestinationRule'' w \<or>
      replaced (object_key (ep_Meta provider)) (dr_says (Endpoint (ep_Spec provider)) ''SIMPLE'')
        (us ''DestinationRule'' w) (us ''DestinationRule'' w')) \<and>
    (us ''ServiceEntry'' w' = us ''ServiceEntry'' w \<or>
      replaced (object_key (ep_Meta provider)) (se_says (Endpoint (ep_Spec provider)) ''HTTPS'')
        (us ''ServiceEntry'' w) (us ''ServiceEntry'' w'))"
  using assms(2-4,6)
proof (cases rule: ep_Reconcile_serves)
  case (2 b)
  have tls: "TLSEnabled conn" if "ValidateConnectionSecurity conn (auth_Type (Auth (ep_Spec provider))) = None" for conn
    using that assms(5) by (auto simp: ValidateConnectionSecurity_def split: if_splits)
  from ep_cluster.serve_written [OF assms(1) 2(2)] show ?thesis
    by (elim disjE exE conjE) (auto dest: tls)
qed simp

definition sample_ep_state :: "string gomap \<Rightarrow> string list \<Rightarrow> ep_state" where
  "sample_ep_state annotations finalizers =
     \<lparr>es_providers = [\<lparr>nn_Namespace = ''team'', nn_Name = ''openai''\<rparr> \<mapsto>
        \<lparr>ep_Meta = (new_meta ''openai'' ''team'' [] annotations)\<lparr>meta_UID := ''u1'', meta_Generation := 3, meta_Finalizers := finalizers\<rparr>,
         ep_Spec = \<lparr>Provider = ''openai'', Endpoint = ''api.openai.com'',
                    Auth = \<lparr>auth_Type = ''apikey'', auth_SecretRef = \<lparr>nameref_Name = ''key''\<rparr>\<rparr>, Config = []\<rparr>,
         ep_Status = \<lparr>ps_Phase = [], ps_ObservedGeneration = 0, ps_Conditions = []\<rparr>\<rparr>],
      es_services = Map.empty, es_unstructured = (\<lambda>_. Map.empty),
      es_secrets = [\<lparr>nn_Namespace = ''team'', nn_Name = ''key''\<rparr> \<mapsto> \<lparr>sec_Labels = [], sec_Deleted = False, sec_Data = []\<rparr>],
      es_models = []\<rparr>"

abbreviation "sample_ep_key \<equiv> \<lparr>nn_Namespace = ''team'', nn_Name = ''openai''\<rparr>"
abbreviation "sample_ep_provider annotations finalizers \<equiv> the (es_providers (sample_ep_state annotations finalizers) sample_ep_key)"

lemma sample_ep_found:
  "kube_get (ep_providers ref_ep) sample_ep_key (sample_ep_state a f) = Found (sample_ep_provider a f)"
  "\<not> meta_Deleted (ep_Meta (sample_ep_provider a f))" "meta_Finalizers (ep_Meta (sample_ep_provider a f)) = f"
  "auth_Type (Auth (ep_Spec (sample_ep_provider a f))) = ''apikey''" "object_key (ep_Meta (sample_ep_provider a f)) = sample_ep_key"
  "Endpoint (ep_Spec (sample_ep_provider a f)) = ''api.openai.com''" "meta_Annotations (ep_Meta (sample_ep_provider a f)) = a"
  "filed u_key (es_unstructured (sample_ep_state a f) kind) = Map.empty"
  "filed svc_key (es_services (sample_ep_state a f)) = Map.empty"
  by (simp_all add: sample_ep_state_def ref_ep_def ref_kube_def filed_def new_meta_def object_key_def fun_eq_iff)

lemma sample_ep_run:
  "snd (ep_Reconcile ref_lib ref_ep (\<lambda>_. []) sample_ep_key (sample_ep_state [(AnnotationPort, ''8443'')] [])) = None"
  "filed u_key (es_unstructured (fst (ep_Reconcile ref_lib ref_ep (\<lambda>_. []) sample_ep_key (sample_ep_state [(AnnotationPort, ''8443'')] [])))
     ''DestinationRule'') sample_ep_key \<noteq> None"
  by code_simp+

theorem transport_never_plaintext_witness:
  "\<exists>w' y. ep_Reconcile ref_lib ref_ep (\<lambda>_. []) sample_ep_key (sample_ep_state [(AnnotationPort, ''8443'')] []) = (w', None) \<and>
     filed u_key (es_unstructured w' ''DestinationRule'') = [sample_ep_key \<mapsto> y] \<and> dr_says ''api.openai.com'' ''SIMPLE'' y"
proof -
  obtain w' where w': "ep_Reconcile ref_lib ref_ep (\<lambda>_. []) sample_ep_key (sample_ep_state [(AnnotationPort, ''8443'')] []) = (w', None)"
    using sample_ep_run(1) by (metis prod.collapse)
  with sample_ep_run(2) have "filed u_key (es_unstructured w' ''DestinationRule'') \<noteq> Map.empty" by auto
  with transport_never_plaintext [OF ref_transport.ep_cluster_axioms sample_ep_found(1,2) _ _ w'] w' show ?thesis
    by (auto simp: sample_ep_found replaced_def)
qed

lemma ep_Reconcile_transport:
  assumes "ep_cluster c lib services us" "kube_get (ep_providers c) req w = Found provider"
    and "\<not> meta_Deleted (ep_Meta provider)" "aigcExternalProviderFinalizer \<notin> set (meta_Finalizers (ep_Meta provider))"
    and "GetConnectionSettings (meta_Annotations (ep_Meta provider)) = Inr conn"
    and "ValidateConnectionSecurity conn (auth_Type (Auth (ep_Spec provider))) = None"
    and "ep_Reconcile lib c errText req w = (w', None)"
  shows "replaced (object_key (ep_Meta provider)) (svc_says (Endpoint (ep_Spec provider)) (Port conn)) (services w) (services w') \<and>
    replaced (object_key (ep_Meta provider)) (se_says (Endpoint (ep_Spec provider)) (if TLSEnabled conn then ''HTTPS'' else ''HTTP''))
      (us ''ServiceEntry'' w) (us ''ServiceEntry'' w') \<and>
    replaced (object_key (ep_Meta provider)) (dr_says (Endpoint (ep_Spec provider)) (if TLSEnabled conn then ''SIMPLE'' else ''DISABLE''))
      (us ''DestinationRule'' w) (us ''DestinationRule'' w') \<and>
    (referencedByAGCOnly c provider w = Inr False \<longrightarrow>
      (\<exists>p w1 cond. w' = fst (ep_updateStatus c p w1) \<and> ps_Phase (ep_Status p) = ''Ready'' \<and>
         condition_of ''Ready'' (ps_Conditions (ep_Status p)) = Some cond \<and> cond_Status cond = ''True'' \<and>
         cond_ObservedGeneration cond = meta_Generation (ep_Meta provider)))"
  using assms(2-4,7)
proof (cases rule: ep_Reconcile_serves)
  case (2 b)
  from 2(2) show ?thesis
  proof (cases rule: ep_serve_cases)
    case (1 ph rs msg)
    with assms(5,6) show ?thesis by blast
  next
    case (2 conn' w1 ph st rs msg)
    note written = ep_cluster.resources_written [OF assms(1) 2(3)]
    have same: "services w' = services w1" "us kind w' = us kind w1" for kind
      using 2(4) by (simp_all add: ep_cluster.report_keeps [OF assms(1)])
    have conn: "conn' = conn" using 2(1) assms(5) by simp
    have "replaced (object_key (ep_Meta provider)) (svc_says (Endpoint (ep_Spec provider)) (Port conn)) (services w) (services w')"
      "replaced (object_key (ep_Meta provider)) (se_says (Endpoint (ep_Spec provider)) (if TLSEnabled conn then ''HTTPS'' else ''HTTP''))
         (us ''ServiceEntry'' w) (us ''ServiceEntry'' w')"
      "replaced (object_key (ep_Meta provider)) (dr_says (Endpoint (ep_Spec provider)) (if TLSEnabled conn then ''SIMPLE'' else ''DISABLE''))
         (us ''DestinationRule'' w) (us ''DestinationRule'' w')"
      using written unfolding same conn ep_started_fields ep_cluster.started_keeps [OF assms(1)] by simp_all
    moreover have "\<exists>p w1 cond. w' = fst (ep_updateStatus c p w1) \<and> ps_Phase (ep_Status p) = ''Ready'' \<and>
         condition_of ''Ready'' (ps_Conditions (ep_Status p)) = Some cond \<and> cond_Status cond = ''True'' \<and>
         cond_ObservedGeneration cond = meta_Generation (ep_Meta provider)" if "referencedByAGCOnly c provider w = Inr False"
    proof -
      have "w' = snd (ep_report False lib c ''Ready'' ''True'' rs msg (fst (ep_started b lib c provider w)) w1)"
        using 2(4,5) that \<open>referencedByAGCOnly c provider w = Inr b\<close> by simp
      from ready_report [OF ep_cluster.axioms(2) [OF assms(1)] this] show ?thesis by (simp only: ep_started_fields)
    qed
    ultimately show ?thesis by blast
  qed
qed simp



section \<open>Leaving a provider to the AI gateway controller\<close>

text \<open>A change of a model reaches every provider whose status decision depends on it. The watch queues a
  provider for a changed model exactly when \<^verbatim>\<open>referencedByAGCOnly\<close> takes that model into account for it.\<close>

theorem MapModelToProviders_exact:
  "object_key (ep_Meta provider) \<in> set (MapModelToProviders model) \<longleftrightarrow> modelReferencesProvider model provider"
  unfolding MapModelToProviders_def modelReferencesProvider_def object_key_def list_ex_iff Let_def set_map image_iff
  by (rule bex_cong [OF refl]) auto

text \<open>The operations that do not write a status.\<close>

lemma update_free:
  "referencedByAGCOnly (c\<lparr>ep_updateStatus := u\<rparr>) provider w = referencedByAGCOnly c provider w"
  "validateSecretRef (c\<lparr>ep_updateStatus := u\<rparr>) provider w = validateSecretRef c provider w"
  "applyService (c\<lparr>ep_updateStatus := u\<rparr>) = applyService c"
  "applyUnstructured lib (c\<lparr>ep_updateStatus := u\<rparr>) = applyUnstructured lib c"
  "cleanup_kinds env (c\<lparr>ep_updateStatus := u\<rparr>) key kinds w = cleanup_kinds env c key kinds w"
  "ep_services (c\<lparr>ep_updateStatus := u\<rparr>) = ep_services c"
proof -
  show "cleanup_kinds env (c\<lparr>ep_updateStatus := u\<rparr>) key kinds w = cleanup_kinds env c key kinds w"
    by (induction kinds arbitrary: w) (simp_all split: prod.split option.split)
qed (simp_all add: referencedByAGCOnly_def validateSecretRef_def applyService_def applyUnstructured_def fun_eq_iff)

lemma update_free_run:
  "reconcileResources lib (c\<lparr>ep_updateStatus := u\<rparr>) provider conn w = reconcileResources lib c provider conn w"
  "cleanupTransport env (c\<lparr>ep_updateStatus := u\<rparr>) provider w = cleanupTransport env c provider w"
  "ep_report True lib (c\<lparr>ep_updateStatus := u\<rparr>) ph st rs msg provider w = ep_report True lib c ph st rs msg provider w"
  by (simp_all only: reconcileResources_def cleanupTransport_def ep_report_def update_free if_True)

lemma suppressed_serve:
  "ep_serve True lib (c\<lparr>ep_updateStatus := u\<rparr>) errText provider w = ep_serve True lib c errText provider w"
  by (simp only: ep_serve_def update_free update_free_run)

lemma agc_only_loop_iff:
  "agc_only_loop provider b models \<longleftrightarrow>
     (b \<or> (\<exists>m \<in> set models. modelReferencesProvider m provider)) \<and>
     (\<forall>m \<in> set models. modelReferencesProvider m provider \<longrightarrow> IsAGCManaged m)"
  by (induction models arbitrary: b) auto

text \<open>C33: The controllers do not fight over a provider's status. A provider with the claim of the AI gateway
  controller, or one that models reference and only models managed by that controller do, is reconciled without a
  status write: the outcome and the new state are the same whatever the status writer does.\<close>

theorem status_left_to_agc:
  assumes "kube_get (ep_providers c) req w = Found provider"
    and "aigcExternalProviderFinalizer \<in> set (meta_Finalizers (ep_Meta provider)) \<or>
      (\<exists>models. ep_listModels c w = Inr models \<and> (\<exists>m \<in> set models. modelReferencesProvider m provider) \<and>
         (\<forall>m \<in> set models. modelReferencesProvider m provider \<longrightarrow> IsAGCManaged m))"
  shows "ep_Reconcile lib (c\<lparr>ep_updateStatus := u\<rparr>) errText req w = ep_Reconcile lib c errText req w"
proof (cases "meta_Deleted (ep_Meta provider) \<or> aigcExternalProviderFinalizer \<in> set (meta_Finalizers (ep_Meta provider))")
  case True
  with assms(1) show ?thesis by (auto simp: ep_Reconcile_def update_free_run)
next
  case False
  with assms(2) have "referencedByAGCOnly c provider w = Inr True"
    by (auto simp: referencedByAGCOnly_def agc_only_loop_iff)
  with False assms(1) show ?thesis by (simp add: ep_Reconcile_def update_free suppressed_serve)
qed

theorem status_left_to_agc_witness:
  "ep_Reconcile ref_lib (ref_ep\<lparr>ep_updateStatus := \<lambda>p w. (w, Some (Errorf ''conflict'' []))\<rparr>) (\<lambda>_. []) sample_ep_key
     (sample_ep_state [] [aigcExternalProviderFinalizer]) =
   ep_Reconcile ref_lib ref_ep (\<lambda>_. []) sample_ep_key (sample_ep_state [] [aigcExternalProviderFinalizer])"
  by (rule status_left_to_agc [OF sample_ep_found(1)]) (simp add: sample_ep_found)

text \<open>Handing a provider over removes its transport and nothing else. For a provider with the claim of the
  AI gateway controller, a reconcile that succeeds has removed the Service, the ServiceEntry and the
  DestinationRule under the provider's key when they carry this controller's label, and every other object of
  any kind, also one of the same name without the label, is as before.\<close>

theorem ep_handoff_removes_own_transport:
  assumes "ep_cluster c lib services us" "kube_get (ep_providers c) req w = Found provider"
    and "\<not> meta_Deleted (ep_Meta provider)" "aigcExternalProviderFinalizer \<in> set (meta_Finalizers (ep_Meta provider))"
    and "ep_Reconcile lib c errText req w = (w', None)"
  shows "services w' = drop_managed svc_Meta (object_key (ep_Meta provider)) (services w) \<and>
    (\<forall>kind. us kind w' = (if kind \<in> set istioTransportGVKs
       then drop_managed u_Meta (object_key (ep_Meta provider)) (us kind w) else us kind w))"
proof -
  from assms have "cleanupTransport (\<lambda>w. w) c provider w = (w', None)"
    by (auto simp: ep_Reconcile_def split: prod.splits option.splits)
  then show ?thesis by (rule ep_cluster.transport_cleaned [OF assms(1)])
qed

definition sample_handoff :: ep_state where
  "sample_handoff = (sample_ep_state [] [aigcExternalProviderFinalizer])
     \<lparr>es_services := [sample_ep_key \<mapsto> buildService ''api.openai.com'' ''openai'' ''team'' 443 (ep_commonLabels ''openai'')],
      es_unstructured := (\<lambda>_. [sample_ep_key \<mapsto> buildDestinationRule ''other'' ''openai'' ''team'' True []])\<rparr>"

lemma sample_handoff_run:
  "snd (ep_Reconcile ref_lib ref_ep (\<lambda>_. []) sample_ep_key sample_handoff) = None"
  "managed (svc_Meta (the (es_services sample_handoff sample_ep_key)))"
  "\<not> managed (u_Meta (the (es_unstructured sample_handoff ''DestinationRule'' sample_ep_key)))"
  "filed u_key (es_unstructured sample_handoff ''DestinationRule'') sample_ep_key \<noteq> None"
  by code_simp+

lemma sample_handoff_found:
  "kube_get (ep_providers ref_ep) sample_ep_key sample_handoff = Found (sample_ep_provider [] [aigcExternalProviderFinalizer])"
  by (simp add: sample_handoff_def sample_ep_state_def ref_ep_def ref_kube_def filed_def new_meta_def object_key_def)

theorem ep_handoff_removes_own_transport_witness:
  "\<exists>w'. ep_Reconcile ref_lib ref_ep (\<lambda>_. []) sample_ep_key sample_handoff = (w', None) \<and>
     filed svc_key (es_services w') sample_ep_key = None \<and>
     filed u_key (es_unstructured w' ''DestinationRule'') sample_ep_key \<noteq> None"
proof -
  obtain w' where w': "ep_Reconcile ref_lib ref_ep (\<lambda>_. []) sample_ep_key sample_handoff = (w', None)"
    using sample_handoff_run(1) by (metis prod.collapse)
  from ep_handoff_removes_own_transport [OF ref_transport.ep_cluster_axioms sample_handoff_found sample_ep_found(2) _ w']
  have "filed svc_key (es_services w') = drop_managed svc_Meta sample_ep_key (filed svc_key (es_services sample_handoff))"
    "filed u_key (es_unstructured w' ''DestinationRule'') = drop_managed u_Meta sample_ep_key (filed u_key (es_unstructured sample_handoff ''DestinationRule''))"
    by (simp_all add: sample_ep_found istioTransportGVKs_def)
  moreover have "drop_managed svc_Meta sample_ep_key (filed svc_key (es_services sample_handoff)) sample_ep_key = None"
    using sample_handoff_run(2) by (auto simp: drop_managed_def filed_def split: option.splits)
  moreover have "drop_managed u_Meta sample_ep_key (filed u_key (es_unstructured sample_handoff ''DestinationRule'')) sample_ep_key \<noteq> None"
    using sample_handoff_run(3,4) by (auto simp: drop_managed_def filed_def split: option.splits)
  ultimately show ?thesis using w' by simp
qed

text \<open>C25: The handover is safe against other writers. Between the read of a transport object and its
  deletion the API server may have been changed in any way, as long as a UID and resource version identify
  an object. The stored objects are then those that were read, those the others left, or the latter without the
  object under the key, which carried this controller's label at that moment: an object that was replaced or
  relabelled in between is not deleted.\<close>

theorem cleanup_race_safe:
  assumes "kube_client api okey ometa content stored" "cleanup_object env api ometa kind key w = (w', r)"
    and "\<And>x y. stored w key = Some x \<Longrightarrow> stored (env w) key = Some y \<Longrightarrow>
      meta_UID (ometa x) = meta_UID (ometa y) \<Longrightarrow> meta_ResourceVersion (ometa x) = meta_ResourceVersion (ometa y) \<Longrightarrow> x = y"
  shows "stored w' \<in> {stored w, stored (env w)} \<or>
    (\<exists>obj. stored (env w) key = Some obj \<and> managed (ometa obj) \<and> stored w' = (stored (env w))(key := None))"
  using assms by (rule kube_client.cleanup_racing)

text \<open>Another controller takes over the Service while it is being cleaned up.\<close>

definition relabel :: "ep_state \<Rightarrow> ep_state" where
  "relabel s = s\<lparr>es_services := [sample_ep_key \<mapsto> (buildService ''api.openai.com'' ''openai'' ''team'' 443 [])
     \<lparr>svc_Meta := (new_meta ''openai'' ''team'' [] [])\<lparr>meta_ResourceVersion := ''2''\<rparr>\<rparr>]\<rparr>"

lemma relabelled_kept:
  "filed svc_key (es_services (fst (cleanup_object relabel (ep_services ref_ep) svc_Meta ''Service'' sample_ep_key sample_handoff)))
     sample_ep_key \<noteq> None"
  "filed svc_key (es_services (relabel sample_handoff)) sample_ep_key \<noteq> None"
  by code_simp+

theorem cleanup_race_safe_witness:
  "\<exists>w' r. cleanup_object relabel (ep_services ref_ep) svc_Meta ''Service'' sample_ep_key sample_handoff = (w', r) \<and>
     filed svc_key (es_services w') \<in> {filed svc_key (es_services sample_handoff), filed svc_key (es_services (relabel sample_handoff))}"
proof -
  obtain w' r where run: "cleanup_object relabel (ep_services ref_ep) svc_Meta ''Service'' sample_ep_key sample_handoff = (w', r)"
    by fastforce
  have kept: "filed svc_key (es_services w') sample_ep_key \<noteq> None" using relabelled_kept(1) run by simp
  have "x = y" if "filed svc_key (es_services sample_handoff) sample_ep_key = Some x"
    "filed svc_key (es_services (relabel sample_handoff)) sample_ep_key = Some y"
    "meta_ResourceVersion (svc_Meta x) = meta_ResourceVersion (svc_Meta y)" for x y
    using that by (auto simp: filed_def sample_handoff_def relabel_def buildService_def new_meta_def svc_key_def object_key_def
        split: if_splits)
  with cleanup_race_safe [OF ref_services.kube_client_axioms run] kept run show ?thesis by auto
qed

end
