(* ===== verification/External_Model_Controller.thy ===== *)
theory External_Model_Controller
  imports Kube_Api Resolver_Reconcilers
begin

text \<open>
  \<^verbatim>\<open>pkg/controller/externalmodel/reconciler.go\<close>: the controller that turns an \<^verbatim>\<open>ExternalModel\<close> into the
  \<^verbatim>\<open>HTTPRoute\<close> of its providers and reports on it in the model's status.

  The Gateway API objects keep the fields the controller sets. A reconcile maps the state of the API server
  to its new state and the result; the model the code carries around and mutates is passed along.
\<close>

section \<open>HTTPRoute\<close>

record HTTPHeaderMatch =
  hm_Name :: string
  hm_Type :: string
  hm_Value :: string

record HTTPRouteMatch =
  rm_Path :: "(string \<times> string) option"
  rm_Headers :: "HTTPHeaderMatch list"

record HTTPBackendRef =
  backend_Name :: string
  backend_Port :: int

record HTTPRouteRule =
  rule_Matches :: "HTTPRouteMatch list"
  rule_BackendRefs :: "HTTPBackendRef list"
  rule_SetHeaders :: "(string \<times> string) list"
  rule_RequestTimeout :: string

record HTTPRouteSpec =
  ParentRefs :: "NamespacedName list"
  Rules :: "HTTPRouteRule list"

record HTTPRoute =
  hr_Meta :: ObjectMeta
  hr_Spec :: HTTPRouteSpec

section \<open>The reconciler\<close>

abbreviation labelExternalModel where "labelExternalModel \<equiv> ''inference.opendatahub.io/external-model''"
abbreviation em_managedByValue where "em_managedByValue \<equiv> ''ipp-external-model-reconciler''"

record emReconciler =
  GatewayName :: string
  GatewayNamespace :: string
  RouteTimeout :: string

text \<open>The parts of the API server this controller works on.\<close>

record 'w em_client =
  em_models :: "(ExternalModel, 'w) kube"
  em_providers :: "(ExternalProvider, 'w) kube"
  em_routes :: "(HTTPRoute, 'w) kube"
  em_updateStatus :: "ExternalModel \<Rightarrow> 'w \<Rightarrow> 'w \<times> err option"

definition gatewayName :: "emReconciler \<Rightarrow> string" where
  "gatewayName r = (if GatewayName r \<noteq> [] then GatewayName r else DefaultGatewayName)"

definition gatewayNamespace :: "emReconciler \<Rightarrow> string" where
  "gatewayNamespace r = (if GatewayNamespace r \<noteq> [] then GatewayNamespace r else DefaultGatewayNamespace)"

definition routeTimeout :: "emReconciler \<Rightarrow> string" where
  "routeTimeout r = (if RouteTimeout r \<noteq> [] then RouteTimeout r else DefaultRouteTimeout)"

record resolvedRef =
  rf_providerName :: string
  rf_providerEndpoint :: string
  rf_targetModel :: string
  rf_port :: int

definition em_commonLabels :: "string \<Rightarrow> string gomap" where
  "em_commonLabels modelName = [(LabelManagedBy, em_managedByValue), (labelExternalModel, modelName)]"

definition em_clientModelName :: "ExternalModel \<Rightarrow> string" where
  "em_clientModelName model =
     (if ModelName (em_Spec model) \<noteq> [] then ModelName (em_Spec model) else meta_Name (em_Meta model))"

definition em_mergeConfig :: "string gomap \<Rightarrow> string gomap \<Rightarrow> string gomap" where
  "em_mergeConfig providerConfig modelConfig = gcopy (gcopy [] providerConfig) modelConfig"

abbreviation em_selectedProviderHeader where "em_selectedProviderHeader \<equiv> ''x-ipp-selected-provider''"
abbreviation "em_modelNameHeader \<equiv> ''X-Gateway-Model-Name''"

definition exact_header :: "string \<Rightarrow> string \<Rightarrow> HTTPHeaderMatch" where
  "exact_header name val = \<lparr>hm_Name = name, hm_Type = ''Exact'', hm_Value = val\<rparr>"

definition route_rule :: "HTTPRouteMatch \<Rightarrow> resolvedRef \<Rightarrow> string \<Rightarrow> HTTPRouteRule" where
  "route_rule match ref timeout =
     \<lparr>rule_Matches = [match],
      rule_BackendRefs = [\<lparr>backend_Name = rf_providerName ref, backend_Port = rf_port ref\<rparr>],
      rule_SetHeaders = [(''Host'', rf_providerEndpoint ref)],
      rule_RequestTimeout = timeout\<rparr>"

text \<open>The two rules of a reference and the two fallback rules.\<close>

definition ref_rules :: "string \<Rightarrow> string \<Rightarrow> string \<Rightarrow> resolvedRef \<Rightarrow> HTTPRouteRule list" where
  "ref_rules pathPrefix modelName timeout ref =
     [route_rule \<lparr>rm_Path = Some (''PathPrefix'', pathPrefix),
                  rm_Headers = [exact_header em_selectedProviderHeader (rf_providerName ref)]\<rparr> ref timeout,
      route_rule \<lparr>rm_Path = Some (''PathPrefix'', ''/''),
                  rm_Headers = [exact_header em_modelNameHeader modelName,
                                exact_header em_selectedProviderHeader (rf_providerName ref)]\<rparr> ref timeout]"

definition fallback_rules :: "string \<Rightarrow> string \<Rightarrow> string \<Rightarrow> resolvedRef \<Rightarrow> HTTPRouteRule list" where
  "fallback_rules pathPrefix modelName timeout ref =
     [route_rule \<lparr>rm_Path = Some (''PathPrefix'', pathPrefix), rm_Headers = []\<rparr> ref timeout,
      route_rule \<lparr>rm_Path = None, rm_Headers = [exact_header em_modelNameHeader modelName]\<rparr> ref timeout]"

definition buildHTTPRoute ::
  "resolvedRef list \<Rightarrow> string \<Rightarrow> string \<Rightarrow> string \<Rightarrow> string \<Rightarrow> string \<Rightarrow> string \<Rightarrow> string gomap \<Rightarrow> HTTPRoute result" where
  "buildHTTPRoute refs modelName clientName namespace gwName gwNamespace timeout labels =
     (let pathPrefix = ''/'' @ namespace @ ''/'' @ modelName
      in case refs of
           [] \<Rightarrow> Inl (Panicked ''index out of range'')
         | first # rest \<Rightarrow>
             Inr \<lparr>hr_Meta = new_meta modelName namespace labels [],
                  hr_Spec = \<lparr>ParentRefs = [\<lparr>nn_Namespace = gwNamespace, nn_Name = gwName\<rparr>],
                             Rules = concat (map (ref_rules pathPrefix clientName timeout) refs)
                                       @ fallback_rules pathPrefix clientName timeout first\<rparr>\<rparr>)"

text \<open>One reference: what it resolves to, or why it is skipped; \<open>Inl\<close> ends the reconcile.\<close>

datatype ref_outcome = Resolved resolvedRef | Skipped err

definition resolve_route_ref ::
  "(NamespacedName \<Rightarrow> ExternalProvider fetched) \<Rightarrow> ExternalModel \<Rightarrow> ExternalProviderRef \<Rightarrow> ref_outcome result" where
  "resolve_route_ref get model ref =
     (if foreign_ref model ref then
        Inr (Skipped (Errorf ''cross-namespace ExternalProvider reference %q is not supported''
               [ArgS (pref_Namespace (Ref ref) @ ''/'' @ pref_Name (Ref ref))]))
      else
        (case get \<lparr>nn_Namespace = meta_Namespace (em_Meta model), nn_Name = pref_Name (Ref ref)\<rparr> of
           NotFound \<Rightarrow>
             Inr (Skipped (Errorf ''ExternalProvider %q not found in namespace %q''
                    [ArgS (pref_Name (Ref ref)), ArgS (meta_Namespace (em_Meta model))]))
         | Failed e \<Rightarrow> Inl (WrapErr ''failed to get ExternalProvider %q: %w'' [ArgS (pref_Name (Ref ref))] e)
         | Found provider \<Rightarrow>
             if ps_Phase (ep_Status provider) \<noteq> ''Ready'' then
               Inr (Skipped (Errorf ''ExternalProvider %q is not ready (phase: %s)''
                      [ArgS (pref_Name (Ref ref)), ArgS (ps_Phase (ep_Status provider))]))
             else
               (case ResolvePath (Path ref) (em_mergeConfig (Config (ep_Spec provider)) (RefConfig ref)) (TargetModel ref) of
                  Inl e \<Rightarrow> Inr (Skipped (Errorf ''path %q: %v'' [ArgS (Path ref), ArgE e]))
                | Inr _ \<Rightarrow>
                    (case GetConnectionSettings (meta_Annotations (ep_Meta provider)) of
                       Inl e \<Rightarrow> Inr (Skipped (Errorf ''ExternalProvider %q: %v'' [ArgS (pref_Name (Ref ref)), ArgE e]))
                     | Inr conn \<Rightarrow>
                         Inr (Resolved \<lparr>rf_providerName = meta_Name (ep_Meta provider),
                                        rf_providerEndpoint = Endpoint (ep_Spec provider),
                                        rf_targetModel = TargetModel ref, rf_port = Port conn\<rparr>)))))"

fun resolve_route_refs ::
  "(NamespacedName \<Rightarrow> ExternalProvider fetched) \<Rightarrow> ExternalModel \<Rightarrow> ExternalProviderRef list \<Rightarrow>
     (resolvedRef list \<times> err list) result" where
  "resolve_route_refs get model [] = Inr ([], [])"
| "resolve_route_refs get model (ref # refs) =
     (case resolve_route_ref get model ref of
        Inl e \<Rightarrow> Inl e
      | Inr outcome \<Rightarrow>
          (case resolve_route_refs get model refs of
             Inl e \<Rightarrow> Inl e
           | Inr (found, reasons) \<Rightarrow>
               (case outcome of
                  Resolved x \<Rightarrow> Inr (x # found, reasons)
                | Skipped reason \<Rightarrow> Inr (found, reason # reasons))))"

definition route_key :: "HTTPRoute \<Rightarrow> NamespacedName" where
  "route_key hr = object_key (hr_Meta hr)"

definition same_route :: "HTTPRoute \<Rightarrow> HTTPRoute \<Rightarrow> bool" where
  "same_route existing desired \<longleftrightarrow>
     hr_Spec existing = hr_Spec desired \<and> gmap_eq (meta_Labels (hr_Meta existing)) (meta_Labels (hr_Meta desired)) \<and>
     meta_Owners (hr_Meta existing) = meta_Owners (hr_Meta desired)"

definition merge_route :: "HTTPRoute \<Rightarrow> HTTPRoute \<Rightarrow> HTTPRoute" where
  "merge_route existing desired =
     existing\<lparr>hr_Spec := hr_Spec desired,
              hr_Meta := (hr_Meta existing)\<lparr>meta_Labels := meta_Labels (hr_Meta desired),
                                            meta_Owners := meta_Owners (hr_Meta desired)\<rparr>\<rparr>"

definition applyHTTPRoute :: "'w em_client \<Rightarrow> HTTPRoute \<Rightarrow> 'w \<Rightarrow> 'w \<times> err option" where
  "applyHTTPRoute c desired w = apply_object (em_routes c) route_key same_route merge_route desired w"

definition deleteOwnedHTTPRoute :: "kube_lib \<Rightarrow> 'w em_client \<Rightarrow> ExternalModel \<Rightarrow> 'w \<Rightarrow> 'w \<times> err option" where
  "deleteOwnedHTTPRoute lib c model w =
     (case kube_get (em_routes c) (object_key (em_Meta model)) w of
        NotFound \<Rightarrow> (w, None)
      | Failed e \<Rightarrow> (w, Some e)
      | Found route \<Rightarrow>
          if gstr (meta_Labels (hr_Meta route)) LabelManagedBy \<noteq> em_managedByValue \<or>
             \<not> IsControlledBy lib (hr_Meta route) (em_Meta model) then (w, None)
          else (case kube_delete (em_routes c) \<lparr>pre_UID = Some (meta_UID (hr_Meta route)), pre_ResourceVersion = None\<rparr> route w of
                  (w, DeleteFailed e) \<Rightarrow> (w, Some e)
                | (w, _) \<Rightarrow> (w, None)))"

text \<open>The status update; its outcome is only logged.\<close>

definition em_setStatus ::
  "kube_lib \<Rightarrow> 'w em_client \<Rightarrow> string \<Rightarrow> string \<Rightarrow> string \<Rightarrow> string \<Rightarrow> ExternalModel \<Rightarrow> 'w \<Rightarrow> ExternalModel \<times> 'w" where
  "em_setStatus lib c phase condStatus reason msg model w =
     (let status = em_Status model;
          condition = \<lparr>cond_Type = ConditionTypeReady, cond_Status = condStatus, cond_Reason = reason,
                       cond_Message = msg, cond_ObservedGeneration = meta_Generation (em_Meta model)\<rparr>;
          model = model\<lparr>em_Status := status\<lparr>ms_Phase := phase,
                                            ms_Conditions := SetStatusCondition lib condition (ms_Conditions status)\<rparr>\<rparr>
      in (model, fst (em_updateStatus c model w)))"

text \<open>The end of \<^verbatim>\<open>reconcileHTTPRoute\<close>: build the route, set its owner, apply it.\<close>

definition desired_route :: "emReconciler \<Rightarrow> ExternalModel \<Rightarrow> resolvedRef list \<Rightarrow> HTTPRoute result" where
  "desired_route r model found =
     buildHTTPRoute found (meta_Name (em_Meta model)) (em_clientModelName model) (meta_Namespace (em_Meta model))
       (gatewayName r) (gatewayNamespace r) (routeTimeout r) (em_commonLabels (meta_Name (em_Meta model)))"

definition publish_route ::
  "emReconciler \<Rightarrow> kube_lib \<Rightarrow> 'w em_client \<Rightarrow> ExternalModel \<Rightarrow> resolvedRef list \<Rightarrow> 'w \<Rightarrow> 'w \<times> err option" where
  "publish_route r lib c model found w =
     (case desired_route r model found of
        Inl e \<Rightarrow> (w, Some e)
      | Inr hr \<Rightarrow>
          (case SetControllerReference lib (em_Meta model) (hr_Meta hr) of
             Inl e \<Rightarrow> (w, Some (WrapErr ''failed to set owner on HTTPRoute: %w'' [] e))
           | Inr meta \<Rightarrow>
               (case applyHTTPRoute c (hr\<lparr>hr_Meta := meta\<rparr>) w of
                  (w, Some e) \<Rightarrow> (w, Some (WrapErr ''failed to apply HTTPRoute: %w'' [] e))
                | (w, None) \<Rightarrow> (w, None))))"

definition reconcileHTTPRoute ::
  "emReconciler \<Rightarrow> kube_lib \<Rightarrow> 'w em_client \<Rightarrow> ExternalModel \<Rightarrow> 'w \<Rightarrow> ExternalModel \<times> 'w \<times> err option" where
  "reconcileHTTPRoute r lib c model w =
     (let refs = ExternalProviderRefs (em_Spec model); name = meta_Name (em_Meta model)
      in if refs = [] then (model, w, Some (Errorf ''ExternalModel %q has no externalProviderRefs'' [ArgS name]))
         else case resolve_route_refs (\<lambda>k. kube_get (em_providers c) k w) model refs of
           Inl e \<Rightarrow> (model, w, Some e)
         | Inr (found, skipReasons) \<Rightarrow>
             if found \<noteq> [] then (model, publish_route r lib c model found w)
             else
               (let failure = Errorf ''ExternalModel %q: no provider refs resolved successfully: %s''
                                (ArgS name # map ArgE skipReasons)
                in if list_all (foreign_ref model) refs then
                     (case deleteOwnedHTTPRoute lib c model w of
                        (w, Some e) \<Rightarrow> (model, w, Some (WrapErr ''failed to remove stale HTTPRoute: %w'' [] e))
                      | (w, None) \<Rightarrow>
                          (model\<lparr>em_Status := (em_Status model)\<lparr>ms_HTTPRouteName := []\<rparr>\<rparr>, w, Some failure))
                   else (model, w, Some failure)))"

text \<open>\<open>errText\<close> is \<^verbatim>\<open>err.Error()\<close>, the text of an error.\<close>

definition em_Reconcile ::
  "emReconciler \<Rightarrow> kube_lib \<Rightarrow> 'w em_client \<Rightarrow> (err \<Rightarrow> string) \<Rightarrow> NamespacedName \<Rightarrow> 'w \<Rightarrow> 'w \<times> err option" where
  "em_Reconcile r lib c errText req w =
     (case kube_get (em_models c) req w of
        NotFound \<Rightarrow> (w, None)
      | Failed e \<Rightarrow> (w, Some e)
      | Found model \<Rightarrow>
          if meta_Deleted (em_Meta model) then (w, None)
          else if IsAGCAttached model \<or> IsAGCServed model then
            (case deleteOwnedHTTPRoute lib c model w of
               (w, Some e) \<Rightarrow>
                 (w, Some (WrapErr ''failed to withdraw HTTPRoute for AGC-managed ExternalModel %q: %w''
                             [ArgS (meta_Name (em_Meta model))] e))
             | (w, None) \<Rightarrow> (w, None))
          else
            (case (if ms_Phase (em_Status model) = []
                   then em_setStatus lib c ''Pending'' ''False'' ''Reconciling'' ''Reconciliation in progress'' model w
                   else (model, w)) of
               (model, w) \<Rightarrow>
                 (case reconcileHTTPRoute r lib c model w of
                    (model, w, Some e) \<Rightarrow>
                      (snd (em_setStatus lib c ''Failed'' ''False'' ''ReconcileFailed'' (errText e) model w), Some e)
                  | (model, w, None) \<Rightarrow>
                      (let model = model\<lparr>em_Status := (em_Status model)\<lparr>ms_HTTPRouteName := meta_Name (em_Meta model)\<rparr>\<rparr>
                       in (snd (em_setStatus lib c ''Ready'' ''True'' ''Reconciled'' ''HTTPRoute created successfully'' model w),
                           None)))))"

text \<open>The watch that queues the models of a changed provider.\<close>

definition MapProviderToModels ::
  "(string \<Rightarrow> ExternalModel list result) \<Rightarrow> ExternalProvider \<Rightarrow> NamespacedName list" where
  "MapProviderToModels listIn provider =
     (case listIn (meta_Namespace (ep_Meta provider)) of
        Inl _ \<Rightarrow> []
      | Inr items \<Rightarrow>
          concat (map (\<lambda>model.
            map (\<lambda>ref. object_key (em_Meta model))
              (filter (\<lambda>ref. pref_Name (Ref ref) = meta_Name (ep_Meta provider))
                 (ExternalProviderRefs (em_Spec model)))) items))"

section \<open>Which rule a request takes\<close>

text \<open>
  The Gateway API on path and header matches: a path prefix matches whole path elements, header names are
  compared without letter case, the headers of a match must all agree, and a match without a path is the
  prefix \<^verbatim>\<open>/\<close>. Among the rules that match, the one with the longest prefix wins, then the one with the most
  headers.
\<close>

definition match_prefix :: "HTTPRouteMatch \<Rightarrow> string" where
  "match_prefix m = (case rm_Path m of None \<Rightarrow> ''/'' | Some (_, p) \<Rightarrow> p)"

definition prefix_matches :: "string \<Rightarrow> string \<Rightarrow> bool" where
  "prefix_matches p path \<longleftrightarrow> (let q = trimSuffix p ''/'' in path = q \<or> hasPrefix path (q @ ''/''))"

definition header_matches :: "string gomap \<Rightarrow> HTTPHeaderMatch \<Rightarrow> bool" where
  "header_matches hs h \<longleftrightarrow> list_ex (\<lambda>(k, v). equalFold k (hm_Name h) \<and> v = hm_Value h) hs"

definition match_ok :: "string \<Rightarrow> string gomap \<Rightarrow> HTTPRouteMatch \<Rightarrow> bool" where
  "match_ok path hs m \<longleftrightarrow> prefix_matches (match_prefix m) path \<and> list_all (header_matches hs) (rm_Headers m)"

definition rule_ok :: "string \<Rightarrow> string gomap \<Rightarrow> HTTPRouteRule \<Rightarrow> bool" where
  "rule_ok path hs rule \<longleftrightarrow> list_ex (match_ok path hs) (rule_Matches rule)"

definition more_specific :: "HTTPRouteMatch \<Rightarrow> HTTPRouteMatch \<Rightarrow> bool" where
  "more_specific a b \<longleftrightarrow>
     length (match_prefix b) < length (match_prefix a) \<or>
     length (match_prefix b) = length (match_prefix a) \<and> length (rm_Headers b) < length (rm_Headers a)"

text \<open>A rule the gateway may choose: one of its matches holds and no match that holds is more specific.\<close>

definition chosen :: "HTTPRoute \<Rightarrow> string \<Rightarrow> string gomap \<Rightarrow> HTTPRouteRule \<Rightarrow> bool" where
  "chosen hr path hs rule \<longleftrightarrow> rule \<in> set (Rules (hr_Spec hr)) \<and>
     (\<exists>m \<in> set (rule_Matches rule). match_ok path hs m \<and>
        (\<forall>rule' \<in> set (Rules (hr_Spec hr)). \<forall>m' \<in> set (rule_Matches rule').
           match_ok path hs m' \<longrightarrow> \<not> more_specific m' m))"

text \<open>Where a rule sends a request.\<close>

definition leads_to :: "HTTPRouteRule \<Rightarrow> resolvedRef \<Rightarrow> bool" where
  "leads_to rule ref \<longleftrightarrow>
     rule_BackendRefs rule = [\<lparr>backend_Name = rf_providerName ref, backend_Port = rf_port ref\<rparr>] \<and>
     rule_SetHeaders rule = [(''Host'', rf_providerEndpoint ref)]"

text \<open>The request names this provider and no other.\<close>

definition names_provider :: "string gomap \<Rightarrow> string \<Rightarrow> bool" where
  "names_provider hs p \<longleftrightarrow>
     (\<exists>k. equalFold k em_selectedProviderHeader \<and> (k, p) \<in> set hs) \<and>
     (\<forall>k v. equalFold k em_selectedProviderHeader \<and> (k, v) \<in> set hs \<longrightarrow> v = p)"

lemma leads_to_route_rule [simp]: "leads_to (route_rule m ref t) ref"
  by (simp add: leads_to_def route_rule_def)

lemma rule_Matches_route_rule [simp]: "rule_Matches (route_rule m ref t) = [m]"
  by (simp add: route_rule_def)

lemma selected_header_matches:
  "names_provider hs p \<Longrightarrow> header_matches hs (exact_header em_selectedProviderHeader v) \<longleftrightarrow> v = p"
  by (auto simp: names_provider_def header_matches_def exact_header_def list_ex_iff)

lemma built_rules:
  assumes "buildHTTPRoute refs name client ns gw gwns t labels = Inr hr"
  obtains first rest where "refs = first # rest"
    "Rules (hr_Spec hr) = concat (map (ref_rules (''/'' @ ns @ ''/'' @ name) client t) refs) @
       fallback_rules (''/'' @ ns @ ''/'' @ name) client t first"
  using assms by (cases refs) (auto simp: buildHTTPRoute_def Let_def)

lemma built_rule_cases:
  assumes "buildHTTPRoute refs name client ns gw gwns t labels = Inr hr" "rule \<in> set (Rules (hr_Spec hr))"
  obtains ref where "ref \<in> set refs" "rule \<in> set (ref_rules (''/'' @ ns @ ''/'' @ name) client t ref)"
    | "rule \<in> set (fallback_rules (''/'' @ ns @ ''/'' @ name) client t (hd refs))"
  using assms(1)
proof (rule built_rules)
  fix first rest
  assume "refs = first # rest" "Rules (hr_Spec hr) = concat (map (ref_rules (''/'' @ ns @ ''/'' @ name) client t) refs) @
       fallback_rules (''/'' @ ns @ ''/'' @ name) client t first"
  with assms(2) that show thesis by auto
qed

lemma ref_rule_in_route:
  "buildHTTPRoute refs name client ns gw gwns t labels = Inr hr \<Longrightarrow> ref \<in> set refs \<Longrightarrow>
     rule \<in> set (ref_rules (''/'' @ ns @ ''/'' @ name) client t ref) \<Longrightarrow> rule \<in> set (Rules (hr_Spec hr))"
  by (erule built_rules) auto

lemma ref_rule_matches:
  assumes "names_provider hs p" "rule \<in> set (ref_rules prefix client t ref)" "rule_ok path hs rule"
  shows "rf_providerName ref = p"
  using assms
  by (auto simp: ref_rules_def rule_ok_def match_ok_def selected_header_matches)

text \<open>A provider's own rule beats the fallback rule that matches as well.\<close>

lemma fallback_beaten:
  assumes "names_provider hs (rf_providerName ref)" "rule \<in> set (fallback_rules prefix client t first)"
    and "m \<in> set (rule_Matches rule)" "match_ok path hs m"
  shows "\<exists>rule' \<in> set (ref_rules prefix client t ref). \<exists>m' \<in> set (rule_Matches rule').
    match_ok path hs m' \<and> more_specific m' m"
  using assms
  by (auto simp: fallback_rules_def ref_rules_def match_ok_def more_specific_def match_prefix_def selected_header_matches)

lemma chosen_rule_own:
  assumes "buildHTTPRoute refs name client ns gw gwns t labels = Inr hr" "ref \<in> set refs"
    and "names_provider hs (rf_providerName ref)" "chosen hr path hs rule"
  shows "\<exists>ref' \<in> set refs. rf_providerName ref' = rf_providerName ref \<and> leads_to rule ref'"
proof -
  from assms(4) obtain m where m: "rule \<in> set (Rules (hr_Spec hr))" "m \<in> set (rule_Matches rule)" "match_ok path hs m"
    "\<forall>rule' \<in> set (Rules (hr_Spec hr)). \<forall>m' \<in> set (rule_Matches rule'). match_ok path hs m' \<longrightarrow> \<not> more_specific m' m"
    by (auto simp: chosen_def)
  then have ok: "rule_ok path hs rule" by (auto simp: rule_ok_def list_ex_iff)
  from assms(1) m(1) show ?thesis
  proof (rule built_rule_cases)
    fix ref'
    assume r: "ref' \<in> set refs" "rule \<in> set (ref_rules (''/'' @ ns @ ''/'' @ name) client t ref')"
    then have "leads_to rule ref'" by (auto simp: ref_rules_def)
    with r ref_rule_matches [OF assms(3) r(2) ok] show ?thesis by blast
  next
    assume "rule \<in> set (fallback_rules (''/'' @ ns @ ''/'' @ name) client t (hd refs))"
    from fallback_beaten [OF assms(3) this m(2,3)] ref_rule_in_route [OF assms(1,2)] m(4) show ?thesis
      by blast
  qed
qed

lemma unnamed_rule_fallback:
  assumes "buildHTTPRoute refs name client ns gw gwns t labels = Inr hr" "p \<notin> rf_providerName ` set refs"
    and "names_provider hs p" "rule \<in> set (Rules (hr_Spec hr))" "rule_ok path hs rule"
  shows "leads_to rule (hd refs)"
  using assms(1,4)
proof (rule built_rule_cases)
  fix ref
  assume "ref \<in> set refs" "rule \<in> set (ref_rules (''/'' @ ns @ ''/'' @ name) client t ref)"
  with ref_rule_matches [OF assms(3) _ assms(5)] assms(2) show ?thesis by blast
next
  assume "rule \<in> set (fallback_rules (''/'' @ ns @ ''/'' @ name) client t (hd refs))"
  then show ?thesis by (auto simp: fallback_rules_def)
qed

text \<open>Only the rules of a route decide which of them is chosen.\<close>

lemma chosen_same_spec: "hr_Spec a = hr_Spec b \<Longrightarrow> chosen a path hs rule = chosen b path hs rule"
  by (simp add: chosen_def)

text \<open>What a resolved reference stands for: a local provider that is ready, with a path that resolves.\<close>

definition servable :: "(NamespacedName \<Rightarrow> ExternalProvider fetched) \<Rightarrow> ExternalModel \<Rightarrow> ExternalProviderRef \<Rightarrow> resolvedRef \<Rightarrow> bool" where
  "servable get model ref rf \<longleftrightarrow> \<not> foreign_ref model ref \<and>
     (\<exists>provider path conn.
        get \<lparr>nn_Namespace = meta_Namespace (em_Meta model), nn_Name = pref_Name (Ref ref)\<rparr> = Found provider \<and>
        ps_Phase (ep_Status provider) = ''Ready'' \<and>
        ResolvePath (Path ref) (em_mergeConfig (Config (ep_Spec provider)) (RefConfig ref)) (TargetModel ref) = Inr path \<and>
        GetConnectionSettings (meta_Annotations (ep_Meta provider)) = Inr conn \<and>
        rf = \<lparr>rf_providerName = meta_Name (ep_Meta provider), rf_providerEndpoint = Endpoint (ep_Spec provider),
              rf_targetModel = TargetModel ref, rf_port = Port conn\<rparr>)"

lemma resolve_route_ref_iff: "resolve_route_ref get model ref = Inr (Resolved rf) \<longleftrightarrow> servable get model ref rf"
  unfolding resolve_route_ref_def servable_def
  by (cases "get \<lparr>nn_Namespace = meta_Namespace (em_Meta model), nn_Name = pref_Name (Ref ref)\<rparr>")
    (auto split: sum.splits)

lemma resolve_route_refs_iff:
  "resolve_route_refs get model refs = Inr (found, reasons) \<Longrightarrow>
     rf \<in> set found \<longleftrightarrow> (\<exists>ref \<in> set refs. servable get model ref rf)"
proof (induction refs arbitrary: found reasons)
  case (Cons ref refs)
  then obtain outcome found' reasons' where
    *: "resolve_route_ref get model ref = Inr outcome" "resolve_route_refs get model refs = Inr (found', reasons')"
      "(found, reasons) = (case outcome of Resolved x \<Rightarrow> (x # found', reasons') | Skipped e \<Rightarrow> (found', e # reasons'))"
    by (auto split: sum.splits ref_outcome.splits)
  from * Cons.IH [OF *(2)] show ?case
    by (cases outcome) (auto simp flip: resolve_route_ref_iff)
qed simp

text \<open>The route of a model sends a request to the provider the resolver named. For a route built from any
  resolved references, whichever rule the Gateway API's precedence chooses for a request whose
  \<^verbatim>\<open>x-ipp-selected-provider\<close> header names one of them, the backend is that provider's Service and the \<^verbatim>\<open>Host\<close>
  header its endpoint, on the model's path and on any other path alike.\<close>

theorem route_follows_selection:
  assumes "buildHTTPRoute refs name client ns gw gwns t labels = Inr hr" "ref \<in> set refs"
    and "names_provider hs (rf_providerName ref)" "chosen hr path hs rule"
  shows "\<exists>ref' \<in> set refs. rf_providerName ref' = rf_providerName ref \<and> leads_to rule ref'"
  using assms by (rule chosen_rule_own)

definition sample_route_refs :: "resolvedRef list" where
  "sample_route_refs =
     [\<lparr>rf_providerName = ''a'', rf_providerEndpoint = ''a.example.com'', rf_targetModel = ''m'', rf_port = 443\<rparr>,
      \<lparr>rf_providerName = ''b'', rf_providerEndpoint = ''b.example.com'', rf_targetModel = ''m'', rf_port = 443\<rparr>]"

definition sample_route :: "HTTPRoute result" where
  "sample_route = buildHTTPRoute sample_route_refs ''m'' ''gpt'' ''team'' ''gw'' ''ns'' ''300s'' []"

definition sample_b_rule :: HTTPRouteRule where
  "sample_b_rule = ref_rules ''/team/m'' ''gpt'' ''300s'' (sample_route_refs ! 1) ! 0"

lemma sample_b_rule_chosen:
  "case sample_route of Inl _ \<Rightarrow> False | Inr hr \<Rightarrow>
     chosen hr ''/team/m/v1/chat/completions'' [(em_selectedProviderHeader, ''b'')] sample_b_rule"
  unfolding chosen_def by code_simp

theorem route_follows_selection_witness:
  "\<exists>hr rule. sample_route = Inr hr \<and> chosen hr ''/team/m/v1/chat/completions'' [(em_selectedProviderHeader, ''b'')] rule \<and>
     rule_SetHeaders rule = [(''Host'', ''b.example.com'')]"
proof -
  obtain hr where hr: "sample_route = Inr hr"
    "chosen hr ''/team/m/v1/chat/completions'' [(em_selectedProviderHeader, ''b'')] sample_b_rule"
    using sample_b_rule_chosen by (auto split: sum.splits)
  have "names_provider [(em_selectedProviderHeader, ''b'')] (rf_providerName (sample_route_refs ! 1))"
    by (auto simp: names_provider_def sample_route_refs_def)
  moreover have "sample_route_refs ! 1 \<in> set sample_route_refs" by (simp add: sample_route_refs_def)
  ultimately have "\<exists>ref' \<in> set sample_route_refs. rf_providerName ref' = ''b'' \<and> leads_to sample_b_rule ref'"
    using route_follows_selection [OF hr(1) [unfolded sample_route_def] _ _ hr(2), of "sample_route_refs ! 1"]
    by (simp add: sample_route_refs_def)
  with hr show ?thesis by (auto simp: sample_route_refs_def leads_to_def)
qed

section \<open>What a reconcile leaves behind\<close>

text \<open>The part of a route that the API server keeps as it is given.\<close>

definition route_content :: "HTTPRoute \<Rightarrow> (string \<rightharpoonup> string) \<times> OwnerReference list \<times> HTTPRouteSpec" where
  "route_content hr = (map_of (meta_Labels (hr_Meta hr)), meta_Owners (hr_Meta hr), hr_Spec hr)"

lemma same_route_content: "same_route existing desired \<Longrightarrow> route_content existing = route_content desired"
  by (simp add: same_route_def route_content_def gmap_eq_iff)

lemma merge_route_content:
  "route_content (merge_route existing desired) = route_content desired"
  "route_key (merge_route existing desired) = route_key existing"
  by (simp_all add: merge_route_def route_content_def route_key_def object_key_def)

text \<open>The route a model owns: under the model's key, with the controller's label and owner.\<close>

definition owned_route :: "kube_lib \<Rightarrow> ExternalModel \<Rightarrow> HTTPRoute \<Rightarrow> bool" where
  "owned_route lib model route \<longleftrightarrow>
     gstr (meta_Labels (hr_Meta route)) LabelManagedBy = em_managedByValue \<and>
     IsControlledBy lib (hr_Meta route) (em_Meta model)"

lemma em_setStatus_fields:
  "em_Meta (fst (em_setStatus lib c ph st rs msg model w)) = em_Meta model"
  "em_Spec (fst (em_setStatus lib c ph st rs msg model w)) = em_Spec model"
  "foreign_ref (fst (em_setStatus lib c ph st rs msg model w)) = foreign_ref model"
  by (simp_all add: em_setStatus_def Let_def foreign_ref_def fun_eq_iff)

text \<open>A cluster: the client for routes keeps its promises, and a status update writes no route.\<close>

locale em_cluster = kube_client "em_routes c" route_key hr_Meta route_content stored + kube_library lib
  for c :: "'w em_client" and lib :: kube_lib and stored :: "'w \<Rightarrow> NamespacedName \<Rightarrow> HTTPRoute option" +
  assumes status_writes_no_route: "stored (fst (em_updateStatus c model w)) = stored w"
    and status_writes_no_provider: "kube_get (em_providers c) k (fst (em_updateStatus c model w)) = kube_get (em_providers c) k w"
begin

lemma setStatus_keeps_routes [simp]:
  "stored (snd (em_setStatus lib c ph st rs msg model w)) = stored w"
  by (simp add: em_setStatus_def Let_def status_writes_no_route)

lemma applied_route:
  assumes "applyHTTPRoute c hr w = (w', None)"
  shows "\<exists>y. stored w' = (stored w)(route_key hr \<mapsto> y) \<and> route_key y = route_key hr \<and> route_content y = route_content hr"
  by (rule apply_done [OF assms [unfolded applyHTTPRoute_def]])
    (auto simp: same_route_content merge_route_content)

lemma applied_elsewhere:
  assumes "applyHTTPRoute c hr w = (w', r)" "k \<noteq> route_key hr"
  shows "stored w' k = stored w k"
  by (rule apply_other [OF assms(1) [unfolded applyHTTPRoute_def] assms(2)]) (simp add: merge_route_content)

text \<open>Withdrawing deletes the model's own route and nothing else.\<close>

lemma withdrawn:
  assumes "deleteOwnedHTTPRoute lib c model w = (w', None)"
  shows "stored w' = (\<lambda>k. case stored w k of
      None \<Rightarrow> None
    | Some route \<Rightarrow> if k = object_key (em_Meta model) \<and> owned_route lib model route then None else Some route)"
proof (cases "kube_get (em_routes c) (object_key (em_Meta model)) w")
  case (Found route)
  note here = get_Found [OF Found]
  show ?thesis
  proof (cases "owned_route lib model route")
    case True
    with assms Found obtain r where "kube_delete (em_routes c) \<lparr>pre_UID = Some (meta_UID (hr_Meta route)), pre_ResourceVersion = None\<rparr> route w = (w', r)" "r \<in> {Deleted, AlreadyGone}"
      by (auto simp: deleteOwnedHTTPRoute_def owned_route_def split: prod.splits delete_result.splits)
    from delete_done [OF this] here True show ?thesis
      by (auto simp: fun_eq_iff split: option.splits)
  next
    case False
    with assms Found have "w' = w" by (auto simp: deleteOwnedHTTPRoute_def owned_route_def)
    with False here show ?thesis by (auto simp: fun_eq_iff split: option.splits)
  qed
next
  case NotFound
  from get_NotFound [OF NotFound] assms NotFound show ?thesis
    by (auto simp: deleteOwnedHTTPRoute_def fun_eq_iff split: option.splits)
next
  case (Failed e)
  with assms show ?thesis by (simp add: deleteOwnedHTTPRoute_def)
qed

lemma withdraw_refused:
  "deleteOwnedHTTPRoute lib c model w = (w', Some e) \<Longrightarrow> stored w' = stored w"
  by (auto simp: deleteOwnedHTTPRoute_def dest: delete_refused
      split: fetched.splits if_splits prod.splits delete_result.splits)

lemma withdraw_elsewhere:
  "deleteOwnedHTTPRoute lib c model w = (w', r) \<Longrightarrow> k \<noteq> object_key (em_Meta model) \<Longrightarrow> stored w' k = stored w k"
  by (cases r) (auto dest!: withdrawn withdraw_refused split: option.splits)

text \<open>The route that is published is the desired one, under the model's key.\<close>

lemma desired_key:
  assumes "desired_route r model found = Inr hr" "SetControllerReference lib (em_Meta model) (hr_Meta hr) = Inr meta"
  shows "route_key (hr\<lparr>hr_Meta := meta\<rparr>) = object_key (em_Meta model)"
    and "meta_Labels meta = em_commonLabels (meta_Name (em_Meta model))"
proof -
  have hr: "hr_Meta hr = new_meta (meta_Name (em_Meta model)) (meta_Namespace (em_Meta model))
      (em_commonLabels (meta_Name (em_Meta model))) []"
    using assms(1) by (auto simp: desired_route_def buildHTTPRoute_def Let_def split: list.splits)
  have "meta = (hr_Meta hr)\<lparr>meta_Owners := meta_Owners meta\<rparr>" by (rule reference_set [OF assms(2)])
  then obtain owners where meta: "meta = (hr_Meta hr)\<lparr>meta_Owners := owners\<rparr>" by blast
  show "route_key (hr\<lparr>hr_Meta := meta\<rparr>) = object_key (em_Meta model)"
    "meta_Labels meta = em_commonLabels (meta_Name (em_Meta model))"
    by (simp_all add: meta hr new_meta_def object_key_def route_key_def)
qed

lemma published:
  assumes "publish_route r lib c model found w = (w', None)"
  shows "\<exists>hr y. desired_route r model found = Inr hr \<and> stored w' = (stored w)(object_key (em_Meta model) \<mapsto> y) \<and>
    hr_Spec y = hr_Spec hr \<and> map_of (meta_Labels (hr_Meta y)) = map_of (em_commonLabels (meta_Name (em_Meta model))) \<and>
    (\<exists>meta. IsControlledBy lib meta (em_Meta model) \<and> meta_Owners (hr_Meta y) = meta_Owners meta)"
proof -
  from assms obtain hr meta where *: "desired_route r model found = Inr hr"
    "SetControllerReference lib (em_Meta model) (hr_Meta hr) = Inr meta"
    "applyHTTPRoute c (hr\<lparr>hr_Meta := meta\<rparr>) w = (w', None)"
    by (auto simp: publish_route_def split: sum.splits prod.splits option.splits)
  from applied_route [OF *(3)] obtain y where "stored w' = (stored w)(object_key (em_Meta model) \<mapsto> y)"
    "route_content y = route_content (hr\<lparr>hr_Meta := meta\<rparr>)"
    unfolding desired_key(1) [OF *(1,2)] by blast
  with *(1) desired_key(2) [OF *(1,2)] reference_controls [OF *(2)] show ?thesis
    by (intro exI [of _ hr] exI [of _ y]) (auto simp: route_content_def)
qed

lemma publish_elsewhere:
  assumes "publish_route r lib c model found w = (w', e)" "k \<noteq> object_key (em_Meta model)"
  shows "stored w' k = stored w k"
proof (cases "w' = w")
  case False
  with assms(1) obtain hr meta e' where *: "desired_route r model found = Inr hr"
    "SetControllerReference lib (em_Meta model) (hr_Meta hr) = Inr meta"
    "applyHTTPRoute c (hr\<lparr>hr_Meta := meta\<rparr>) w = (w', e')"
    by (auto simp: publish_route_def split: sum.splits prod.splits option.splits)
  from applied_elsewhere [OF *(3)] desired_key(1) [OF *(1,2)] assms(2) show ?thesis by simp
qed simp

lemma reconcile_elsewhere:
  assumes "reconcileHTTPRoute r lib c model w = (model', w', e)" "k \<noteq> object_key (em_Meta model)"
  shows "stored w' k = stored w k \<and> em_Meta model' = em_Meta model"
proof (cases "ExternalProviderRefs (em_Spec model) = []")
  case True
  with assms(1) show ?thesis by (simp add: reconcileHTTPRoute_def)
next
  case refs: False
  note def = assms(1) [unfolded reconcileHTTPRoute_def Let_def, simplified refs if_False]
  show ?thesis
  proof (cases "resolve_route_refs (\<lambda>k. kube_get (em_providers c) k w) model (ExternalProviderRefs (em_Spec model))")
    case (Inl err)
    with def show ?thesis by simp
  next
    case (Inr out)
    obtain found reasons where out: "out = (found, reasons)" by (cases out)
    show ?thesis
    proof (cases "found = []")
      case False
      with def Inr out have "publish_route r lib c model found w = (w', e)" "model' = model" by auto
      with publish_elsewhere assms(2) show ?thesis by blast
    next
      case True
      obtain w1 e1 where del: "deleteOwnedHTTPRoute lib c model w = (w1, e1)" by (cases "deleteOwnedHTTPRoute lib c model w")
      with withdraw_elsewhere [OF del assms(2)] def Inr out True show ?thesis
        by (cases e1; cases "list_all (foreign_ref model) (ExternalProviderRefs (em_Spec model))") auto
    qed
  qed
qed

lemma reconcile_published:
  assumes "reconcileHTTPRoute r lib c model w = (model', w', None)"
  shows "model' = model \<and> (\<exists>found reasons.
    resolve_route_refs (\<lambda>k. kube_get (em_providers c) k w) model (ExternalProviderRefs (em_Spec model)) = Inr (found, reasons) \<and>
    publish_route r lib c model found w = (w', None))"
  using assms by (auto simp: reconcileHTTPRoute_def Let_def split: if_splits sum.splits prod.splits option.splits)

text \<open>The model after the first status update; its metadata and spec are those that were read.\<close>

definition started :: "ExternalModel \<Rightarrow> 'w \<Rightarrow> ExternalModel \<times> 'w" where
  "started model w =
     (if ms_Phase (em_Status model) = []
      then em_setStatus lib c ''Pending'' ''False'' ''Reconciling'' ''Reconciliation in progress'' model w
      else (model, w))"

lemma started_facts:
  "em_Meta (fst (started model w)) = em_Meta model" "em_Spec (fst (started model w)) = em_Spec model"
  "stored (snd (started model w)) = stored w"
  "kube_get (em_providers c) k (snd (started model w)) = kube_get (em_providers c) k w"
  by (simp_all add: started_def em_setStatus_fields) (simp add: em_setStatus_def Let_def status_writes_no_provider)

lemma em_Reconcile_live:
  assumes "kube_get (em_models c) req w = Found model" "\<not> meta_Deleted (em_Meta model)"
    and "\<not> IsAGCAttached model" "\<not> IsAGCServed model"
    and "em_Reconcile r lib c errText req w = (w', e)"
  obtains model' w1 where "reconcileHTTPRoute r lib c (fst (started model w)) (snd (started model w)) = (model', w1, e)"
    "stored w' = stored w1"
proof -
  obtain m1 w0 where st: "started model w = (m1, w0)" by (cases "started model w")
  obtain model' w1 e1 where rec: "reconcileHTTPRoute r lib c m1 w0 = (model', w1, e1)"
    by (cases "reconcileHTTPRoute r lib c m1 w0") auto
  have "stored w' = stored w1 \<and> e = e1"
    using assms st [unfolded started_def] rec
    by (cases e1) (auto simp: em_Reconcile_def Let_def)
  with that rec st show thesis by simp
qed

lemma live_published:
  assumes "kube_get (em_models c) req w = Found model" "\<not> meta_Deleted (em_Meta model)"
    and "\<not> IsAGCAttached model" "\<not> IsAGCServed model"
    and "em_Reconcile r lib c errText req w = (w', None)"
  shows "\<exists>found reasons hr y.
    resolve_route_refs (\<lambda>k. kube_get (em_providers c) k w) model (ExternalProviderRefs (em_Spec model)) = Inr (found, reasons) \<and>
    desired_route r model found = Inr hr \<and> stored w' = (stored w)(object_key (em_Meta model) \<mapsto> y) \<and>
    hr_Spec y = hr_Spec hr \<and> map_of (meta_Labels (hr_Meta y)) = map_of (em_commonLabels (meta_Name (em_Meta model)))"
proof -
  obtain m1 w0 where st: "started model w = (m1, w0)" by (cases "started model w")
  have m1: "em_Meta m1 = em_Meta model" "em_Spec m1 = em_Spec model" "stored w0 = stored w"
    "kube_get (em_providers c) k w0 = kube_get (em_providers c) k w" for k
    using started_facts [where model = model and w = w] st by auto
  from assms obtain model' w1 where rec: "reconcileHTTPRoute r lib c m1 w0 = (model', w1, None)" "stored w' = stored w1"
    by (rule em_Reconcile_live) (simp add: st)
  from reconcile_published [OF rec(1)] obtain found reasons where
    res: "resolve_route_refs (\<lambda>k. kube_get (em_providers c) k w0) m1 (ExternalProviderRefs (em_Spec m1)) = Inr (found, reasons)"
      and pub: "publish_route r lib c m1 found w0 = (w1, None)" by blast
  have "resolve_route_ref get m1 ref = resolve_route_ref get model ref" for get ref
    by (simp only: resolve_route_ref_def foreign_ref_def m1(1))
  then have "resolve_route_refs get m1 refs = resolve_route_refs get model refs" for get refs
    by (induction refs) (simp_all only: resolve_route_refs.simps)
  with res m1 have "resolve_route_refs (\<lambda>k. kube_get (em_providers c) k w) model (ExternalProviderRefs (em_Spec model)) = Inr (found, reasons)"
    by simp
  moreover have "desired_route r m1 found = desired_route r model found"
    by (simp add: desired_route_def em_clientModelName_def m1)
  ultimately show ?thesis
    using published [OF pub] rec(2) m1 by auto
qed

end

section \<open>A cluster with maps\<close>

record em_state =
  st_models :: "NamespacedName \<Rightarrow> ExternalModel option"
  st_providers :: "NamespacedName \<Rightarrow> ExternalProvider option"
  st_routes :: "NamespacedName \<Rightarrow> HTTPRoute option"

abbreviation "model_key m \<equiv> object_key (em_Meta m)"
abbreviation "provider_key p \<equiv> object_key (ep_Meta p)"

definition ref_em :: "em_state em_client" where
  "ref_em =
     \<lparr>em_models = ref_kube (\<lambda>s. filed (\<lambda>m. model_key m) (st_models s)) (\<lambda>m s. s\<lparr>st_models := m\<rparr>) (\<lambda>m. model_key m) em_Meta,
      em_providers = ref_kube (\<lambda>s. filed (\<lambda>p. provider_key p) (st_providers s)) (\<lambda>m s. s\<lparr>st_providers := m\<rparr>) (\<lambda>p. provider_key p) ep_Meta,
      em_routes = ref_kube (\<lambda>s. filed route_key (st_routes s)) (\<lambda>m s. s\<lparr>st_routes := m\<rparr>) route_key hr_Meta,
      em_updateStatus = (\<lambda>model s. (s\<lparr>st_models := (st_models s)(model_key model \<mapsto> model)\<rparr>, None))\<rparr>"

interpretation ref_routes: kube_client "em_routes ref_em" route_key hr_Meta route_content "\<lambda>s. filed route_key (st_routes s)"
  unfolding ref_em_def em_client.simps by (rule ref_kube_client) simp

interpretation ref_cluster: em_cluster ref_em ref_lib "\<lambda>s. filed route_key (st_routes s)"
proof (rule em_cluster.intro)
  show "kube_client (em_routes ref_em) route_key hr_Meta route_content (\<lambda>s. filed route_key (st_routes s))"
    by (rule ref_routes.kube_client_axioms)
  show "kube_library ref_lib" by (rule ref_library_ok)
  show "em_cluster_axioms ref_em (\<lambda>s. filed route_key (st_routes s))"
    by unfold_locales (simp_all add: ref_em_def ref_kube_def)
qed

section \<open>Publishing and withdrawing\<close>

lemma reconcile_routes_requests:
  assumes "em_cluster c lib stored" "kube_get (em_models c) req w = Found model"
    and "\<not> meta_Deleted (em_Meta model)" "\<not> IsAGCAttached model" "\<not> IsAGCServed model"
    and "em_Reconcile r lib c errText req w = (w', None)"
  shows "\<exists>route. stored w' = (stored w)(object_key (em_Meta model) \<mapsto> route) \<and>
    (\<forall>ref rf path hs rule. ref \<in> set (ExternalProviderRefs (em_Spec model)) \<and>
       servable (\<lambda>k. kube_get (em_providers c) k w) model ref rf \<and>
       names_provider hs (rf_providerName rf) \<and> chosen route path hs rule \<longrightarrow>
         (\<exists>ref' rf'. ref' \<in> set (ExternalProviderRefs (em_Spec model)) \<and>
            servable (\<lambda>k. kube_get (em_providers c) k w) model ref' rf' \<and>
            rf_providerName rf' = rf_providerName rf \<and> leads_to rule rf'))"
proof -
  from em_cluster.live_published [OF assms] obtain found reasons hr route where
    *: "resolve_route_refs (\<lambda>k. kube_get (em_providers c) k w) model (ExternalProviderRefs (em_Spec model)) = Inr (found, reasons)"
      "desired_route r model found = Inr hr" "stored w' = (stored w)(object_key (em_Meta model) \<mapsto> route)"
      "hr_Spec route = hr_Spec hr" by blast
  have own: "\<exists>rf' \<in> set found. rf_providerName rf' = rf_providerName rf \<and> leads_to rule rf'"
    if "rf \<in> set found" "names_provider hs (rf_providerName rf)" "chosen route path hs rule" for rf path hs rule
    using chosen_rule_own [OF *(2) [unfolded desired_route_def] that(1,2)] that(3)
    by (simp add: chosen_same_spec [OF *(4)])
  from own * resolve_route_refs_iff [OF *(1)] show ?thesis by blast
qed


definition sample_cluster :: em_state where
  "sample_cluster =
     \<lparr>st_models = [\<lparr>nn_Namespace = ''team'', nn_Name = ''gpt''\<rparr> \<mapsto> sample_model ''gpt'' None],
      st_providers = [\<lparr>nn_Namespace = ''team'', nn_Name = ''openai''\<rparr> \<mapsto>
        sample_provider\<lparr>ep_Status := \<lparr>ps_Phase = ''Ready'', ps_ObservedGeneration = 0, ps_Conditions = []\<rparr>\<rparr>],
      st_routes = Map.empty\<rparr>"

definition sample_em :: emReconciler where
  "sample_em = \<lparr>GatewayName = [], GatewayNamespace = [], RouteTimeout = []\<rparr>"

lemma sample_cluster_reconciled:
  "snd (em_Reconcile sample_em ref_lib ref_em (\<lambda>_. []) \<lparr>nn_Namespace = ''team'', nn_Name = ''gpt''\<rparr> sample_cluster) = None"
  by code_simp


text \<open>Handing a model over to the AI gateway controller withdraws its route and writes nothing else. For a
  model with gateway references or with that controller's finalizer, a reconcile that succeeds removes the route
  under the model's key when it carries this controller's label and is controlled by the model, keeps every other
  route, and either leaves the API server as it was or changes it by that one deletion, so the model's status
  is not written.\<close>

theorem em_handoff_withdraws_own_route:
  assumes "em_cluster c lib stored" "kube_get (em_models c) req w = Found model"
    and "\<not> meta_Deleted (em_Meta model)" "IsAGCAttached model \<or> IsAGCServed model"
    and "em_Reconcile r lib c errText req w = (w', None)"
  shows "stored w' = (\<lambda>k. case stored w k of
      None \<Rightarrow> None
    | Some route \<Rightarrow> if k = object_key (em_Meta model) \<and> owned_route lib model route then None else Some route) \<and>
    (w' = w \<or> (\<exists>route pre res. kube_get (em_routes c) (object_key (em_Meta model)) w = Found route \<and>
      owned_route lib model route \<and> kube_delete (em_routes c) pre route w = (w', res)))"
proof (rule conjI)
  from assms have del: "deleteOwnedHTTPRoute lib c model w = (w', None)"
    by (auto simp: em_Reconcile_def split: prod.splits option.splits)
  show "stored w' = (\<lambda>k. case stored w k of
      None \<Rightarrow> None
    | Some route \<Rightarrow> if k = object_key (em_Meta model) \<and> owned_route lib model route then None else Some route)"
    by (rule em_cluster.withdrawn [OF assms(1) del])
  from del show "w' = w \<or> (\<exists>route pre res. kube_get (em_routes c) (object_key (em_Meta model)) w = Found route \<and>
      owned_route lib model route \<and> kube_delete (em_routes c) pre route w = (w', res))"
    by (auto simp: deleteOwnedHTTPRoute_def owned_route_def split: fetched.splits if_splits prod.splits delete_result.splits)
qed

text \<open>The sample model with its route, now claimed by the AI gateway controller.\<close>

definition claimed_model :: ExternalModel where
  "claimed_model = (sample_model ''gpt'' None)\<lparr>em_Meta := (sample_meta ''gpt'')\<lparr>meta_Finalizers := [AGCModelFinalizer]\<rparr>\<rparr>"

definition claimed_route :: HTTPRoute where
  "claimed_route =
     \<lparr>hr_Meta = (new_meta ''gpt'' ''team'' (em_commonLabels ''gpt'') [])\<lparr>meta_Owners :=
        [\<lparr>owner_APIVersion = ''inference.opendatahub.io/v1alpha1'', owner_Kind = ''ExternalModel'', owner_Name = ''gpt'',
          owner_UID = ''uid-gpt'', owner_Controller = True, owner_BlockOwnerDeletion = True\<rparr>]\<rparr>,
      hr_Spec = \<lparr>ParentRefs = [], Rules = []\<rparr>\<rparr>"

definition claimed_cluster :: em_state where
  "claimed_cluster = sample_cluster
     \<lparr>st_models := [\<lparr>nn_Namespace = ''team'', nn_Name = ''gpt''\<rparr> \<mapsto> claimed_model],
      st_routes := [\<lparr>nn_Namespace = ''team'', nn_Name = ''gpt''\<rparr> \<mapsto> claimed_route]\<rparr>"

lemmas claimed_defs = claimed_cluster_def claimed_model_def claimed_route_def sample_model_def sample_meta_def
  em_commonLabels_def new_meta_def object_key_def route_key_def

lemma claimed_reconciled:
  "snd (em_Reconcile sample_em ref_lib ref_em (\<lambda>_. []) \<lparr>nn_Namespace = ''team'', nn_Name = ''gpt''\<rparr> claimed_cluster) = None"
  by code_simp

theorem em_handoff_withdraws_own_route_witness:
  "\<exists>w'. em_Reconcile sample_em ref_lib ref_em (\<lambda>_. []) \<lparr>nn_Namespace = ''team'', nn_Name = ''gpt''\<rparr> claimed_cluster = (w', None) \<and>
     filed route_key (st_routes claimed_cluster) \<lparr>nn_Namespace = ''team'', nn_Name = ''gpt''\<rparr> = Some claimed_route \<and>
     filed route_key (st_routes w') \<lparr>nn_Namespace = ''team'', nn_Name = ''gpt''\<rparr> = None"
proof -
  obtain w' where w': "em_Reconcile sample_em ref_lib ref_em (\<lambda>_. []) \<lparr>nn_Namespace = ''team'', nn_Name = ''gpt''\<rparr> claimed_cluster = (w', None)"
    using claimed_reconciled by (metis prod.collapse)
  have get: "kube_get (em_models ref_em) \<lparr>nn_Namespace = ''team'', nn_Name = ''gpt''\<rparr> claimed_cluster = Found claimed_model"
    by (simp add: ref_em_def ref_kube_def filed_def claimed_defs)
  have facts: "\<not> meta_Deleted (em_Meta claimed_model)" "IsAGCAttached claimed_model \<or> IsAGCServed claimed_model"
    "object_key (em_Meta claimed_model) = \<lparr>nn_Namespace = ''team'', nn_Name = ''gpt''\<rparr>"
    "filed route_key (st_routes claimed_cluster) \<lparr>nn_Namespace = ''team'', nn_Name = ''gpt''\<rparr> = Some claimed_route"
    by (simp_all add: IsAGCServed_def filed_def claimed_defs)
  have "owned_route ref_lib claimed_model claimed_route" by code_simp
  with conjunct1 [OF em_handoff_withdraws_own_route, OF ref_cluster.em_cluster_axioms get facts(1,2) w'] w' facts(3,4)
  show ?thesis by auto
qed

end
