(* ===== verification/Legacy_Migration.thy ===== *)
theory Legacy_Migration
  imports External_Model_Controller
begin

text \<open>
  \<^verbatim>\<open>pkg/controller/legacymigration/reconciler.go\<close>: the controller that turns a legacy
  \<^verbatim>\<open>maas.opendatahub.io\<close> model into an \<^verbatim>\<open>ExternalProvider\<close> and an \<^verbatim>\<open>ExternalModel\<close>.

  The comparison of specs is equality: the desired specs have no configuration maps, so the order of map
  entries does not matter.
\<close>

abbreviation labelMigratedFrom where "labelMigratedFrom \<equiv> ''inference.opendatahub.io/migrated-from''"
abbreviation lm_managedByValue where "lm_managedByValue \<equiv> ''ipp-legacy-migration''"

text \<open>\<^verbatim>\<open>unstructured.NestedString\<close> below \<^verbatim>\<open>spec\<close>, with the found flag and the error ignored.\<close>

definition NestedString :: "Unstructured \<Rightarrow> string list \<Rightarrow> string" where
  "NestedString obj keys = (case leaf (map Key keys) (u_Spec obj) of None \<Rightarrow> [] | Some s \<Rightarrow> s)"

record 'w lm_client =
  lm_legacy :: "NamespacedName \<Rightarrow> 'w \<Rightarrow> Unstructured fetched"
  lm_providers :: "(ExternalProvider, 'w) kube"
  lm_models :: "(ExternalModel, 'w) kube"

definition ownerReferenceFromLegacy :: "Unstructured \<Rightarrow> OwnerReference" where
  "ownerReferenceFromLegacy old =
     \<lparr>owner_APIVersion = u_APIVersion old, owner_Kind = u_Kind old, owner_Name = meta_Name (u_Meta old),
      owner_UID = meta_UID (u_Meta old), owner_Controller = True, owner_BlockOwnerDeletion = True\<rparr>"

definition isManagedByMigration :: "string gomap \<Rightarrow> bool" where
  "isManagedByMigration labels \<longleftrightarrow> gstr labels LabelManagedBy = lm_managedByValue"

text \<open>One turn of the loop over the connection keys.\<close>

definition merge_key :: "string gomap \<Rightarrow> string \<Rightarrow> string gomap \<Rightarrow> string gomap" where
  "merge_key desired key res = (case map_of desired key of Some v \<Rightarrow> gset key v res | None \<Rightarrow> gdel key res)"

definition mergeConnectionAnnotations :: "string gomap \<Rightarrow> string gomap \<Rightarrow> string gomap" where
  "mergeConnectionAnnotations existing desired = fold (merge_key desired) [AnnotationPort, AnnotationTLS] (gcopy [] existing)"

definition forwardConnectionAnnotations :: "string gomap \<Rightarrow> string gomap" where
  "forwardConnectionAnnotations oldAnnotations =
     gset_opt AnnotationTLS (map_of oldAnnotations LegacyAnnotationTLS)
       (gset_opt AnnotationPort (map_of oldAnnotations LegacyAnnotationPort) [])"

definition mapProviderToAPIFormat :: "string \<Rightarrow> string" where
  "mapProviderToAPIFormat provider = (if provider = ''anthropic'' then ''messages'' else ''openai-chat'')"

definition mapProviderToDefaultPath :: "string \<Rightarrow> string" where
  "mapProviderToDefaultPath provider =
     (if provider = ''anthropic'' then ''/v1/messages''
      else if provider = ''azure'' \<or> provider = ''azure-openai'' then ''/openai/v1/chat/completions''
      else if provider = ''vertex-openai''
        then ''/v1/projects/{project}/locations/{location}/endpoints/{endpoint}/chat/completions''
      else ''/v1/chat/completions'')"

text \<open>The objects a legacy model stands for.\<close>

definition lm_labels :: "NamespacedName \<Rightarrow> string gomap" where
  "lm_labels req = [(LabelManagedBy, lm_managedByValue), (labelMigratedFrom, nn_Name req)]"

definition desired_provider :: "NamespacedName \<Rightarrow> Unstructured \<Rightarrow> ExternalProvider" where
  "desired_provider req old =
     \<lparr>ep_Meta = (new_meta (nn_Name req) (nn_Namespace req) (lm_labels req) (forwardConnectionAnnotations (meta_Annotations (u_Meta old))))
        \<lparr>meta_Owners := [ownerReferenceFromLegacy old]\<rparr>,
      ep_Spec = \<lparr>Provider = NestedString old [''provider''], Endpoint = NestedString old [''endpoint''],
                 Auth = \<lparr>auth_Type = ''apikey'', auth_SecretRef = \<lparr>nameref_Name = NestedString old [''credentialRef'', ''name'']\<rparr>\<rparr>,
                 Config = []\<rparr>,
      ep_Status = \<lparr>ps_Phase = [], ps_ObservedGeneration = 0, ps_Conditions = []\<rparr>\<rparr>"

definition desired_model :: "NamespacedName \<Rightarrow> Unstructured \<Rightarrow> ExternalModel" where
  "desired_model req old =
     \<lparr>em_Meta = (new_meta (nn_Name req) (nn_Namespace req) (lm_labels req) [])\<lparr>meta_Owners := [ownerReferenceFromLegacy old]\<rparr>,
      em_Spec = \<lparr>ModelName = [],
                 ExternalProviderRefs =
                   [\<lparr>Ref = \<lparr>pref_Name = nn_Name req, pref_Namespace = []\<rparr>, TargetModel = NestedString old [''targetModel''],
                     APIFormat = mapProviderToAPIFormat (NestedString old [''provider'']),
                     Path = mapProviderToDefaultPath (NestedString old [''provider'']),
                     RefConfig = [], RefAuth = None, Weight = None\<rparr>],
                 GatewayRefs = []\<rparr>,
      em_Status = \<lparr>ms_Phase = [], ms_HTTPRouteName = [], ms_ObservedGeneration = 0, ms_OverlayDigest = [],
        ms_OverlayGeneration = 0, ms_Conditions = [], ms_Gateways = []\<rparr>\<rparr>"

definition same_provider :: "ExternalProvider \<Rightarrow> ExternalProvider \<Rightarrow> bool" where
  "same_provider existing desired \<longleftrightarrow>
     ep_Spec existing = ep_Spec desired \<and>
     gmap_eq (meta_Annotations (ep_Meta existing))
       (mergeConnectionAnnotations (meta_Annotations (ep_Meta existing)) (meta_Annotations (ep_Meta desired)))"

definition merge_provider :: "ExternalProvider \<Rightarrow> ExternalProvider \<Rightarrow> ExternalProvider" where
  "merge_provider existing desired =
     existing\<lparr>ep_Spec := ep_Spec desired,
              ep_Meta := (ep_Meta existing)\<lparr>meta_Annotations :=
                mergeConnectionAnnotations (meta_Annotations (ep_Meta existing)) (meta_Annotations (ep_Meta desired))\<rparr>\<rparr>"

definition applyProvider :: "'w lm_client \<Rightarrow> ExternalProvider \<Rightarrow> 'w \<Rightarrow> 'w \<times> err option" where
  "applyProvider c =
     apply_owned (lm_providers c) (\<lambda>p. object_key (ep_Meta p)) (\<lambda>existing. isManagedByMigration (meta_Labels (ep_Meta existing)))
       same_provider merge_provider"

definition applyModel :: "'w lm_client \<Rightarrow> ExternalModel \<Rightarrow> 'w \<Rightarrow> 'w \<times> err option" where
  "applyModel c =
     apply_owned (lm_models c) (\<lambda>m. object_key (em_Meta m)) (\<lambda>existing. isManagedByMigration (meta_Labels (em_Meta existing)))
       (\<lambda>existing desired. em_Spec existing = em_Spec desired)
       (\<lambda>existing desired. existing\<lparr>em_Spec := em_Spec desired\<rparr>)"

definition lm_Reconcile :: "'w lm_client \<Rightarrow> NamespacedName \<Rightarrow> 'w \<Rightarrow> 'w \<times> err option" where
  "lm_Reconcile c req w =
     (case lm_legacy c req w of
        NotFound \<Rightarrow> (w, None)
      | Failed e \<Rightarrow> (w, Some e)
      | Found old \<Rightarrow>
          if meta_Deleted (u_Meta old) then (w, None)
          else if NestedString old [''provider''] = [] \<or> NestedString old [''endpoint''] = [] \<or> NestedString old [''targetModel''] = []
          then (w, None)
          else
            (case GetConnectionSettings (forwardConnectionAnnotations (meta_Annotations (u_Meta old))) of
               Inl e \<Rightarrow>
                 (w, Some (WrapErr ''invalid connection annotations on legacy CR %s/%s: %w''
                             [ArgS (nn_Namespace req), ArgS (nn_Name req)] e))
             | Inr conn \<Rightarrow>
                 if ValidateConnectionSecurity conn ''apikey'' \<noteq> None then (w, None)
                 else
                   (case applyProvider c (desired_provider req old) w of
                      (w, Some e) \<Rightarrow> (w, Some (WrapErr ''failed to apply ExternalProvider: %w'' [] e))
                    | (w, None) \<Rightarrow>
                        (case applyModel c (desired_model req old) w of
                           (w, Some e) \<Rightarrow> (w, Some (WrapErr ''failed to apply ExternalModel: %w'' [] e))
                         | (w, None) \<Rightarrow> (w, None)))))"

section \<open>Annotations\<close>

text \<open>Merging takes the connection keys from the legacy object and keeps every other annotation.\<close>

lemma merge_connection: "k \<in> {AnnotationPort, AnnotationTLS} \<Longrightarrow> map_of (mergeConnectionAnnotations existing desired) k = map_of desired k"
  by (auto simp: mergeConnectionAnnotations_def merge_key_def split: option.splits)

lemma merge_other:
  "k \<notin> {AnnotationPort, AnnotationTLS} \<Longrightarrow> wf_map existing \<Longrightarrow>
     map_of (mergeConnectionAnnotations existing desired) k = map_of existing k"
  by (auto simp: mergeConnectionAnnotations_def merge_key_def map_of_gcopy split: option.splits)

lemma GetConnectionSettings_keys:
  "map_of a AnnotationPort = map_of b AnnotationPort \<Longrightarrow> map_of a AnnotationTLS = map_of b AnnotationTLS \<Longrightarrow>
     GetConnectionSettings a = GetConnectionSettings b"
  by (simp add: GetConnectionSettings_def gstr_def)

lemma merged_settings: "GetConnectionSettings (mergeConnectionAnnotations existing desired) = GetConnectionSettings desired"
  by (rule GetConnectionSettings_keys) (simp_all add: merge_connection)

section \<open>What a migration leaves behind\<close>

definition p_content :: "ExternalProvider \<Rightarrow> (string \<rightharpoonup> string) \<times> (string \<rightharpoonup> string) \<times> ExternalProviderSpec" where
  "p_content p = (map_of (meta_Labels (ep_Meta p)), map_of (meta_Annotations (ep_Meta p)), ep_Spec p)"

definition m_content :: "ExternalModel \<Rightarrow> (string \<rightharpoonup> string) \<times> ExternalModelSpec" where
  "m_content m = (map_of (meta_Labels (em_Meta m)), em_Spec m)"

abbreviation "migrated_provider p \<equiv> isManagedByMigration (meta_Labels (ep_Meta p))"
abbreviation "migrated_model m \<equiv> isManagedByMigration (meta_Labels (em_Meta m))"

text \<open>A migrated provider is up to date: it has the desired spec and the desired connection settings.\<close>

definition provider_current :: "ExternalProvider \<Rightarrow> ExternalProvider \<Rightarrow> bool" where
  "provider_current desired p \<longleftrightarrow> migrated_provider p \<and> ep_Spec p = ep_Spec desired \<and>
     GetConnectionSettings (meta_Annotations (ep_Meta p)) = GetConnectionSettings (meta_Annotations (ep_Meta desired))"

definition model_current :: "ExternalModel \<Rightarrow> ExternalModel \<Rightarrow> bool" where
  "model_current desired m \<longleftrightarrow> migrated_model m \<and> em_Spec m = em_Spec desired"

lemma isManaged_map: "map_of a = map_of b \<Longrightarrow> isManagedByMigration a = isManagedByMigration b"
  by (simp add: isManagedByMigration_def gstr_def)

lemma settings_map: "map_of a = map_of b \<Longrightarrow> GetConnectionSettings a = GetConnectionSettings b"
  by (rule GetConnectionSettings_keys) simp_all

lemma content_current:
  "p_content p = p_content q \<Longrightarrow> provider_current d p = provider_current d q"
  "m_content m = m_content n \<Longrightarrow> model_current e m = model_current e n"
proof -
  assume "p_content p = p_content q"
  then have eqs: "map_of (meta_Labels (ep_Meta p)) = map_of (meta_Labels (ep_Meta q))"
    "map_of (meta_Annotations (ep_Meta p)) = map_of (meta_Annotations (ep_Meta q))" "ep_Spec p = ep_Spec q"
    by (simp_all add: p_content_def)
  show "provider_current d p = provider_current d q"
    unfolding provider_current_def isManaged_map [OF eqs(1)] settings_map [OF eqs(2)] eqs(3) ..
next
  assume "m_content m = m_content n"
  then have eqs: "map_of (meta_Labels (em_Meta m)) = map_of (meta_Labels (em_Meta n))" "em_Spec m = em_Spec n"
    by (simp_all add: m_content_def)
  show "model_current e m = model_current e n"
    unfolding model_current_def isManaged_map [OF eqs(1)] eqs(2) ..
qed

lemma merge_current:
  assumes "migrated_provider x"
  shows "provider_current d (merge_provider x d)" "same_provider x d \<Longrightarrow> provider_current d x"
    "object_key (ep_Meta (merge_provider x d)) = object_key (ep_Meta x)"
  using assms settings_map [of "meta_Annotations (ep_Meta x)", OF gmap_eq_iff [THEN iffD1]]
  by (auto simp: provider_current_def merge_provider_def merged_settings same_provider_def object_key_def)

lemma desired_migrated:
  "provider_current (desired_provider req old) (desired_provider req old)"
  "model_current (desired_model req old) (desired_model req old)"
  "object_key (ep_Meta (desired_provider req old)) = req" "object_key (em_Meta (desired_model req old)) = req"
  by (simp_all add: provider_current_def model_current_def desired_provider_def desired_model_def new_meta_def lm_labels_def
      isManagedByMigration_def gstr_def object_key_def)

locale lm_cluster = kube_client "lm_providers c" "\<lambda>p. object_key (ep_Meta p)" ep_Meta p_content providers
  for c :: "'w lm_client" and providers :: "'w \<Rightarrow> NamespacedName \<Rightarrow> ExternalProvider option" +
  fixes models :: "'w \<Rightarrow> NamespacedName \<Rightarrow> ExternalModel option"
  assumes models_client: "kube_client (lm_models c) (\<lambda>m. object_key (em_Meta m)) em_Meta m_content models"
    and providers_keep: "keeps (lm_providers c) models"
    and models_keep: "keeps (lm_models c) providers"
begin

lemma provider_applied:
  assumes "applyProvider c desired w = (w', r)" "provider_current desired desired"
  defines "key \<equiv> object_key (ep_Meta desired)"
  shows "models w' = models w" and "(providers w' = providers w \<or> (\<exists>y. providers w' = (providers w)(key \<mapsto> y) \<and> provider_current desired y \<and>
      (\<forall>x. providers w key = Some x \<longrightarrow> migrated_provider x))) \<and>
    (r = None \<longrightarrow> (\<exists>y. providers w' key = Some y \<and> (migrated_provider y \<longrightarrow> provider_current desired y)))"
proof -
  show "models w' = models w"
    using keeps_apply_owned [OF providers_keep, of "\<lambda>p. object_key (ep_Meta p)" "\<lambda>p. migrated_provider p" same_provider merge_provider desired w]
    by (simp add: assms(1) [unfolded applyProvider_def])
  show "(providers w' = providers w \<or> (\<exists>y. providers w' = (providers w)(key \<mapsto> y) \<and> provider_current desired y \<and>
      (\<forall>x. providers w key = Some x \<longrightarrow> migrated_provider x))) \<and>
    (r = None \<longrightarrow> (\<exists>y. providers w' key = Some y \<and> (migrated_provider y \<longrightarrow> provider_current desired y)))"
    unfolding key_def
  proof (rule owned_applied [where ok = "provider_current desired", OF assms(1) [unfolded applyProvider_def] assms(2)])
    show "provider_current desired x = provider_current desired y" if "p_content x = p_content y" for x y
      by (rule content_current(1) [OF that])
  qed (auto simp: merge_current)
qed

lemma model_applied:
  assumes "applyModel c desired w = (w', r)" "model_current desired desired"
  defines "key \<equiv> object_key (em_Meta desired)"
  shows "providers w' = providers w" and "(models w' = models w \<or> (\<exists>y. models w' = (models w)(key \<mapsto> y) \<and> model_current desired y \<and>
      (\<forall>x. models w key = Some x \<longrightarrow> migrated_model x))) \<and>
    (r = None \<longrightarrow> (\<exists>y. models w' key = Some y \<and> (migrated_model y \<longrightarrow> model_current desired y)))"
proof -
  show "providers w' = providers w"
    using keeps_apply_owned [OF models_keep, of "\<lambda>m. object_key (em_Meta m)" "\<lambda>m. migrated_model m"
        "\<lambda>existing desired. em_Spec existing = em_Spec desired" "\<lambda>existing desired. existing\<lparr>em_Spec := em_Spec desired\<rparr>" desired w]
    by (simp add: assms(1) [unfolded applyModel_def])
  show "(models w' = models w \<or> (\<exists>y. models w' = (models w)(key \<mapsto> y) \<and> model_current desired y \<and>
      (\<forall>x. models w key = Some x \<longrightarrow> migrated_model x))) \<and>
    (r = None \<longrightarrow> (\<exists>y. models w' key = Some y \<and> (migrated_model y \<longrightarrow> model_current desired y)))"
    unfolding key_def
  proof (rule kube_client.owned_applied [where ok = "model_current desired", OF models_client assms(1) [unfolded applyModel_def] assms(2)])
    show "model_current desired x = model_current desired y" if "m_content x = m_content y" for x y
      by (rule content_current(2) [OF that])
  qed (auto simp: model_current_def object_key_def)
qed

end

text \<open>A legacy model that is migrated: it is complete and its connection may carry credentials.\<close>

definition migratable :: "Unstructured \<Rightarrow> bool" where
  "migratable old \<longleftrightarrow> \<not> meta_Deleted (u_Meta old) \<and>
     list_all (\<lambda>k. NestedString old [k] \<noteq> []) [''provider'', ''endpoint'', ''targetModel''] \<and>
     (\<exists>port. GetConnectionSettings (forwardConnectionAnnotations (meta_Annotations (u_Meta old))) = Inr \<lparr>Port = port, TLSEnabled = True\<rparr>)"

lemma secure_conn: "ValidateConnectionSecurity conn ''apikey'' = None \<longleftrightarrow> conn = \<lparr>Port = Port conn, TLSEnabled = True\<rparr>"
  by (cases conn) (auto simp: ValidateConnectionSecurity_def)

lemma lm_Reconcile_cases:
  assumes "lm_Reconcile c req w = (w', r)"
  obtains "w' = w" "\<And>old. lm_legacy c req w = Found old \<Longrightarrow> \<not> migratable old"
    | old e where "lm_legacy c req w = Found old" "migratable old" "applyProvider c (desired_provider req old) w = (w', Some e)" "r \<noteq> None"
    | old w1 r2 where "lm_legacy c req w = Found old" "migratable old" "applyProvider c (desired_provider req old) w = (w1, None)"
        "applyModel c (desired_model req old) w1 = (w', r2)" "r = None \<longleftrightarrow> r2 = None"
proof (cases "lm_legacy c req w")
  case (Found old)
  show ?thesis
  proof (cases "migratable old")
    case True
    obtain w1 r1 where 1: "applyProvider c (desired_provider req old) w = (w1, r1)" by fastforce
    obtain w2 r2 where 2: "applyModel c (desired_model req old) w1 = (w2, r2)" by fastforce
    note run = assms [unfolded lm_Reconcile_def, simplified Found fetched.case]
    show ?thesis
    proof (cases r1)
      case None
      with True run 1 2 have "w' = w2" "r = None \<longleftrightarrow> r2 = None"
        by (auto simp: migratable_def ValidateConnectionSecurity_def split: option.splits)
      with that(3) Found True 1 2 None show ?thesis by blast
    next
      case (Some e)
      with True run 1 have "w' = w1" "r \<noteq> None"
        by (auto simp: migratable_def ValidateConnectionSecurity_def)
      with that(2) Found True 1 Some show ?thesis by blast
    qed
  next
    case False
    with assms Found have "w' = w"
      by (auto simp: lm_Reconcile_def migratable_def secure_conn split: if_splits sum.splits)
    with that(1) Found False show ?thesis by simp
  qed
next
  case NotFound
  with assms that(1) show ?thesis by (auto simp: lm_Reconcile_def)
next
  case (Failed e)
  with assms that(1) show ?thesis by (auto simp: lm_Reconcile_def)
qed

context lm_cluster
begin

lemma reconcile_changes:
  assumes "lm_Reconcile c req w = (w', r)"
  shows "(providers w' = providers w \<or> (\<exists>old y. lm_legacy c req w = Found old \<and> migratable old \<and>
      providers w' = (providers w)(req \<mapsto> y) \<and> provider_current (desired_provider req old) y \<and>
      (\<forall>x. providers w req = Some x \<longrightarrow> migrated_provider x))) \<and>
    (models w' = models w \<or> (\<exists>old y. lm_legacy c req w = Found old \<and> migratable old \<and>
      models w' = (models w)(req \<mapsto> y) \<and> model_current (desired_model req old) y \<and>
      (\<forall>x. models w req = Some x \<longrightarrow> migrated_model x)))"
  using assms
proof (cases rule: lm_Reconcile_cases)
  case 1
  then show ?thesis by simp
next
  case (2 old e)
  from provider_applied [OF 2(3) desired_migrated(1), unfolded desired_migrated] 2(1,2) show ?thesis by blast
next
  case (3 old w1 r2)
  note p = provider_applied [OF 3(3) desired_migrated(1), unfolded desired_migrated]
  note m = model_applied [OF 3(4) desired_migrated(2), unfolded desired_migrated, unfolded p(1)]
  from p(2) m(2) 3(1,2) show ?thesis unfolding m(1) by blast
qed

lemma reconcile_completes:
  assumes "lm_Reconcile c req w = (w', None)" "lm_legacy c req w = Found old" "migratable old"
  shows "\<exists>p m. providers w' req = Some p \<and> models w' req = Some m \<and>
    (migrated_provider p \<longrightarrow> provider_current (desired_provider req old) p) \<and>
    (migrated_model m \<longrightarrow> model_current (desired_model req old) m)"
  using assms(1)
proof (cases rule: lm_Reconcile_cases)
  case (3 old' w1 r2)
  note p = provider_applied(2) [OF 3(3) desired_migrated(1), unfolded desired_migrated]
  note m = model_applied [OF 3(4) desired_migrated(2), unfolded desired_migrated]
  from p m(2) 3(1,5) assms(2) show ?thesis unfolding m(1) by auto
qed (use assms in auto)

end

section \<open>A cluster with maps\<close>

record lm_state =
  ls_legacy :: "NamespacedName \<Rightarrow> Unstructured option"
  ls_providers :: "NamespacedName \<Rightarrow> ExternalProvider option"
  ls_models :: "NamespacedName \<Rightarrow> ExternalModel option"

definition ref_lm :: "lm_state lm_client" where
  "ref_lm =
     \<lparr>lm_legacy = (\<lambda>k s. case ls_legacy s k of None \<Rightarrow> NotFound | Some x \<Rightarrow> Found x),
      lm_providers = ref_kube (\<lambda>s. filed (\<lambda>p. object_key (ep_Meta p)) (ls_providers s)) (\<lambda>m s. s\<lparr>ls_providers := m\<rparr>)
        (\<lambda>p. object_key (ep_Meta p)) ep_Meta,
      lm_models = ref_kube (\<lambda>s. filed (\<lambda>m. object_key (em_Meta m)) (ls_models s)) (\<lambda>m s. s\<lparr>ls_models := m\<rparr>)
        (\<lambda>m. object_key (em_Meta m)) em_Meta\<rparr>"

interpretation ref_migration: lm_cluster ref_lm "\<lambda>s. filed (\<lambda>p. object_key (ep_Meta p)) (ls_providers s)"
  "\<lambda>s. filed (\<lambda>m. object_key (em_Meta m)) (ls_models s)"
proof (rule lm_cluster.intro)
  show "kube_client (lm_providers ref_lm) (\<lambda>p. object_key (ep_Meta p)) ep_Meta p_content
      (\<lambda>s. filed (\<lambda>p. object_key (ep_Meta p)) (ls_providers s))"
    unfolding ref_lm_def lm_client.simps by (rule ref_kube_client) simp
  show "lm_cluster_axioms ref_lm (\<lambda>s. filed (\<lambda>p. object_key (ep_Meta p)) (ls_providers s))
      (\<lambda>s. filed (\<lambda>m. object_key (em_Meta m)) (ls_models s))"
  proof (rule lm_cluster_axioms.intro)
    show "kube_client (lm_models ref_lm) (\<lambda>m. object_key (em_Meta m)) em_Meta m_content
        (\<lambda>s. filed (\<lambda>m. object_key (em_Meta m)) (ls_models s))"
      unfolding ref_lm_def lm_client.simps by (rule ref_kube_client) simp
  qed (auto simp: ref_lm_def intro!: ref_keeps)
qed

section \<open>The properties\<close>

text \<open>C26: Migration overwrites only what it migrated, and never opens a plaintext connection. Whatever a
  reconcile of a legacy model returns, every provider and model of another name and every one of that name
  without the migration's label is as before, and a provider that is new or changed asks for an API key and has
  connection annotations that are valid and keep TLS on.\<close>

theorem migration_safe:
  assumes "lm_cluster c ps ms" "lm_Reconcile c req w = (w', r)"
  shows "(\<forall>k x. ps w k = Some x \<and> (k \<noteq> req \<or> \<not> migrated_provider x) \<longrightarrow> ps w' k = Some x) \<and>
    (\<forall>k x. ms w k = Some x \<and> (k \<noteq> req \<or> \<not> migrated_model x) \<longrightarrow> ms w' k = Some x) \<and>
    (\<forall>k y. ps w' k = Some y \<and> ps w k \<noteq> Some y \<longrightarrow>
       auth_Type (Auth (ep_Spec y)) = ''apikey'' \<and>
       (\<exists>conn. GetConnectionSettings (meta_Annotations (ep_Meta y)) = Inr conn \<and> TLSEnabled conn))"
proof -
  have secure: "auth_Type (Auth (ep_Spec y)) = ''apikey'' \<and>
       (\<exists>conn. GetConnectionSettings (meta_Annotations (ep_Meta y)) = Inr conn \<and> TLSEnabled conn)"
    if "provider_current (desired_provider req old) y" "migratable old" for old y
    using that by (auto simp: provider_current_def desired_provider_def migratable_def new_meta_def)
  from lm_cluster.reconcile_changes [OF assms] secure show ?thesis by (auto split: if_splits)
qed

text \<open>A legacy model in a cluster that already has a hand-made provider of that name.\<close>

definition sample_legacy :: "string \<Rightarrow> Unstructured" where
  "sample_legacy provider =
     \<lparr>u_APIVersion = ''maas.opendatahub.io/v1alpha1'', u_Kind = ''ExternalModel'',
      u_Meta = new_meta ''gpt'' ''team'' [] [(LegacyAnnotationPort, ''8443'')],
      u_Spec = VMap [(''provider'', VStr provider), (''endpoint'', VStr ''api.example.com''), (''targetModel'', VStr ''gpt-4o''),
                     (''credentialRef'', VMap [(''name'', VStr ''key'')])]\<rparr>"

abbreviation "gpt_key \<equiv> \<lparr>nn_Namespace = ''team'', nn_Name = ''gpt''\<rparr>"

definition sample_lm :: "string \<Rightarrow> (NamespacedName \<Rightarrow> ExternalProvider option) \<Rightarrow> lm_state" where
  "sample_lm provider ps = \<lparr>ls_legacy = [gpt_key \<mapsto> sample_legacy provider], ls_providers = ps, ls_models = Map.empty\<rparr>"

definition hand_made :: ExternalProvider where
  "hand_made = sample_provider\<lparr>ep_Meta := sample_meta ''gpt''\<rparr>"

theorem migration_safe_witness:
  "filed (\<lambda>p. object_key (ep_Meta p)) (ls_providers (fst (lm_Reconcile ref_lm gpt_key (sample_lm ''openai'' [gpt_key \<mapsto> hand_made])))) gpt_key =
     Some hand_made"
proof -
  have "filed (\<lambda>p. object_key (ep_Meta p)) (ls_providers (sample_lm ''openai'' [gpt_key \<mapsto> hand_made])) gpt_key = Some hand_made"
    "\<not> migrated_provider hand_made"
    by (simp_all add: filed_def sample_lm_def hand_made_def sample_provider_def sample_meta_def object_key_def
        isManagedByMigration_def gstr_def)
  with migration_safe [OF ref_migration.lm_cluster_axioms, of gpt_key "sample_lm ''openai'' [gpt_key \<mapsto> hand_made]"]
  show ?thesis by (metis prod.collapse)
qed

text \<open>A migration that succeeds is complete. When a legacy model names a provider, an endpoint and a target
  model and its connection is valid with TLS, a reconcile without error leaves a provider and a model of its name,
  and where these carry the migration's label their specs and connection settings are those of the legacy model.\<close>

theorem migration_complete:
  assumes "lm_cluster c ps ms" "lm_Reconcile c req w = (w', None)"
    and "lm_legacy c req w = Found old" "migratable old"
  shows "\<exists>p m. ps w' req = Some p \<and> ms w' req = Some m \<and>
    (migrated_provider p \<longrightarrow> provider_current (desired_provider req old) p) \<and>
    (migrated_model m \<longrightarrow> model_current (desired_model req old) m)"
  using assms by (rule lm_cluster.reconcile_completes)

lemma sample_lm_run: "snd (lm_Reconcile ref_lm gpt_key (sample_lm ''openai'' Map.empty)) = None"
  by code_simp

lemma sample_migratable: "migratable (sample_legacy p)" if "p \<noteq> []"
proof -
  have "GetConnectionSettings (forwardConnectionAnnotations [(LegacyAnnotationPort, ''8443'')]) = Inr \<lparr>Port = 8443, TLSEnabled = True\<rparr>"
    by code_simp
  with that show ?thesis by (auto simp: migratable_def sample_legacy_def NestedString_def new_meta_def)
qed

theorem migration_complete_witness:
  "\<exists>w' p. lm_Reconcile ref_lm gpt_key (sample_lm ''openai'' Map.empty) = (w', None) \<and>
     filed (\<lambda>p. object_key (ep_Meta p)) (ls_providers w') gpt_key = Some p"
proof -
  obtain w' where w': "lm_Reconcile ref_lm gpt_key (sample_lm ''openai'' Map.empty) = (w', None)"
    using sample_lm_run by (metis prod.collapse)
  have "lm_legacy ref_lm gpt_key (sample_lm ''openai'' Map.empty) = Found (sample_legacy ''openai'')"
    by (simp add: ref_lm_def sample_lm_def)
  from migration_complete [OF ref_migration.lm_cluster_axioms w' this sample_migratable] w' show ?thesis by auto
qed

lemma vertex_path_unresolved:
  "\<exists>e. ResolvePath ''/v1/projects/{project}/locations/{location}/endpoints/{endpoint}/chat/completions'' [] target = Inl e"
proof -
  have "indexOf (hole ModelPlaceholder) ''/v1/projects/{project}/locations/{location}/endpoints/{endpoint}/chat/completions'' = None"
    by code_simp
  then have "replaceAll (hole ModelPlaceholder) target ''/v1/projects/{project}/locations/{location}/endpoints/{endpoint}/chat/completions'' =
      ''/v1/projects/{project}/locations/{location}/endpoints/{endpoint}/chat/completions''"
    by (simp add: replaceAll.simps)
  moreover have "placeholders ''/v1/projects/{project}/locations/{location}/endpoints/{endpoint}/chat/completions'' \<noteq> []"
    "contains ''/v1/projects/{project}/locations/{location}/endpoints/{endpoint}/chat/completions'' ''{''"
    by code_simp+
  ultimately show ?thesis by (simp add: ResolvePath_def Let_def)
qed

text \<open>A legacy Vertex AI model is never served. The default path of the provider \<^verbatim>\<open>vertex-openai\<close> has the
  placeholders \<^verbatim>\<open>{project}\<close>, \<^verbatim>\<open>{location}\<close> and \<^verbatim>\<open>{endpoint}\<close>, and the migrated provider has no configuration, so
  the reference of the migrated model does not resolve to a route, whatever the API server returns for a
  provider that is up to date with the migration.\<close>

theorem legacy_vertex_never_routed:
  assumes "NestedString old [''provider''] = ''vertex-openai''" "get req = Found p" "provider_current (desired_provider req old) p"
    and "em_Spec model = em_Spec (desired_model req old)" "meta_Namespace (em_Meta model) = nn_Namespace req"
    and "ref \<in> set (ExternalProviderRefs (em_Spec model))"
  shows "resolve_route_ref get model ref \<noteq> Inr (Resolved rf)"
proof -
  have ref: "Path ref = ''/v1/projects/{project}/locations/{location}/endpoints/{endpoint}/chat/completions''"
    "RefConfig ref = []" "pref_Name (Ref ref) = nn_Name req"
    using assms(1,4,6) by (simp_all add: desired_model_def mapProviderToDefaultPath_def)
  have p: "Config (ep_Spec p) = []" using assms(3) by (simp add: provider_current_def desired_provider_def)
  have key: "\<lparr>nn_Namespace = nn_Namespace req, nn_Name = nn_Name req\<rparr> = req" by simp
  have "\<not> servable get model ref rf"
    using vertex_path_unresolved [of "TargetModel ref"] assms(2,5) p ref by (auto simp: servable_def em_mergeConfig_def key)
  then show ?thesis by (simp add: resolve_route_ref_iff)
qed

theorem legacy_vertex_never_routed_witness:
  "\<forall>rf. resolve_route_ref (\<lambda>_. Found (desired_provider gpt_key (sample_legacy ''vertex-openai''))) (desired_model gpt_key (sample_legacy ''vertex-openai''))
     (hd (ExternalProviderRefs (em_Spec (desired_model gpt_key (sample_legacy ''vertex-openai''))))) \<noteq> Inr (Resolved rf)"
proof (rule allI, rule legacy_vertex_never_routed [OF _ refl desired_migrated(1) refl])
  show "NestedString (sample_legacy ''vertex-openai'') [''provider''] = ''vertex-openai''"
    by (simp add: NestedString_def sample_legacy_def)
qed (simp_all add: desired_model_def new_meta_def)

end
