(* ===== verification/Cycle_Typing.thy ===== *)
theory Cycle_Typing
  imports Headers_Guard Provider_Resolver External_Metering
begin

text \<open>
  The types of the CycleState. The plugins pass values to each other under string keys, and a read at
  another type than the value was written with fails; most callers ignore that failure and go on with
  the zero value. Here every key has one type, the one its readers use, and the plugins that write the
  state keep to it.
\<close>

datatype csty = TStr | TFormat | TAuth | TStrMap | TAnyMap | TTime

fun ty_of :: "csval \<Rightarrow> csty" where
  "ty_of (CStr _) = TStr"
| "ty_of (CFormat _) = TFormat"
| "ty_of (CAuth _) = TAuth"
| "ty_of (CStrMap _) = TStrMap"
| "ty_of (CAnyMap _) = TAnyMap"
| "ty_of (CTime _) = TTime"

definition key_types :: "(string \<times> csty) list" where
  "key_types =
     [(ProviderKey, TStr), (ModelKey, TStr), (CredsRefName, TStr), (CredsRefNamespace, TStr),
      (ModelConfigKey, TStrMap), (APIFormatKey, TFormat), (AuthTypeKey, TAuth), (InputAPIFormatKey, TFormat),
      (EndpointKey, TStr), (PathKey, TStr), (OriginClusterKey, TStr), (MaaSHeadersKey, TStrMap),
      (MeteringUsernameKey, TStr), (MeteringGroupKey, TStr), (MeteringSubscriptionKey, TStr),
      (MeteringModelKey, TStr), (MeteringRequestTimeKey, TTime), (MeteringLastUsageKey, TAnyMap),
      (MeteringUserAgentKey, TStr), (meteringChunkBufferKey, TStr)]"

text \<open>No two keys are the same string.\<close>

lemma key_types_distinct: "distinct (map fst key_types)"
  by (simp add: key_types_def)

definition cs_typed :: "'cs framework \<Rightarrow> 'cs \<Rightarrow> bool" where
  "cs_typed fw cs \<longleftrightarrow>
     (\<forall>k ty v. map_of key_types k = Some ty \<longrightarrow> Read fw k cs = Some v \<longrightarrow> ty_of v = ty)"

lemma cs_typed_Write:
  "ipp_framework fw \<Longrightarrow> cs_typed fw cs \<Longrightarrow> map_of key_types k = Some (ty_of v) \<Longrightarrow> cs_typed fw (Write fw k v cs)"
  by (auto simp: cs_typed_def ipp_framework.Read_Write)

lemma guard_typed:
  assumes fw: "ipp_framework fw" and "cs_typed fw cs" "guard_ProcessRequest p fw cs r = Inr (cs', r')"
  shows "cs_typed fw cs'"
proof -
  have origin: "cs_typed fw (fold (\<lambda>(key, value) cs. Write fw OriginClusterKey (CStr value) cs) hs cs)" for hs
    using assms(2)
  proof (induction hs arbitrary: cs)
    case (Cons h hs)
    have "cs_typed fw (Write fw OriginClusterKey (CStr (snd h)) cs)"
      by (rule cs_typed_Write [OF fw Cons.prems]) (simp add: key_types_def)
    from Cons.IH [OF this] show ?case by (simp add: case_prod_beta)
  qed simp
  have "map_of key_types MaaSHeadersKey = Some TStrMap" by (simp add: key_types_def)
  with assms(3) show ?thesis
    by (auto simp: guard_ProcessRequest_def Let_def intro!: cs_typed_Write [OF fw] origin)
qed

lemma write_ref_typed:
  "ipp_framework fw \<Longrightarrow> cs_typed fw cs \<Longrightarrow> cs_typed fw (write_ref fw ref cs)"
  unfolding write_ref_def Let_def
  by (intro cs_typed_Write) (simp_all add: key_types_def)

lemma with_format_typed: "ipp_framework fw \<Longrightarrow> cs_typed fw cs \<Longrightarrow> cs_typed fw (with_format fw r cs)"
  unfolding with_format_def by (simp add: cs_typed_Write key_types_def)

lemma resolver_writes:
  assumes "resolver_ProcessRequest p marshal intN fw cs r = Inr (cs', r')"
  shows "cs' = cs \<or> cs' = with_format fw r cs \<or> (\<exists>name. cs' = Write fw ModelKey (CStr name) (with_format fw r cs)) \<or>
    (\<exists>ref. cs' = write_ref fw ref (with_format fw r cs))"
  using assms unfolding resolver_ProcessRequest_def with_format_def [symmetric] input_format_def [symmetric] Let_def
  by (simp split: if_splits option.splits sum.splits) blast+

lemma resolver_typed:
  assumes fw: "ipp_framework fw" and "cs_typed fw cs" "resolver_ProcessRequest p marshal intN fw cs r = Inr (cs', r')"
  shows "cs_typed fw cs'"
proof -
  have "map_of key_types ModelKey = Some TStr" by (simp add: key_types_def)
  then show ?thesis
    using resolver_writes [OF assms(3)] with_format_typed [OF fw assms(2)] assms(2)
    by (auto intro: cs_typed_Write [OF fw] write_ref_typed [OF fw])
qed

lemma metering_request_typed:
  assumes fw: "ipp_framework fw" and "cs_typed fw cs" "metering_processRequest w b fw cs r = Inr (cs', r')"
  shows "cs_typed fw cs'"
proof -
  let ?cs = "Write fw MeteringRequestTimeKey (CTime (mw_now w))
    (Write fw MeteringUserAgentKey (CStr (gstr (Headers r) ''user-agent''))
    (Write fw MeteringModelKey (CStr (metering_model fw cs r))
    (Write fw MeteringSubscriptionKey (CStr (metering_subscription fw cs r))
    (Write fw MeteringGroupKey (CStr (metering_group fw cs r))
    (Write fw MeteringUsernameKey (CStr (metering_username fw cs r)) cs)))))"
  have "cs_typed fw ?cs"
    by (intro cs_typed_Write [OF fw] assms(2)) (simp_all add: key_types_def)
  moreover have "cs' = cs \<or> cs' = ?cs"
    using assms(3) by (auto simp: metering_processRequest_def Let_def split: if_splits sum.splits)
  ultimately show ?thesis using assms(2) by auto
qed

lemma remember_chunk_typed:
  "ipp_framework fw \<Longrightarrow> cs_typed fw cs \<Longrightarrow> cs_typed fw (remember_chunk w fw chunk cs)"
  unfolding remember_chunk_def by (auto simp: key_types_def intro: cs_typed_Write split: option.split)

lemma metering_chunk_state:
  "fst (metering_ProcessResponseChunk w b fw cs response isFinal) \<in> {cs, remember_chunk w fw (CurrentChunk response) cs}"
  by (auto simp: metering_ProcessResponseChunk_def Let_def split: option.split)

section \<open>Every order of plugins\<close>

text \<open>One plugin runs, on any request or response and with any configuration. The other plugins only read
  the state.\<close>

inductive cycle_step :: "'cs framework \<Rightarrow> 'cs \<Rightarrow> 'cs \<Rightarrow> bool" for fw where
  guard_ran: "guard_ProcessRequest p fw cs r = Inr (cs', r') \<Longrightarrow> cycle_step fw cs cs'"
| resolver_ran: "resolver_ProcessRequest q marshal intN fw cs r = Inr (cs', r') \<Longrightarrow> cycle_step fw cs cs'"
| metering_ran: "metering_processRequest w b fw cs r = Inr (cs', r') \<Longrightarrow> cycle_step fw cs cs'"
| chunk_ran: "cycle_step fw cs (fst (metering_ProcessResponseChunk w b fw cs response isFinal))"

inductive cycle_run :: "'cs framework \<Rightarrow> 'cs \<Rightarrow> 'cs \<Rightarrow> bool" for fw where
  cycle_none: "cycle_run fw cs cs"
| cycle_more: "cycle_run fw cs cs' \<Longrightarrow> cycle_step fw cs' cs'' \<Longrightarrow> cycle_run fw cs cs''"

lemma cycle_step_typed:
  assumes "cycle_step fw cs cs'" "ipp_framework fw" "cs_typed fw cs"
  shows "cs_typed fw cs'"
  using assms(1)
proof (cases rule: cycle_step.cases)
  case (chunk_ran w b response isFinal)
  with metering_chunk_state [of w b fw cs response isFinal] show ?thesis
    using assms(3) remember_chunk_typed [OF assms(2,3)] by auto
qed (use assms(2,3) in \<open>blast intro: guard_typed resolver_typed metering_request_typed\<close>)+

lemma cycle_run_typed:
  assumes "cycle_run fw cs cs'" "ipp_framework fw" "cs_typed fw cs"
  shows "cs_typed fw cs'"
  using assms by induction (auto intro: cycle_step_typed)



end
