(* ===== verification/Controller_Watches.thy ===== *)
theory Controller_Watches
  imports External_Model_Controller External_Provider_Controller
begin

text \<open>
  Which events reach which controller: the registrations of \<^verbatim>\<open>cmd/controllers.go\<close>, which the program
  starts, and those of the \<^verbatim>\<open>SetupWithManager\<close> methods of the two reconcilers, which its tests start. A
  registration is the list of watches that the builder calls set up. How controller-runtime turns an
  event into requests is not part of this repository: predicates and handlers are parameters, and the
  locale states their documented behaviour.
\<close>

datatype kind = KProvider | KModel | KRoute | KService | KServiceEntry | KDestinationRule | KLegacyModel | KSecret

text \<open>An object of an event: a custom resource, or an object of another kind by its metadata.\<close>

datatype kobject = ProviderObj ExternalProvider | ModelObj ExternalModel | OtherObj kind ObjectMeta

fun obj_kind :: "kobject \<Rightarrow> kind" where
  "obj_kind (ProviderObj _) = KProvider"
| "obj_kind (ModelObj _) = KModel"
| "obj_kind (OtherObj k _) = k"

fun obj_meta :: "kobject \<Rightarrow> ObjectMeta" where
  "obj_meta (ProviderObj p) = ep_Meta p"
| "obj_meta (ModelObj m) = em_Meta m"
| "obj_meta (OtherObj _ m) = m"

datatype kevent = CreateEvent kobject | UpdateEvent kobject kobject | DeleteEvent kobject

fun event_objects :: "kevent \<Rightarrow> kobject list" where
  "event_objects (CreateEvent new) = [new]"
| "event_objects (UpdateEvent old new) = [old, new]"
| "event_objects (DeleteEvent old) = [old]"

definition event_kind :: "kevent \<Rightarrow> kind" where
  "event_kind ev = obj_kind (last (event_objects ev))"

text \<open>The handlers and predicates that the builder calls name: \<^verbatim>\<open>For\<close>, \<^verbatim>\<open>Owns\<close> (whose handler only looks at
  the controlling owner), \<^verbatim>\<open>EnqueueRequestForOwner\<close> and \<^verbatim>\<open>EnqueueRequestsFromMapFunc\<close>.\<close>

datatype event_handler = ForObject | ForOwner kind bool | MapFunc "kobject \<Rightarrow> NamespacedName list"

datatype event_predicate = AllEvents | GenerationChanged | LabelSelector string string

record watch =
  watch_Kind :: kind
  watch_Handler :: event_handler
  watch_Predicate :: event_predicate

record registration =
  reg_Name :: string
  reg_Watches :: "watch list"

definition on :: "kind \<Rightarrow> event_handler \<Rightarrow> event_predicate \<Rightarrow> watch" where
  "on k h p = \<lparr>watch_Kind = k, watch_Handler = h, watch_Predicate = p\<rparr>"

section \<open>The registrations\<close>

text \<open>The type assertions \<^verbatim>\<open>obj.(*ExternalModel)\<close> and \<^verbatim>\<open>obj.(*ExternalProvider)\<close> of the mapping functions hold
  for the kinds they watch.\<close>

definition providers_of :: "kobject \<Rightarrow> NamespacedName list" where
  "providers_of obj = (case obj of ModelObj model \<Rightarrow> MapModelToProviders model | _ \<Rightarrow> [])"

definition models_of :: "(string \<Rightarrow> ExternalModel list result) \<Rightarrow> kobject \<Rightarrow> NamespacedName list" where
  "models_of listIn obj = (case obj of ProviderObj provider \<Rightarrow> MapProviderToModels listIn provider | _ \<Rightarrow> [])"

definition providerController :: registration where
  "providerController =
     \<lparr>reg_Name = ''external-provider-controller'',
      reg_Watches = [on KProvider ForObject AllEvents, on KModel (MapFunc providers_of) GenerationChanged]\<rparr>"

definition modelController :: "(string \<Rightarrow> ExternalModel list result) \<Rightarrow> registration" where
  "modelController listIn =
     \<lparr>reg_Name = ''external-model-controller'',
      reg_Watches = [on KModel ForObject AllEvents, on KProvider (MapFunc (models_of listIn)) AllEvents]\<rparr>"

text \<open>The migration is only registered when the cluster has the legacy resource.\<close>

definition legacyMigrationController :: "bool \<Rightarrow> registration list" where
  "legacyMigrationController installed =
     (if \<not> installed then []
      else [\<lparr>reg_Name = ''legacy-migration'', reg_Watches = [on KLegacyModel ForObject AllEvents]\<rparr>])"

text \<open>\<^verbatim>\<open>main\<close>: no controller at all when they are disabled by the environment.\<close>

definition main_controllers :: "(string \<Rightarrow> string) \<Rightarrow> (string \<Rightarrow> ExternalModel list result) \<Rightarrow> bool \<Rightarrow> registration list" where
  "main_controllers getenv listIn installed =
     (if getenv ''DISABLE_EXTERNAL_MODEL_CONTROLLER'' \<noteq> ''true''
      then [providerController, modelController listIn] @ legacyMigrationController installed
      else [])"

definition em_SetupWithManager :: "(string \<Rightarrow> ExternalModel list result) \<Rightarrow> registration" where
  "em_SetupWithManager listIn =
     \<lparr>reg_Name = ''external-model-reconciler'',
      reg_Watches = [on KModel ForObject AllEvents, on KRoute (ForOwner KModel True) AllEvents,
                     on KProvider (MapFunc (models_of listIn)) AllEvents]\<rparr>"

definition ep_SetupWithManager :: registration where
  "ep_SetupWithManager =
     (let managedByPredicate = LabelSelector LabelManagedBy ep_managedByValue;
          ownerHandler = ForOwner KProvider False
      in \<lparr>reg_Name = ''external-provider-reconciler'',
          reg_Watches = [on KProvider ForObject AllEvents,
                         on KService (ForOwner KProvider True) managedByPredicate,
                         on KServiceEntry ownerHandler managedByPredicate,
                         on KDestinationRule ownerHandler managedByPredicate,
                         on KModel (MapFunc providers_of) GenerationChanged]\<rparr>)"

section \<open>What controller-runtime promises\<close>

definition kind_name :: "kind \<Rightarrow> string" where
  "kind_name k =
     (case k of KProvider \<Rightarrow> ''ExternalProvider'' | KModel \<Rightarrow> ''ExternalModel'' | KRoute \<Rightarrow> ''HTTPRoute''
      | KService \<Rightarrow> ''Service'' | KServiceEntry \<Rightarrow> ''ServiceEntry'' | KDestinationRule \<Rightarrow> ''DestinationRule''
      | KLegacyModel \<Rightarrow> ''ExternalModel'' | KSecret \<Rightarrow> ''Secret'')"

text \<open>The owners of an object of one of the custom resource kinds.\<close>

definition owners_of :: "kind \<Rightarrow> bool \<Rightarrow> ObjectMeta \<Rightarrow> NamespacedName set" where
  "owners_of k only m =
     {\<lparr>nn_Namespace = meta_Namespace m, nn_Name = owner_Name o'\<rparr> | o'.
        o' \<in> set (meta_Owners m) \<and> owner_Kind o' = kind_name k \<and>
        owner_APIVersion o' = ''inference.opendatahub.io/v1alpha1'' \<and> (only \<longrightarrow> owner_Controller o')}"

locale controller_runtime =
  fixes passes :: "event_predicate \<Rightarrow> kevent \<Rightarrow> bool"
    and handled :: "event_handler \<Rightarrow> kevent \<Rightarrow> NamespacedName set"
  assumes passes_all: "passes AllEvents ev"
    and passes_generation: "passes GenerationChanged ev \<longleftrightarrow>
      (case ev of UpdateEvent old new \<Rightarrow> meta_Generation (obj_meta old) \<noteq> meta_Generation (obj_meta new) | _ \<Rightarrow> True)"
    and passes_label: "passes (LabelSelector l v) ev \<longleftrightarrow>
      map_of (meta_Labels (obj_meta (last (event_objects ev)))) l = Some v"
    and handled_object: "handled ForObject ev = {object_key (obj_meta (last (event_objects ev)))}"
    and handled_map: "handled (MapFunc f) ev = (\<Union>obj \<in> set (event_objects ev). set (f obj))"
    and handled_owner: "handled (ForOwner k only) ev = (\<Union>obj \<in> set (event_objects ev). owners_of k only (obj_meta obj))"

text \<open>The requests that a controller's queue receives for an event.\<close>

definition requests ::
  "(event_predicate \<Rightarrow> kevent \<Rightarrow> bool) \<Rightarrow> (event_handler \<Rightarrow> kevent \<Rightarrow> NamespacedName set) \<Rightarrow> registration \<Rightarrow> kevent \<Rightarrow>
     NamespacedName set" where
  "requests passes handled reg ev =
     (\<Union>wt \<in> set (filter (\<lambda>wt. watch_Kind wt = event_kind ev \<and> passes (watch_Predicate wt) ev) (reg_Watches reg)).
        handled (watch_Handler wt) ev)"

text \<open>A runtime that keeps the promises.\<close>

definition std_passes :: "event_predicate \<Rightarrow> kevent \<Rightarrow> bool" where
  "std_passes p ev =
     (case p of
        AllEvents \<Rightarrow> True
      | GenerationChanged \<Rightarrow>
          (case ev of UpdateEvent old new \<Rightarrow> meta_Generation (obj_meta old) \<noteq> meta_Generation (obj_meta new) | _ \<Rightarrow> True)
      | LabelSelector l v \<Rightarrow> map_of (meta_Labels (obj_meta (last (event_objects ev)))) l = Some v)"

definition std_handled :: "event_handler \<Rightarrow> kevent \<Rightarrow> NamespacedName set" where
  "std_handled h ev =
     (case h of
        ForObject \<Rightarrow> {object_key (obj_meta (last (event_objects ev)))}
      | ForOwner k only \<Rightarrow> (\<Union>obj \<in> set (event_objects ev). owners_of k only (obj_meta obj))
      | MapFunc f \<Rightarrow> (\<Union>obj \<in> set (event_objects ev). set (f obj)))"

interpretation std_runtime: controller_runtime std_passes std_handled
  by unfold_locales (simp_all add: std_passes_def std_handled_def split: kevent.split)

lemma std_runtime_ok: "controller_runtime std_passes std_handled"
  by (rule std_runtime.controller_runtime_axioms)

lemmas registrations = providerController_def modelController_def legacyMigrationController_def
  em_SetupWithManager_def ep_SetupWithManager_def on_def

section \<open>Properties\<close>

definition child_kind :: "kind \<Rightarrow> bool" where
  "child_kind k \<longleftrightarrow> k \<in> {KRoute, KService, KServiceEntry, KDestinationRule}"

text \<open>C37: The program does not repair the objects it owns. No event of an HTTPRoute, Service, ServiceEntry or
  DestinationRule queues anything in the controllers that \<^verbatim>\<open>main\<close> starts, whereas with the registrations of
  \<^verbatim>\<open>SetupWithManager\<close>, which the tests start, the deletion or edit of such an object that carries the
  labels and the owner the controllers give it queues its owner. On events of the custom resources the
  two registrations agree.\<close>

theorem children_not_watched:
  assumes "controller_runtime passes handled"
  shows "(\<forall>reg ev. reg \<in> set (main_controllers getenv listIn installed) \<and> child_kind (event_kind ev) \<longrightarrow>
       requests passes handled reg ev = {}) \<and>
    (\<forall>ev m owner. owner \<in> set (meta_Owners m) \<and> owner_Controller owner \<and>
       owner_APIVersion owner = ''inference.opendatahub.io/v1alpha1'' \<and>
       (ev = DeleteEvent (OtherObj k m) \<or> ev = UpdateEvent old (OtherObj k m)) \<longrightarrow>
       (k = KRoute \<and> owner_Kind owner = ''ExternalModel'' \<longrightarrow>
          \<lparr>nn_Namespace = meta_Namespace m, nn_Name = owner_Name owner\<rparr> \<in> requests passes handled (em_SetupWithManager listIn) ev) \<and>
       (k \<in> {KService, KServiceEntry, KDestinationRule} \<and> owner_Kind owner = ''ExternalProvider'' \<and>
        map_of (meta_Labels m) LabelManagedBy = Some ep_managedByValue \<longrightarrow>
          \<lparr>nn_Namespace = meta_Namespace m, nn_Name = owner_Name owner\<rparr> \<in> requests passes handled ep_SetupWithManager ev)) \<and>
    (\<forall>ev. event_kind ev \<in> {KProvider, KModel} \<longrightarrow>
       requests passes handled providerController ev = requests passes handled ep_SetupWithManager ev \<and>
       requests passes handled (modelController listIn) ev = requests passes handled (em_SetupWithManager listIn) ev)"
proof (intro conjI)
  show "\<forall>reg ev. reg \<in> set (main_controllers getenv listIn installed) \<and> child_kind (event_kind ev) \<longrightarrow>
       requests passes handled reg ev = {}"
    by (auto simp: main_controllers_def registrations requests_def child_kind_def split: if_splits)
  show "\<forall>ev. event_kind ev \<in> {KProvider, KModel} \<longrightarrow>
       requests passes handled providerController ev = requests passes handled ep_SetupWithManager ev \<and>
       requests passes handled (modelController listIn) ev = requests passes handled (em_SetupWithManager listIn) ev"
    by (auto simp: registrations requests_def Let_def)
qed (auto simp: registrations requests_def Let_def event_kind_def controller_runtime.passes_all [OF assms]
      controller_runtime.passes_label [OF assms] controller_runtime.handled_owner [OF assms] owners_of_def kind_name_def)

text \<open>A route that the model controller owns.\<close>

definition sample_route_meta :: ObjectMeta where
  "sample_route_meta =
     (new_meta ''gpt'' ''team'' [(LabelManagedBy, em_managedByValue)] [])\<lparr>meta_Owners :=
       [\<lparr>owner_APIVersion = ''inference.opendatahub.io/v1alpha1'', owner_Kind = ''ExternalModel'', owner_Name = ''gpt'',
         owner_UID = ''uid'', owner_Controller = True, owner_BlockOwnerDeletion = True\<rparr>]\<rparr>"

theorem children_not_watched_witness:
  "requests std_passes std_handled (modelController (\<lambda>_. Inr [])) (DeleteEvent (OtherObj KRoute sample_route_meta)) = {} \<and>
   \<lparr>nn_Namespace = ''team'', nn_Name = ''gpt''\<rparr> \<in>
     requests std_passes std_handled (em_SetupWithManager (\<lambda>_. Inr [])) (DeleteEvent (OtherObj KRoute sample_route_meta))"
proof -
  let ?ev = "DeleteEvent (OtherObj KRoute sample_route_meta)"
  note all = children_not_watched [OF std_runtime_ok, where getenv = "\<lambda>_. []" and listIn = "\<lambda>_. Inr []" and k = KRoute
      and installed = False]
  have "modelController (\<lambda>_. Inr []) \<in> set (main_controllers (\<lambda>_. []) (\<lambda>_. Inr []) False)"
    by (simp add: main_controllers_def)
  moreover have "child_kind (event_kind ?ev)" by (simp add: child_kind_def event_kind_def)
  ultimately have 1: "requests std_passes std_handled (modelController (\<lambda>_. Inr [])) ?ev = {}"
    using all [THEN conjunct1] by blast
  have "hd (meta_Owners sample_route_meta) \<in> set (meta_Owners sample_route_meta)"
    by (simp add: sample_route_meta_def)
  with all [THEN conjunct2, THEN conjunct1, rule_format, of "hd (meta_Owners sample_route_meta)" sample_route_meta ?ev, THEN conjunct1]
  have "\<lparr>nn_Namespace = meta_Namespace sample_route_meta, nn_Name = owner_Name (hd (meta_Owners sample_route_meta))\<rparr> \<in>
      requests std_passes std_handled (em_SetupWithManager (\<lambda>_. Inr [])) ?ev"
    by (simp add: sample_route_meta_def)
  with 1 show ?thesis by (simp add: sample_route_meta_def new_meta_def)
qed

section \<open>The filter on model updates\<close>

lemma agc_only_loop_skip:
  "\<not> modelReferencesProvider m provider \<Longrightarrow>
     agc_only_loop provider b (before @ m # after) = agc_only_loop provider b (before @ after)"
  by (induction before arbitrary: b) auto

lemma agc_only_loop_same:
  "modelReferencesProvider old provider = modelReferencesProvider new provider \<Longrightarrow> IsAGCManaged old = IsAGCManaged new \<Longrightarrow>
     agc_only_loop provider b (before @ old # after) = agc_only_loop provider b (before @ new # after)"
  by (induction before arbitrary: b) auto

lemma spec_decides:
  assumes "em_Spec old = em_Spec new" "meta_Namespace (em_Meta old) = meta_Namespace (em_Meta new)"
  shows "modelReferencesProvider old provider = modelReferencesProvider new provider" "IsAGCManaged old = IsAGCManaged new"
  using assms by (simp_all add: modelReferencesProvider_def IsAGCManaged_def foreign_ref_def)

text \<open>C36: The provider controller is told of every change that matters to it. Whenever the creation, deletion or
  update of an ExternalModel changes whether IPP may write the status of a provider, in a list of models
  in any order, the event queues that provider, although updates that leave the generation alone are
  filtered out: a model that stops referring to the provider queues it as well as one that starts to. The
  only assumption on the API server is that an update which changes the spec changes the generation.\<close>

theorem provider_watch_complete:
  assumes "controller_runtime passes handled"
  shows "(agc_only_loop provider False (before @ m # after) \<noteq> agc_only_loop provider False (before @ after) \<longrightarrow>
      object_key (ep_Meta provider) \<in> requests passes handled providerController (CreateEvent (ModelObj m)) \<and>
      object_key (ep_Meta provider) \<in> requests passes handled providerController (DeleteEvent (ModelObj m))) \<and>
    (object_key (em_Meta old) = object_key (em_Meta new) \<and>
     (meta_Generation (em_Meta old) = meta_Generation (em_Meta new) \<longrightarrow> em_Spec old = em_Spec new) \<and>
     agc_only_loop provider False (before @ old # after) \<noteq> agc_only_loop provider False (before @ new # after) \<longrightarrow>
      object_key (ep_Meta provider) \<in> requests passes handled providerController (UpdateEvent (ModelObj old) (ModelObj new)))"
proof (intro conjI impI)
  note rt = controller_runtime.passes_all [OF assms] controller_runtime.passes_generation [OF assms]
    controller_runtime.handled_map [OF assms]
  note key = MapModelToProviders_exact [of provider]
  assume "agc_only_loop provider False (before @ m # after) \<noteq> agc_only_loop provider False (before @ after)"
  then have "modelReferencesProvider m provider" using agc_only_loop_skip by blast
  then show "object_key (ep_Meta provider) \<in> requests passes handled providerController (CreateEvent (ModelObj m))"
    "object_key (ep_Meta provider) \<in> requests passes handled providerController (DeleteEvent (ModelObj m))"
    by (simp_all add: requests_def providerController_def on_def event_kind_def rt providers_of_def key)
next
  note rt = controller_runtime.passes_all [OF assms] controller_runtime.passes_generation [OF assms]
    controller_runtime.handled_map [OF assms]
  note key = MapModelToProviders_exact [of provider]
  assume up: "object_key (em_Meta old) = object_key (em_Meta new) \<and>
     (meta_Generation (em_Meta old) = meta_Generation (em_Meta new) \<longrightarrow> em_Spec old = em_Spec new) \<and>
     agc_only_loop provider False (before @ old # after) \<noteq> agc_only_loop provider False (before @ new # after)"
  then have ns: "meta_Namespace (em_Meta old) = meta_Namespace (em_Meta new)" by (simp add: object_key_def)
  have "em_Spec old \<noteq> em_Spec new"
  proof
    assume "em_Spec old = em_Spec new"
    from agc_only_loop_same [OF spec_decides(1) [OF this ns] spec_decides(2) [OF this ns]] up show False by blast
  qed
  with up have gen: "meta_Generation (em_Meta old) \<noteq> meta_Generation (em_Meta new)" by blast
  have "modelReferencesProvider old provider \<or> modelReferencesProvider new provider"
    using up agc_only_loop_skip [of _ provider False before after] by metis
  with gen show "object_key (ep_Meta provider) \<in> requests passes handled providerController (UpdateEvent (ModelObj old) (ModelObj new))"
    by (auto simp: requests_def providerController_def on_def event_kind_def rt providers_of_def key)
qed

text \<open>The sample model, handed to the AI gateway controller by an edit of its spec.\<close>

definition attached_model :: ExternalModel where
  "attached_model =
     (let model = sample_model ''gpt'' None
      in model\<lparr>em_Meta := (em_Meta model)\<lparr>meta_Generation := 2\<rparr>,
               em_Spec := (em_Spec model)\<lparr>GatewayRefs := [\<lparr>oref_Name = ''gw'', oref_Namespace = []\<rparr>]\<rparr>\<rparr>)"

theorem provider_watch_complete_witness:
  "agc_only_loop sample_provider False [sample_model ''gpt'' None] \<noteq> agc_only_loop sample_provider False [attached_model] \<and>
   \<lparr>nn_Namespace = ''team'', nn_Name = ''openai''\<rparr> \<in>
     requests std_passes std_handled providerController
       (UpdateEvent (ModelObj (sample_model ''gpt'' None)) (ModelObj attached_model))"
proof -
  have a: "agc_only_loop sample_provider False [attached_model] \<and>
      \<not> agc_only_loop sample_provider False [sample_model ''gpt'' None]" by code_simp
  moreover have "object_key (em_Meta (sample_model ''gpt'' None)) = object_key (em_Meta attached_model) \<and>
      meta_Generation (em_Meta (sample_model ''gpt'' None)) \<noteq> meta_Generation (em_Meta attached_model) \<and>
      object_key (ep_Meta sample_provider) = \<lparr>nn_Namespace = ''team'', nn_Name = ''openai''\<rparr>" by code_simp
  ultimately show ?thesis
    using provider_watch_complete [OF std_runtime_ok, where provider = sample_provider and before = "[]" and after = "[]"
        and old = "sample_model ''gpt'' None" and new = attached_model and m = attached_model]
    by (simp del: agc_only_loop.simps)
qed

end
