(* ===== verification/Plugin_Factories.thy ===== *)
theory Plugin_Factories
  imports Headers_Guard Provider_Resolver Api_Translation Api_Key_Injection External_Metering Nemo Profile_Picker
    Controller_Watches Plugin_Stores
begin

text \<open>
  The factories of the plugins and their registration in \<^verbatim>\<open>plugins.go\<close>: how a configured plugin comes into
  being. What a factory calls outside the repository (the JSON decoder of each configuration type, the
  environment, the registration of a controller, the Secret cache) is a field of the record
  \<open>plugin_handle\<close>.
\<close>

abbreviation "GuardPluginType \<equiv> ''maas-headers-guard''"
abbreviation ModelProviderResolverPluginType where "ModelProviderResolverPluginType \<equiv> ''model-provider-resolver''"
abbreviation APITranslationPluginType where "APITranslationPluginType \<equiv> ''api-translation''"
abbreviation APIKeyInjectionPluginType where "APIKeyInjectionPluginType \<equiv> ''apikey-injection''"
abbreviation ExternalMeteringPluginType where "ExternalMeteringPluginType \<equiv> ''external-metering''"
abbreviation ExternalMeteringStreamingPluginType where "ExternalMeteringStreamingPluginType \<equiv> ''external-metering-streaming''"
abbreviation NemoRequestGuardPluginType where "NemoRequestGuardPluginType \<equiv> ''nemo-request-guard''"
abbreviation NemoResponseGuardPluginType where "NemoResponseGuardPluginType \<equiv> ''nemo-response-guard''"
abbreviation "EnforcerPluginType \<equiv> ''stream-usage-enforcer''"
abbreviation PassthroughProfilePickerType where "PassthroughProfilePickerType \<equiv> ''passthrough-profile-picker''"

datatype plugin_instance =
    Guard HeadersGuard
  | Resolver ModelProviderResolverPlugin
  | Translation APITranslationPlugin
  | Injection ApiKeyInjectionPlugin
  | Metering meteringBase
  | MeteringStreaming meteringBase
  | RequestGuard nemoGuardBase
  | ResponseGuard nemoGuardBase
  | Enforcer
  | Picker PassthroughProfilePicker

record TypedName =
  tn_Type :: string
  tn_Name :: string

record plugin =
  typedName :: TypedName
  behaviour :: plugin_instance

definition WithName :: "string \<Rightarrow> plugin \<Rightarrow> plugin" where
  "WithName name p = p\<lparr>typedName := (typedName p)\<lparr>tn_Name := name\<rparr>\<rparr>"

text \<open>A plugin named after its type, as the constructors make it.\<close>

definition new_plugin :: "string \<Rightarrow> plugin_instance \<Rightarrow> plugin" where
  "new_plugin pluginType x = \<lparr>typedName = \<lparr>tn_Type = pluginType, tn_Name = pluginType\<rparr>, behaviour = x\<rparr>"

record nemoGuardConfig =
  cfg_NemoURL :: string
  cfg_TimeoutSeconds :: int

record plugin_handle =
  decode_guard :: "string \<Rightarrow> HeadersGuard \<Rightarrow> HeadersGuard result"
  decode_hubMode :: "string \<Rightarrow> bool \<Rightarrow> bool result"
  decode_picker :: "string \<Rightarrow> PassthroughProfilePicker \<Rightarrow> PassthroughProfilePicker result"
  decode_nemo :: "string \<Rightarrow> nemoGuardConfig \<Rightarrow> nemoGuardConfig result"
  decode_metering :: "string \<Rightarrow> externalMeteringConfig \<Rightarrow> externalMeteringConfig result"
  h_getenv :: "string \<Rightarrow> string"
  h_parseURI :: "string \<Rightarrow> (string \<times> string) result"
  h_complete :: "registration \<Rightarrow> err option"
  h_restConfig :: "err option"
  h_newCache :: "string gomap \<Rightarrow> err option"
  h_cacheSynced :: bool
  h_unmarshal :: decoder
  h_marshal :: encoder
  h_now :: int
  h_listIn :: "string \<Rightarrow> ExternalModel list result"

type_synonym factory = "string \<Rightarrow> string \<Rightarrow> plugin_handle \<Rightarrow> plugin result"

text \<open>\<^verbatim>\<open>if len(raw) > 0 { json.Unmarshal(raw, &cfg) }\<close>\<close>

definition decode_config :: "(string \<Rightarrow> 'c \<Rightarrow> 'c result) \<Rightarrow> string \<Rightarrow> 'c \<Rightarrow> 'c result" where
  "decode_config decode raw defaults = (if raw \<noteq> [] then decode raw defaults else Inr defaults)"

section \<open>The factories\<close>

definition guard_Factory :: factory where
  "guard_Factory name rawParameters handle =
     (case decode_config (decode_guard handle) rawParameters \<lparr>stripRoutingHeaders = False\<rparr> of
        Inl e \<Rightarrow> Inl (WrapErr ''failed to parse the parameters of '%s' plugin - %w'' [ArgS GuardPluginType] e)
      | Inr cfg \<Rightarrow> Inr (WithName name (new_plugin GuardPluginType (Guard cfg))))"

text \<open>The two reconcilers of the resolver: the second also watches the providers.\<close>

definition resolver_provider_watch :: registration where
  "resolver_provider_watch = \<lparr>reg_Name = ''externalprovider'', reg_Watches = [on KProvider ForObject AllEvents]\<rparr>"

definition resolver_model_watch :: "(string \<Rightarrow> ExternalModel list result) \<Rightarrow> registration" where
  "resolver_model_watch listIn =
     \<lparr>reg_Name = ''inference-externalmodel'',
      reg_Watches = [on KModel ForObject AllEvents,
        on KProvider (MapFunc (\<lambda>obj. case obj of ProviderObj provider \<Rightarrow> mapProviderToModels listIn provider | _ \<Rightarrow> [])) AllEvents]\<rparr>"

definition NewModelProviderResolver :: "plugin_handle \<Rightarrow> ModelProviderResolverPlugin result" where
  "NewModelProviderResolver handle =
     (case h_complete handle resolver_provider_watch of
        Some e \<Rightarrow> Inl (WrapErr ''failed to register ExternalProvider reconciler for plugin '%s' - %w''
                         [ArgS ModelProviderResolverPluginType] e)
      | None \<Rightarrow>
          (case h_complete handle (resolver_model_watch (h_listIn handle)) of
             Some e \<Rightarrow> Inl (WrapErr ''failed to register ExternalModel reconciler for plugin '%s' - %w''
                              [ArgS ModelProviderResolverPluginType] e)
           | None \<Rightarrow> Inr \<lparr>mpr_store = newInfoStore, hubMode = False, clusterName = []\<rparr>))"

definition ModelProviderResolverFactory :: factory where
  "ModelProviderResolverFactory name configJSON handle =
     (case decode_config (decode_hubMode handle) configJSON False of
        Inl e \<Rightarrow> Inl (WrapErr ''failed to parse config for plugin '%s': %w'' [ArgS ModelProviderResolverPluginType] e)
      | Inr hub \<Rightarrow>
          (case NewModelProviderResolver handle of
             Inl e \<Rightarrow> Inl (WrapErr ''failed to create plugin '%s' - %w'' [ArgS ModelProviderResolverPluginType] e)
           | Inr p \<Rightarrow>
               Inr (WithName name (new_plugin ModelProviderResolverPluginType
                 (Resolver (p\<lparr>hubMode := hub, clusterName := trimSpace (h_getenv handle ''CLUSTER_NAME'')\<rparr>))))))"

definition APITranslationFactory :: factory where
  "APITranslationFactory name raw handle =
     Inr (WithName name (new_plugin APITranslationPluginType
       (Translation (NewAPITranslationPlugin (h_unmarshal handle) (h_marshal handle) (h_now handle)))))"

definition newFilteredSecretCache :: "plugin_handle \<Rightarrow> err option" where
  "newFilteredSecretCache handle =
     (case h_restConfig handle of
        Some e \<Rightarrow> Some (WrapErr ''failed to get rest config for filtered Secret cache: %w'' [] e)
      | None \<Rightarrow>
          (case h_newCache handle [(managedLabel, ''true'')] of
             Some e \<Rightarrow> Some (WrapErr ''failed to create filtered Secret cache: %w'' [] e)
           | None \<Rightarrow>
               if \<not> h_cacheSynced handle
               then Some (Errorf ''filtered Secret cache failed to sync within deadline'' []) else None))"

text \<open>The watch of the injection plugin is a source on its own cache, which only holds labelled Secrets.\<close>

definition secret_watch :: registration where
  "secret_watch = \<lparr>reg_Name = ''apikey-injection-secret-watcher'', reg_Watches = [on KSecret ForObject AllEvents]\<rparr>"

text \<open>The result, and whether the context of the cache was cancelled.\<close>

definition NewAPIKeyInjectionPlugin :: "plugin_handle \<Rightarrow> ApiKeyInjectionPlugin result \<times> bool" where
  "NewAPIKeyInjectionPlugin handle =
     (case newFilteredSecretCache handle of
        Some e \<Rightarrow> (Inl e, True)
      | None \<Rightarrow>
          (case h_complete handle secret_watch of
             Some e \<Rightarrow> (Inl (WrapErr ''failed to register Secret reconciler for plugin '%s' - %w''
                               [ArgS APIKeyInjectionPluginType] e), True)
           | None \<Rightarrow> (Inr \<lparr>aki_store = newSecretStore, aki_cache = []\<rparr>, False)))"

definition APIKeyInjectionFactory :: factory where
  "APIKeyInjectionFactory name raw handle =
     (case fst (NewAPIKeyInjectionPlugin handle) of
        Inl e \<Rightarrow> Inl (WrapErr ''failed to create plugin '%s' - %w'' [ArgS APIKeyInjectionPluginType] e)
      | Inr p \<Rightarrow> Inr (WithName name (new_plugin APIKeyInjectionPluginType (Injection p))))"

definition ExternalMeteringFactory :: factory where
  "ExternalMeteringFactory name rawParameters handle =
     (case parseConfig (decode_metering handle) ExternalMeteringPluginType rawParameters of
        Inl e \<Rightarrow> Inl e
      | Inr base \<Rightarrow> Inr (WithName name (new_plugin ExternalMeteringPluginType (Metering base))))"

definition ExternalMeteringStreamingFactory :: factory where
  "ExternalMeteringStreamingFactory name rawParameters handle =
     (case parseConfig (decode_metering handle) ExternalMeteringStreamingPluginType rawParameters of
        Inl e \<Rightarrow> Inl e
      | Inr base \<Rightarrow> Inr (WithName name (new_plugin ExternalMeteringStreamingPluginType (MeteringStreaming base))))"

definition NemoRequestGuardFactory :: factory where
  "NemoRequestGuardFactory name rawParameters handle =
     (case decode_config (decode_nemo handle) rawParameters
             \<lparr>cfg_NemoURL = [], cfg_TimeoutSeconds = nemo_defaultTimeoutSec\<rparr> of
        Inl e \<Rightarrow> Inl (WrapErr ''failed to parse the parameters of '%s' plugin - %w'' [ArgS NemoRequestGuardPluginType] e)
      | Inr config \<Rightarrow>
          (case newNemoGuardBase (h_parseURI handle) (cfg_NemoURL config) (cfg_TimeoutSeconds config) of
             Inl e \<Rightarrow> Inl (WrapErr ''failed to create '%s' plugin - %w'' [ArgS NemoRequestGuardPluginType] e)
           | Inr base \<Rightarrow> Inr (WithName name (new_plugin NemoRequestGuardPluginType (RequestGuard base)))))"

definition NemoResponseGuardFactory :: factory where
  "NemoResponseGuardFactory name rawParameters handle =
     (case decode_config (decode_nemo handle) rawParameters
             \<lparr>cfg_NemoURL = [], cfg_TimeoutSeconds = nemo_defaultTimeoutSec\<rparr> of
        Inl e \<Rightarrow> Inl (WrapErr ''failed to parse the parameters of '%s' plugin - %w'' [ArgS NemoResponseGuardPluginType] e)
      | Inr config \<Rightarrow>
          (case newNemoGuardBase (h_parseURI handle) (cfg_NemoURL config) (cfg_TimeoutSeconds config) of
             Inl e \<Rightarrow> Inl (WrapErr ''failed to create '%s' plugin - %w'' [ArgS NemoResponseGuardPluginType] e)
           | Inr base \<Rightarrow> Inr (WithName name (new_plugin NemoResponseGuardPluginType (ResponseGuard base)))))"

definition enforcer_Factory :: factory where
  "enforcer_Factory name raw handle = Inr (WithName name (new_plugin EnforcerPluginType Enforcer))"

definition picker_Factory :: factory where
  "picker_Factory name parameters handle =
     (case decode_config (decode_picker handle) parameters
             \<lparr>translationProfile = defaultTranslationProfile, passthroughProfile = defaultPassthroughProfile\<rparr> of
        Inl e \<Rightarrow> Inl (WrapErr ''failed to parse passthrough-profile-picker parameters: %w'' [] e)
      | Inr cfg \<Rightarrow> Inr \<lparr>typedName = \<lparr>tn_Type = PassthroughProfilePickerType, tn_Name = name\<rparr>, behaviour = Picker cfg\<rparr>)"

section \<open>The registry\<close>

text \<open>\<^verbatim>\<open>plugin.Register\<close> files a factory under a type, in the place of an earlier one.\<close>

definition RegisterPlugins :: "factory gomap \<Rightarrow> factory gomap" where
  "RegisterPlugins registry =
     gcopy registry
       [(GuardPluginType, guard_Factory),
        (ModelProviderResolverPluginType, ModelProviderResolverFactory),
        (APITranslationPluginType, APITranslationFactory),
        (APIKeyInjectionPluginType, APIKeyInjectionFactory),
        (ExternalMeteringPluginType, ExternalMeteringFactory),
        (ExternalMeteringStreamingPluginType, ExternalMeteringStreamingFactory),
        (NemoRequestGuardPluginType, NemoRequestGuardFactory),
        (NemoResponseGuardPluginType, NemoResponseGuardFactory),
        (EnforcerPluginType, enforcer_Factory),
        (PassthroughProfilePickerType, picker_Factory)]"

lemma RegisterPlugins_lookup:
  "map_of (RegisterPlugins registry) =
     (map_of registry)
       (GuardPluginType \<mapsto> guard_Factory, ModelProviderResolverPluginType \<mapsto> ModelProviderResolverFactory,
        APITranslationPluginType \<mapsto> APITranslationFactory, APIKeyInjectionPluginType \<mapsto> APIKeyInjectionFactory,
        ExternalMeteringPluginType \<mapsto> ExternalMeteringFactory,
        ExternalMeteringStreamingPluginType \<mapsto> ExternalMeteringStreamingFactory,
        NemoRequestGuardPluginType \<mapsto> NemoRequestGuardFactory, NemoResponseGuardPluginType \<mapsto> NemoResponseGuardFactory,
        EnforcerPluginType \<mapsto> enforcer_Factory, PassthroughProfilePickerType \<mapsto> picker_Factory)"
  by (simp add: RegisterPlugins_def)

definition ipp_types :: "string set" where
  "ipp_types =
     {GuardPluginType, ModelProviderResolverPluginType, APITranslationPluginType, APIKeyInjectionPluginType,
      ExternalMeteringPluginType, ExternalMeteringStreamingPluginType, NemoRequestGuardPluginType,
      NemoResponseGuardPluginType, EnforcerPluginType, PassthroughProfilePickerType}"

lemmas factories = guard_Factory_def ModelProviderResolverFactory_def APITranslationFactory_def APIKeyInjectionFactory_def
  ExternalMeteringFactory_def ExternalMeteringStreamingFactory_def NemoRequestGuardFactory_def NemoResponseGuardFactory_def
  enforcer_Factory_def picker_Factory_def

text \<open>What the plugin of a factory may be relied on for.\<close>

definition safe_plugin :: "plugin_handle \<Rightarrow> plugin_instance \<Rightarrow> bool" where
  "safe_plugin handle x =
     (case x of
        RequestGuard b \<Rightarrow> (\<exists>host. h_parseURI handle (nemoURL b) = Inr (''https'', host) \<and> host \<noteq> []) \<and> 0 < nemo_Timeout b
      | ResponseGuard b \<Rightarrow> (\<exists>host. h_parseURI handle (nemoURL b) = Inr (''https'', host) \<and> host \<noteq> []) \<and> 0 < nemo_Timeout b
      | Resolver p \<Rightarrow> mpr_store p = newInfoStore \<and> clusterName p = trimSpace (h_getenv handle ''CLUSTER_NAME'') \<and>
          h_complete handle resolver_provider_watch = None \<and>
          h_complete handle (resolver_model_watch (h_listIn handle)) = None
      | Injection p \<Rightarrow> p = \<lparr>aki_store = newSecretStore, aki_cache = []\<rparr> \<and>
          h_newCache handle [(managedLabel, ''true'')] = None \<and> h_cacheSynced handle \<and> h_complete handle secret_watch = None
      | Metering b \<Rightarrow> featureKey b \<noteq> [] \<and> mb_source b \<noteq> []
      | MeteringStreaming b \<Rightarrow> featureKey b \<noteq> [] \<and> mb_source b \<noteq> []
      | _ \<Rightarrow> True)"

lemma newNemoGuardBase_safe:
  assumes "newNemoGuardBase parse url t = Inr b"
  shows "(\<exists>host. parse (nemoURL b) = Inr (''https'', host) \<and> host \<noteq> []) \<and> 0 < nemo_Timeout b"
proof -
  have "0 < seconds nemo_defaultTimeoutSec" by code_simp
  with assms show ?thesis
    by (auto simp: newNemoGuardBase_def Let_def split: if_splits sum.splits)
qed

lemma parseConfig_safe:
  "parseConfig decode t raw = Inr b \<Longrightarrow> featureKey b \<noteq> [] \<and> mb_source b \<noteq> []"
  by (auto simp: parseConfig_def Let_def split: if_splits sum.splits)

lemma NewModelProviderResolver_done:
  "NewModelProviderResolver handle = Inr p \<Longrightarrow>
     mpr_store p = newInfoStore \<and> h_complete handle resolver_provider_watch = None \<and>
     h_complete handle (resolver_model_watch (h_listIn handle)) = None"
  by (auto simp: NewModelProviderResolver_def split: option.splits)

lemma NewAPIKeyInjectionPlugin_done:
  "fst (NewAPIKeyInjectionPlugin handle) = Inr p \<Longrightarrow>
     p = \<lparr>aki_store = newSecretStore, aki_cache = []\<rparr> \<and> h_newCache handle [(managedLabel, ''true'')] = None \<and>
     h_cacheSynced handle \<and> h_complete handle secret_watch = None"
  by (auto simp: NewAPIKeyInjectionPlugin_def newFilteredSecretCache_def split: option.splits if_splits)

text \<open>A plugin is what its configuration names. Registering the plugins leaves every other factory of the
  registry alone, also when the registry already had one of these types; the factory found under a type
  returns only plugins of that type with the configured name, and returns one only if it is safe to run: a
  guard has an https URL with a host and a positive timeout, the resolver starts with an empty store that
  both its reconcilers fill, the key injection reads Secrets through a synced cache that is restricted to
  the managed label, and a metering plugin has a feature and a source.\<close>

theorem registered_factory_safe:
  assumes "map_of (RegisterPlugins registry) t = Some f"
  shows "if t \<in> ipp_types
    then \<forall>name raw handle p. f name raw handle = Inr p \<longrightarrow>
      typedName p = \<lparr>tn_Type = t, tn_Name = name\<rparr> \<and> safe_plugin handle (behaviour p)
    else map_of registry t = Some f"
proof (cases "t \<in> ipp_types")
  case False
  then show ?thesis using assms by (auto simp: RegisterPlugins_lookup ipp_types_def)
next
  case True
  have "typedName p = \<lparr>tn_Type = t, tn_Name = name\<rparr> \<and> safe_plugin handle (behaviour p)"
    if r: "f name raw handle = Inr p" for name raw handle p
    using True unfolding ipp_types_def insert_iff empty_iff
  proof (elim disjE)
    assume t: "t = ModelProviderResolverPluginType"
    with assms r show ?thesis
      by (auto simp: RegisterPlugins_lookup ModelProviderResolverFactory_def WithName_def new_plugin_def safe_plugin_def
          split: sum.splits dest!: NewModelProviderResolver_done)
  next
    assume t: "t = APIKeyInjectionPluginType"
    with assms r show ?thesis
      by (auto simp: RegisterPlugins_lookup APIKeyInjectionFactory_def WithName_def new_plugin_def safe_plugin_def
          split: sum.splits dest!: NewAPIKeyInjectionPlugin_done)
  next
    assume t: "t = NemoRequestGuardPluginType"
    with assms r show ?thesis
      by (auto simp: RegisterPlugins_lookup NemoRequestGuardFactory_def WithName_def new_plugin_def safe_plugin_def
          split: sum.splits dest!: newNemoGuardBase_safe)
  next
    assume t: "t = NemoResponseGuardPluginType"
    with assms r show ?thesis
      by (auto simp: RegisterPlugins_lookup NemoResponseGuardFactory_def WithName_def new_plugin_def safe_plugin_def
          split: sum.splits dest!: newNemoGuardBase_safe)
  next
    assume t: "t = ExternalMeteringPluginType"
    with assms r show ?thesis
      by (auto simp: RegisterPlugins_lookup ExternalMeteringFactory_def WithName_def new_plugin_def safe_plugin_def
          split: sum.splits dest!: parseConfig_safe)
  next
    assume t: "t = ExternalMeteringStreamingPluginType"
    with assms r show ?thesis
      by (auto simp: RegisterPlugins_lookup ExternalMeteringStreamingFactory_def WithName_def new_plugin_def safe_plugin_def
          split: sum.splits dest!: parseConfig_safe)
  qed (use assms r in \<open>auto simp: RegisterPlugins_lookup guard_Factory_def APITranslationFactory_def enforcer_Factory_def
        picker_Factory_def WithName_def new_plugin_def safe_plugin_def split: sum.splits\<close>)
  with True show ?thesis by simp
qed

text \<open>A handle whose calls all succeed, with a NeMo configuration.\<close>

definition sample_handle :: plugin_handle where
  "sample_handle =
     \<lparr>decode_guard = (\<lambda>_. Inr), decode_hubMode = (\<lambda>_. Inr), decode_picker = (\<lambda>_. Inr),
      decode_nemo = (\<lambda>_ c. Inr (c\<lparr>cfg_NemoURL := ''https://nemo''\<rparr>)), decode_metering = (\<lambda>_. Inr), h_getenv = (\<lambda>_. []),
      h_parseURI = (\<lambda>u. Inr (''https'', ''nemo'')), h_complete = (\<lambda>_. None), h_restConfig = None, h_newCache = (\<lambda>_. None),
      h_cacheSynced = True, h_unmarshal = (\<lambda>_. None), h_marshal = (\<lambda>_. None), h_now = 0, h_listIn = (\<lambda>_. Inr [])\<rparr>"

theorem registered_factory_safe_witness:
  "\<exists>p. NemoRequestGuardFactory ''input'' ''{}'' sample_handle = Inr p \<and>
     typedName p = \<lparr>tn_Type = NemoRequestGuardPluginType, tn_Name = ''input''\<rparr> \<and> safe_plugin sample_handle (behaviour p)"
proof -
  have f: "map_of (RegisterPlugins []) NemoRequestGuardPluginType = Some NemoRequestGuardFactory"
    by (simp add: RegisterPlugins_lookup)
  have "(case NemoRequestGuardFactory ''input'' ''{}'' sample_handle of Inl _ \<Rightarrow> False | Inr p \<Rightarrow> True)"
    by code_simp
  then obtain p where p: "NemoRequestGuardFactory ''input'' ''{}'' sample_handle = Inr p"
    by (auto split: sum.splits)
  moreover have "NemoRequestGuardPluginType \<in> ipp_types" by (simp add: ipp_types_def)
  ultimately show ?thesis using registered_factory_safe [OF f] by simp
qed

end
