(* ===== verification/Grpc_Max_Recv.thy ===== *)
theory Grpc_Max_Recv
  imports Go_Any
begin

text \<open>
  \<^verbatim>\<open>cmd/grpcmaxrecv.go\<close>: the receive limit of the external processing server from the environment.
  \<^verbatim>\<open>resource.ParseQuantity\<close> is a parameter: the sign and the \<^verbatim>\<open>int64\<close> value of the quantity, or an error.
  \<^verbatim>\<open>int\<close> has 64 bits.
\<close>

abbreviation grpcMaxRecvMsgSizeEnv where "grpcMaxRecvMsgSizeEnv \<equiv> ''GRPC_MAX_RECV_MSG_SIZE''"

definition defaultGRPCMaxRecvMsgSize :: int where
  "defaultGRPCMaxRecvMsgSize = 32 * 1024 * 1024"

record quantity =
  q_Sign :: int
  q_Value :: int

definition parseMsgSizeBytes :: "(string \<Rightarrow> quantity result) \<Rightarrow> string \<Rightarrow> int result" where
  "parseMsgSizeBytes parseQuantity raw =
     (case atoi raw of
        Some n \<Rightarrow> Inr n
      | None \<Rightarrow>
          (case parseQuantity raw of
             Inl e \<Rightarrow> Inl (WrapErr ''parse size: %w'' [] e)
           | Inr q \<Rightarrow>
               if q_Sign q \<le> 0 then Inl (Errorf ''size must be positive'' [])
               else if q_Value q > 2 ^ 63 - 1 then Inl (Errorf ''size %d overflows int'' [ArgI (q_Value q)])
               else Inr (q_Value q)))"

definition resolveGRPCMaxRecvMsgSizeFrom :: "(string \<Rightarrow> quantity result) \<Rightarrow> string \<Rightarrow> int result" where
  "resolveGRPCMaxRecvMsgSizeFrom parseQuantity raw =
     (let raw = trimSpace raw
      in if raw = [] then Inr defaultGRPCMaxRecvMsgSize
         else case parseMsgSizeBytes parseQuantity raw of
           Inl e \<Rightarrow> Inl (WrapErr ''%s=%q: %w'' [ArgS grpcMaxRecvMsgSizeEnv, ArgS raw] e)
         | Inr n \<Rightarrow>
             if n \<le> 0 then Inl (Errorf ''%s=%q: must be a positive size'' [ArgS grpcMaxRecvMsgSizeEnv, ArgS raw])
             else Inr n)"

lemma grpc_limit_range:
  assumes "resolveGRPCMaxRecvMsgSizeFrom parseQuantity raw = Inr n"
  shows "0 < n \<and> n < 2 ^ 63"
proof (cases "atoi (trimSpace raw)")
  case (Some i)
  with assms parse_int_range [OF Some] show ?thesis
    by (auto simp: resolveGRPCMaxRecvMsgSizeFrom_def parseMsgSizeBytes_def defaultGRPCMaxRecvMsgSize_def Let_def split: if_splits)
next
  case None
  with assms show ?thesis
    by (auto simp: resolveGRPCMaxRecvMsgSizeFrom_def parseMsgSizeBytes_def defaultGRPCMaxRecvMsgSize_def Let_def
        split: if_splits sum.splits)
qed

text \<open>C40: The receive limit of the server is a positive \<^verbatim>\<open>int\<close> for every value of the environment variable
  and every behaviour of the quantity parser. A blank value gives 32 MiB; otherwise an accepted value is the
  decimal number it writes, or the value of the quantity it parses to; any other value is an error and the
  server does not start.\<close>

theorem grpc_limit_bounded:
  "case resolveGRPCMaxRecvMsgSizeFrom parseQuantity raw of
     Inr n \<Rightarrow> 0 < n \<and> n < 2 ^ 63 \<and>
       n = (if trimSpace raw = [] then 33554432
            else case atoi (trimSpace raw) of Some i \<Rightarrow> i | None \<Rightarrow> q_Value (projr (parseQuantity (trimSpace raw))))
   | Inl e \<Rightarrow> trimSpace raw \<noteq> [] \<and>
       (case atoi (trimSpace raw) of
          Some i \<Rightarrow> i \<le> 0
        | None \<Rightarrow> (case parseQuantity (trimSpace raw) of
                    Inl _ \<Rightarrow> True
                  | Inr q \<Rightarrow> q_Sign q \<le> 0 \<or> q_Value q \<le> 0 \<or> 2 ^ 63 - 1 < q_Value q))"
proof (cases "trimSpace raw = []")
  case True
  then show ?thesis by (simp add: resolveGRPCMaxRecvMsgSizeFrom_def defaultGRPCMaxRecvMsgSize_def)
next
  case False
  show ?thesis
  proof (cases "atoi (trimSpace raw)")
    case (Some i)
    with False parse_int_range [OF Some] show ?thesis
      by (simp add: resolveGRPCMaxRecvMsgSizeFrom_def parseMsgSizeBytes_def)
  next
    case None
    with False show ?thesis
      by (auto simp: resolveGRPCMaxRecvMsgSizeFrom_def parseMsgSizeBytes_def split: sum.split)
  qed
qed

end
