(* ===== verification/Startup.thy ===== *)
theory Startup
  imports Plugin_Factories Grpc_Max_Recv Dynamic_Metadata
begin

text \<open>
  \<^verbatim>\<open>cmd/runner.go\<close>: how the program starts. The libraries it calls (flags, the controller manager, the
  configuration loader, the data layer, the network) are fields of the record \<open>startup_env\<close>, each with the
  error it returns; what \<^verbatim>\<open>run\<close> did is the list of its effects. Logging is left out.
\<close>

section \<open>The servers\<close>

record grpc_options =
  go_MaxRecv :: "int option"
  go_MinTLS :: "string option"

datatype runnable = ExtProcRunnable ext_proc_server int int bool | HealthRunnable int

record managed_runnable =
  NeedLeaderElection :: bool
  mr_Runnable :: runnable

definition noLeaderElection :: "runnable \<Rightarrow> managed_runnable" where
  "noLeaderElection r = \<lparr>NeedLeaderElection = False, mr_Runnable = r\<rparr>"

definition resolveGRPCMaxRecvMsgSize :: "(string \<Rightarrow> quantity result) \<Rightarrow> (string \<Rightarrow> string) \<Rightarrow> int result" where
  "resolveGRPCMaxRecvMsgSize parseQuantity getenv =
     resolveGRPCMaxRecvMsgSizeFrom parseQuantity (getenv grpcMaxRecvMsgSizeEnv)"

definition newExtProcRunnable ::
  "(string \<Rightarrow> quantity result) \<Rightarrow> (string \<Rightarrow> string) \<Rightarrow> ext_proc_server \<Rightarrow> int \<Rightarrow> bool \<Rightarrow> runnable result" where
  "newExtProcRunnable parseQuantity getenv extProcServer port secureServing =
     (case resolveGRPCMaxRecvMsgSize parseQuantity getenv of
        Inl e \<Rightarrow> Inl e
      | Inr maxRecv \<Rightarrow> Inr (ExtProcRunnable extProcServer maxRecv port secureServing))"

text \<open>The network: a listener on a port, and how serving on it ends.\<close>

datatype serve_result = ServeEnded | ErrServerStopped | ServeFailed err

text \<open>The template of the certificate, with times in seconds, and the steps that may fail.\<close>

record cert_template =
  SerialNumber :: int
  Organization :: string
  NotBefore :: int
  NotAfter :: int

record cert_env =
  ce_randInt :: "int \<Rightarrow> int result"
  ce_now :: int
  ce_generateKey :: "nat \<Rightarrow> string result"
  ce_createCertificate :: "cert_template \<Rightarrow> string \<Rightarrow> string result"
  ce_marshalKey :: "string \<Rightarrow> string result"
  ce_keyPair :: "string \<Rightarrow> string \<Rightarrow> string result"

definition createSelfSignedCert :: "cert_env \<Rightarrow> string result" where
  "createSelfSignedCert ce =
     (case ce_randInt ce (2 ^ 128) of
        Inl e \<Rightarrow> Inl (WrapErr ''error creating serial number: %v'' [] e)
      | Inr serialNumber \<Rightarrow>
          (let template = \<lparr>SerialNumber = serialNumber, Organization = ''Inference Ext'', NotBefore = ce_now ce,
                           NotAfter = ce_now ce + 3600 * 24 * 365 * 10\<rparr>
           in case ce_generateKey ce 4096 of
                Inl e \<Rightarrow> Inl (WrapErr ''error generating key: %v'' [] e)
              | Inr priv \<Rightarrow>
                  (case ce_createCertificate ce template priv of
                     Inl e \<Rightarrow> Inl (WrapErr ''error creating certificate: %v'' [] e)
                   | Inr derBytes \<Rightarrow>
                       (case ce_marshalKey ce priv of
                          Inl e \<Rightarrow> Inl (WrapErr ''error marshalling private key: %v'' [] e)
                        | Inr privBytes \<Rightarrow> ce_keyPair ce derBytes privBytes))))"

record net_env =
  ne_cert :: cert_env
  ne_listen :: "int \<Rightarrow> err option"
  ne_serve :: "grpc_options \<Rightarrow> serve_result"

text \<open>The options a server was started with, if it was, and the error it ended with.\<close>

definition startGRPCServer :: "net_env \<Rightarrow> grpc_options \<Rightarrow> int \<Rightarrow> grpc_options option \<times> err option" where
  "startGRPCServer net srv port =
     (case ne_listen net port of
        Some e \<Rightarrow> (None, Some (WrapErr ''gRPC server failed to listen - %w'' [] e))
      | None \<Rightarrow>
          (Some srv,
           (case ne_serve net srv of
              ServeFailed e \<Rightarrow> Some (WrapErr ''gRPC server failed - %w'' [] e)
            | _ \<Rightarrow> None)))"

fun run_runnable :: "net_env \<Rightarrow> runnable \<Rightarrow> grpc_options option \<times> err option" where
  "run_runnable net (ExtProcRunnable extProcServer maxRecv port secureServing) =
     (let grpcOpts = \<lparr>go_MaxRecv = Some maxRecv, go_MinTLS = None\<rparr>
      in if secureServing then
           (case createSelfSignedCert (ne_cert net) of
              Inl e \<Rightarrow> (None, Some (WrapErr ''failed to create self signed certificate - %w'' [] e))
            | Inr cert \<Rightarrow> startGRPCServer net (grpcOpts\<lparr>go_MinTLS := Some ''TLS1.2''\<rparr>) port)
         else startGRPCServer net grpcOpts port)"
| "run_runnable net (HealthRunnable port) = startGRPCServer net \<lparr>go_MaxRecv = None, go_MinTLS = None\<rparr> port"

datatype health_status = SERVING

abbreviation "ext_proc_service \<equiv> ''envoy.service.ext_proc.v3.ExternalProcessor''"

definition health_Check :: "string \<Rightarrow> health_status result" where
  "health_Check service = Inr SERVING"

definition health_List :: "health_status gomap result" where
  "health_List =
     (case health_Check ext_proc_service of
        Inl e \<Rightarrow> Inl e
      | Inr resp \<Rightarrow> Inr [(ext_proc_service, resp)])"

definition health_Watch :: "err option" where
  "health_Watch = Some (Errorf ''Watch is not implemented'' [])"

section \<open>The run\<close>

record options =
  Tracing :: bool
  EnablePprof :: bool
  ConfigText :: string
  ConfigFile :: string
  GRPCPort :: int
  GRPCHealthPort :: int
  MetricsPort :: int
  MetricsEndpointAuth :: bool
  SecureServing :: bool

record manager_options =
  mo_metricsPort :: int
  mo_metricsAuth :: bool
  mo_namespaces :: "string list"

record startup_env =
  se_complete :: "options result"
  se_validate :: "options \<Rightarrow> err option"
  se_tracing :: "err option"
  se_restConfig :: "err option"
  se_getenv :: "string \<Rightarrow> string"
  se_newManager :: "manager_options \<Rightarrow> err option"
  se_pprof :: "err option"
  se_controller :: "registration \<Rightarrow> err option"
  se_readFile :: "string \<Rightarrow> string result"
  se_inTree :: "factory gomap"
  se_load :: "factory gomap \<Rightarrow> string \<Rightarrow> err option"
  se_processor :: "err option"
  se_newServer :: "string \<Rightarrow> ext_proc_server"
  se_unmarshal :: entry_decoder
  se_parseQuantity :: "string \<Rightarrow> quantity result"
  se_add :: "managed_runnable \<Rightarrow> err option"
  se_start :: "err option"

datatype effect =
    CreatedManager manager_options
  | RegisteredController registration
  | StartedProcessor
  | AddedRunnable managed_runnable
  | StartedManager
  | StoppedProcessor

type_synonym outcome = "effect list \<times> err option"

text \<open>\<^verbatim>\<open>if err := ...; err != nil { return err }\<close>, with the effect of the call when it succeeds.\<close>

definition try_call :: "err option \<Rightarrow> effect list \<Rightarrow> outcome" where
  "try_call e effects = (case e of None \<Rightarrow> (effects, None) | Some _ \<Rightarrow> ([], e))"

definition and_then :: "outcome \<Rightarrow> outcome \<Rightarrow> outcome" where
  "and_then a b = (case a of (effects, Some e) \<Rightarrow> (effects, Some e) | (effects, None) \<Rightarrow> (effects @ fst b, snd b))"

fun register_controllers :: "startup_env \<Rightarrow> registration list \<Rightarrow> outcome" where
  "register_controllers env [] = ([], None)"
| "register_controllers env (c # cs) =
     and_then (try_call (se_controller env c) [RegisteredController c]) (register_controllers env cs)"

definition manager_options_of :: "startup_env \<Rightarrow> options \<Rightarrow> manager_options" where
  "manager_options_of env opts =
     (let namespace = se_getenv env ''NAMESPACE''
      in \<lparr>mo_metricsPort = MetricsPort opts, mo_metricsAuth = MetricsEndpointAuth opts,
          mo_namespaces = (if namespace \<noteq> [] then [namespace] else [])\<rparr>)"

text \<open>The inline configuration wins over the file; without either the configuration is empty.\<close>

definition config_bytes :: "startup_env \<Rightarrow> options \<Rightarrow> string result" where
  "config_bytes env opts =
     (if ConfigText opts \<noteq> [] then Inr (ConfigText opts)
      else if ConfigFile opts \<noteq> [] then
        (case se_readFile env (ConfigFile opts) of
           Inl e \<Rightarrow> Inl (WrapErr ''failed to load config from a file '%s' - %w'' [ArgS (ConfigFile opts)] e)
         | Inr bytes \<Rightarrow> Inr bytes)
      else Inr [])"

definition registerInTreePlugins :: "factory gomap \<Rightarrow> factory gomap \<Rightarrow> factory gomap" where
  "registerInTreePlugins inTree registry = gcopy registry inTree"

text \<open>From the loaded configuration to the end: the handler of the framework is wrapped, and
  \<^verbatim>\<open>defer processor.Stop()\<close> runs on every return.\<close>

definition serve :: "startup_env \<Rightarrow> options \<Rightarrow> string \<Rightarrow> outcome" where
  "serve env opts theConfig =
     (let wrappedServer = WrapServer (se_unmarshal env) (se_newServer env theConfig);
          body =
        (case newExtProcRunnable (se_parseQuantity env) (se_getenv env) wrappedServer (GRPCPort opts) (SecureServing opts) of
           Inl e \<Rightarrow> ([], Some e)
         | Inr extProc \<Rightarrow>
             and_then (try_call (se_add env (noLeaderElection extProc)) [AddedRunnable (noLeaderElection extProc)])
            (and_then (try_call (se_add env (noLeaderElection (HealthRunnable (GRPCHealthPort opts))))
                         [AddedRunnable (noLeaderElection (HealthRunnable (GRPCHealthPort opts)))])
              ([StartedManager], se_start env)))
      in (fst body @ [StoppedProcessor], snd body))"

definition run :: "startup_env \<Rightarrow> registration list \<Rightarrow> outcome" where
  "run env controllers =
     (case se_complete env of
        Inl e \<Rightarrow> ([], Some e)
      | Inr opts \<Rightarrow>
          and_then (try_call (se_validate env opts) [])
         (and_then (if Tracing opts then try_call (se_tracing env) [] else ([], None))
         (and_then (try_call (se_restConfig env) [])
         (and_then (try_call (se_newManager env (manager_options_of env opts)) [CreatedManager (manager_options_of env opts)])
         (and_then (if EnablePprof opts then try_call (se_pprof env) [] else ([], None))
         (and_then (register_controllers env controllers)
           (case config_bytes env opts of
              Inl e \<Rightarrow> ([], Some e)
            | Inr bytes \<Rightarrow>
                and_then (try_call (se_load env (RegisterPlugins (registerInTreePlugins (se_inTree env) [])) bytes) [])
               (and_then (try_call (se_processor env) [StartedProcessor]) (serve env opts bytes)))))))))"

section \<open>Property\<close>

lemma and_then_simps [simp]:
  "and_then (effects, Some e) b = (effects, Some e)"
  "and_then (effects, None) b = (effects @ fst b, snd b)"
  "and_then ([], None) b = b"
  by (simp_all add: and_then_def)

lemma try_call_simps [simp]:
  "try_call None effects = (effects, None)" "try_call (Some e) effects = ([], Some e)"
  by (simp_all add: try_call_def)

lemma register_controllers_cases:
  obtains (done') "register_controllers env cs = (map RegisteredController cs, None)"
  | (failed) rs e where "register_controllers env cs = (map RegisteredController rs, Some e)"
proof (induction cs arbitrary: thesis)
  case Nil
  then show ?case by simp
next
  case (Cons c cs)
  show ?case
  proof (cases "se_controller env c")
    case (Some e)
    then show ?thesis using Cons.prems(2) [of "[]" e] by simp
  next
    case None
    show ?thesis
    proof (rule Cons.IH)
      assume "register_controllers env cs = (map RegisteredController cs, None)"
      with None show thesis by (intro Cons.prems(1)) simp
    next
      fix rs e assume "register_controllers env cs = (map RegisteredController rs, Some e)"
      with None show thesis by (intro Cons.prems(2) [of "c # rs" e]) simp
    qed
  qed
qed

text \<open>The servers that the manager runs.\<close>

definition the_servers :: "options \<Rightarrow> ext_proc_server \<Rightarrow> int \<Rightarrow> effect list" where
  "the_servers opts srv n =
     [AddedRunnable (noLeaderElection (ExtProcRunnable srv n (GRPCPort opts) (SecureServing opts))),
      AddedRunnable (noLeaderElection (HealthRunnable (GRPCHealthPort opts)))]"

lemma serve_cases:
  obtains (served) n where "resolveGRPCMaxRecvMsgSize (se_parseQuantity env) (se_getenv env) = Inr n"
    "serve env opts bytes = (the_servers opts (WrapServer (se_unmarshal env) (se_newServer env bytes)) n @ [StartedManager, StoppedProcessor], se_start env)"
  | (refused) effs e where "serve env opts bytes = (effs @ [StoppedProcessor], Some e)" "StartedManager \<notin> set effs"
proof (cases "resolveGRPCMaxRecvMsgSize (se_parseQuantity env) (se_getenv env)")
  case (Inl e)
  then show ?thesis using refused [of "[]" e] by (simp add: serve_def Let_def newExtProcRunnable_def)
next
  case (Inr n)
  let ?ext = "noLeaderElection (ExtProcRunnable (WrapServer (se_unmarshal env) (se_newServer env bytes)) n (GRPCPort opts) (SecureServing opts))"
    and ?health = "noLeaderElection (HealthRunnable (GRPCHealthPort opts))"
  show ?thesis
  proof (cases "se_add env ?ext"; cases "se_add env ?health")
    assume "se_add env ?ext = None" "se_add env ?health = None"
    with Inr show ?thesis using served [of n] by (simp add: serve_def Let_def newExtProcRunnable_def the_servers_def)
  next
    fix e assume "se_add env ?ext = None" "se_add env ?health = Some e"
    with Inr show ?thesis using refused [of "[AddedRunnable ?ext]" e] by (simp add: serve_def Let_def newExtProcRunnable_def)
  qed (use Inr refused [of "[]"] in \<open>simp_all add: serve_def Let_def newExtProcRunnable_def\<close>)
qed

text \<open>What has succeeded when the manager is started.\<close>

definition started_well :: "startup_env \<Rightarrow> registration list \<Rightarrow> effect list \<Rightarrow> bool" where
  "started_well env controllers effs \<longleftrightarrow>
     (\<exists>opts n bytes. se_complete env = Inr opts \<and> se_validate env opts = None \<and>
        config_bytes env opts = Inr bytes \<and>
        se_load env (RegisterPlugins (registerInTreePlugins (se_inTree env) [])) bytes = None \<and>
        resolveGRPCMaxRecvMsgSize (se_parseQuantity env) (se_getenv env) = Inr n \<and>
        effs = [CreatedManager (manager_options_of env opts)] @ map RegisteredController controllers @
               [StartedProcessor] @ the_servers opts (WrapServer (se_unmarshal env) (se_newServer env bytes)) n @ [StartedManager, StoppedProcessor])"

lemma run_outcome:
  "(started_well env controllers (fst (run env controllers)) \<and> snd (run env controllers) = se_start env) \<or>
   (snd (run env controllers) \<noteq> None \<and> StartedManager \<notin> set (fst (run env controllers)) \<and>
    (StartedProcessor \<in> set (fst (run env controllers)) \<longrightarrow> last (fst (run env controllers)) = StoppedProcessor))"
proof (cases "se_complete env")
  case (Inr opts)
  note regs = register_controllers_cases [of env controllers]
  show ?thesis
  proof (cases "se_validate env opts \<noteq> None \<or> Tracing opts \<and> se_tracing env \<noteq> None \<or> se_restConfig env \<noteq> None \<or>
      se_newManager env (manager_options_of env opts) \<noteq> None \<or> EnablePprof opts \<and> se_pprof env \<noteq> None")
    case True
    have "\<exists>effs e. run env controllers = (effs, Some e) \<and> set effs \<subseteq> range CreatedManager"
    proof (cases "se_validate env opts")
      case None
      show ?thesis
      proof (cases "Tracing opts \<and> se_tracing env \<noteq> None")
        case False
        then have t: "(if Tracing opts then try_call (se_tracing env) [] else ([], None)) = ([], None)" by auto
        show ?thesis
        proof (cases "se_restConfig env"; cases "se_newManager env (manager_options_of env opts)")
          assume ok: "se_restConfig env = None" "se_newManager env (manager_options_of env opts) = None"
          with True False None obtain e where "EnablePprof opts" "se_pprof env = Some e" by auto
          with ok None Inr t show ?thesis by (simp add: run_def)
        qed (use None Inr t in \<open>simp_all add: run_def\<close>)
      qed (use None Inr in \<open>auto simp: run_def\<close>)
    qed (use Inr in \<open>simp add: run_def\<close>)
    then show ?thesis by auto
  next
    case False
    then have ok: "se_validate env opts = None" "Tracing opts \<Longrightarrow> se_tracing env = None" "se_restConfig env = None"
      "se_newManager env (manager_options_of env opts) = None" "EnablePprof opts \<Longrightarrow> se_pprof env = None" by auto
    let ?tail = "case config_bytes env opts of
        Inl e \<Rightarrow> ([], Some e)
      | Inr bytes \<Rightarrow>
          and_then (try_call (se_load env (RegisterPlugins (registerInTreePlugins (se_inTree env) [])) bytes) [])
         (and_then (try_call (se_processor env) [StartedProcessor]) (serve env opts bytes))"
    have run: "run env controllers =
        (let r = and_then (register_controllers env controllers) ?tail
         in (CreatedManager (manager_options_of env opts) # fst r, snd r))"
      using Inr ok by (cases "Tracing opts"; cases "EnablePprof opts") (simp_all add: run_def Let_def)
    show ?thesis
    proof (cases rule: regs)
      case (failed rs e)
      then show ?thesis by (auto simp: run Let_def)
    next
      case done'
      show ?thesis
      proof (cases "config_bytes env opts")
        case (Inl e)
        with done' show ?thesis by (auto simp: run Let_def)
      next
        case (Inr bytes)
        show ?thesis
        proof (cases "se_load env (RegisterPlugins (registerInTreePlugins (se_inTree env) [])) bytes"; cases "se_processor env")
          assume load: "se_load env (RegisterPlugins (registerInTreePlugins (se_inTree env) [])) bytes = None"
            "se_processor env = None"
          show ?thesis
          proof (cases rule: serve_cases [of env opts bytes])
            case (served n)
            then show ?thesis
              using done' Inr load \<open>se_complete env = Inr opts\<close> ok(1) by (simp add: run Let_def started_well_def)
          next
            case (refused effs e)
            then show ?thesis using done' Inr load by (auto simp: run Let_def)
          qed
        qed (use done' Inr in \<open>auto simp: run Let_def\<close>)
      qed
    qed
  qed
qed (simp add: run_def)


text \<open>An environment in which everything succeeds.\<close>

definition sample_startup :: startup_env where
  "sample_startup =
     \<lparr>se_complete = Inr \<lparr>Tracing = False, EnablePprof = False, ConfigText = ''plugins: []'', ConfigFile = [], GRPCPort = 9004,
        GRPCHealthPort = 9005, MetricsPort = 9090, MetricsEndpointAuth = True, SecureServing = True\<rparr>,
      se_validate = (\<lambda>_. None), se_tracing = None, se_restConfig = None, se_getenv = (\<lambda>_. []), se_newManager = (\<lambda>_. None),
      se_pprof = None, se_controller = (\<lambda>_. None), se_readFile = Inr, se_inTree = [], se_load = (\<lambda>_ _. None),
      se_processor = None, se_newServer = (\<lambda>_ _. []), se_unmarshal = (\<lambda>_ e. (e, False)), se_parseQuantity = (\<lambda>_. Inl (Errorf [] [])), se_add = (\<lambda>_. None), se_start = None\<rparr>"


end
