(* ===== verification/Go_Heap.thy ===== *)
theory Go_Heap
  imports Go_Prelude "HOL-Library.Sublist"
begin

text \<open>
  Go's memory, for the code whose point is what it shares: pointers, slices and maps are addresses into a heap
  of cells. The locale \<open>heap_data\<close> is a type whose values reach addresses, \<open>deep_copy\<close> a function that copies
  such a value: the copy reads the same and reaches new addresses only. The lemmas show that copying a pointer,
  a slice or a map is deep when copying the element is, and so on for structs, field by field.
\<close>

section \<open>Heap, pointers, slices\<close>

text \<open>An address is a position, so allocation appends and the old heap stays a prefix.\<close>

type_synonym 'c gheap = "'c list"

text \<open>A cell holds an array of one element type: how to make it, how to read it, and the type's zero value.\<close>

record ('a, 'c) kind =
  k_mk :: "'a list \<Rightarrow> 'c"
  k_dest :: "'c \<Rightarrow> 'a list option"
  k_zero :: 'a

definition kind_ok :: "('a, 'c) kind \<Rightarrow> bool" where
  "kind_ok k \<longleftrightarrow> (\<forall>xs. k_dest k (k_mk k xs) = Some xs)"

definition array_at :: "('a, 'c) kind \<Rightarrow> 'c gheap \<Rightarrow> nat \<Rightarrow> 'a list" where
  "array_at k h a = (if a < length h then (case k_dest k (h ! a) of Some xs \<Rightarrow> xs | None \<Rightarrow> []) else [])"

text \<open>A slice is a window of an array; \<^verbatim>\<open>nil\<close> is \<open>None\<close>.\<close>

record slice =
  sl_array :: nat
  sl_offset :: nat
  sl_len :: nat

definition elems :: "('a, 'c) kind \<Rightarrow> 'c gheap \<Rightarrow> slice \<Rightarrow> 'a list" where
  "elems k h s = take (sl_len s) (drop (sl_offset s) (array_at k h (sl_array s)))"

text \<open>\<^verbatim>\<open>make([]T, n)\<close>, and the assignment \<^verbatim>\<open>s[i] = v\<close>\<close>

definition make_slice :: "('a, 'c) kind \<Rightarrow> 'c gheap \<Rightarrow> nat \<Rightarrow> slice \<times> 'c gheap" where
  "make_slice k h n =
     (\<lparr>sl_array = length h, sl_offset = 0, sl_len = n\<rparr>, h @ [k_mk k (replicate n (k_zero k))])"

definition set_elem :: "('a, 'c) kind \<Rightarrow> slice \<Rightarrow> nat \<Rightarrow> 'a \<Rightarrow> 'c gheap \<Rightarrow> 'c gheap" where
  "set_elem k s i v h = h[sl_array s := k_mk k ((array_at k h (sl_array s))[sl_offset s + i := v])]"

text \<open>\<^verbatim>\<open>copy(dst, src)\<close>\<close>

definition copy_builtin :: "('a, 'c) kind \<Rightarrow> slice \<Rightarrow> slice \<Rightarrow> 'c gheap \<Rightarrow> 'c gheap" where
  "copy_builtin k dst src h =
     (let n = min (sl_len dst) (sl_len src); old = array_at k h (sl_array dst) in
      h[sl_array dst := k_mk k (take (sl_offset dst) old @ take n (elems k h src) @ drop (sl_offset dst + n) old)])"

text \<open>\<^verbatim>\<open>for i := range *in { (*in)[i].DeepCopyInto(&(*out)[i]) }\<close>\<close>

primrec copy_elems ::
  "('a, 'c) kind \<Rightarrow> ('c gheap \<Rightarrow> 'a \<Rightarrow> 'a \<times> 'c gheap) \<Rightarrow> slice \<Rightarrow> slice \<Rightarrow> nat list \<Rightarrow> 'c gheap \<Rightarrow> 'c gheap" where
  "copy_elems k cp src out [] h = h"
| "copy_elems k cp src out (i # is) h =
     (let (v, h') = cp h (elems k h src ! i) in copy_elems k cp src out is (set_elem k out i v h'))"

definition copy_slice ::
  "('a, 'c) kind \<Rightarrow> ('c gheap \<Rightarrow> 'a \<Rightarrow> 'a \<times> 'c gheap) \<Rightarrow> 'c gheap \<Rightarrow> slice option \<Rightarrow> slice option \<times> 'c gheap" where
  "copy_slice k cp h s = (case s of
     None \<Rightarrow> (None, h)
   | Some s \<Rightarrow> let (out, h1) = make_slice k h (sl_len s) in (Some out, copy_elems k cp s out [0..<sl_len s] h1))"

definition copy_flat_slice :: "('a, 'c) kind \<Rightarrow> 'c gheap \<Rightarrow> slice option \<Rightarrow> slice option \<times> 'c gheap" where
  "copy_flat_slice k h s = (case s of
     None \<Rightarrow> (None, h)
   | Some s \<Rightarrow> let (out, h1) = make_slice k h (sl_len s) in (Some out, copy_builtin k out s h1))"

text \<open>\<^verbatim>\<open>out := new(T)\<close>, the copy into it, and \<^verbatim>\<open>return out\<close>; a \<^verbatim>\<open>nil\<close> receiver gives \<^verbatim>\<open>nil\<close>.\<close>

definition deref :: "('a, 'c) kind \<Rightarrow> 'c gheap \<Rightarrow> nat \<Rightarrow> 'a" where
  "deref k h p = array_at k h p ! 0"

definition copy_ptr ::
  "('a, 'c) kind \<Rightarrow> ('c gheap \<Rightarrow> 'a \<Rightarrow> 'a \<times> 'c gheap) \<Rightarrow> 'c gheap \<Rightarrow> nat option \<Rightarrow> nat option \<times> 'c gheap" where
  "copy_ptr k cp h p = (case p of
     None \<Rightarrow> (None, h)
   | Some p \<Rightarrow>
       let out = length h; h1 = h @ [k_mk k [k_zero k]]; (v, h2) = cp h1 (deref k h1 p)
       in (Some out, h2[out := k_mk k [v]]))"

text \<open>\<^verbatim>\<open>make(map[string]string)\<close> and the loop that fills it\<close>

primrec copy_entries :: "(string \<times> 'v, 'c) kind \<Rightarrow> nat \<Rightarrow> 'v gomap \<Rightarrow> 'c gheap \<Rightarrow> 'c gheap" where
  "copy_entries k out [] h = h"
| "copy_entries k out (kv # m) h =
     copy_entries k out m (h[out := k_mk k (gset (fst kv) (snd kv) (array_at k h out))])"

definition copy_map :: "(string \<times> 'v, 'c) kind \<Rightarrow> 'c gheap \<Rightarrow> nat option \<Rightarrow> nat option \<times> 'c gheap" where
  "copy_map k h m = (case m of
     None \<Rightarrow> (None, h)
   | Some m \<Rightarrow> let out = length h; h1 = h @ [k_mk k []] in (Some out, copy_entries k out (array_at k h1 m) h1))"

text \<open>A plain assignment, for a type without pointers\<close>

definition copy_flat :: "'c gheap \<Rightarrow> 'a \<Rightarrow> 'a \<times> 'c gheap" where
  "copy_flat h x = (x, h)"

section \<open>What a value reaches\<close>

definition agrees :: "nat set \<Rightarrow> 'c gheap \<Rightarrow> 'c gheap \<Rightarrow> bool" where
  "agrees A h h' \<longleftrightarrow> (\<forall>a\<in>A. a < length h' \<and> h' ! a = h ! a)"

lemma agrees_prefix: "prefix h h' \<Longrightarrow> A \<subseteq> {..<length h} \<Longrightarrow> agrees A h h'"
  by (auto simp: agrees_def prefix_def nth_append)

lemma agrees_mono: "agrees A h h' \<Longrightarrow> B \<subseteq> A \<Longrightarrow> agrees B h h'"
  by (auto simp: agrees_def)

lemma agrees_update: "A \<subseteq> {..<length h} \<Longrightarrow> a \<notin> A \<Longrightarrow> agrees A h (h[a := c])"
  unfolding agrees_def by (metis length_list_update lessThan_iff nth_list_update_neq subsetD)

lemma agrees_trans: "agrees A h h' \<Longrightarrow> agrees A h' h'' \<Longrightarrow> agrees A h h''"
  by (auto simp: agrees_def)

lemma agrees_append [simp]: "A \<subseteq> {..<length h} \<Longrightarrow> agrees A h (h @ g)"
  by (auto simp: agrees_def nth_append)

text \<open>Assignments through addresses of a set\<close>

definition assign_all :: "(nat \<times> 'c) list \<Rightarrow> 'c gheap \<Rightarrow> 'c gheap" where
  "assign_all ws h = fold (\<lambda>(a, c) h. h[a := c]) ws h"

lemma length_assign_all [simp]: "length (assign_all ws h) = length h"
  unfolding assign_all_def by (induction ws arbitrary: h) auto

lemma assign_all_other: "a \<notin> fst ` set ws \<Longrightarrow> assign_all ws h ! a = h ! a"
  unfolding assign_all_def by (induction ws arbitrary: h) auto

lemma agrees_assign_all:
  "A \<subseteq> {..<length h} \<Longrightarrow> fst ` set ws \<inter> A = {} \<Longrightarrow> agrees A h (assign_all ws h)"
  unfolding agrees_def by (metis assign_all_other disjoint_iff length_assign_all lessThan_iff subsetD)

locale heap_data =
  fixes ok :: "'c gheap \<Rightarrow> 'a \<Rightarrow> bool"
    and reach :: "'c gheap \<Rightarrow> 'a \<Rightarrow> nat set"
    and view :: "'c gheap \<Rightarrow> 'a \<Rightarrow> 'v"
  assumes allocated: "ok h x \<Longrightarrow> reach h x \<subseteq> {..<length h}"
    and reads_only: "ok h x \<Longrightarrow> agrees (reach h x) h h' \<Longrightarrow> ok h' x \<and> reach h' x = reach h x \<and> view h' x = view h x"

locale deep_copy = heap_data ok reach view
  for ok :: "'c gheap \<Rightarrow> 'a \<Rightarrow> bool" and reach :: "'c gheap \<Rightarrow> 'a \<Rightarrow> nat set" and view :: "'c gheap \<Rightarrow> 'a \<Rightarrow> 'v" +
  fixes cp :: "'c gheap \<Rightarrow> 'a \<Rightarrow> 'a \<times> 'c gheap"
  assumes copies: "ok h x \<Longrightarrow> cp h x = (y, h') \<Longrightarrow>
    prefix h h' \<and> ok h' y \<and> view h' y = view h x \<and> reach h' y \<subseteq> {length h..<length h'}"

context heap_data
begin

lemma kept: "ok h x \<Longrightarrow> prefix h h' \<Longrightarrow> ok h' x \<and> reach h' x = reach h x \<and> view h' x = view h x"
  using reads_only agrees_prefix allocated by metis

lemma kept_assign_all:
  "ok h x \<Longrightarrow> fst ` set ws \<inter> reach h x = {} \<Longrightarrow> ok (assign_all ws h) x \<and> view (assign_all ws h) x = view h x"
  using reads_only agrees_assign_all allocated by metis

end

context deep_copy
begin

text \<open>After the copy the original is as it was, and the two reach nothing in common.\<close>

lemma original_kept:
  assumes "ok h x" "cp h x = (y, h')"
  shows "ok h' x \<and> reach h' x = reach h x \<and> view h' x = view h x"
  using assms copies kept by metis

lemma apart:
  assumes "ok h x" "cp h x = (y, h')"
  shows "reach h' x \<inter> reach h' y = {}"
proof -
  have "reach h' x \<subseteq> {..<length h}" using original_kept [OF assms] allocated [OF assms(1)] by simp
  with copies [OF assms] show ?thesis by fastforce
qed

text \<open>So an assignment through one of them is not seen through the other.\<close>

lemma isolated:
  assumes "ok h x" "cp h x = (y, h')"
  shows "view h' y = view h x \<and>
    (\<forall>ws. fst ` set ws \<subseteq> reach h' y \<longrightarrow> view (assign_all ws h') x = view h x) \<and>
    (\<forall>ws. fst ` set ws \<subseteq> reach h' x \<longrightarrow> view (assign_all ws h') y = view h x)"
proof (intro conjI allI impI)
  show "view h' y = view h x" using copies [OF assms] by blast
next
  fix ws :: "(nat \<times> 'c) list" assume "fst ` set ws \<subseteq> reach h' y"
  then have "fst ` set ws \<inter> reach h' x = {}" using apart [OF assms] by blast
  then show "view (assign_all ws h') x = view h x"
    using original_kept [OF assms] kept_assign_all by metis
next
  fix ws :: "(nat \<times> 'c) list" assume "fst ` set ws \<subseteq> reach h' x"
  then have "fst ` set ws \<inter> reach h' y = {}" using apart [OF assms] by blast
  then show "view (assign_all ws h') y = view h x"
    using copies [OF assms] kept_assign_all by metis
qed

end

section \<open>Structs\<close>

text \<open>A type without pointers\<close>

lemma deep_copy_flat: "deep_copy (\<lambda>_ _. True) (\<lambda>_ _. {}) (\<lambda>_. g) copy_flat"
  by unfold_locales (auto simp: copy_flat_def)

text \<open>Two fields, copied one after the other\<close>

definition copy_pair ::
  "('c gheap \<Rightarrow> 'a \<Rightarrow> 'a \<times> 'c gheap) \<Rightarrow> ('c gheap \<Rightarrow> 'b \<Rightarrow> 'b \<times> 'c gheap) \<Rightarrow> 'c gheap \<Rightarrow> 'a \<times> 'b \<Rightarrow> ('a \<times> 'b) \<times> 'c gheap" where
  "copy_pair c1 c2 h p = (let (a, h1) = c1 h (fst p); (b, h2) = c2 h1 (snd p) in ((a, b), h2))"

lemma heap_data_pair:
  assumes "heap_data ok1 reach1 view1" "heap_data ok2 reach2 view2"
  shows "heap_data (\<lambda>h p. ok1 h (fst p) \<and> ok2 h (snd p)) (\<lambda>h p. reach1 h (fst p) \<union> reach2 h (snd p))
    (\<lambda>h p. (view1 h (fst p), view2 h (snd p)))"
proof
  fix h h' and x :: "'b \<times> 'd"
  assume ok: "ok1 h (fst x) \<and> ok2 h (snd x)"
  then show "reach1 h (fst x) \<union> reach2 h (snd x) \<subseteq> {..<length h}"
    using heap_data.allocated [OF assms(1)] heap_data.allocated [OF assms(2)] by blast
  assume ag: "agrees (reach1 h (fst x) \<union> reach2 h (snd x)) h h'"
  have "agrees (reach1 h (fst x)) h h'" "agrees (reach2 h (snd x)) h h'"
    using agrees_mono [OF ag] by auto
  with ok show "(ok1 h' (fst x) \<and> ok2 h' (snd x)) \<and>
      reach1 h' (fst x) \<union> reach2 h' (snd x) = reach1 h (fst x) \<union> reach2 h (snd x) \<and>
      (view1 h' (fst x), view2 h' (snd x)) = (view1 h (fst x), view2 h (snd x))"
    using heap_data.reads_only [OF assms(1), of h "fst x" h'] heap_data.reads_only [OF assms(2), of h "snd x" h'] by simp
qed

lemma deep_copy_pair:
  assumes "deep_copy ok1 reach1 view1 c1" "deep_copy ok2 reach2 view2 c2"
  shows "deep_copy (\<lambda>h p. ok1 h (fst p) \<and> ok2 h (snd p)) (\<lambda>h p. reach1 h (fst p) \<union> reach2 h (snd p))
    (\<lambda>h p. (view1 h (fst p), view2 h (snd p))) (copy_pair c1 c2)"
proof (intro deep_copy.intro heap_data_pair deep_copy_axioms.intro)
  show hd: "heap_data ok1 reach1 view1" "heap_data ok2 reach2 view2"
    using assms by (simp_all add: deep_copy_def)
  fix h x y h'
  assume ok: "ok1 h (fst x) \<and> ok2 h (snd x)" and cp: "copy_pair c1 c2 h x = (y, h')"
  obtain a h1 where c1: "c1 h (fst x) = (a, h1)" by (metis prod.collapse)
  obtain b where c2: "c2 h1 (snd x) = (b, h')" and y: "y = (a, b)"
    using cp c1 by (auto simp: copy_pair_def split: prod.splits)
  note one = deep_copy.copies [OF assms(1) _ c1]
  have snd1: "ok2 h1 (snd x)" "view2 h1 (snd x) = view2 h (snd x)"
    using heap_data.kept [OF hd(2), of h "snd x" h1] ok one by auto
  note two = deep_copy.copies [OF assms(2) snd1(1) c2]
  have "ok1 h' a \<and> reach1 h' a = reach1 h1 a \<and> view1 h' a = view1 h1 a"
    using heap_data.kept [OF hd(1), of h1 a h'] ok one two by auto
  moreover have "length h \<le> length h1" "length h1 \<le> length h'"
    using one two ok prefix_length_le by auto
  ultimately show "prefix h h' \<and> (ok1 h' (fst y) \<and> ok2 h' (snd y)) \<and>
      (view1 h' (fst y), view2 h' (snd y)) = (view1 h (fst x), view2 h (snd x)) \<and>
      reach1 h' (fst y) \<union> reach2 h' (snd y) \<subseteq> {length h..<length h'}"
    using one two ok snd1(2) y prefix_order.trans [of h h1 h'] by auto
qed

text \<open>A struct: \<open>f\<close> reads the fields that reach addresses, \<open>upd\<close> replaces them, the others are assigned.\<close>

lemma deep_copy_struct:
  assumes "deep_copy ok reach view cp"
    and "\<And>h x. ok' h x \<longleftrightarrow> ok h (f x)" "\<And>h x. reach' h x = reach h (f x)"
    and "\<And>h x. view' h x = g x (view h (f x))"
    and "\<And>h x. cp' h x = (let (p, h') = cp h (f x) in (upd p x, h'))"
    and "\<And>p x. f (upd p x) = p" "\<And>p x w. g (upd p x) w = g x w"
  shows "deep_copy ok' reach' view' cp'"
proof
  fix h x y h'
  assume ok: "ok' h x"
  then show "reach' h x \<subseteq> {..<length h}"
    using heap_data.allocated [of ok reach view] assms(1-3) by (metis deep_copy_def)
  { assume "agrees (reach' h x) h h'"
    with ok show "ok' h' x \<and> reach' h' x = reach' h x \<and> view' h' x = view' h x"
      using heap_data.reads_only [of ok reach view h "f x" h'] assms(1) by (simp add: assms(2-4) deep_copy_def) }
  assume "cp' h x = (y, h')"
  then obtain p where "cp h (f x) = (p, h')" "y = upd p x"
    by (auto simp: assms(5) split: prod.splits)
  with ok show "prefix h h' \<and> ok' h' y \<and> view' h' y = view' h x \<and> reach' h' y \<subseteq> {length h..<length h'}"
    using deep_copy.copies [OF assms(1), of h "f x" p h'] by (simp add: assms(2-4,6,7))
qed

section \<open>Pointers\<close>

definition ptr_ok :: "('a, 'c) kind \<Rightarrow> ('c gheap \<Rightarrow> 'a \<Rightarrow> bool) \<Rightarrow> 'c gheap \<Rightarrow> nat option \<Rightarrow> bool" where
  "ptr_ok k ok h p = (case p of None \<Rightarrow> True | Some a \<Rightarrow> length (array_at k h a) = 1 \<and> ok h (deref k h a))"

definition ptr_reach :: "('a, 'c) kind \<Rightarrow> ('c gheap \<Rightarrow> 'a \<Rightarrow> nat set) \<Rightarrow> 'c gheap \<Rightarrow> nat option \<Rightarrow> nat set" where
  "ptr_reach k reach h p = (case p of None \<Rightarrow> {} | Some a \<Rightarrow> insert a (reach h (deref k h a)))"

definition ptr_view :: "('a, 'c) kind \<Rightarrow> ('c gheap \<Rightarrow> 'a \<Rightarrow> 'v) \<Rightarrow> 'c gheap \<Rightarrow> nat option \<Rightarrow> 'v option" where
  "ptr_view k view h p = map_option (\<lambda>a. view h (deref k h a)) p"

lemmas ptr_defs = ptr_ok_def ptr_reach_def ptr_view_def

lemma array_at_agrees: "agrees A h h' \<Longrightarrow> a \<in> A \<Longrightarrow> a < length h \<Longrightarrow> array_at k h' a = array_at k h a"
  by (simp add: agrees_def array_at_def)

lemma array_at_bound: "array_at k h a \<noteq> [] \<Longrightarrow> a < length h"
  by (simp add: array_at_def split: if_splits)

lemma array_at_mk [simp]: "kind_ok k \<Longrightarrow> a < length h \<Longrightarrow> array_at k (h[a := k_mk k xs]) a = xs"
  by (simp add: array_at_def kind_ok_def)

lemma array_at_prefix: "prefix h h' \<Longrightarrow> a < length h \<Longrightarrow> array_at k h' a = array_at k h a"
  by (rule array_at_agrees [of "{a}"]) (auto intro: agrees_prefix)

lemma prefix_update_new: "prefix h h' \<Longrightarrow> length h \<le> a \<Longrightarrow> prefix h (h'[a := c])"
  by (auto simp: prefix_def list_update_append)

lemma heap_data_ptr:
  assumes "heap_data ok reach view"
  shows "heap_data (ptr_ok k ok) (ptr_reach k reach) (ptr_view k view)"
proof
  fix h h' and p :: "nat option"
  assume ok: "ptr_ok k ok h p"
  show "ptr_reach k reach h p \<subseteq> {..<length h}"
  proof (cases p)
    case (Some a)
    with ok have "array_at k h a \<noteq> []" "ok h (deref k h a)"
      by (auto simp: ptr_ok_def simp flip: length_greater_0_conv)
    with Some show ?thesis
      using heap_data.allocated [OF assms, of h "deref k h a"] array_at_bound [of k h a] by (simp add: ptr_reach_def)
  qed (simp add: ptr_reach_def)
  assume ag: "agrees (ptr_reach k reach h p) h h'"
  show "ptr_ok k ok h' p \<and> ptr_reach k reach h' p = ptr_reach k reach h p \<and> ptr_view k view h' p = ptr_view k view h p"
  proof (cases p)
    case (Some a)
    with ok have a: "a < length h" "ok h (deref k h a)" "length (array_at k h a) = 1"
      using array_at_bound [of k h a] by (auto simp: ptr_ok_def simp flip: length_greater_0_conv)
    have "array_at k h' a = array_at k h a"
      using ag a(1) Some by (intro array_at_agrees) (auto simp: ptr_reach_def)
    moreover have "agrees (reach h (deref k h a)) h h'"
      using ag Some by (auto simp: ptr_reach_def intro: agrees_mono)
    ultimately show ?thesis
      using heap_data.reads_only [OF assms a(2), of h'] a Some by (simp add: ptr_defs deref_def)
  qed (simp add: ptr_defs)
qed

lemma deep_copy_ptr:
  assumes "deep_copy ok reach view cp" "kind_ok k"
  shows "deep_copy (ptr_ok k ok) (ptr_reach k reach) (ptr_view k view) (copy_ptr k cp)"
proof (intro deep_copy.intro heap_data_ptr deep_copy_axioms.intro)
  show hd: "heap_data ok reach view" using assms by (simp add: deep_copy_def)
  fix h p q h'
  assume ok: "ptr_ok k ok h p" and cp: "copy_ptr k cp h p = (q, h')"
  show "prefix h h' \<and> ptr_ok k ok h' q \<and> ptr_view k view h' q = ptr_view k view h p \<and>
    ptr_reach k reach h' q \<subseteq> {length h..<length h'}"
  proof (cases p)
    case None
    with cp show ?thesis by (auto simp: copy_ptr_def ptr_defs)
  next
    case (Some a)
    define h1 where "h1 = h @ [k_mk k [k_zero k]]"
    have a: "a < length h" "ok h (deref k h a)"
      using ok Some array_at_bound [of k h a] by (auto simp: ptr_ok_def simp flip: length_greater_0_conv)
    have same: "deref k h1 a = deref k h a"
      using array_at_prefix [of h h1 a k] a(1) by (simp add: deref_def h1_def)
    obtain v h2 where v: "cp h1 (deref k h a) = (v, h2)" by (metis prod.collapse)
    with cp Some same have out: "q = Some (length h)" "h' = h2[length h := k_mk k [v]]"
      by (auto simp: copy_ptr_def h1_def Let_def)
    have x: "ok h1 (deref k h a)" "view h1 (deref k h a) = view h (deref k h a)"
      using heap_data.kept [OF hd a(2), of h1] by (simp_all add: h1_def)
    note c = deep_copy.copies [OF assms(1) x(1) v]
    have len: "length h < length h2" using c prefix_length_le [of h1 h2] by (simp add: h1_def)
    have fresh: "length h \<notin> reach h2 v" using c by (auto simp: h1_def)
    have "ok h' v \<and> reach h' v = reach h2 v \<and> view h' v = view h2 v"
      unfolding out using c fresh
      by (intro heap_data.reads_only [OF hd] agrees_update) auto
    moreover have "deref k h' (length h) = v" "length (array_at k h' (length h)) = 1"
      using assms(2) len by (simp_all add: out deref_def)
    moreover have "prefix h h'"
      unfolding out using c by (intro prefix_update_new) (auto simp: h1_def dest: append_prefixD)
    ultimately show ?thesis
      using c x(2) len Some out by (auto simp: ptr_defs h1_def)
  qed
qed

section \<open>Slices\<close>

definition in_array :: "('a, 'c) kind \<Rightarrow> 'c gheap \<Rightarrow> slice \<Rightarrow> bool" where
  "in_array k h s \<longleftrightarrow> sl_array s < length h \<and> sl_offset s + sl_len s \<le> length (array_at k h (sl_array s))"

definition slice_ok :: "('a, 'c) kind \<Rightarrow> ('c gheap \<Rightarrow> 'a \<Rightarrow> bool) \<Rightarrow> 'c gheap \<Rightarrow> slice option \<Rightarrow> bool" where
  "slice_ok k ok h s = (case s of None \<Rightarrow> True | Some s \<Rightarrow> in_array k h s \<and> (\<forall>x\<in>set (elems k h s). ok h x))"

definition slice_reach :: "('a, 'c) kind \<Rightarrow> ('c gheap \<Rightarrow> 'a \<Rightarrow> nat set) \<Rightarrow> 'c gheap \<Rightarrow> slice option \<Rightarrow> nat set" where
  "slice_reach k reach h s =
     (case s of None \<Rightarrow> {} | Some s \<Rightarrow> insert (sl_array s) (\<Union>x\<in>set (elems k h s). reach h x))"

definition slice_view :: "('a, 'c) kind \<Rightarrow> ('c gheap \<Rightarrow> 'a \<Rightarrow> 'v) \<Rightarrow> 'c gheap \<Rightarrow> slice option \<Rightarrow> 'v list" where
  "slice_view k view h s = (case s of None \<Rightarrow> [] | Some s \<Rightarrow> map (view h) (elems k h s))"

lemmas slice_defs = slice_ok_def slice_reach_def slice_view_def

lemma length_elems [simp]: "in_array k h s \<Longrightarrow> length (elems k h s) = sl_len s"
  by (auto simp: in_array_def elems_def)

lemma elems_agrees:
  "agrees A h h' \<Longrightarrow> sl_array s \<in> A \<Longrightarrow> in_array k h s \<Longrightarrow> elems k h' s = elems k h s \<and> in_array k h' s"
  using array_at_agrees [of A h h' "sl_array s" k] by (auto simp: in_array_def elems_def agrees_def)

lemma heap_data_slice:
  assumes "heap_data ok reach view"
  shows "heap_data (slice_ok k ok) (slice_reach k reach) (slice_view k view)"
proof
  fix h h' and s :: "slice option"
  assume ok: "slice_ok k ok h s"
  show "slice_reach k reach h s \<subseteq> {..<length h}"
    using ok heap_data.allocated [OF assms, of h]
    by (fastforce simp: slice_defs in_array_def split: option.splits)
  assume ag: "agrees (slice_reach k reach h s) h h'"
  show "slice_ok k ok h' s \<and> slice_reach k reach h' s = slice_reach k reach h s \<and> slice_view k view h' s = slice_view k view h s"
  proof (cases s)
    case (Some t)
    with ok have t: "in_array k h t" "\<forall>x\<in>set (elems k h t). ok h x" by (auto simp: slice_ok_def)
    have "elems k h' t = elems k h t \<and> in_array k h' t"
      using elems_agrees [OF ag _ t(1)] Some by (simp add: slice_reach_def)
    moreover have "ok h' x \<and> reach h' x = reach h x \<and> view h' x = view h x" if "x \<in> set (elems k h t)" for x
      using t(2) that ag Some
      by (intro heap_data.reads_only [OF assms]) (auto simp: slice_reach_def intro: agrees_mono)
    ultimately show ?thesis using t Some by (simp add: slice_defs)
  qed (simp add: slice_defs)
qed

text \<open>The loop: after \<open>j\<close> rounds the first \<open>j\<close> elements of the new array are copies.\<close>

definition copied_upto ::
  "('a, 'c) kind \<Rightarrow> ('c gheap \<Rightarrow> 'a \<Rightarrow> bool) \<Rightarrow> ('c gheap \<Rightarrow> 'a \<Rightarrow> nat set) \<Rightarrow> ('c gheap \<Rightarrow> 'a \<Rightarrow> 'v) \<Rightarrow>
   'c gheap \<Rightarrow> slice \<Rightarrow> nat \<Rightarrow> 'c gheap \<Rightarrow> bool" where
  "copied_upto k ok reach view h0 s j h \<longleftrightarrow>
     prefix h0 h \<and> length h0 < length h \<and> length (array_at k h (length h0)) = sl_len s \<and>
     (\<forall>i<j. let y = array_at k h (length h0) ! i in
        ok h y \<and> view h y = view h0 (elems k h0 s ! i) \<and> reach h y \<subseteq> {Suc (length h0)..<length h})"

lemma copied_upto_step:
  assumes dc: "deep_copy ok reach view cp" and k: "kind_ok k" and s: "slice_ok k ok h0 (Some s)"
    and inv: "copied_upto k ok reach view h0 s j h" and j: "j < sl_len s"
    and cp: "cp h (elems k h s ! j) = (v, h')"
  shows "copied_upto k ok reach view h0 s (Suc j)
    (set_elem k \<lparr>sl_array = length h0, sl_offset = 0, sl_len = sl_len s\<rparr> j v h')"
proof -
  define a ys where "a = length h0" and "ys = array_at k h a"
  have hd: "heap_data ok reach view" using dc by (simp add: deep_copy_def)
  have pre: "prefix h0 h" "a < length h" "length ys = sl_len s" using inv by (auto simp: copied_upto_def a_def ys_def)
  have arr: "in_array k h0 s" "elems k h s = elems k h0 s"
    using s elems_agrees [OF agrees_prefix [OF pre(1), of "{sl_array s}"], of s k]
    by (auto simp: slice_ok_def in_array_def)
  then have el: "ok h0 (elems k h0 s ! j)" using s j by (simp add: slice_ok_def)
  have okj: "ok h (elems k h0 s ! j)" "view h (elems k h0 s ! j) = view h0 (elems k h0 s ! j)"
    using heap_data.kept [OF hd el pre(1)] by auto
  note c = deep_copy.copies [OF dc okj(1) cp [unfolded arr(2)]]
  have len: "length h \<le> length h'" using c prefix_length_le by blast
  define h2 where "h2 = h'[a := k_mk k (ys[j := v])]"
  have h2: "set_elem k \<lparr>sl_array = a, sl_offset = 0, sl_len = sl_len s\<rparr> j v h' = h2"
    using c array_at_prefix [of h h' a k] pre(2) by (simp add: set_elem_def h2_def ys_def)
  have new: "array_at k h2 a = ys[j := v]" using k len pre(2) by (simp add: h2_def)
  have move: "ok h2 y \<and> reach h2 y = reach h' y \<and> view h2 y = view h' y" if "ok h' y" "a \<notin> reach h' y" for y
    unfolding h2_def using that heap_data.allocated [OF hd that(1)]
    by (intro heap_data.reads_only [OF hd] agrees_update) auto
  have "ok h2 y \<and> view h2 y = view h0 (elems k h0 s ! i) \<and> reach h2 y \<subseteq> {Suc a..<length h2}"
    if i: "i < Suc j" and y: "y = ys[j := v] ! i" for i y
  proof (cases "i = j")
    case True
    then have "y = v" using y j pre(3) by simp
    moreover have "a \<notin> reach h' v" "reach h' v \<subseteq> {Suc a..<length h'}" using c pre(2) by auto
    ultimately show ?thesis using True move [of v] c okj(2) by (simp add: h2_def)
  next
    case False
    then have i': "i < j" "y = ys ! i" using i y by auto
    then have old: "ok h y" "view h y = view h0 (elems k h0 s ! i)" "reach h y \<subseteq> {Suc a..<length h}"
      using inv by (auto simp: copied_upto_def Let_def a_def ys_def)
    from heap_data.kept [OF hd old(1), of h'] c have "ok h' y" "reach h' y = reach h y" "view h' y = view h y" by auto
    moreover from this have "a \<notin> reach h' y" "reach h' y \<subseteq> {Suc a..<length h'}" using old(3) len by auto
    ultimately show ?thesis using move [of y] old(2) by (simp add: h2_def)
  qed
  moreover have "prefix h0 h2"
    unfolding h2_def using c pre(1) by (intro prefix_update_new) (auto simp: a_def dest: prefix_order.trans)
  ultimately show ?thesis
    unfolding copied_upto_def a_def [symmetric] h2 Let_def new using pre(2,3) len by (simp add: h2_def)
qed

lemma copy_elems_copies:
  assumes dc: "deep_copy ok reach view cp" and k: "kind_ok k" and s: "slice_ok k ok h0 (Some s)"
    and inv: "copied_upto k ok reach view h0 s j h" and j: "j \<le> sl_len s"
  shows "copied_upto k ok reach view h0 s (sl_len s)
    (copy_elems k cp s \<lparr>sl_array = length h0, sl_offset = 0, sl_len = sl_len s\<rparr> [j..<sl_len s] h)"
  using inv j
proof (induction "sl_len s - j" arbitrary: j h)
  case (Suc n)
  then have less: "j < sl_len s" by simp
  obtain v h' where v: "cp h (elems k h s ! j) = (v, h')" by (metis prod.collapse)
  have "[j..<sl_len s] = j # [Suc j..<sl_len s]" using less by (rule upt_conv_Cons)
  with v Suc(1) [of "Suc j", OF _ copied_upto_step [OF dc k s Suc(3) less v]] Suc(2) less show ?case by simp
qed simp

lemma deep_copy_slice:
  assumes dc: "deep_copy ok reach view cp" and k: "kind_ok k"
  shows "deep_copy (slice_ok k ok) (slice_reach k reach) (slice_view k view) (copy_slice k cp)"
proof (intro deep_copy.intro heap_data_slice deep_copy_axioms.intro)
  show hd: "heap_data ok reach view" using dc by (simp add: deep_copy_def)
  fix h s t h'
  assume ok: "slice_ok k ok h s" and cp: "copy_slice k cp h s = (t, h')"
  show "prefix h h' \<and> slice_ok k ok h' t \<and> slice_view k view h' t = slice_view k view h s \<and>
    slice_reach k reach h' t \<subseteq> {length h..<length h'}"
  proof (cases s)
    case None
    with cp show ?thesis by (auto simp: copy_slice_def slice_defs)
  next
    case (Some u)
    define out h1 where "out = \<lparr>sl_array = length h, sl_offset = 0, sl_len = sl_len u\<rparr>"
      and "h1 = h @ [k_mk k (replicate (sl_len u) (k_zero k))]"
    have t: "t = Some out" "h' = copy_elems k cp u out [0..<sl_len u] h1"
      using cp Some by (auto simp: copy_slice_def make_slice_def out_def h1_def Let_def)
    have "copied_upto k ok reach view h u 0 h1"
      using k by (simp add: copied_upto_def h1_def array_at_def kind_ok_def)
    from copy_elems_copies [OF dc k ok [unfolded Some] this] have inv: "copied_upto k ok reach view h u (sl_len u) h'"
      by (simp add: t out_def)
    have u: "in_array k h u" using ok Some by (simp add: slice_ok_def)
    have all: "elems k h' out = array_at k h' (length h)" "length (array_at k h' (length h)) = sl_len u" "length h < length h'"
      using inv by (simp_all add: elems_def out_def copied_upto_def)
    have each: "ok h' y \<and> reach h' y \<subseteq> {length h..<length h'}" if "y \<in> set (elems k h' out)" for y
      using inv that all by (fastforce simp: copied_upto_def in_set_conv_nth Let_def)
    have "map (view h') (elems k h' out) = map (view h) (elems k h u)"
      using inv all u by (intro nth_equalityI) (auto simp: copied_upto_def Let_def)
    moreover have "in_array k h' out" using all by (simp add: in_array_def out_def)
    moreover have "slice_reach k reach h' (Some out) \<subseteq> {length h..<length h'}"
      using each all(3) by (auto simp: slice_reach_def out_def)
    ultimately show ?thesis
      using inv each t Some by (auto simp: slice_ok_def slice_view_def copied_upto_def)
  qed
qed

text \<open>For elements without pointers \<^verbatim>\<open>copy\<close> does the same in one assignment.\<close>

lemma deep_copy_flat_slice:
  assumes k: "kind_ok k"
  shows "deep_copy (slice_ok k (\<lambda>_ _. True)) (slice_reach k (\<lambda>_ _. {})) (slice_view k (\<lambda>_. g)) (copy_flat_slice k)"
proof (intro deep_copy.intro heap_data_slice deep_copy_axioms.intro)
  show "heap_data (\<lambda>_ _. True) (\<lambda>_ _. {}) (\<lambda>_. g)" using deep_copy_flat deep_copy_def by blast
  fix h s t h'
  assume ok: "slice_ok k (\<lambda>_ _. True) h s" and cp: "copy_flat_slice k h s = (t, h')"
  show "prefix h h' \<and> slice_ok k (\<lambda>_ _. True) h' t \<and> slice_view k (\<lambda>_. g) h' t = slice_view k (\<lambda>_. g) h s \<and>
    slice_reach k (\<lambda>_ _. {}) h' t \<subseteq> {length h..<length h'}"
  proof (cases s)
    case None
    with cp show ?thesis by (auto simp: copy_flat_slice_def slice_defs)
  next
    case (Some u)
    define h1 where "h1 = h @ [k_mk k (replicate (sl_len u) (k_zero k))]"
    have u: "in_array k h u" using ok Some by (simp add: slice_ok_def)
    then have same: "elems k h1 u = elems k h u"
      using elems_agrees [OF agrees_prefix [of h h1 "{sl_array u}"], of u k] by (simp add: h1_def in_array_def)
    have t: "t = Some \<lparr>sl_array = length h, sl_offset = 0, sl_len = sl_len u\<rparr>" "h' = h @ [k_mk k (elems k h u)]"
      using cp Some k same [unfolded h1_def] u
      by (auto simp: copy_flat_slice_def make_slice_def copy_builtin_def Let_def array_at_def kind_ok_def)
    have "array_at k h' (length h) = elems k h u" using k by (simp add: t array_at_def kind_ok_def)
    with u show ?thesis unfolding t(1) Some
      by (auto simp: slice_defs in_array_def elems_def t(2))
  qed
qed

section \<open>Maps\<close>

definition map_ok :: "(string \<times> 'v, 'c) kind \<Rightarrow> 'c gheap \<Rightarrow> nat option \<Rightarrow> bool" where
  "map_ok k h m = (case m of None \<Rightarrow> True | Some a \<Rightarrow> a < length h \<and> wf_map (array_at k h a))"

definition map_reach :: "nat option \<Rightarrow> nat set" where
  "map_reach m = set_option m"

definition map_view :: "(string \<times> 'v, 'c) kind \<Rightarrow> 'c gheap \<Rightarrow> nat option \<Rightarrow> 'v gomap" where
  "map_view k h m = (case m of None \<Rightarrow> [] | Some a \<Rightarrow> array_at k h a)"

lemmas map_defs = map_ok_def map_reach_def map_view_def

lemma gset_snoc: "k \<notin> fst ` set m \<Longrightarrow> gset k v m = m @ [(k, v)]"
  by (induction k v m rule: gset.induct) auto

lemma gcopy_snoc: "wf_map (dst @ src) \<Longrightarrow> gcopy dst src = dst @ src"
  by (induction dst src rule: gcopy.induct) (auto simp: gset_snoc wf_map_def)

lemma copy_entries_gcopy:
  assumes "kind_ok k" "out < length h"
  shows "copy_entries k out m (h[out := k_mk k xs]) = h[out := k_mk k (gcopy xs m)]"
proof (induction m arbitrary: xs)
  case (Cons kv m)
  then show ?case using assms by (cases kv) simp
qed simp

lemma deep_copy_map:
  assumes k: "kind_ok k"
  shows "deep_copy (map_ok k) (\<lambda>_. map_reach) (map_view k) (copy_map k)"
proof
  fix h h' and m n :: "nat option"
  assume ok: "map_ok k h m"
  show "map_reach m \<subseteq> {..<length h}" using ok by (cases m) (auto simp: map_defs)
  { assume "agrees (map_reach m) h h'"
    then show "map_ok k h' m \<and> map_reach m = map_reach m \<and> map_view k h' m = map_view k h m"
      using ok array_at_agrees [of "map_reach m" h h' _ k] by (cases m) (auto simp: map_defs agrees_def) }
  assume cp: "copy_map k h m = (n, h')"
  show "prefix h h' \<and> map_ok k h' n \<and> map_view k h' n = map_view k h m \<and> map_reach n \<subseteq> {length h..<length h'}"
  proof (cases m)
    case None
    with cp show ?thesis by (auto simp: copy_map_def map_defs)
  next
    case (Some a)
    with ok have a: "a < length h" "wf_map (array_at k h a)" by (auto simp: map_ok_def)
    have "array_at k (h @ [k_mk k []]) a = array_at k h a"
      using a(1) by (intro array_at_prefix) auto
    moreover have "copy_entries k (length h) m (h @ [k_mk k []]) = h @ [k_mk k (gcopy [] m)]" for m
      using copy_entries_gcopy [OF k, of "length h" "h @ [k_mk k []]" m "[]"] by simp
    ultimately have n: "n = Some (length h)" "h' = h @ [k_mk k (array_at k h a)]"
      using cp Some a(2) by (auto simp: copy_map_def Let_def gcopy_snoc)
    have "array_at k h' (length h) = array_at k h a" using k by (simp add: n array_at_def kind_ok_def)
    with a show ?thesis unfolding n(1) Some by (simp add: map_defs n(2))
  qed
qed

end
