(* ===== verification/Deep_Copy.thy ===== *)
theory Deep_Copy
  imports Go_Heap Api_Types
begin

text \<open>
  \<^verbatim>\<open>zz_generated.deepcopy.go\<close>: the copies that controller-runtime's cached client hands out. The structs of
  \<^verbatim>\<open>api/inference/v1alpha1\<close> appear here as they lie in memory, with addresses for pointers, slices and maps;
  the records of \<open>Api_Types\<close> are what they read as. A \<^verbatim>\<open>DeepCopyInto\<close> maps the heap and the struct at \<^verbatim>\<open>in\<close> to
  the struct it leaves at \<^verbatim>\<open>out\<close> and the new heap: in every call of the file \<^verbatim>\<open>out\<close> is memory made by the same
  function, so the two do not overlap. \<open>ObjectMeta\<close>, \<open>ListMeta\<close> and \<open>Condition\<close> belong to apimachinery: their memory
  representation and their copies are parameters, and the locale \<open>apimachinery\<close> says that their copies are deep.
\<close>

section \<open>The structs in memory\<close>

record TypeMeta =
  tm_Kind :: string
  tm_APIVersion :: string

record ListMeta =
  lm_ResourceVersion :: string
  lm_Continue :: string
  lm_RemainingItemCount :: "int option"

record mem_ProviderRef =
  mr_Ref :: ExternalProviderReference
  mr_TargetModel :: string
  mr_APIFormat :: string
  mr_Path :: string
  mr_Config :: "nat option"
  mr_Auth :: "nat option"
  mr_Weight :: "nat option"

record mem_ModelSpec =
  mm_ModelName :: string
  mm_ProviderRefs :: "slice option"
  mm_GatewayRefs :: "slice option"

record mem_GatewayStatus =
  mg_Ref :: NamespacedObjectReference
  mg_HTTPRouteRef :: "nat option"
  mg_Conditions :: "slice option"

record mem_ModelStatus =
  mt_Phase :: string
  mt_HTTPRouteName :: string
  mt_ObservedGeneration :: int
  mt_OverlayDigest :: string
  mt_OverlayGeneration :: nat
  mt_Conditions :: "slice option"
  mt_Gateways :: "slice option"

record 'm mem_Model =
  mem_TypeMeta :: TypeMeta
  mem_ObjectMeta :: 'm
  mem_Spec :: mem_ModelSpec
  mem_Status :: mem_ModelStatus

record mem_ProviderSpec =
  mp_Provider :: string
  mp_Endpoint :: string
  mp_Auth :: AuthConfig
  mp_Config :: "nat option"

record mem_ProviderStatus =
  mu_Phase :: string
  mu_ObservedGeneration :: int
  mu_Conditions :: "slice option"

record 'm mem_Provider =
  memp_TypeMeta :: TypeMeta
  memp_ObjectMeta :: 'm
  memp_Spec :: mem_ProviderSpec
  memp_Status :: mem_ProviderStatus

text \<open>\<^verbatim>\<open>ExternalModelList\<close> and \<^verbatim>\<open>ExternalProviderList\<close>\<close>

record 'l mem_List =
  list_TypeMeta :: TypeMeta
  list_ListMeta :: 'l
  list_Items :: "slice option"

text \<open>The values they read as\<close>

record 'a object_list =
  ol_TypeMeta :: TypeMeta
  ol_ListMeta :: ListMeta
  ol_Items :: "(TypeMeta \<times> 'a) list"

type_synonym ExternalModelList = "ExternalModel object_list"
type_synonym ExternalProviderList = "ExternalProvider object_list"

section \<open>The heap\<close>

datatype ('m, 'l, 'd, 'x) cell =
    C_Map "string gomap"
  | C_Int "int list"
  | C_NameReference "NameReference list"
  | C_Auth "AuthConfig list"
  | C_ProviderReference "ExternalProviderReference list"
  | C_ObjectReference "NamespacedObjectReference list"
  | C_ProviderRef "mem_ProviderRef list"
  | C_ModelSpec "mem_ModelSpec list"
  | C_GatewayStatus "mem_GatewayStatus list"
  | C_ModelStatus "mem_ModelStatus list"
  | C_Model "'m mem_Model list"
  | C_ModelList "'l mem_List list"
  | C_ProviderSpec "mem_ProviderSpec list"
  | C_ProviderStatus "mem_ProviderStatus list"
  | C_Provider "'m mem_Provider list"
  | C_ProviderList "'l mem_List list"
  | C_Condition "'d list"
  | C_Library 'x

type_synonym ('m, 'l, 'd, 'x) memory = "('m, 'l, 'd, 'x) cell gheap"

type_synonym ('m, 'l, 'd, 'x, 'a) copier = "('m, 'l, 'd, 'x) memory \<Rightarrow> 'a \<Rightarrow> 'a \<times> ('m, 'l, 'd, 'x) memory"

text \<open>The copies of apimachinery, and the zero values of its types\<close>

record ('m, 'l, 'd, 'x) machinery =
  ObjectMeta_zero :: 'm
  ListMeta_zero :: 'l
  Condition_zero :: 'd
  ObjectMeta_DeepCopyInto :: "('m, 'l, 'd, 'x, 'm) copier"
  ListMeta_DeepCopyInto :: "('m, 'l, 'd, 'x, 'l) copier"
  Condition_DeepCopyInto :: "('m, 'l, 'd, 'x, 'd) copier"

text \<open>How its values lie in memory: whether they are well formed, what they reach and what they read as\<close>

record ('m, 'l, 'd, 'x) shape =
  meta_ok :: "('m, 'l, 'd, 'x) memory \<Rightarrow> 'm \<Rightarrow> bool"
  meta_reach :: "('m, 'l, 'd, 'x) memory \<Rightarrow> 'm \<Rightarrow> nat set"
  meta_view :: "('m, 'l, 'd, 'x) memory \<Rightarrow> 'm \<Rightarrow> ObjectMeta"
  lmeta_ok :: "('m, 'l, 'd, 'x) memory \<Rightarrow> 'l \<Rightarrow> bool"
  lmeta_reach :: "('m, 'l, 'd, 'x) memory \<Rightarrow> 'l \<Rightarrow> nat set"
  lmeta_view :: "('m, 'l, 'd, 'x) memory \<Rightarrow> 'l \<Rightarrow> ListMeta"
  cond_ok :: "('m, 'l, 'd, 'x) memory \<Rightarrow> 'd \<Rightarrow> bool"
  cond_reach :: "('m, 'l, 'd, 'x) memory \<Rightarrow> 'd \<Rightarrow> nat set"
  cond_view :: "('m, 'l, 'd, 'x) memory \<Rightarrow> 'd \<Rightarrow> Condition"

subsection \<open>Zero values\<close>

definition zero_NameReference :: NameReference where
  "zero_NameReference = \<lparr>nameref_Name = []\<rparr>"

definition zero_AuthConfig :: AuthConfig where
  "zero_AuthConfig = \<lparr>auth_Type = [], auth_SecretRef = zero_NameReference\<rparr>"

definition zero_ProviderReference :: ExternalProviderReference where
  "zero_ProviderReference = \<lparr>pref_Name = [], pref_Namespace = []\<rparr>"

definition zero_ObjectReference :: NamespacedObjectReference where
  "zero_ObjectReference = \<lparr>oref_Name = [], oref_Namespace = []\<rparr>"

definition zero_ProviderRef :: mem_ProviderRef where
  "zero_ProviderRef = \<lparr>mr_Ref = zero_ProviderReference, mr_TargetModel = [], mr_APIFormat = [], mr_Path = [],
     mr_Config = None, mr_Auth = None, mr_Weight = None\<rparr>"

definition zero_ModelSpec :: mem_ModelSpec where
  "zero_ModelSpec = \<lparr>mm_ModelName = [], mm_ProviderRefs = None, mm_GatewayRefs = None\<rparr>"

definition zero_GatewayStatus :: mem_GatewayStatus where
  "zero_GatewayStatus = \<lparr>mg_Ref = zero_ObjectReference, mg_HTTPRouteRef = None, mg_Conditions = None\<rparr>"

definition zero_ModelStatus :: mem_ModelStatus where
  "zero_ModelStatus = \<lparr>mt_Phase = [], mt_HTTPRouteName = [], mt_ObservedGeneration = 0, mt_OverlayDigest = [],
     mt_OverlayGeneration = 0, mt_Conditions = None, mt_Gateways = None\<rparr>"

definition zero_TypeMeta :: TypeMeta where
  "zero_TypeMeta = \<lparr>tm_Kind = [], tm_APIVersion = []\<rparr>"

definition zero_Model :: "('m, 'l, 'd, 'x) machinery \<Rightarrow> 'm mem_Model" where
  "zero_Model mc = \<lparr>mem_TypeMeta = zero_TypeMeta, mem_ObjectMeta = ObjectMeta_zero mc,
     mem_Spec = zero_ModelSpec, mem_Status = zero_ModelStatus\<rparr>"

definition zero_ProviderSpec :: mem_ProviderSpec where
  "zero_ProviderSpec = \<lparr>mp_Provider = [], mp_Endpoint = [], mp_Auth = zero_AuthConfig, mp_Config = None\<rparr>"

definition zero_ProviderStatus :: mem_ProviderStatus where
  "zero_ProviderStatus = \<lparr>mu_Phase = [], mu_ObservedGeneration = 0, mu_Conditions = None\<rparr>"

definition zero_Provider :: "('m, 'l, 'd, 'x) machinery \<Rightarrow> 'm mem_Provider" where
  "zero_Provider mc = \<lparr>memp_TypeMeta = zero_TypeMeta, memp_ObjectMeta = ObjectMeta_zero mc,
     memp_Spec = zero_ProviderSpec, memp_Status = zero_ProviderStatus\<rparr>"

definition zero_List :: "('m, 'l, 'd, 'x) machinery \<Rightarrow> 'l mem_List" where
  "zero_List mc = \<lparr>list_TypeMeta = zero_TypeMeta, list_ListMeta = ListMeta_zero mc, list_Items = None\<rparr>"

subsection \<open>The element types of cells\<close>

definition map_kind :: "(string \<times> string, ('m, 'l, 'd, 'x) cell) kind" where
  "map_kind = \<lparr>k_mk = C_Map, k_dest = (\<lambda>c. case c of C_Map xs \<Rightarrow> Some xs | _ \<Rightarrow> None), k_zero = ([], [])\<rparr>"

definition int_kind :: "(int, ('m, 'l, 'd, 'x) cell) kind" where
  "int_kind = \<lparr>k_mk = C_Int, k_dest = (\<lambda>c. case c of C_Int xs \<Rightarrow> Some xs | _ \<Rightarrow> None), k_zero = 0\<rparr>"

definition NameReference_kind :: "(NameReference, ('m, 'l, 'd, 'x) cell) kind" where
  "NameReference_kind = \<lparr>k_mk = C_NameReference,
     k_dest = (\<lambda>c. case c of C_NameReference xs \<Rightarrow> Some xs | _ \<Rightarrow> None), k_zero = zero_NameReference\<rparr>"

definition AuthConfig_kind :: "(AuthConfig, ('m, 'l, 'd, 'x) cell) kind" where
  "AuthConfig_kind = \<lparr>k_mk = C_Auth,
     k_dest = (\<lambda>c. case c of C_Auth xs \<Rightarrow> Some xs | _ \<Rightarrow> None), k_zero = zero_AuthConfig\<rparr>"

definition ProviderReference_kind :: "(ExternalProviderReference, ('m, 'l, 'd, 'x) cell) kind" where
  "ProviderReference_kind = \<lparr>k_mk = C_ProviderReference,
     k_dest = (\<lambda>c. case c of C_ProviderReference xs \<Rightarrow> Some xs | _ \<Rightarrow> None), k_zero = zero_ProviderReference\<rparr>"

definition ObjectReference_kind :: "(NamespacedObjectReference, ('m, 'l, 'd, 'x) cell) kind" where
  "ObjectReference_kind = \<lparr>k_mk = C_ObjectReference,
     k_dest = (\<lambda>c. case c of C_ObjectReference xs \<Rightarrow> Some xs | _ \<Rightarrow> None), k_zero = zero_ObjectReference\<rparr>"

definition ProviderRef_kind :: "(mem_ProviderRef, ('m, 'l, 'd, 'x) cell) kind" where
  "ProviderRef_kind = \<lparr>k_mk = C_ProviderRef,
     k_dest = (\<lambda>c. case c of C_ProviderRef xs \<Rightarrow> Some xs | _ \<Rightarrow> None), k_zero = zero_ProviderRef\<rparr>"

definition ModelSpec_kind :: "(mem_ModelSpec, ('m, 'l, 'd, 'x) cell) kind" where
  "ModelSpec_kind = \<lparr>k_mk = C_ModelSpec,
     k_dest = (\<lambda>c. case c of C_ModelSpec xs \<Rightarrow> Some xs | _ \<Rightarrow> None), k_zero = zero_ModelSpec\<rparr>"

definition GatewayStatus_kind :: "(mem_GatewayStatus, ('m, 'l, 'd, 'x) cell) kind" where
  "GatewayStatus_kind = \<lparr>k_mk = C_GatewayStatus,
     k_dest = (\<lambda>c. case c of C_GatewayStatus xs \<Rightarrow> Some xs | _ \<Rightarrow> None), k_zero = zero_GatewayStatus\<rparr>"

definition ModelStatus_kind :: "(mem_ModelStatus, ('m, 'l, 'd, 'x) cell) kind" where
  "ModelStatus_kind = \<lparr>k_mk = C_ModelStatus,
     k_dest = (\<lambda>c. case c of C_ModelStatus xs \<Rightarrow> Some xs | _ \<Rightarrow> None), k_zero = zero_ModelStatus\<rparr>"

definition ProviderSpec_kind :: "(mem_ProviderSpec, ('m, 'l, 'd, 'x) cell) kind" where
  "ProviderSpec_kind = \<lparr>k_mk = C_ProviderSpec,
     k_dest = (\<lambda>c. case c of C_ProviderSpec xs \<Rightarrow> Some xs | _ \<Rightarrow> None), k_zero = zero_ProviderSpec\<rparr>"

definition ProviderStatus_kind :: "(mem_ProviderStatus, ('m, 'l, 'd, 'x) cell) kind" where
  "ProviderStatus_kind = \<lparr>k_mk = C_ProviderStatus,
     k_dest = (\<lambda>c. case c of C_ProviderStatus xs \<Rightarrow> Some xs | _ \<Rightarrow> None), k_zero = zero_ProviderStatus\<rparr>"

definition Condition_kind :: "('m, 'l, 'd, 'x) machinery \<Rightarrow> ('d, ('m, 'l, 'd, 'x) cell) kind" where
  "Condition_kind mc = \<lparr>k_mk = C_Condition,
     k_dest = (\<lambda>c. case c of C_Condition xs \<Rightarrow> Some xs | _ \<Rightarrow> None), k_zero = Condition_zero mc\<rparr>"

definition Model_kind :: "('m, 'l, 'd, 'x) machinery \<Rightarrow> ('m mem_Model, ('m, 'l, 'd, 'x) cell) kind" where
  "Model_kind mc = \<lparr>k_mk = C_Model,
     k_dest = (\<lambda>c. case c of C_Model xs \<Rightarrow> Some xs | _ \<Rightarrow> None), k_zero = zero_Model mc\<rparr>"

definition ModelList_kind :: "('m, 'l, 'd, 'x) machinery \<Rightarrow> ('l mem_List, ('m, 'l, 'd, 'x) cell) kind" where
  "ModelList_kind mc = \<lparr>k_mk = C_ModelList,
     k_dest = (\<lambda>c. case c of C_ModelList xs \<Rightarrow> Some xs | _ \<Rightarrow> None), k_zero = zero_List mc\<rparr>"

definition Provider_kind :: "('m, 'l, 'd, 'x) machinery \<Rightarrow> ('m mem_Provider, ('m, 'l, 'd, 'x) cell) kind" where
  "Provider_kind mc = \<lparr>k_mk = C_Provider,
     k_dest = (\<lambda>c. case c of C_Provider xs \<Rightarrow> Some xs | _ \<Rightarrow> None), k_zero = zero_Provider mc\<rparr>"

definition ProviderList_kind :: "('m, 'l, 'd, 'x) machinery \<Rightarrow> ('l mem_List, ('m, 'l, 'd, 'x) cell) kind" where
  "ProviderList_kind mc = \<lparr>k_mk = C_ProviderList,
     k_dest = (\<lambda>c. case c of C_ProviderList xs \<Rightarrow> Some xs | _ \<Rightarrow> None), k_zero = zero_List mc\<rparr>"

lemmas kind_defs = map_kind_def int_kind_def NameReference_kind_def AuthConfig_kind_def ProviderReference_kind_def
  ObjectReference_kind_def ProviderRef_kind_def ModelSpec_kind_def GatewayStatus_kind_def ModelStatus_kind_def
  ProviderSpec_kind_def ProviderStatus_kind_def Condition_kind_def Model_kind_def ModelList_kind_def Provider_kind_def
  ProviderList_kind_def

lemma kinds_ok [simp]:
  "kind_ok map_kind" "kind_ok int_kind" "kind_ok NameReference_kind" "kind_ok AuthConfig_kind"
  "kind_ok ProviderReference_kind" "kind_ok ObjectReference_kind" "kind_ok ProviderRef_kind" "kind_ok ModelSpec_kind"
  "kind_ok GatewayStatus_kind" "kind_ok ModelStatus_kind" "kind_ok ProviderSpec_kind" "kind_ok ProviderStatus_kind"
  "kind_ok (Condition_kind mc)" "kind_ok (Model_kind mc)" "kind_ok (ModelList_kind mc)" "kind_ok (Provider_kind mc)"
  "kind_ok (ProviderList_kind mc)"
  by (simp_all add: kind_ok_def kind_defs)

section \<open>The copies\<close>

definition AuthConfig_DeepCopyInto :: "('m, 'l, 'd, 'x, AuthConfig) copier" where
  "AuthConfig_DeepCopyInto h i = (i\<lparr>auth_SecretRef := auth_SecretRef i\<rparr>, h)"

definition AuthConfig_DeepCopy :: "('m, 'l, 'd, 'x, nat option) copier" where
  "AuthConfig_DeepCopy = copy_ptr AuthConfig_kind AuthConfig_DeepCopyInto"

definition NameReference_DeepCopyInto :: "('m, 'l, 'd, 'x, NameReference) copier" where
  "NameReference_DeepCopyInto h i = (i, h)"

definition NameReference_DeepCopy :: "('m, 'l, 'd, 'x, nat option) copier" where
  "NameReference_DeepCopy = copy_ptr NameReference_kind NameReference_DeepCopyInto"

definition ExternalProviderReference_DeepCopyInto :: "('m, 'l, 'd, 'x, ExternalProviderReference) copier" where
  "ExternalProviderReference_DeepCopyInto h i = (i, h)"

definition ExternalProviderReference_DeepCopy :: "('m, 'l, 'd, 'x, nat option) copier" where
  "ExternalProviderReference_DeepCopy = copy_ptr ProviderReference_kind ExternalProviderReference_DeepCopyInto"

definition NamespacedObjectReference_DeepCopyInto :: "('m, 'l, 'd, 'x, NamespacedObjectReference) copier" where
  "NamespacedObjectReference_DeepCopyInto h i = (i, h)"

definition NamespacedObjectReference_DeepCopy :: "('m, 'l, 'd, 'x, nat option) copier" where
  "NamespacedObjectReference_DeepCopy = copy_ptr ObjectReference_kind NamespacedObjectReference_DeepCopyInto"

definition ExternalProviderRef_DeepCopyInto :: "('m, 'l, 'd, 'x, mem_ProviderRef) copier" where
  "ExternalProviderRef_DeepCopyInto h i =
     (let out = i\<lparr>mr_Ref := mr_Ref i\<rparr>;
          (config, h) = copy_map map_kind h (mr_Config i);
          (auth, h) = copy_ptr AuthConfig_kind copy_flat h (mr_Auth i);
          (weight, h) = copy_ptr int_kind copy_flat h (mr_Weight i)
      in (out\<lparr>mr_Config := config, mr_Auth := auth, mr_Weight := weight\<rparr>, h))"

definition ExternalProviderRef_DeepCopy :: "('m, 'l, 'd, 'x, nat option) copier" where
  "ExternalProviderRef_DeepCopy = copy_ptr ProviderRef_kind ExternalProviderRef_DeepCopyInto"

definition ExternalModelSpec_DeepCopyInto :: "('m, 'l, 'd, 'x, mem_ModelSpec) copier" where
  "ExternalModelSpec_DeepCopyInto h i =
     (let (refs, h) = copy_slice ProviderRef_kind ExternalProviderRef_DeepCopyInto h (mm_ProviderRefs i);
          (gateways, h) = copy_flat_slice ObjectReference_kind h (mm_GatewayRefs i)
      in (i\<lparr>mm_ProviderRefs := refs, mm_GatewayRefs := gateways\<rparr>, h))"

definition ExternalModelSpec_DeepCopy :: "('m, 'l, 'd, 'x, nat option) copier" where
  "ExternalModelSpec_DeepCopy = copy_ptr ModelSpec_kind ExternalModelSpec_DeepCopyInto"

definition ExternalModelGatewayStatus_DeepCopyInto ::
  "('m, 'l, 'd, 'x) machinery \<Rightarrow> ('m, 'l, 'd, 'x, mem_GatewayStatus) copier" where
  "ExternalModelGatewayStatus_DeepCopyInto mc h i =
     (let out = i\<lparr>mg_Ref := mg_Ref i\<rparr>;
          (route, h) = copy_ptr ObjectReference_kind copy_flat h (mg_HTTPRouteRef i);
          (conditions, h) = copy_slice (Condition_kind mc) (Condition_DeepCopyInto mc) h (mg_Conditions i)
      in (out\<lparr>mg_HTTPRouteRef := route, mg_Conditions := conditions\<rparr>, h))"

definition ExternalModelGatewayStatus_DeepCopy ::
  "('m, 'l, 'd, 'x) machinery \<Rightarrow> ('m, 'l, 'd, 'x, nat option) copier" where
  "ExternalModelGatewayStatus_DeepCopy mc = copy_ptr GatewayStatus_kind (ExternalModelGatewayStatus_DeepCopyInto mc)"

definition ExternalModelStatus_DeepCopyInto ::
  "('m, 'l, 'd, 'x) machinery \<Rightarrow> ('m, 'l, 'd, 'x, mem_ModelStatus) copier" where
  "ExternalModelStatus_DeepCopyInto mc h i =
     (let (conditions, h) = copy_slice (Condition_kind mc) (Condition_DeepCopyInto mc) h (mt_Conditions i);
          (gateways, h) = copy_slice GatewayStatus_kind (ExternalModelGatewayStatus_DeepCopyInto mc) h (mt_Gateways i)
      in (i\<lparr>mt_Conditions := conditions, mt_Gateways := gateways\<rparr>, h))"

definition ExternalModelStatus_DeepCopy ::
  "('m, 'l, 'd, 'x) machinery \<Rightarrow> ('m, 'l, 'd, 'x, nat option) copier" where
  "ExternalModelStatus_DeepCopy mc = copy_ptr ModelStatus_kind (ExternalModelStatus_DeepCopyInto mc)"

definition ExternalModel_DeepCopyInto ::
  "('m, 'l, 'd, 'x) machinery \<Rightarrow> ('m, 'l, 'd, 'x, 'm mem_Model) copier" where
  "ExternalModel_DeepCopyInto mc h i =
     (let out = i\<lparr>mem_TypeMeta := mem_TypeMeta i\<rparr>;
          (meta, h) = ObjectMeta_DeepCopyInto mc h (mem_ObjectMeta i);
          (spec, h) = ExternalModelSpec_DeepCopyInto h (mem_Spec i);
          (status, h) = ExternalModelStatus_DeepCopyInto mc h (mem_Status i)
      in (out\<lparr>mem_ObjectMeta := meta, mem_Spec := spec, mem_Status := status\<rparr>, h))"

definition ExternalModel_DeepCopy ::
  "('m, 'l, 'd, 'x) machinery \<Rightarrow> ('m, 'l, 'd, 'x, nat option) copier" where
  "ExternalModel_DeepCopy mc = copy_ptr (Model_kind mc) (ExternalModel_DeepCopyInto mc)"

definition ExternalModelList_DeepCopyInto ::
  "('m, 'l, 'd, 'x) machinery \<Rightarrow> ('m, 'l, 'd, 'x, 'l mem_List) copier" where
  "ExternalModelList_DeepCopyInto mc h i =
     (let out = i\<lparr>list_TypeMeta := list_TypeMeta i\<rparr>;
          (meta, h) = ListMeta_DeepCopyInto mc h (list_ListMeta i);
          (items, h) = copy_slice (Model_kind mc) (ExternalModel_DeepCopyInto mc) h (list_Items i)
      in (out\<lparr>list_ListMeta := meta, list_Items := items\<rparr>, h))"

definition ExternalModelList_DeepCopy ::
  "('m, 'l, 'd, 'x) machinery \<Rightarrow> ('m, 'l, 'd, 'x, nat option) copier" where
  "ExternalModelList_DeepCopy mc = copy_ptr (ModelList_kind mc) (ExternalModelList_DeepCopyInto mc)"

definition ExternalProviderSpec_DeepCopyInto :: "('m, 'l, 'd, 'x, mem_ProviderSpec) copier" where
  "ExternalProviderSpec_DeepCopyInto h i =
     (let out = i\<lparr>mp_Auth := mp_Auth i\<rparr>;
          (config, h) = copy_map map_kind h (mp_Config i)
      in (out\<lparr>mp_Config := config\<rparr>, h))"

definition ExternalProviderSpec_DeepCopy :: "('m, 'l, 'd, 'x, nat option) copier" where
  "ExternalProviderSpec_DeepCopy = copy_ptr ProviderSpec_kind ExternalProviderSpec_DeepCopyInto"

definition ExternalProviderStatus_DeepCopyInto ::
  "('m, 'l, 'd, 'x) machinery \<Rightarrow> ('m, 'l, 'd, 'x, mem_ProviderStatus) copier" where
  "ExternalProviderStatus_DeepCopyInto mc h i =
     (let (conditions, h) = copy_slice (Condition_kind mc) (Condition_DeepCopyInto mc) h (mu_Conditions i)
      in (i\<lparr>mu_Conditions := conditions\<rparr>, h))"

definition ExternalProviderStatus_DeepCopy ::
  "('m, 'l, 'd, 'x) machinery \<Rightarrow> ('m, 'l, 'd, 'x, nat option) copier" where
  "ExternalProviderStatus_DeepCopy mc = copy_ptr ProviderStatus_kind (ExternalProviderStatus_DeepCopyInto mc)"

definition ExternalProvider_DeepCopyInto ::
  "('m, 'l, 'd, 'x) machinery \<Rightarrow> ('m, 'l, 'd, 'x, 'm mem_Provider) copier" where
  "ExternalProvider_DeepCopyInto mc h i =
     (let out = i\<lparr>memp_TypeMeta := memp_TypeMeta i\<rparr>;
          (meta, h) = ObjectMeta_DeepCopyInto mc h (memp_ObjectMeta i);
          (spec, h) = ExternalProviderSpec_DeepCopyInto h (memp_Spec i);
          (status, h) = ExternalProviderStatus_DeepCopyInto mc h (memp_Status i)
      in (out\<lparr>memp_ObjectMeta := meta, memp_Spec := spec, memp_Status := status\<rparr>, h))"

definition ExternalProvider_DeepCopy ::
  "('m, 'l, 'd, 'x) machinery \<Rightarrow> ('m, 'l, 'd, 'x, nat option) copier" where
  "ExternalProvider_DeepCopy mc = copy_ptr (Provider_kind mc) (ExternalProvider_DeepCopyInto mc)"

definition ExternalProviderList_DeepCopyInto ::
  "('m, 'l, 'd, 'x) machinery \<Rightarrow> ('m, 'l, 'd, 'x, 'l mem_List) copier" where
  "ExternalProviderList_DeepCopyInto mc h i =
     (let out = i\<lparr>list_TypeMeta := list_TypeMeta i\<rparr>;
          (meta, h) = ListMeta_DeepCopyInto mc h (list_ListMeta i);
          (items, h) = copy_slice (Provider_kind mc) (ExternalProvider_DeepCopyInto mc) h (list_Items i)
      in (out\<lparr>list_ListMeta := meta, list_Items := items\<rparr>, h))"

definition ExternalProviderList_DeepCopy ::
  "('m, 'l, 'd, 'x) machinery \<Rightarrow> ('m, 'l, 'd, 'x, nat option) copier" where
  "ExternalProviderList_DeepCopy mc = copy_ptr (ProviderList_kind mc) (ExternalProviderList_DeepCopyInto mc)"

subsection \<open>\<^verbatim>\<open>runtime.Object\<close>\<close>

text \<open>An interface value of the package's four root types; the \<^verbatim>\<open>nil\<close> interface is \<open>None\<close>.\<close>

datatype runtime_object =
    Obj_ExternalModel nat
  | Obj_ExternalModelList nat
  | Obj_ExternalProvider nat
  | Obj_ExternalProviderList nat

definition ExternalModel_DeepCopyObject ::
  "('m, 'l, 'd, 'x) machinery \<Rightarrow> ('m, 'l, 'd, 'x) memory \<Rightarrow> nat option \<Rightarrow> runtime_object option \<times> ('m, 'l, 'd, 'x) memory" where
  "ExternalModel_DeepCopyObject mc h i =
     (case ExternalModel_DeepCopy mc h i of (Some c, h) \<Rightarrow> (Some (Obj_ExternalModel c), h) | (None, h) \<Rightarrow> (None, h))"

definition ExternalModelList_DeepCopyObject ::
  "('m, 'l, 'd, 'x) machinery \<Rightarrow> ('m, 'l, 'd, 'x) memory \<Rightarrow> nat option \<Rightarrow> runtime_object option \<times> ('m, 'l, 'd, 'x) memory" where
  "ExternalModelList_DeepCopyObject mc h i =
     (case ExternalModelList_DeepCopy mc h i of (Some c, h) \<Rightarrow> (Some (Obj_ExternalModelList c), h) | (None, h) \<Rightarrow> (None, h))"

definition ExternalProvider_DeepCopyObject ::
  "('m, 'l, 'd, 'x) machinery \<Rightarrow> ('m, 'l, 'd, 'x) memory \<Rightarrow> nat option \<Rightarrow> runtime_object option \<times> ('m, 'l, 'd, 'x) memory" where
  "ExternalProvider_DeepCopyObject mc h i =
     (case ExternalProvider_DeepCopy mc h i of (Some c, h) \<Rightarrow> (Some (Obj_ExternalProvider c), h) | (None, h) \<Rightarrow> (None, h))"

definition ExternalProviderList_DeepCopyObject ::
  "('m, 'l, 'd, 'x) machinery \<Rightarrow> ('m, 'l, 'd, 'x) memory \<Rightarrow> nat option \<Rightarrow> runtime_object option \<times> ('m, 'l, 'd, 'x) memory" where
  "ExternalProviderList_DeepCopyObject mc h i =
     (case ExternalProviderList_DeepCopy mc h i of
        (Some c, h) \<Rightarrow> (Some (Obj_ExternalProviderList c), h) | (None, h) \<Rightarrow> (None, h))"

text \<open>A call through the interface\<close>

fun DeepCopyObject ::
  "('m, 'l, 'd, 'x) machinery \<Rightarrow> ('m, 'l, 'd, 'x) memory \<Rightarrow> runtime_object \<Rightarrow> runtime_object option \<times> ('m, 'l, 'd, 'x) memory" where
  "DeepCopyObject mc h (Obj_ExternalModel p) = ExternalModel_DeepCopyObject mc h (Some p)"
| "DeepCopyObject mc h (Obj_ExternalModelList p) = ExternalModelList_DeepCopyObject mc h (Some p)"
| "DeepCopyObject mc h (Obj_ExternalProvider p) = ExternalProvider_DeepCopyObject mc h (Some p)"
| "DeepCopyObject mc h (Obj_ExternalProviderList p) = ExternalProviderList_DeepCopyObject mc h (Some p)"

end
