(* ===== verification/Deep_Copy_Isolation.thy ===== *)
theory Deep_Copy_Isolation
  imports Deep_Copy
begin

text \<open>
  What the structs of \<open>Deep_Copy\<close> reach and read as, and that every generated copy is deep: it reads as the original
  and shares no address with it. So a reconciler may change the object a client gave it without changing the
  cache, which is why the rest of the development can pass the custom resources as values.
\<close>

section \<open>What the structs reach and read as\<close>

definition flat_ok :: "'c gheap \<Rightarrow> 'a \<Rightarrow> bool" where
  "flat_ok h x \<longleftrightarrow> True"

definition flat_reach :: "'c gheap \<Rightarrow> 'a \<Rightarrow> nat set" where
  "flat_reach h x = {}"

definition flat_view :: "'c gheap \<Rightarrow> 'a \<Rightarrow> 'a" where
  "flat_view h x = x"

definition ref_ok :: "('m, 'l, 'd, 'x) memory \<Rightarrow> mem_ProviderRef \<Rightarrow> bool" where
  "ref_ok h r \<longleftrightarrow> map_ok map_kind h (mr_Config r) \<and> ptr_ok AuthConfig_kind flat_ok h (mr_Auth r) \<and>
     ptr_ok int_kind flat_ok h (mr_Weight r)"

definition ref_reach :: "('m, 'l, 'd, 'x) memory \<Rightarrow> mem_ProviderRef \<Rightarrow> nat set" where
  "ref_reach h r = map_reach (mr_Config r) \<union> (ptr_reach AuthConfig_kind flat_reach h (mr_Auth r) \<union>
     ptr_reach int_kind flat_reach h (mr_Weight r))"

definition ref_view :: "('m, 'l, 'd, 'x) memory \<Rightarrow> mem_ProviderRef \<Rightarrow> ExternalProviderRef" where
  "ref_view h r = \<lparr>Ref = mr_Ref r, TargetModel = mr_TargetModel r, APIFormat = mr_APIFormat r, Path = mr_Path r,
     RefConfig = map_view map_kind h (mr_Config r), RefAuth = ptr_view AuthConfig_kind flat_view h (mr_Auth r),
     Weight = ptr_view int_kind flat_view h (mr_Weight r)\<rparr>"

definition mspec_ok :: "('m, 'l, 'd, 'x) memory \<Rightarrow> mem_ModelSpec \<Rightarrow> bool" where
  "mspec_ok h s \<longleftrightarrow> slice_ok ProviderRef_kind ref_ok h (mm_ProviderRefs s) \<and>
     slice_ok ObjectReference_kind flat_ok h (mm_GatewayRefs s)"

definition mspec_reach :: "('m, 'l, 'd, 'x) memory \<Rightarrow> mem_ModelSpec \<Rightarrow> nat set" where
  "mspec_reach h s = slice_reach ProviderRef_kind ref_reach h (mm_ProviderRefs s) \<union>
     slice_reach ObjectReference_kind flat_reach h (mm_GatewayRefs s)"

definition mspec_view :: "('m, 'l, 'd, 'x) memory \<Rightarrow> mem_ModelSpec \<Rightarrow> ExternalModelSpec" where
  "mspec_view h s = \<lparr>ModelName = mm_ModelName s,
     ExternalProviderRefs = slice_view ProviderRef_kind ref_view h (mm_ProviderRefs s),
     GatewayRefs = slice_view ObjectReference_kind flat_view h (mm_GatewayRefs s)\<rparr>"

definition conds_ok :: "('m, 'l, 'd, 'x) machinery \<Rightarrow> ('m, 'l, 'd, 'x) shape \<Rightarrow> ('m, 'l, 'd, 'x) memory \<Rightarrow> slice option \<Rightarrow> bool" where
  "conds_ok mc sh = slice_ok (Condition_kind mc) (cond_ok sh)"

definition conds_reach :: "('m, 'l, 'd, 'x) machinery \<Rightarrow> ('m, 'l, 'd, 'x) shape \<Rightarrow> ('m, 'l, 'd, 'x) memory \<Rightarrow> slice option \<Rightarrow> nat set" where
  "conds_reach mc sh = slice_reach (Condition_kind mc) (cond_reach sh)"

definition conds_view :: "('m, 'l, 'd, 'x) machinery \<Rightarrow> ('m, 'l, 'd, 'x) shape \<Rightarrow> ('m, 'l, 'd, 'x) memory \<Rightarrow> slice option \<Rightarrow> Condition list" where
  "conds_view mc sh = slice_view (Condition_kind mc) (cond_view sh)"

definition gateway_ok :: "('m, 'l, 'd, 'x) machinery \<Rightarrow> ('m, 'l, 'd, 'x) shape \<Rightarrow> ('m, 'l, 'd, 'x) memory \<Rightarrow> mem_GatewayStatus \<Rightarrow> bool" where
  "gateway_ok mc sh h g \<longleftrightarrow> ptr_ok ObjectReference_kind flat_ok h (mg_HTTPRouteRef g) \<and> conds_ok mc sh h (mg_Conditions g)"

definition gateway_reach :: "('m, 'l, 'd, 'x) machinery \<Rightarrow> ('m, 'l, 'd, 'x) shape \<Rightarrow> ('m, 'l, 'd, 'x) memory \<Rightarrow> mem_GatewayStatus \<Rightarrow> nat set" where
  "gateway_reach mc sh h g =
     ptr_reach ObjectReference_kind flat_reach h (mg_HTTPRouteRef g) \<union> conds_reach mc sh h (mg_Conditions g)"

definition gateway_view ::
  "('m, 'l, 'd, 'x) machinery \<Rightarrow> ('m, 'l, 'd, 'x) shape \<Rightarrow> ('m, 'l, 'd, 'x) memory \<Rightarrow> mem_GatewayStatus \<Rightarrow> ExternalModelGatewayStatus" where
  "gateway_view mc sh h g = \<lparr>gw_Ref = mg_Ref g,
     gw_HTTPRouteRef = ptr_view ObjectReference_kind flat_view h (mg_HTTPRouteRef g),
     gw_Conditions = conds_view mc sh h (mg_Conditions g)\<rparr>"

definition mstatus_ok :: "('m, 'l, 'd, 'x) machinery \<Rightarrow> ('m, 'l, 'd, 'x) shape \<Rightarrow> ('m, 'l, 'd, 'x) memory \<Rightarrow> mem_ModelStatus \<Rightarrow> bool" where
  "mstatus_ok mc sh h t \<longleftrightarrow> conds_ok mc sh h (mt_Conditions t) \<and>
     slice_ok GatewayStatus_kind (gateway_ok mc sh) h (mt_Gateways t)"

definition mstatus_reach :: "('m, 'l, 'd, 'x) machinery \<Rightarrow> ('m, 'l, 'd, 'x) shape \<Rightarrow> ('m, 'l, 'd, 'x) memory \<Rightarrow> mem_ModelStatus \<Rightarrow> nat set" where
  "mstatus_reach mc sh h t = conds_reach mc sh h (mt_Conditions t) \<union>
     slice_reach GatewayStatus_kind (gateway_reach mc sh) h (mt_Gateways t)"

definition mstatus_view ::
  "('m, 'l, 'd, 'x) machinery \<Rightarrow> ('m, 'l, 'd, 'x) shape \<Rightarrow> ('m, 'l, 'd, 'x) memory \<Rightarrow> mem_ModelStatus \<Rightarrow> ExternalModelStatus" where
  "mstatus_view mc sh h t = \<lparr>ms_Phase = mt_Phase t, ms_HTTPRouteName = mt_HTTPRouteName t,
     ms_ObservedGeneration = mt_ObservedGeneration t, ms_OverlayDigest = mt_OverlayDigest t,
     ms_OverlayGeneration = mt_OverlayGeneration t, ms_Conditions = conds_view mc sh h (mt_Conditions t),
     ms_Gateways = slice_view GatewayStatus_kind (gateway_view mc sh) h (mt_Gateways t)\<rparr>"

definition model_ok :: "('m, 'l, 'd, 'x) machinery \<Rightarrow> ('m, 'l, 'd, 'x) shape \<Rightarrow> ('m, 'l, 'd, 'x) memory \<Rightarrow> 'm mem_Model \<Rightarrow> bool" where
  "model_ok mc sh h m \<longleftrightarrow> meta_ok sh h (mem_ObjectMeta m) \<and> mspec_ok h (mem_Spec m) \<and> mstatus_ok mc sh h (mem_Status m)"

definition model_reach :: "('m, 'l, 'd, 'x) machinery \<Rightarrow> ('m, 'l, 'd, 'x) shape \<Rightarrow> ('m, 'l, 'd, 'x) memory \<Rightarrow> 'm mem_Model \<Rightarrow> nat set" where
  "model_reach mc sh h m =
     meta_reach sh h (mem_ObjectMeta m) \<union> (mspec_reach h (mem_Spec m) \<union> mstatus_reach mc sh h (mem_Status m))"

definition model_view ::
  "('m, 'l, 'd, 'x) machinery \<Rightarrow> ('m, 'l, 'd, 'x) shape \<Rightarrow> ('m, 'l, 'd, 'x) memory \<Rightarrow> 'm mem_Model \<Rightarrow> TypeMeta \<times> ExternalModel" where
  "model_view mc sh h m = (mem_TypeMeta m, \<lparr>em_Meta = meta_view sh h (mem_ObjectMeta m),
     em_Spec = mspec_view h (mem_Spec m), em_Status = mstatus_view mc sh h (mem_Status m)\<rparr>)"

definition pspec_ok :: "('m, 'l, 'd, 'x) memory \<Rightarrow> mem_ProviderSpec \<Rightarrow> bool" where
  "pspec_ok h s \<longleftrightarrow> map_ok map_kind h (mp_Config s)"

definition pspec_reach :: "('m, 'l, 'd, 'x) memory \<Rightarrow> mem_ProviderSpec \<Rightarrow> nat set" where
  "pspec_reach h s = map_reach (mp_Config s)"

definition pspec_view :: "('m, 'l, 'd, 'x) memory \<Rightarrow> mem_ProviderSpec \<Rightarrow> ExternalProviderSpec" where
  "pspec_view h s = \<lparr>Provider = mp_Provider s, Endpoint = mp_Endpoint s, Auth = mp_Auth s,
     Config = map_view map_kind h (mp_Config s)\<rparr>"

definition pstatus_ok :: "('m, 'l, 'd, 'x) machinery \<Rightarrow> ('m, 'l, 'd, 'x) shape \<Rightarrow> ('m, 'l, 'd, 'x) memory \<Rightarrow> mem_ProviderStatus \<Rightarrow> bool" where
  "pstatus_ok mc sh h t \<longleftrightarrow> conds_ok mc sh h (mu_Conditions t)"

definition pstatus_reach :: "('m, 'l, 'd, 'x) machinery \<Rightarrow> ('m, 'l, 'd, 'x) shape \<Rightarrow> ('m, 'l, 'd, 'x) memory \<Rightarrow> mem_ProviderStatus \<Rightarrow> nat set" where
  "pstatus_reach mc sh h t = conds_reach mc sh h (mu_Conditions t)"

definition pstatus_view ::
  "('m, 'l, 'd, 'x) machinery \<Rightarrow> ('m, 'l, 'd, 'x) shape \<Rightarrow> ('m, 'l, 'd, 'x) memory \<Rightarrow> mem_ProviderStatus \<Rightarrow> ExternalProviderStatus" where
  "pstatus_view mc sh h t = \<lparr>ps_Phase = mu_Phase t, ps_ObservedGeneration = mu_ObservedGeneration t,
     ps_Conditions = conds_view mc sh h (mu_Conditions t)\<rparr>"

definition provider_ok :: "('m, 'l, 'd, 'x) machinery \<Rightarrow> ('m, 'l, 'd, 'x) shape \<Rightarrow> ('m, 'l, 'd, 'x) memory \<Rightarrow> 'm mem_Provider \<Rightarrow> bool" where
  "provider_ok mc sh h m \<longleftrightarrow>
     meta_ok sh h (memp_ObjectMeta m) \<and> pspec_ok h (memp_Spec m) \<and> pstatus_ok mc sh h (memp_Status m)"

definition provider_reach :: "('m, 'l, 'd, 'x) machinery \<Rightarrow> ('m, 'l, 'd, 'x) shape \<Rightarrow> ('m, 'l, 'd, 'x) memory \<Rightarrow> 'm mem_Provider \<Rightarrow> nat set" where
  "provider_reach mc sh h m =
     meta_reach sh h (memp_ObjectMeta m) \<union> (pspec_reach h (memp_Spec m) \<union> pstatus_reach mc sh h (memp_Status m))"

definition provider_view ::
  "('m, 'l, 'd, 'x) machinery \<Rightarrow> ('m, 'l, 'd, 'x) shape \<Rightarrow> ('m, 'l, 'd, 'x) memory \<Rightarrow> 'm mem_Provider \<Rightarrow> TypeMeta \<times> ExternalProvider" where
  "provider_view mc sh h m = (memp_TypeMeta m, \<lparr>ep_Meta = meta_view sh h (memp_ObjectMeta m),
     ep_Spec = pspec_view h (memp_Spec m), ep_Status = pstatus_view mc sh h (memp_Status m)\<rparr>)"

text \<open>A list of objects, given what its items are\<close>

definition olist_ok ::
  "('m, 'l, 'd, 'x) shape \<Rightarrow> ('a, ('m, 'l, 'd, 'x) cell) kind \<Rightarrow> (('m, 'l, 'd, 'x) memory \<Rightarrow> 'a \<Rightarrow> bool) \<Rightarrow>
   ('m, 'l, 'd, 'x) memory \<Rightarrow> 'l mem_List \<Rightarrow> bool" where
  "olist_ok sh k item_ok h l \<longleftrightarrow> lmeta_ok sh h (list_ListMeta l) \<and> slice_ok k item_ok h (list_Items l)"

definition olist_reach ::
  "('m, 'l, 'd, 'x) shape \<Rightarrow> ('a, ('m, 'l, 'd, 'x) cell) kind \<Rightarrow> (('m, 'l, 'd, 'x) memory \<Rightarrow> 'a \<Rightarrow> nat set) \<Rightarrow>
   ('m, 'l, 'd, 'x) memory \<Rightarrow> 'l mem_List \<Rightarrow> nat set" where
  "olist_reach sh k item_reach h l = lmeta_reach sh h (list_ListMeta l) \<union> slice_reach k item_reach h (list_Items l)"

definition olist_view ::
  "('m, 'l, 'd, 'x) shape \<Rightarrow> ('a, ('m, 'l, 'd, 'x) cell) kind \<Rightarrow> (('m, 'l, 'd, 'x) memory \<Rightarrow> 'a \<Rightarrow> TypeMeta \<times> 'v) \<Rightarrow>
   ('m, 'l, 'd, 'x) memory \<Rightarrow> 'l mem_List \<Rightarrow> 'v object_list" where
  "olist_view sh k item_view h l = \<lparr>ol_TypeMeta = list_TypeMeta l, ol_ListMeta = lmeta_view sh h (list_ListMeta l),
     ol_Items = slice_view k item_view h (list_Items l)\<rparr>"

section \<open>The copies are deep\<close>

lemma deep_copy_flat_data: "deep_copy flat_ok flat_reach flat_view copy_flat"
  by unfold_locales (auto simp: copy_flat_def flat_ok_def flat_reach_def flat_view_def)

lemma deep_copy_flat_slice_data:
  "kind_ok k \<Longrightarrow> deep_copy (slice_ok k flat_ok) (slice_reach k flat_reach) (slice_view k flat_view) (copy_flat_slice k)"
  using deep_copy_flat_slice [of k "\<lambda>x. x"] unfolding flat_ok_def flat_reach_def flat_view_def by simp

lemmas copy_struct_simps = copy_pair_def Let_def split_beta

lemma ExternalProviderRef_deep: "deep_copy ref_ok ref_reach ref_view ExternalProviderRef_DeepCopyInto"
  by (rule deep_copy_struct [where f = "\<lambda>r. (mr_Config r, mr_Auth r, mr_Weight r)"
        and upd = "\<lambda>(c, a, w) r. r\<lparr>mr_Config := c, mr_Auth := a, mr_Weight := w\<rparr>"
        and g = "\<lambda>r (c, a, w). \<lparr>Ref = mr_Ref r, TargetModel = mr_TargetModel r, APIFormat = mr_APIFormat r,
          Path = mr_Path r, RefConfig = c, RefAuth = a, Weight = w\<rparr>",
        OF deep_copy_pair [OF deep_copy_map deep_copy_pair [OF deep_copy_ptr deep_copy_ptr], OF
          kinds_ok(1) deep_copy_flat_data kinds_ok(4) deep_copy_flat_data kinds_ok(2)]])
    (simp_all add: ref_ok_def ref_reach_def ref_view_def ExternalProviderRef_DeepCopyInto_def copy_struct_simps)

lemma ExternalModelSpec_deep: "deep_copy mspec_ok mspec_reach mspec_view ExternalModelSpec_DeepCopyInto"
  by (rule deep_copy_struct [where f = "\<lambda>s. (mm_ProviderRefs s, mm_GatewayRefs s)"
        and upd = "\<lambda>(r, g) s. s\<lparr>mm_ProviderRefs := r, mm_GatewayRefs := g\<rparr>"
        and g = "\<lambda>s (r, g). \<lparr>ModelName = mm_ModelName s, ExternalProviderRefs = r, GatewayRefs = g\<rparr>",
        OF deep_copy_pair [OF deep_copy_slice deep_copy_flat_slice_data, OF
          ExternalProviderRef_deep kinds_ok(7) kinds_ok(6)]])
    (simp_all add: mspec_ok_def mspec_reach_def mspec_view_def ExternalModelSpec_DeepCopyInto_def copy_struct_simps)

lemma ExternalProviderSpec_deep: "deep_copy pspec_ok pspec_reach pspec_view ExternalProviderSpec_DeepCopyInto"
  by (rule deep_copy_struct [where f = mp_Config and upd = "\<lambda>c s. s\<lparr>mp_Config := c\<rparr>"
        and g = "\<lambda>s c. \<lparr>Provider = mp_Provider s, Endpoint = mp_Endpoint s, Auth = mp_Auth s, Config = c\<rparr>",
        OF deep_copy_map [OF kinds_ok(1)]])
    (simp_all add: pspec_ok_def pspec_reach_def pspec_view_def ExternalProviderSpec_DeepCopyInto_def copy_struct_simps)

text \<open>What apimachinery's documentation says of its generated copies\<close>

locale apimachinery =
  meta: deep_copy "meta_ok sh" "meta_reach sh" "meta_view sh" "ObjectMeta_DeepCopyInto mc" +
  lmeta: deep_copy "lmeta_ok sh" "lmeta_reach sh" "lmeta_view sh" "ListMeta_DeepCopyInto mc" +
  cond: deep_copy "cond_ok sh" "cond_reach sh" "cond_view sh" "Condition_DeepCopyInto mc"
  for sh :: "('m, 'l, 'd, 'x) shape" and mc :: "('m, 'l, 'd, 'x) machinery"
begin

lemma Conditions_deep:
  "deep_copy (conds_ok mc sh) (conds_reach mc sh) (conds_view mc sh) (copy_slice (Condition_kind mc) (Condition_DeepCopyInto mc))"
  unfolding conds_ok_def conds_reach_def conds_view_def
  by (rule deep_copy_slice [OF cond.deep_copy_axioms kinds_ok(13)])

lemma GatewayStatus_deep:
  "deep_copy (gateway_ok mc sh) (gateway_reach mc sh) (gateway_view mc sh) (ExternalModelGatewayStatus_DeepCopyInto mc)"
  by (rule deep_copy_struct [where f = "\<lambda>g. (mg_HTTPRouteRef g, mg_Conditions g)"
        and upd = "\<lambda>(r, c) g. g\<lparr>mg_HTTPRouteRef := r, mg_Conditions := c\<rparr>"
        and g = "\<lambda>g (r, c). \<lparr>gw_Ref = mg_Ref g, gw_HTTPRouteRef = r, gw_Conditions = c\<rparr>",
        OF deep_copy_pair [OF deep_copy_ptr [OF deep_copy_flat_data kinds_ok(6)] Conditions_deep]])
    (simp_all add: gateway_ok_def gateway_reach_def gateway_view_def ExternalModelGatewayStatus_DeepCopyInto_def copy_struct_simps)

lemma ModelStatus_deep:
  "deep_copy (mstatus_ok mc sh) (mstatus_reach mc sh) (mstatus_view mc sh) (ExternalModelStatus_DeepCopyInto mc)"
  by (rule deep_copy_struct [where f = "\<lambda>t. (mt_Conditions t, mt_Gateways t)"
        and upd = "\<lambda>(c, g) t. t\<lparr>mt_Conditions := c, mt_Gateways := g\<rparr>"
        and g = "\<lambda>t (c, g). \<lparr>ms_Phase = mt_Phase t, ms_HTTPRouteName = mt_HTTPRouteName t,
          ms_ObservedGeneration = mt_ObservedGeneration t, ms_OverlayDigest = mt_OverlayDigest t,
          ms_OverlayGeneration = mt_OverlayGeneration t, ms_Conditions = c, ms_Gateways = g\<rparr>",
        OF deep_copy_pair [OF Conditions_deep deep_copy_slice [OF GatewayStatus_deep kinds_ok(9)]]])
    (simp_all add: mstatus_ok_def mstatus_reach_def mstatus_view_def ExternalModelStatus_DeepCopyInto_def copy_struct_simps)

lemma Model_deep:
  "deep_copy (model_ok mc sh) (model_reach mc sh) (model_view mc sh) (ExternalModel_DeepCopyInto mc)"
  by (rule deep_copy_struct [where f = "\<lambda>m. (mem_ObjectMeta m, mem_Spec m, mem_Status m)"
        and upd = "\<lambda>(a, s, t) m. m\<lparr>mem_ObjectMeta := a, mem_Spec := s, mem_Status := t\<rparr>"
        and g = "\<lambda>m (a, s, t). (mem_TypeMeta m, \<lparr>em_Meta = a, em_Spec = s, em_Status = t\<rparr>)",
        OF deep_copy_pair [OF meta.deep_copy_axioms deep_copy_pair [OF ExternalModelSpec_deep ModelStatus_deep]]])
    (simp_all add: model_ok_def model_reach_def model_view_def ExternalModel_DeepCopyInto_def copy_struct_simps)

lemma ProviderStatus_deep:
  "deep_copy (pstatus_ok mc sh) (pstatus_reach mc sh) (pstatus_view mc sh) (ExternalProviderStatus_DeepCopyInto mc)"
  by (rule deep_copy_struct [where f = mu_Conditions and upd = "\<lambda>c t. t\<lparr>mu_Conditions := c\<rparr>"
        and g = "\<lambda>t c. \<lparr>ps_Phase = mu_Phase t, ps_ObservedGeneration = mu_ObservedGeneration t, ps_Conditions = c\<rparr>",
        OF Conditions_deep])
    (simp_all add: pstatus_ok_def pstatus_reach_def pstatus_view_def ExternalProviderStatus_DeepCopyInto_def copy_struct_simps)

lemma Provider_deep:
  "deep_copy (provider_ok mc sh) (provider_reach mc sh) (provider_view mc sh) (ExternalProvider_DeepCopyInto mc)"
  by (rule deep_copy_struct [where f = "\<lambda>m. (memp_ObjectMeta m, memp_Spec m, memp_Status m)"
        and upd = "\<lambda>(a, s, t) m. m\<lparr>memp_ObjectMeta := a, memp_Spec := s, memp_Status := t\<rparr>"
        and g = "\<lambda>m (a, s, t). (memp_TypeMeta m, \<lparr>ep_Meta = a, ep_Spec = s, ep_Status = t\<rparr>)",
        OF deep_copy_pair [OF meta.deep_copy_axioms deep_copy_pair [OF ExternalProviderSpec_deep ProviderStatus_deep]]])
    (simp_all add: provider_ok_def provider_reach_def provider_view_def ExternalProvider_DeepCopyInto_def copy_struct_simps)

lemma object_list_deep:
  assumes "deep_copy item_ok item_reach item_view cp" "kind_ok k"
  shows "deep_copy (olist_ok sh k item_ok) (olist_reach sh k item_reach) (olist_view sh k item_view)
    (\<lambda>h i. let out = i\<lparr>list_TypeMeta := list_TypeMeta i\<rparr>;
          (meta, h) = ListMeta_DeepCopyInto mc h (list_ListMeta i);
          (items, h) = copy_slice k cp h (list_Items i)
      in (out\<lparr>list_ListMeta := meta, list_Items := items\<rparr>, h))"
  by (rule deep_copy_struct [where f = "\<lambda>m. (list_ListMeta m, list_Items m)"
        and upd = "\<lambda>(a, s) m. m\<lparr>list_ListMeta := a, list_Items := s\<rparr>"
        and g = "\<lambda>m (a, s). \<lparr>ol_TypeMeta = list_TypeMeta m, ol_ListMeta = a, ol_Items = s\<rparr>",
        OF deep_copy_pair [OF lmeta.deep_copy_axioms deep_copy_slice [OF assms]]])
    (simp_all add: olist_ok_def olist_reach_def olist_view_def copy_struct_simps)

end

section \<open>Objects behind the interface\<close>

sublocale apimachinery \<subseteq> model_list: deep_copy
  "olist_ok sh (Model_kind mc) (model_ok mc sh)" "olist_reach sh (Model_kind mc) (model_reach mc sh)"
  "olist_view sh (Model_kind mc) (model_view mc sh)" "ExternalModelList_DeepCopyInto mc"
  using object_list_deep [OF Model_deep kinds_ok(14)] by (simp add: ExternalModelList_DeepCopyInto_def [abs_def])

sublocale apimachinery \<subseteq> provider_list: deep_copy
  "olist_ok sh (Provider_kind mc) (provider_ok mc sh)" "olist_reach sh (Provider_kind mc) (provider_reach mc sh)"
  "olist_view sh (Provider_kind mc) (provider_view mc sh)" "ExternalProviderList_DeepCopyInto mc"
  using object_list_deep [OF Provider_deep kinds_ok(16)] by (simp add: ExternalProviderList_DeepCopyInto_def [abs_def])

datatype api_value =
    Model_Value "TypeMeta \<times> ExternalModel"
  | Model_List_Value ExternalModelList
  | Provider_Value "TypeMeta \<times> ExternalProvider"
  | Provider_List_Value ExternalProviderList

fun obj_ok :: "('m, 'l, 'd, 'x) machinery \<Rightarrow> ('m, 'l, 'd, 'x) shape \<Rightarrow> ('m, 'l, 'd, 'x) memory \<Rightarrow> runtime_object \<Rightarrow> bool" where
  "obj_ok mc sh h (Obj_ExternalModel p) = ptr_ok (Model_kind mc) (model_ok mc sh) h (Some p)"
| "obj_ok mc sh h (Obj_ExternalModelList p) =
     ptr_ok (ModelList_kind mc) (olist_ok sh (Model_kind mc) (model_ok mc sh)) h (Some p)"
| "obj_ok mc sh h (Obj_ExternalProvider p) = ptr_ok (Provider_kind mc) (provider_ok mc sh) h (Some p)"
| "obj_ok mc sh h (Obj_ExternalProviderList p) =
     ptr_ok (ProviderList_kind mc) (olist_ok sh (Provider_kind mc) (provider_ok mc sh)) h (Some p)"

fun obj_reach :: "('m, 'l, 'd, 'x) machinery \<Rightarrow> ('m, 'l, 'd, 'x) shape \<Rightarrow> ('m, 'l, 'd, 'x) memory \<Rightarrow> runtime_object \<Rightarrow> nat set" where
  "obj_reach mc sh h (Obj_ExternalModel p) = ptr_reach (Model_kind mc) (model_reach mc sh) h (Some p)"
| "obj_reach mc sh h (Obj_ExternalModelList p) =
     ptr_reach (ModelList_kind mc) (olist_reach sh (Model_kind mc) (model_reach mc sh)) h (Some p)"
| "obj_reach mc sh h (Obj_ExternalProvider p) = ptr_reach (Provider_kind mc) (provider_reach mc sh) h (Some p)"
| "obj_reach mc sh h (Obj_ExternalProviderList p) =
     ptr_reach (ProviderList_kind mc) (olist_reach sh (Provider_kind mc) (provider_reach mc sh)) h (Some p)"

fun obj_view :: "('m, 'l, 'd, 'x) machinery \<Rightarrow> ('m, 'l, 'd, 'x) shape \<Rightarrow> ('m, 'l, 'd, 'x) memory \<Rightarrow> runtime_object \<Rightarrow> api_value" where
  "obj_view mc sh h (Obj_ExternalModel p) = Model_Value (model_view mc sh h (deref (Model_kind mc) h p))"
| "obj_view mc sh h (Obj_ExternalModelList p) =
     Model_List_Value (olist_view sh (Model_kind mc) (model_view mc sh) h (deref (ModelList_kind mc) h p))"
| "obj_view mc sh h (Obj_ExternalProvider p) = Provider_Value (provider_view mc sh h (deref (Provider_kind mc) h p))"
| "obj_view mc sh h (Obj_ExternalProviderList p) =
     Provider_List_Value (olist_view sh (Provider_kind mc) (provider_view mc sh) h (deref (ProviderList_kind mc) h p))"

lemma copy_ptr_Some: "\<exists>q h'. copy_ptr k cp h (Some p) = (Some q, h')"
  by (simp add: copy_ptr_def Let_def split_beta)

lemma nil_receiver:
  "ExternalModel_DeepCopyObject mc h None = (None, h)" "ExternalModelList_DeepCopyObject mc h None = (None, h)"
  "ExternalProvider_DeepCopyObject mc h None = (None, h)" "ExternalProviderList_DeepCopyObject mc h None = (None, h)"
  by (simp_all add: ExternalModel_DeepCopyObject_def ExternalModel_DeepCopy_def ExternalModelList_DeepCopyObject_def
      ExternalModelList_DeepCopy_def ExternalProvider_DeepCopyObject_def ExternalProvider_DeepCopy_def
      ExternalProviderList_DeepCopyObject_def ExternalProviderList_DeepCopy_def copy_ptr_def)

text \<open>One root type \<open>C\<close> of the interface, given the functions of the interface on it\<close>

lemma object_case:
  assumes dc: "deep_copy ok reach view cp" "kind_ok k" and p: "ptr_ok k ok h (Some p)"
    and oreach: "\<And>h p. oreach h (C p) = ptr_reach k reach h (Some p)"
    and oview: "\<And>h p. oview h (C p) = V (view h (deref k h p))"
    and ocopy: "\<And>q h'. copy_ptr k cp h (Some p) = (Some q, h') \<Longrightarrow> ocopy = (Some (C q), h')"
  shows "\<exists>y h'. ocopy = (Some y, h') \<and> oview h' y = oview h (C p) \<and> oreach h' (C p) \<inter> oreach h' y = {} \<and>
    (\<forall>ws. fst ` set ws \<subseteq> oreach h' y \<longrightarrow> oview (assign_all ws h') (C p) = oview h (C p)) \<and>
    (\<forall>ws. fst ` set ws \<subseteq> oreach h' (C p) \<longrightarrow> oview (assign_all ws h') y = oview h (C p))"
proof -
  obtain q h' where q: "copy_ptr k cp h (Some p) = (Some q, h')" using copy_ptr_Some by blast
  note deep = deep_copy_ptr [OF dc]
  show ?thesis
    using deep_copy.isolated [OF deep p q] deep_copy.apart [OF deep p q] ocopy [OF q]
    by (intro exI [of _ "C q"] exI [of _ h']) (simp add: ptr_view_def oreach oview)
qed

context apimachinery
begin

lemma object_isolated:
  assumes "obj_ok mc sh h x"
  shows "\<exists>y h'. DeepCopyObject mc h x = (Some y, h') \<and> obj_view mc sh h' y = obj_view mc sh h x \<and>
    obj_reach mc sh h' x \<inter> obj_reach mc sh h' y = {} \<and>
    (\<forall>ws. fst ` set ws \<subseteq> obj_reach mc sh h' y \<longrightarrow> obj_view mc sh (assign_all ws h') x = obj_view mc sh h x) \<and>
    (\<forall>ws. fst ` set ws \<subseteq> obj_reach mc sh h' x \<longrightarrow> obj_view mc sh (assign_all ws h') y = obj_view mc sh h x)"
proof (cases x)
  case (Obj_ExternalModel p)
  show ?thesis unfolding Obj_ExternalModel
    by (rule object_case [OF Model_deep kinds_ok(14), where V = Model_Value])
      (use assms Obj_ExternalModel in \<open>auto simp: ExternalModel_DeepCopyObject_def ExternalModel_DeepCopy_def\<close>)
next
  case (Obj_ExternalModelList p)
  show ?thesis unfolding Obj_ExternalModelList
    by (rule object_case [OF model_list.deep_copy_axioms kinds_ok(15), where V = Model_List_Value])
      (use assms Obj_ExternalModelList in \<open>auto simp: ExternalModelList_DeepCopyObject_def ExternalModelList_DeepCopy_def\<close>)
next
  case (Obj_ExternalProvider p)
  show ?thesis unfolding Obj_ExternalProvider
    by (rule object_case [OF Provider_deep kinds_ok(16), where V = Provider_Value])
      (use assms Obj_ExternalProvider in \<open>auto simp: ExternalProvider_DeepCopyObject_def ExternalProvider_DeepCopy_def\<close>)
next
  case (Obj_ExternalProviderList p)
  show ?thesis unfolding Obj_ExternalProviderList
    by (rule object_case [OF provider_list.deep_copy_axioms kinds_ok(17), where V = Provider_List_Value])
      (use assms Obj_ExternalProviderList in \<open>auto simp: ExternalProviderList_DeepCopyObject_def ExternalProviderList_DeepCopy_def\<close>)
qed

end

section \<open>An instance of apimachinery\<close>

text \<open>Metadata whose labels are a map in memory, conditions and list metadata without pointers\<close>

type_synonym ref_meta = "ObjectMeta \<times> nat option"

type_synonym ref_memory = "(ref_meta, ListMeta, Condition, unit) memory"

definition ref_machinery :: "(ref_meta, ListMeta, Condition, unit) machinery" where
  "ref_machinery = \<lparr>
     ObjectMeta_zero = (\<lparr>meta_Name = [], meta_Namespace = [], meta_UID = [], meta_ResourceVersion = [], meta_Generation = 0,
       meta_Labels = [], meta_Annotations = [], meta_Finalizers = [], meta_Deleted = False, meta_Owners = []\<rparr>, None),
     ListMeta_zero = \<lparr>lm_ResourceVersion = [], lm_Continue = [], lm_RemainingItemCount = None\<rparr>,
     Condition_zero = \<lparr>cond_Type = [], cond_Status = [], cond_Reason = [], cond_Message = [], cond_ObservedGeneration = 0\<rparr>,
     ObjectMeta_DeepCopyInto = (\<lambda>h m. let (l, h') = copy_map map_kind h (snd m) in ((fst m, l), h')),
     ListMeta_DeepCopyInto = copy_flat,
     Condition_DeepCopyInto = copy_flat\<rparr>"

definition ref_shape :: "(ref_meta, ListMeta, Condition, unit) shape" where
  "ref_shape = \<lparr>
     meta_ok = (\<lambda>h m. map_ok map_kind h (snd m)),
     meta_reach = (\<lambda>h m. map_reach (snd m)),
     meta_view = (\<lambda>h m. (fst m)\<lparr>meta_Labels := map_view map_kind h (snd m)\<rparr>),
     lmeta_ok = flat_ok, lmeta_reach = flat_reach, lmeta_view = flat_view,
     cond_ok = flat_ok, cond_reach = flat_reach, cond_view = flat_view\<rparr>"

interpretation ref_machine: apimachinery ref_shape ref_machinery
proof (intro apimachinery.intro)
  show "deep_copy (meta_ok ref_shape) (meta_reach ref_shape) (meta_view ref_shape) (ObjectMeta_DeepCopyInto ref_machinery)"
    by (rule deep_copy_struct [where f = snd and upd = "\<lambda>l m. (fst m, l)" and g = "\<lambda>m l. (fst m)\<lparr>meta_Labels := l\<rparr>",
          OF deep_copy_map [OF kinds_ok(1)]])
      (simp_all add: ref_shape_def ref_machinery_def)
qed (simp_all add: ref_shape_def ref_machinery_def deep_copy_flat_data)

section \<open>Copies share nothing\<close>

text \<open>C21: The copy that \<^verbatim>\<open>DeepCopyObject\<close> returns for an ExternalModel, an ExternalProvider or a list of them
  is never nil for a non-nil object, reads exactly as the original, shares no pointer, slice or map with it at any
  depth, and an assignment through any address the one reaches is not seen through the other. So a reconciler may change
  what a cached client gave it without changing the cache. The copies of apimachinery's own types are taken to be
  deep, as documented.\<close>

theorem object_copy_isolated:
  assumes "apimachinery sh mc" "obj_ok mc sh h obj"
  shows "\<exists>copy h'. DeepCopyObject mc h obj = (Some copy, h') \<and> obj_view mc sh h' copy = obj_view mc sh h obj \<and>
    obj_reach mc sh h' obj \<inter> obj_reach mc sh h' copy = {} \<and>
    (\<forall>ws. fst ` set ws \<subseteq> obj_reach mc sh h' copy \<longrightarrow> obj_view mc sh (assign_all ws h') obj = obj_view mc sh h obj) \<and>
    (\<forall>ws. fst ` set ws \<subseteq> obj_reach mc sh h' obj \<longrightarrow> obj_view mc sh (assign_all ws h') copy = obj_view mc sh h obj)"
  using assms by (rule apimachinery.object_isolated)

text \<open>A model with labels and one provider reference that has a config map and a weight\<close>

definition sample_memory :: ref_memory where
  "sample_memory =
     [C_Map [(''region'', ''us'')],
      C_Map [(''team'', ''a'')],
      C_Int [7],
      C_ProviderRef [zero_ProviderRef\<lparr>mr_TargetModel := ''gpt-4o'', mr_Config := Some 0, mr_Weight := Some 2\<rparr>],
      C_Model [(zero_Model ref_machinery)\<lparr>mem_ObjectMeta := (fst (ObjectMeta_zero ref_machinery), Some 1),
        mem_Spec := zero_ModelSpec\<lparr>mm_ModelName := ''gpt'',
          mm_ProviderRefs := Some \<lparr>sl_array = 3, sl_offset = 0, sl_len = 1\<rparr>\<rparr>\<rparr>]]"

theorem object_copy_isolated_witness:
  "\<exists>h'. DeepCopyObject ref_machinery sample_memory (Obj_ExternalModel 4) = (Some (Obj_ExternalModel 5), h') \<and>
     obj_view ref_machinery ref_shape (assign_all [(8, C_Map [(''region'', ''eu'')]), (6, C_Map [])] h') (Obj_ExternalModel 4) =
     obj_view ref_machinery ref_shape sample_memory (Obj_ExternalModel 4)"
proof -
  have ok: "obj_ok ref_machinery ref_shape sample_memory (Obj_ExternalModel 4)" by code_simp
  have copy: "fst (DeepCopyObject ref_machinery sample_memory (Obj_ExternalModel 4)) = Some (Obj_ExternalModel 5)"
    by code_simp
  have reach: "{6, 8} \<subseteq> obj_reach ref_machinery ref_shape
      (snd (DeepCopyObject ref_machinery sample_memory (Obj_ExternalModel 4))) (Obj_ExternalModel 5)"
    by code_simp
  from object_copy_isolated [OF ref_machine.apimachinery_axioms ok] copy reach show ?thesis by fastforce
qed

end
