(* ===== verification/Fair_Runs.thy ===== *)
theory Fair_Runs
  imports Plugin_Stores
begin

text \<open>
  Infinite runs of the store controllers. A run is fair to a key when the informer catches up with the key
  again and again, a queued key is taken at some time and every reconcile ends. The lemmas are proved once for a
  level-triggered reconciler, from what a step of the system can do to one key, and used for the providers
  and for the Secrets: in every fair run the store ends up with what the cluster says, and stays there.
\<close>

section \<open>What a step does to one key\<close>

inductive key_step ::
  "('o option \<Rightarrow> 'o option) \<Rightarrow> ('s \<Rightarrow> 'k \<Rightarrow> 'v option) \<Rightarrow> ('k \<Rightarrow> 'o option \<Rightarrow> 'v option) \<Rightarrow> 'k \<Rightarrow>
   ('k, 'o) controller \<Rightarrow> 's \<Rightarrow> ('k, 'o) controller \<Rightarrow> 's \<Rightarrow> bool"
  for select lookup desired k where
  key_other: "ctl_cache c' k = ctl_cache c k \<Longrightarrow> ctl_running c' k = ctl_running c k \<Longrightarrow> lookup s' k = lookup s k \<Longrightarrow>
    key_step select lookup desired k c s c' s'"
| key_seen: "ctl_cache c' k = select (ctl_cluster c k) \<Longrightarrow> ctl_running c' k = ctl_running c k \<Longrightarrow> lookup s' k = lookup s k \<Longrightarrow>
    key_step select lookup desired k c s c' s'"
| key_taken: "ctl_cache c' k = ctl_cache c k \<Longrightarrow> ctl_running c' k = Some (ctl_cache c k) \<Longrightarrow> lookup s' k = lookup s k \<Longrightarrow>
    key_step select lookup desired k c s c' s'"
| key_done: "ctl_cache c' k = ctl_cache c k \<Longrightarrow> ctl_running c k = Some x \<Longrightarrow> ctl_running c' k = None \<Longrightarrow>
    lookup s' k = desired k x \<Longrightarrow> key_step select lookup desired k c s c' s'"

definition fair_to :: "('o option \<Rightarrow> 'o option) \<Rightarrow> (nat \<Rightarrow> ('k, 'o) controller) \<Rightarrow> 'k \<Rightarrow> bool" where
  "fair_to select C k \<longleftrightarrow>
     (\<forall>t. \<exists>t'\<ge>t. ctl_cache (C t') k = select (ctl_cluster (C t') k)) \<and>
     (\<forall>t. ctl_can_start k (C t) \<longrightarrow> (\<exists>t'\<ge>t. ctl_running (C t') k \<noteq> None)) \<and>
     (\<forall>t. ctl_running (C t) k \<noteq> None \<longrightarrow> (\<exists>t'\<ge>t. ctl_running (C t') k = None))"

section \<open>Eventually and from then on\<close>

lemma stays:
  fixes t0 t :: nat
  assumes "P t0" "t0 \<le> t" and step: "\<And>t. t0 \<le> t \<Longrightarrow> P t \<Longrightarrow> P (Suc t)"
  shows "P t"
  using assms(2,1) by (induction t rule: dec_induct) (auto intro: step)

lemma first_change:
  fixes P :: "nat \<Rightarrow> bool"
  assumes "P t" "\<not> P t'" "t \<le> t'"
  obtains u where "t \<le> u" "P u" "\<not> P (Suc u)"
  using assms stays [of P t t'] by blast

lemma settles:
  assumes step: "\<And>t. key_step select lookup desired k (C t) (S t) (C (Suc t)) (S (Suc t))"
    and mirror: "\<And>t. mirrors lookup desired (C t) (S t) k"
    and fair: "fair_to select C k"
    and still: "\<And>t. t0 \<le> t \<Longrightarrow> ctl_cluster (C t) k = x"
  obtains t1 where "t0 \<le> t1" "\<And>t. t1 \<le> t \<Longrightarrow> lookup (S t) k = desired k (select x)"
proof -
  from fair obtain ta where ta: "t0 \<le> ta" "ctl_cache (C ta) k = select x"
    unfolding fair_to_def using still by metis
  have cache: "ctl_cache (C t) k = select x" if "ta \<le> t" for t
    using ta(2) that
  proof (rule stays [of "\<lambda>t. ctl_cache (C t) k = select x"])
    fix u assume u: "ta \<le> u" "ctl_cache (C u) k = select x"
    from step [of u] show "ctl_cache (C (Suc u)) k = select x"
      by (cases rule: key_step.cases) (use u still [of u] ta(1) in auto)
  qed
  obtain tb where tb: "ta \<le> tb" "ctl_running (C tb) k = None"
    using fair unfolding fair_to_def by (metis order_refl)
  have runs: "ctl_running (C t) k \<in> {None, Some (select x)}" if "tb \<le> t" for t
  proof (rule stays [of "\<lambda>t. ctl_running (C t) k \<in> {None, Some (select x)}"])
    fix u assume u: "tb \<le> u" "ctl_running (C u) k \<in> {None, Some (select x)}"
    from step [of u] show "ctl_running (C (Suc u)) k \<in> {None, Some (select x)}"
      by (cases rule: key_step.cases) (use u cache [of u] tb(1) in auto)
  qed (use tb that in simp_all)
  have once: "\<exists>tc\<ge>tb. lookup (S tc) k = desired k (select x)"
  proof (cases "lookup (S tb) k = desired k (select x)")
    case False
    then have "ctl_can_start k (C tb)"
      using mirror [of tb] tb cache [of tb] by (auto simp: mirrors_def ctl_can_start_def)
    then obtain tc where tc: "tb \<le> tc" "ctl_running (C tc) k \<noteq> None" using fair unfolding fair_to_def by blast
    from tc fair obtain td where td: "tc \<le> td" "ctl_running (C td) k = None" unfolding fair_to_def by blast
    obtain u where u: "tc \<le> u" "ctl_running (C u) k \<noteq> None" "ctl_running (C (Suc u)) k = None"
      by (rule first_change [of "\<lambda>t. ctl_running (C t) k \<noteq> None" tc td]) (use tc td in auto)
    have now: "ctl_running (C u) k = Some (select x)" using runs [of u] u tc by auto
    from step [of u] have "lookup (S (Suc u)) k = desired k (select x)"
      by (cases rule: key_step.cases) (use u now in auto)
    then show ?thesis using u(1) tc(1) by (intro exI [of _ "Suc u"]) auto
  qed (use tb in blast)
  then obtain tc where tc: "tb \<le> tc" "lookup (S tc) k = desired k (select x)" by blast
  have "lookup (S t) k = desired k (select x)" if "tc \<le> t" for t
    using tc(2) that
  proof (rule stays [of "\<lambda>t. lookup (S t) k = desired k (select x)"])
    fix u assume u: "tc \<le> u" "lookup (S u) k = desired k (select x)"
    from step [of u] show "lookup (S (Suc u)) k = desired k (select x)"
      by (cases rule: key_step.cases) (use u runs [of u] tc(1) in auto)
  qed
  with that [of tc] ta(1) tb(1) tc(1) show ?thesis by auto
qed

section \<open>The steps of the store controllers\<close>

lemma provider_key_step:
  assumes "plugin_step admit named sys sys'" "keys_valid (provider_ctl sys)" "valid_key k"
  shows "key_step (\<lambda>x. x) getProvider provider_entry k (provider_ctl sys) (sys_info sys) (provider_ctl sys') (sys_info sys')"
  using assms(1)
proof (cases rule: plugin_step.cases)
  case (provider_seen k' items)
  then show ?thesis
    by (cases "k' = k") (auto intro: key_step.intros)
next
  case (provider_taken k')
  then show ?thesis
    by (cases "k' = k") (auto intro: key_step.intros)
next
  case (provider_done k' x)
  then have "valid_key k'" using assms(2) by (auto simp: keys_valid_def)
  then have "getProvider (sys_info sys') k = (if k = k' then provider_entry k' x else getProvider (sys_info sys) k)"
    using provider_done provider_mirror.lookup_sync [OF _ assms(3)] by simp
  with provider_done show ?thesis
    by (cases "k' = k") (auto intro: key_step.intros)
next
  case (model_done k' x items listed)
  then have "getProvider (sys_info sys') k = getProvider (sys_info sys) k"
    by (intro getProvider_providers) simp
  with model_done show ?thesis by (auto intro: key_step.intros)
qed (auto intro: key_step.intros)

lemma secret_key_step:
  assumes "plugin_step admit named sys sys'"
  shows "key_step filteredSecret secret_of secret_entry k (secret_ctl sys) (sys_creds sys) (secret_ctl sys') (sys_creds sys')"
  using assms
proof (cases rule: plugin_step.cases)
  case (secret_seen k')
  then show ?thesis by (cases "k' = k") (auto intro: key_step.intros)
next
  case (secret_taken k')
  then show ?thesis by (cases "k' = k") (auto intro: key_step.intros)
next
  case (secret_done k' x)
  then obtain again where "secret_ctl sys' = ctl_finish k' again (secret_ctl sys)"
    by (simp add: finish_secret_def case_prod_beta)
  with secret_done show ?thesis
    by (cases "k' = k") (auto simp: secret_of_sync intro: key_step.intros)
qed (auto intro: key_step.intros)

text \<open>A run of the system as it is written\<close>

definition system_run :: "(nat \<Rightarrow> plugin_system) \<Rightarrow> bool" where
  "system_run \<sigma> \<longleftrightarrow> \<sigma> 0 = initial_system \<and> (\<forall>t. plugin_step (\<lambda>_ _. True) (\<lambda>_. True) (\<sigma> t) (\<sigma> (Suc t)))"

lemma system_run_reachable: "system_run \<sigma> \<Longrightarrow> reachable_system (\<sigma> t)"
  unfolding system_run_def by (induction t) (auto intro: plugin_reach.intros)

text \<open>C10: Changes arrive. In every run of the store controllers, whatever the interleaving, a provider or a
  Secret that is changed, created or deleted reaches its store: if the run is fair to its key and from some time on the
  object stays as it is in the cluster, then from some time on the provider store answers with that
  provider's entry, or with none when it is gone, and the credential store answers with the Secret's data if and only
  if the Secret is live, labelled and free of empty fields. A reconcile that started before the change and writes what
  it read then does not spoil it.\<close>

theorem fair_runs_converge:
  assumes "system_run \<sigma>"
  shows "(\<forall>k x t0. valid_key k \<longrightarrow> fair_to (\<lambda>x. x) (\<lambda>t. provider_ctl (\<sigma> t)) k \<longrightarrow>
      (\<forall>t\<ge>t0. ctl_cluster (provider_ctl (\<sigma> t)) k = x) \<longrightarrow>
      (\<exists>t1\<ge>t0. \<forall>t\<ge>t1. getProvider (sys_info (\<sigma> t)) k = provider_entry k x)) \<and>
    (\<forall>k x t0. fair_to filteredSecret (\<lambda>t. secret_ctl (\<sigma> t)) k \<longrightarrow>
      (\<forall>t\<ge>t0. ctl_cluster (secret_ctl (\<sigma> t)) k = x) \<longrightarrow>
      (\<exists>t1\<ge>t0. \<forall>t\<ge>t1. secret_get (sys_creds (\<sigma> t)) (nn_Namespace k) (nn_Name k) = secret_entry k x))"
proof (intro conjI allI impI)
  have step: "plugin_step (\<lambda>_ _. True) (\<lambda>_. True) (\<sigma> t) (\<sigma> (Suc t))" for t using assms by (simp add: system_run_def)
  have mir: "providers_mirrored (\<sigma> t)" "secrets_mirrored (\<sigma> t)" for t
    using plugin_reach_mirrored [OF system_run_reachable [OF assms]] by auto
  { fix k x t0
    assume k: "valid_key k" and f: "fair_to (\<lambda>x. x) (\<lambda>t. provider_ctl (\<sigma> t)) k"
      and c: "\<forall>t\<ge>t0. ctl_cluster (provider_ctl (\<sigma> t)) k = x"
    have s: "key_step (\<lambda>x. x) getProvider provider_entry k (provider_ctl (\<sigma> t)) (sys_info (\<sigma> t))
        (provider_ctl (\<sigma> (Suc t))) (sys_info (\<sigma> (Suc t)))" for t
      using provider_key_step [OF step _ k] mir(1) by (simp add: providers_mirrored_def)
    have m: "mirrors getProvider provider_entry (provider_ctl (\<sigma> t)) (sys_info (\<sigma> t)) k" for t
      using mir(1) k by (simp add: providers_mirrored_def)
    obtain t1 where "t0 \<le> t1" "\<And>t. t1 \<le> t \<Longrightarrow> getProvider (sys_info (\<sigma> t)) k = provider_entry k x"
      using settles [where C = "\<lambda>t. provider_ctl (\<sigma> t)" and S = "\<lambda>t. sys_info (\<sigma> t)", OF s m f] c by metis
    then show "\<exists>t1\<ge>t0. \<forall>t\<ge>t1. getProvider (sys_info (\<sigma> t)) k = provider_entry k x" by blast }
  fix k x t0
  assume f: "fair_to filteredSecret (\<lambda>t. secret_ctl (\<sigma> t)) k" and c: "\<forall>t\<ge>t0. ctl_cluster (secret_ctl (\<sigma> t)) k = x"
  have m: "mirrors secret_of secret_entry (secret_ctl (\<sigma> t)) (sys_creds (\<sigma> t)) k" for t
    using mir(2) by (simp add: secrets_mirrored_def)
  obtain t1 where "t0 \<le> t1" "\<And>t. t1 \<le> t \<Longrightarrow> secret_of (sys_creds (\<sigma> t)) k = secret_entry k (filteredSecret x)"
    using settles [where C = "\<lambda>t. secret_ctl (\<sigma> t)" and S = "\<lambda>t. sys_creds (\<sigma> t)", OF secret_key_step [OF step] m f] c by metis
  then show "\<exists>t1\<ge>t0. \<forall>t\<ge>t1. secret_get (sys_creds (\<sigma> t)) (nn_Namespace k) (nn_Name k) = secret_entry k x"
    by (auto simp: secret_of_def)
qed

text \<open>A run: the provider is created, seen, taken and reconciled; after that nothing changes.\<close>

definition sample_run :: "nat \<Rightarrow> plugin_system" where
  "sample_run t =
     (let created = initial_system\<lparr>provider_ctl := ctl_change key_openai (Some sample_provider) (provider_ctl initial_system)\<rparr>;
          seen = see_provider key_openai [] created;
          taken = seen\<lparr>provider_ctl := ctl_start key_openai (provider_ctl seen)\<rparr>
      in if t = 0 then initial_system else if t = 1 then created else if t = 2 then seen else if t = 3 then taken
         else finish_provider key_openai (Some sample_provider) taken)"

lemma stutter: "plugin_step admit named sys sys"
  using secret_changed [of admit named sys k "ctl_cluster (secret_ctl sys) k"] by (simp add: ctl_change_def)

lemma sample_run_runs: "system_run sample_run"
  unfolding system_run_def
proof (intro conjI allI)
  show "sample_run 0 = initial_system" by (simp add: sample_run_def)
  fix t :: nat
  have key: "object_key (ep_Meta sample_provider) = key_openai" "valid_key key_openai" by (code_simp, simp add: valid_key_def)
  consider "t = 0" | "t = 1" | "t = 2" | "t = 3" | "4 \<le> t" by linarith
  then show "plugin_step (\<lambda>_ _. True) (\<lambda>_. True) (sample_run t) (sample_run (Suc t))"
  proof cases
    case 1
    then show ?thesis using key by (auto simp: sample_run_def Let_def intro: provider_changed)
  next
    case 2
    then show ?thesis using key by (auto simp: sample_run_def Let_def lists_cache_def intro!: provider_seen)
  next
    case 3
    have "ctl_can_start key_openai (provider_ctl (sample_run 2))" by code_simp
    moreover have "sample_run 3 = (sample_run 2)\<lparr>provider_ctl := ctl_start key_openai (provider_ctl (sample_run 2))\<rparr>"
      by (simp add: sample_run_def Let_def)
    ultimately show ?thesis using provider_taken [of key_openai "sample_run 2"] 3 by (simp add: numeral_3_eq_3 numeral_2_eq_2)
  next
    case 4
    then show ?thesis
      by (auto simp: sample_run_def Let_def initial_system_def intro!: provider_done)
  next
    case 5
    then show ?thesis by (simp add: sample_run_def Let_def stutter)
  qed
qed

lemma sample_run_fair: "fair_to (\<lambda>x. x) (\<lambda>t. provider_ctl (sample_run t)) key_openai"
  unfolding fair_to_def
proof (intro conjI allI impI)
  fix t :: nat
  show "\<exists>t'\<ge>t. ctl_cache (provider_ctl (sample_run t')) key_openai = ctl_cluster (provider_ctl (sample_run t')) key_openai"
    by (rule exI [of _ "t + 4"]) (simp add: sample_run_def Let_def initial_system_def)
  show "\<exists>t'\<ge>t. ctl_running (provider_ctl (sample_run t')) key_openai = None"
    by (rule exI [of _ "t + 4"]) (simp add: sample_run_def Let_def)
  assume start: "ctl_can_start key_openai (provider_ctl (sample_run t))"
  have "t \<le> 3"
  proof (rule ccontr)
    assume "\<not> t \<le> 3"
    then show False
      using start by (auto simp: sample_run_def Let_def ctl_can_start_def ctl_ops finish_provider_def see_provider_def initial_system_def)
  qed
  then show "\<exists>t'\<ge>t. ctl_running (provider_ctl (sample_run t')) key_openai \<noteq> None"
    by (intro exI [of _ 3]) (simp add: sample_run_def Let_def)
qed

theorem fair_runs_converge_witness:
  "\<exists>t1. \<forall>t\<ge>t1. map_option pi_endpoint (getProvider (sys_info (sample_run t)) key_openai) = Some ''api.openai.com''"
proof -
  have still: "\<forall>t\<ge>4. ctl_cluster (provider_ctl (sample_run t)) key_openai = Some sample_provider"
    by (simp add: sample_run_def Let_def)
  have key: "valid_key key_openai" by (simp add: valid_key_def)
  note all = conjunct1 [OF fair_runs_converge [OF sample_run_runs]]
  from mp [OF mp [OF mp [OF all [THEN spec [where x = key_openai], THEN spec [where x = "Some sample_provider"], THEN spec [where x = 4]]
      key] sample_run_fair] still]
  obtain t1 where "\<forall>t\<ge>t1. getProvider (sys_info (sample_run t)) key_openai = provider_entry key_openai (Some sample_provider)"
    by blast
  moreover have "map_option pi_endpoint (provider_entry key_openai (Some sample_provider)) = Some ''api.openai.com''"
    by code_simp
  ultimately show ?thesis by (intro exI [of _ t1]) simp
qed

end
