(* ===== verification/Credential_Snapshots.thy ===== *)
theory Credential_Snapshots
  imports Go_Heap Api_Key_Injection
begin

text \<open>
  The credential maps in memory. \<^verbatim>\<open>secretStore.get\<close> returns the stored map itself, and a request reads it and
  copies it into a map of its own after the lock is released, while reconciles build new maps and put
  them into the store. Here every read and write of a map is a step of its own and all threads interleave; the
  store holds the addresses of the maps. The invariant is that a map is written only by the thread that made
  it and only before the thread hands it on, so every request works on a snapshot and the store is the
  \<open>secretStore\<close> of \<open>Secret_Store\<close>, whose operations are atomic.
\<close>

section \<open>The store of addresses\<close>

record mem_secretStore =
  mem_data :: "(string \<times> nat gomap) list"

definition mem_get :: "mem_secretStore \<Rightarrow> string \<Rightarrow> string \<Rightarrow> nat option" where
  "mem_get s namespace name =
     (case map_of (mem_data s) namespace of
        None \<Rightarrow> None
      | Some secretsByName \<Rightarrow> map_of secretsByName name)"

definition mem_publish :: "string \<Rightarrow> string \<Rightarrow> nat \<Rightarrow> mem_secretStore \<Rightarrow> mem_secretStore" where
  "mem_publish namespace name credentials s =
     (let byName = (case map_of (mem_data s) namespace of None \<Rightarrow> [] | Some m \<Rightarrow> m)
      in s\<lparr>mem_data := gset namespace (gset name credentials byName) (mem_data s)\<rparr>)"

definition mem_delete :: "string \<Rightarrow> string \<Rightarrow> mem_secretStore \<Rightarrow> mem_secretStore" where
  "mem_delete namespace name s =
     (case map_of (mem_data s) namespace of
        None \<Rightarrow> s
      | Some secretsByName \<Rightarrow>
          (let secretsByName = gdel name secretsByName
           in if secretsByName = [] then s\<lparr>mem_data := gdel namespace (mem_data s)\<rparr>
              else s\<lparr>mem_data := gset namespace secretsByName (mem_data s)\<rparr>))"

section \<open>Threads\<close>

type_synonym map_heap = "string gomap gheap"

text \<open>
  A request that is about to look up its Secret; that has the stored map (at an address, with what it held then);
  that copies the stored map, the keys still to be copied given; that adds the data of the request; that generates
  its headers from a map. A reconcile in the loop of \<^verbatim>\<open>addOrUpdate\<close>, with the fields still to be copied.
\<close>

datatype thread =
    Lookup string string
  | Held nat "string gomap"
  | Copying nat "string gomap" "string gomap" nat "string list"
  | Adding "string gomap" "string gomap" nat "string gomap"
  | Generating nat "string gomap" "string gomap"
  | Building string string Secret nat "string gomap"

record cred_mem =
  cm_heap :: map_heap
  cm_store :: mem_secretStore
  cm_threads :: "nat \<Rightarrow> thread option"

text \<open>\<^verbatim>\<open>make(map[string]string)\<close> and \<^verbatim>\<open>m[key] = value\<close>\<close>

definition make_map :: "map_heap \<Rightarrow> nat \<times> map_heap" where
  "make_map h = (length h, h @ [[]])"

definition set_entry :: "nat \<Rightarrow> string \<Rightarrow> string \<Rightarrow> map_heap \<Rightarrow> map_heap" where
  "set_entry a key val h = h[a := gset key val (h ! a)]"

text \<open>\<^verbatim>\<open>ProcessRequest\<close> once the extra data is there: a map of its own if there is any, else the stored map.\<close>

definition begin_merge :: "nat \<Rightarrow> string gomap \<Rightarrow> string gomap \<Rightarrow> map_heap \<Rightarrow> thread \<times> map_heap" where
  "begin_merge credentialsData g extraData h =
     (if extraData \<noteq> [] then
        (let (merged, h) = make_map h in (Copying credentialsData g extraData merged (map fst (h ! credentialsData)), h))
      else (Generating credentialsData g extraData, h))"

definition with_thread :: "nat \<Rightarrow> thread option \<Rightarrow> cred_mem \<Rightarrow> cred_mem" where
  "with_thread i t st = st\<lparr>cm_threads := (cm_threads st)(i := t)\<rparr>"

inductive cred_step :: "cred_mem \<Rightarrow> cred_mem \<Rightarrow> bool" where
  arrives: "cm_threads st i = None \<Longrightarrow> cred_step st (with_thread i (Some (Lookup ns name)) st)"
| gets: "cm_threads st i = Some (Lookup ns name) \<Longrightarrow> mem_get (cm_store st) ns name = Some a \<Longrightarrow>
    cred_step st (with_thread i (Some (Held a (cm_heap st ! a))) st)"
| extracts: "cm_threads st i = Some (Held a g) \<Longrightarrow> wf_map e \<Longrightarrow> begin_merge a g e (cm_heap st) = (t, h) \<Longrightarrow>
    cred_step st (with_thread i (Some t) (st\<lparr>cm_heap := h\<rparr>))"
| copies: "cm_threads st i = Some (Copying a g e m (key # keys)) \<Longrightarrow> map_of (cm_heap st ! a) key = Some val \<Longrightarrow>
    cred_step st (with_thread i (Some (Copying a g e m keys)) (st\<lparr>cm_heap := set_entry m key val (cm_heap st)\<rparr>))"
| copied: "cm_threads st i = Some (Copying a g e m []) \<Longrightarrow> cred_step st (with_thread i (Some (Adding g e m e)) st)"
| adds: "cm_threads st i = Some (Adding g e m ((key, val) # todo)) \<Longrightarrow>
    cred_step st (with_thread i (Some (Adding g e m todo)) (st\<lparr>cm_heap := set_entry m key val (cm_heap st)\<rparr>))"
| added: "cm_threads st i = Some (Adding g e m []) \<Longrightarrow> cred_step st (with_thread i (Some (Generating m g e)) st)"
| leaves: "cm_threads st i = Some t \<Longrightarrow> t = Lookup ns name \<or> t = Held a g \<or> t = Generating a g e \<Longrightarrow>
    cred_step st (with_thread i None st)"
| empty_secret: "sec_Data (secret :: Secret) = [] \<Longrightarrow> cred_step st (st\<lparr>cm_store := mem_delete ns name (cm_store st)\<rparr>)"
| builds: "cm_threads st i = None \<Longrightarrow> sec_Data secret \<noteq> [] \<Longrightarrow> make_map (cm_heap st) = (a, h) \<Longrightarrow>
    cred_step st (with_thread i (Some (Building ns name secret a (sec_Data secret))) (st\<lparr>cm_heap := h\<rparr>))"
| field: "cm_threads st i = Some (Building ns name secret a ((key, val) # todo)) \<Longrightarrow> val \<noteq> [] \<Longrightarrow>
    cred_step st (with_thread i (Some (Building ns name secret a todo)) (st\<lparr>cm_heap := set_entry a key val (cm_heap st)\<rparr>))"
| empty_field: "cm_threads st i = Some (Building ns name secret a ((key, []) # todo)) \<Longrightarrow>
    cred_step st (with_thread i None (st\<lparr>cm_store := mem_delete ns name (cm_store st)\<rparr>))"
| publishes: "cm_threads st i = Some (Building ns name secret a []) \<Longrightarrow>
    cred_step st (with_thread i None (st\<lparr>cm_store := mem_publish ns name a (cm_store st)\<rparr>))"
| deletes: "cred_step st (st\<lparr>cm_store := mem_delete ns name (cm_store st)\<rparr>)"

inductive cred_reach :: "cred_mem \<Rightarrow> bool" where
  cred_start: "cred_reach \<lparr>cm_heap = [], cm_store = \<lparr>mem_data = []\<rparr>, cm_threads = (\<lambda>_. None)\<rparr>"
| cred_more: "cred_reach st \<Longrightarrow> cred_step st st' \<Longrightarrow> cred_reach st'"

section \<open>What the store of addresses stands for\<close>

definition abs_store :: "cred_mem \<Rightarrow> secretStore" where
  "abs_store st = \<lparr>secret_data = map (\<lambda>(ns, m). (ns, map (\<lambda>(name, a). (name, cm_heap st ! a)) m)) (mem_data (cm_store st))\<rparr>"

definition map_vals :: "('a \<Rightarrow> 'b) \<Rightarrow> 'a gomap \<Rightarrow> 'b gomap" where
  "map_vals f m = map (\<lambda>(k, v). (k, f v)) m"

lemma map_vals_simps [simp]:
  "map_vals f [] = []" "map_vals f ((k, v) # m) = (k, f v) # map_vals f m" "map_vals f m = [] \<longleftrightarrow> m = []"
  "map_of (map_vals f m) k' = map_option f (map_of m k')"
  by (induction m) (auto simp: map_vals_def)

lemma map_vals_gset: "map_vals f (gset k v m) = gset k (f v) (map_vals f m)"
  by (induction k v m rule: gset.induct) auto

lemma map_vals_gdel: "map_vals f (gdel k m) = gdel k (map_vals f m)"
  by (induction m) (auto simp: gdel_def)

lemma map_vals_cong: "(\<And>k v. (k, v) \<in> set m \<Longrightarrow> f v = g v) \<Longrightarrow> map_vals f m = map_vals g m"
  by (auto simp: map_vals_def)

lemma abs_store_alt: "abs_store st = \<lparr>secret_data = map_vals (map_vals ((!) (cm_heap st))) (mem_data (cm_store st))\<rparr>"
  by (simp add: abs_store_def map_vals_def)

lemma abs_get: "secret_get (abs_store st) ns name = map_option ((!) (cm_heap st)) (mem_get (cm_store st) ns name)"
  by (simp add: secret_get_def mem_get_def abs_store_alt split: option.split)

lemma abs_publish:
  "abs_store (st\<lparr>cm_store := mem_publish ns name a (cm_store st)\<rparr>) =
     store_credentials ns name (cm_heap st ! a) (abs_store st)"
  by (auto simp: abs_store_alt mem_publish_def store_credentials_def Let_def map_vals_gset split: option.split)

lemma abs_delete:
  "abs_store (st\<lparr>cm_store := mem_delete ns name (cm_store st)\<rparr>) = secret_delete ns name (abs_store st)"
  by (auto simp: abs_store_alt mem_delete_def secret_delete_def Let_def map_vals_gset map_vals_gdel
      simp flip: map_vals_gdel split: option.split)

lemma abs_with_thread [simp]: "abs_store (with_thread i t st) = abs_store st"
  by (simp add: abs_store_def with_thread_def)

text \<open>The addresses the store hands out\<close>

definition stored_addrs :: "cred_mem \<Rightarrow> nat set" where
  "stored_addrs st = {a. \<exists>ns m name. (ns, m) \<in> set (mem_data (cm_store st)) \<and> (name, a) \<in> set m}"

section \<open>Who may write what\<close>

text \<open>The maps a thread only reads, and the map it is making\<close>

fun read_addrs :: "thread \<Rightarrow> nat set" where
  "read_addrs (Held a g) = {a}"
| "read_addrs (Copying a g e m keys) = {a}"
| "read_addrs (Generating a g e) = {a}"
| "read_addrs _ = {}"

fun made_addrs :: "thread \<Rightarrow> nat set" where
  "made_addrs (Copying a g e m keys) = {m}"
| "made_addrs (Adding g e m todo) = {m}"
| "made_addrs (Building ns name secret a todo) = {a}"
| "made_addrs _ = {}"

definition merged_map :: "string gomap \<Rightarrow> string gomap \<Rightarrow> string gomap" where
  "merged_map g e = (if e \<noteq> [] then gcopy (gcopy [] g) e else g)"

fun thread_ok :: "map_heap \<Rightarrow> thread \<Rightarrow> bool" where
  "thread_ok h (Lookup ns name) = True"
| "thread_ok h (Held a g) = (h ! a = g \<and> wf_map g)"
| "thread_ok h (Copying a g e m keys) = (h ! a = g \<and> wf_map g \<and> e \<noteq> [] \<and>
     (\<exists>j \<le> length g. keys = map fst (drop j g) \<and> h ! m = gcopy [] (take j g)))"
| "thread_ok h (Adding g e m todo) = (e \<noteq> [] \<and> (\<exists>pre. e = pre @ todo \<and> h ! m = gcopy (gcopy [] g) pre))"
| "thread_ok h (Generating a g e) = (h ! a = merged_map g e)"
| "thread_ok h (Building ns name secret a todo) =
     (\<exists>pre. sec_Data secret = pre @ todo \<and> sec_Data secret \<noteq> [] \<and> list_all (\<lambda>(k, v). v \<noteq> []) pre \<and> h ! a = gcopy [] pre)"

definition of_thread :: "(thread \<Rightarrow> nat set) \<Rightarrow> cred_mem \<Rightarrow> nat \<Rightarrow> nat set" where
  "of_thread f st i = (case cm_threads st i of None \<Rightarrow> {} | Some t \<Rightarrow> f t)"

definition cred_inv :: "cred_mem \<Rightarrow> bool" where
  "cred_inv st \<longleftrightarrow>
     stored_addrs st \<subseteq> {..<length (cm_heap st)} \<and>
     (\<forall>i. of_thread read_addrs st i \<union> of_thread made_addrs st i \<subseteq> {..<length (cm_heap st)}) \<and>
     (\<forall>i. of_thread made_addrs st i \<inter> stored_addrs st = {}) \<and>
     (\<forall>i j. of_thread made_addrs st i \<inter> of_thread read_addrs st j = {}) \<and>
     (\<forall>i j. i \<noteq> j \<longrightarrow> of_thread made_addrs st i \<inter> of_thread made_addrs st j = {}) \<and>
     (\<forall>a \<in> stored_addrs st. wf_map (cm_heap st ! a)) \<and>
     (\<forall>i t. cm_threads st i = Some t \<longrightarrow> thread_ok (cm_heap st) t)"

lemma thread_ok_agrees: "(\<And>a. a \<in> read_addrs t \<union> made_addrs t \<Longrightarrow> h' ! a = h ! a) \<Longrightarrow> thread_ok h t \<Longrightarrow> thread_ok h' t"
  by (cases t) auto

lemma cred_inv_step:
  assumes inv: "cred_inv st"
    and others: "\<And>j. j \<noteq> i \<Longrightarrow> cm_threads st' j = cm_threads st j"
    and heap: "length (cm_heap st) \<le> length (cm_heap st')"
      "\<And>a. a < length (cm_heap st) \<Longrightarrow> a \<notin> of_thread made_addrs st i \<Longrightarrow> cm_heap st' ! a = cm_heap st ! a"
    and made_addrs: "of_thread made_addrs st' i \<subseteq> of_thread made_addrs st i \<union> {length (cm_heap st)..<length (cm_heap st')}"
    and read_addrs: "of_thread read_addrs st' i \<subseteq> of_thread read_addrs st i \<union> stored_addrs st \<union> (of_thread made_addrs st i - of_thread made_addrs st' i)"
    and store: "stored_addrs st' \<subseteq> stored_addrs st \<union> (of_thread made_addrs st i - of_thread made_addrs st' i)"
      "\<And>a. a \<in> stored_addrs st' - stored_addrs st \<Longrightarrow> wf_map (cm_heap st' ! a)"
    and ok: "\<And>t. cm_threads st' i = Some t \<Longrightarrow> thread_ok (cm_heap st') t"
  shows "cred_inv st'"
proof -
  let ?n = "length (cm_heap st)"
  from inv have b: "stored_addrs st \<subseteq> {..<?n}" "\<And>i. of_thread read_addrs st i \<subseteq> {..<?n}" "\<And>i. of_thread made_addrs st i \<subseteq> {..<?n}"
    and d: "\<And>i. of_thread made_addrs st i \<inter> stored_addrs st = {}" "\<And>i j. of_thread made_addrs st i \<inter> of_thread read_addrs st j = {}"
      "\<And>i j. i \<noteq> j \<Longrightarrow> of_thread made_addrs st i \<inter> of_thread made_addrs st j = {}"
    and w: "\<And>a. a \<in> stored_addrs st \<Longrightarrow> wf_map (cm_heap st ! a)"
    and t: "\<And>i t. cm_threads st i = Some t \<Longrightarrow> thread_ok (cm_heap st) t"
    unfolding cred_inv_def by blast+
  have other: "of_thread f st' j = of_thread f st j" if "j \<noteq> i" for f j
    using others [OF that] by (simp add: of_thread_def)
  have new: "{?n..<length (cm_heap st')} \<inter> A = {}" if "A \<subseteq> {..<?n}" for A using that by auto
  have m: "of_thread made_addrs st' i \<inter> A = {}" if "A \<subseteq> {..<?n}" "of_thread made_addrs st i \<inter> A = {}" for A
    using made_addrs that by fastforce
  have mine: "of_thread made_addrs st' i \<inter> of_thread read_addrs st' i = {}" "of_thread made_addrs st' i \<inter> stored_addrs st' = {}"
    using m [OF b(2) d(2)] m [OF b(1) d(1)] read_addrs store(1) by blast+
  have "of_thread made_addrs st' k \<inter> stored_addrs st' = {}" for k
    using mine(2) d(1) [of k] d(3) [of k i] store(1) other [of k] by (cases "k = i") blast+
  moreover have "of_thread made_addrs st' k \<inter> of_thread read_addrs st' j = {}" for k j
  proof (cases "k = i")
    case True
    then show ?thesis using mine(1) m [OF b(2) d(2), of j] other [of j read_addrs] by (cases "j = i") auto
  next
    case False
    then show ?thesis using d(2) [of k j] d(2) [of k i] d(1) [of k] d(3) [OF False] read_addrs other [OF False, of made_addrs] other [of j read_addrs]
      by (cases "j = i") blast+
  qed
  moreover have "of_thread made_addrs st' k \<inter> of_thread made_addrs st' j = {}" if "k \<noteq> j" for k j
    using m [OF b(3) d(3), of j] m [OF b(3) d(3), of k] d(3) [OF that] other [of k made_addrs] other [of j made_addrs] that
    by (cases "k = i"; cases "j = i") auto
  moreover have "of_thread read_addrs st' k \<union> of_thread made_addrs st' k \<subseteq> {..<length (cm_heap st')}" for k
    using b(2,3) [of k] b(1) heap(1) made_addrs read_addrs other [of k] by (cases "k = i") fastforce+
  moreover have "stored_addrs st' \<subseteq> {..<length (cm_heap st')}" using b(1,3) store(1) heap(1) by fastforce
  moreover have "wf_map (cm_heap st' ! a)" if "a \<in> stored_addrs st'" for a
  proof (cases "a \<in> stored_addrs st")
    case True
    then have "a < ?n" "a \<notin> of_thread made_addrs st i" using b(1) d(1) [of i] by auto
    with True w heap(2) show ?thesis by simp
  qed (use that store(2) in simp)
  moreover have "thread_ok (cm_heap st') u" if "cm_threads st' k = Some u" for k u
  proof (cases "k = i")
    case False
    then have u: "cm_threads st k = Some u" using that others by simp
    then have "read_addrs u \<union> made_addrs u \<subseteq> {..<?n}" "(read_addrs u \<union> made_addrs u) \<inter> of_thread made_addrs st i = {}"
      using b(2,3) [of k] d(2) [of i k] d(3) [OF False] by (auto simp: of_thread_def)
    then show ?thesis using thread_ok_agrees [OF _ t [OF u], of "cm_heap st'"] heap(2) by blast
  qed (use ok that in simp)
  ultimately show ?thesis unfolding cred_inv_def by blast
qed


section \<open>Every step keeps the invariant\<close>

lemma gcopy_append: "gcopy dst (a @ b) = gcopy (gcopy dst a) b"
  by (induction dst a rule: gcopy.induct) auto

lemma stored_ops:
  "stored_addrs (with_thread i t st) = stored_addrs st" "stored_addrs (st\<lparr>cm_heap := h\<rparr>) = stored_addrs st"
  "stored_addrs (st\<lparr>cm_store := mem_delete ns name (cm_store st)\<rparr>) \<subseteq> stored_addrs st"
  "stored_addrs (st\<lparr>cm_store := mem_publish ns name a (cm_store st)\<rparr>) \<subseteq> insert a (stored_addrs st)"
  by (auto simp: stored_addrs_def with_thread_def mem_delete_def mem_publish_def Let_def set_gdel dest!: map_of_SomeD gset_in_set
      split: option.splits if_splits) blast+

lemma get_stored: "mem_get (cm_store st) ns name = Some a \<Longrightarrow> a \<in> stored_addrs st"
  by (force simp: mem_get_def stored_addrs_def dest!: map_of_SomeD split: option.splits)

lemma with_thread_simps [simp]:
  "cm_threads (with_thread i t st) = (cm_threads st)(i := t)" "cm_heap (with_thread i t st) = cm_heap st"
  "cm_store (with_thread i t st) = cm_store st"
  by (simp_all add: with_thread_def)

lemma set_entry_simps [simp]:
  "length (set_entry a k v h) = length h" "a \<noteq> b \<Longrightarrow> set_entry a k v h ! b = h ! b"
  "a < length h \<Longrightarrow> set_entry a k v h ! a = gset k v (h ! a)"
  by (simp_all add: set_entry_def)

lemma cred_invD:
  assumes "cred_inv st"
  shows "cm_threads st i = Some t \<Longrightarrow> thread_ok (cm_heap st) t"
    "cm_threads st i = Some t \<Longrightarrow> read_addrs t \<union> made_addrs t \<subseteq> {..<length (cm_heap st)}"
    "cm_threads st i = Some t \<Longrightarrow> read_addrs t \<inter> made_addrs t = {}"
    "a \<in> stored_addrs st \<Longrightarrow> wf_map (cm_heap st ! a) \<and> a < length (cm_heap st)"
proof -
  assume t: "cm_threads st i = Some t"
  show "thread_ok (cm_heap st) t" "read_addrs t \<union> made_addrs t \<subseteq> {..<length (cm_heap st)}" "read_addrs t \<inter> made_addrs t = {}"
    using assms t unfolding cred_inv_def of_thread_def by (blast, metis option.simps(5), metis Int_commute option.simps(5))
qed (use assms in \<open>auto simp: cred_inv_def\<close>)

lemma copying_step:
  assumes "thread_ok h (Copying a g e m (key # keys))" "a \<noteq> m" "m < length h" "map_of (h ! a) key = Some val"
  shows "thread_ok (set_entry m key val h) (Copying a g e m keys)"
proof -
  from assms(1) obtain j where j: "h ! a = g" "wf_map g" "e \<noteq> []" "j \<le> length g" "key # keys = map fst (drop j g)"
    "h ! m = gcopy [] (take j g)" by auto
  then have less: "j < length g" by (cases "j < length g") auto
  then have "drop j g = g ! j # drop (Suc j) g" by (simp add: Cons_nth_drop_Suc)
  with j(5) have k: "key = fst (g ! j)" "keys = map fst (drop (Suc j) g)" by auto
  have "(key, snd (g ! j)) \<in> set g" using less k(1) by simp
  then have "val = snd (g ! j)" using assms(4) j(1,2) by (simp add: in_set_map_of)
  then have "gset key val (h ! m) = gcopy [] (take (Suc j) g)"
    using less k(1) by (cases "g ! j") (simp add: j(6) take_Suc_conv_app_nth gcopy_append)
  with j k(2) assms(2,3) less show ?thesis by (auto intro!: exI [of _ "Suc j"])
qed

lemma merge_step:
  assumes "begin_merge a g e h = (t, h')" "thread_ok h (Held a g)" "a < length h"
  shows "thread_ok h' t \<and> read_addrs t = {a} \<and> made_addrs t \<subseteq> {length h..<length h'} \<and> length h \<le> length h' \<and>
    (\<forall>b<length h. h' ! b = h ! b)"
  using assms by (auto simp: begin_merge_def make_map_def merged_map_def nth_append split: if_splits intro!: exI [of _ 0])

lemma cred_step_inv:
  assumes "cred_step st st'" "cred_inv st"
  shows "cred_inv st'"
  using assms(1)
proof (cases rule: cred_step.cases)
  case (arrives i ns name)
  then show ?thesis by (intro cred_inv_step [OF assms(2), of i]) (auto simp: of_thread_def stored_ops)
next
  case (gets i ns name a)
  then show ?thesis using get_stored [OF gets(3)] cred_invD(4) [OF assms(2)]
    by (intro cred_inv_step [OF assms(2), of i]) (auto simp: of_thread_def stored_ops)
next
  case (extracts i a g e t h)
  note old = cred_invD(1-3) [OF assms(2), of i, OF extracts(2)]
  note new = merge_step [OF extracts(4) old(1)]
  show ?thesis using extracts new old(2)
    by (intro cred_inv_step [OF assms(2), of i]) (auto simp: of_thread_def stored_ops)
next
  case (copies i a g e m key keys val)
  note old = cred_invD(1-3) [OF assms(2), of i, OF copies(2)]
  have new: "thread_ok (set_entry m key val (cm_heap st)) (Copying a g e m keys)"
    using old(2,3) copies(3) by (intro copying_step [OF old(1)]) auto
  show ?thesis using copies new old(2,3)
    by (intro cred_inv_step [OF assms(2), of i]) (auto simp: of_thread_def stored_ops simp del: thread_ok.simps)
next
  case (copied i a g e m)
  note old = cred_invD(1-3) [OF assms(2), of i, OF copied(2)]
  show ?thesis using copied old
    by (intro cred_inv_step [OF assms(2), of i]) (auto simp: of_thread_def stored_ops)
next
  case (adds i g e m key val todo)
  note old = cred_invD(1-3) [OF assms(2), of i, OF adds(2)]
  show ?thesis using adds old
    by (intro cred_inv_step [OF assms(2), of i]) (auto simp: of_thread_def stored_ops gcopy_append)
next
  case (added i g e m)
  note old = cred_invD(1-3) [OF assms(2), of i, OF added(2)]
  show ?thesis using added old
    by (intro cred_inv_step [OF assms(2), of i]) (auto simp: of_thread_def stored_ops merged_map_def)
next
  case (leaves i t ns name a g e)
  then show ?thesis
    by (intro cred_inv_step [OF assms(2), of i]) (auto simp: of_thread_def stored_ops)
next
  case (builds i secret a h ns name)
  then show ?thesis
    by (intro cred_inv_step [OF assms(2), of i]) (auto simp: of_thread_def stored_ops make_map_def nth_append)
next
  case (field i ns name secret a key val todo)
  note old = cred_invD(1-3) [OF assms(2), of i, OF field(2)]
  show ?thesis using field old
    by (intro cred_inv_step [OF assms(2), of i]) (auto simp: of_thread_def stored_ops gcopy_append)
next
  case (publishes i ns name secret a)
  note old = cred_invD(1-3) [OF assms(2), of i, OF publishes(2)]
  show ?thesis using publishes old stored_ops(4) [where st = st and ns = ns and name = name and a = a]
    by (intro cred_inv_step [OF assms(2), of i]) (auto simp: of_thread_def stored_ops dest!: subsetD [OF stored_ops(4)])
next
  case (empty_field i ns name secret a key todo)
  then show ?thesis using stored_ops(3) [where st = st and ns = ns and name = name]
    by (intro cred_inv_step [OF assms(2), of i]) (auto simp: of_thread_def stored_ops dest!: subsetD [OF stored_ops(3)])
next
  case (empty_secret secret ns name)
  then show ?thesis using stored_ops(3) [where st = st and ns = ns and name = name]
    by (intro cred_inv_step [OF assms(2), of undefined]) (auto simp: of_thread_def dest: cred_invD(1) [OF assms(2)] subsetD [OF stored_ops(3)])
next
  case (deletes ns name)
  then show ?thesis using stored_ops(3) [where st = st and ns = ns and name = name]
    by (intro cred_inv_step [OF assms(2), of undefined]) (auto simp: of_thread_def dest: cred_invD(1) [OF assms(2)] subsetD [OF stored_ops(3)])
qed


lemma cred_reach_inv: "cred_reach st \<Longrightarrow> cred_inv st"
proof (induction rule: cred_reach.induct)
  case cred_start
  show ?case by (simp add: cred_inv_def stored_addrs_def of_thread_def)
qed (rule cred_step_inv)

section \<open>The steps of the store\<close>

lemma abs_heap:
  assumes "\<And>a. a \<in> stored_addrs st \<Longrightarrow> h ! a = cm_heap st ! a"
  shows "abs_store (st\<lparr>cm_heap := h\<rparr>) = abs_store st"
proof -
  have "map_vals (map_vals ((!) h)) (mem_data (cm_store st)) = map_vals (map_vals ((!) (cm_heap st))) (mem_data (cm_store st))"
    using assms by (intro map_vals_cong) (auto simp: stored_addrs_def)
  then show ?thesis by (simp add: abs_store_alt)
qed

lemma abs_set_entry:
  assumes "cred_inv st" "cm_threads st i = Some t" "a \<in> made_addrs t"
  shows "abs_store (st\<lparr>cm_heap := set_entry a key val (cm_heap st)\<rparr>) = abs_store st"
proof (rule abs_heap)
  fix b assume "b \<in> stored_addrs st"
  moreover have "of_thread made_addrs st i \<inter> stored_addrs st = {}" using assms(1) by (simp add: cred_inv_def)
  then have "a \<notin> stored_addrs st" using assms(2,3) by (auto simp: of_thread_def)
  ultimately show "set_entry a key val (cm_heap st) ! b = cm_heap st ! b" by (cases "a = b") auto
qed

lemma abs_append:
  assumes "cred_inv st"
  shows "abs_store (st\<lparr>cm_heap := cm_heap st @ g\<rparr>) = abs_store st"
  using cred_invD(4) [OF assms] by (intro abs_heap) (simp add: nth_append)

text \<open>Each step is a step of the atomic store, or invisible.\<close>

lemma cred_step_refines:
  assumes "cred_step st st'" "cred_inv st"
  shows "abs_store st' = abs_store st \<or> (\<exists>ns name secret. abs_store st' = fst (addOrUpdate ns name secret (abs_store st))) \<or>
    (\<exists>ns name. abs_store st' = secret_delete ns name (abs_store st))"
  using assms(1)
proof (cases rule: cred_step.cases)
  case (extracts i a g e t h)
  then have "h = cm_heap st \<or> h = cm_heap st @ [[]]" by (auto simp: begin_merge_def make_map_def split: if_splits)
  then show ?thesis using extracts(1) abs_append [OF assms(2), of "[[]]"] by auto
next
  case (publishes i ns name secret a)
  have "thread_ok (cm_heap st) (Building ns name secret a [])" using cred_invD(1) [OF assms(2) publishes(2)] .
  then have "sec_Data secret \<noteq> []" "list_all (\<lambda>(k, v). v \<noteq> []) (sec_Data secret)" "cm_heap st ! a = gcopy [] (sec_Data secret)"
    by auto
  moreover from this have full: "find (\<lambda>(field, val). val = []) (sec_Data secret) = None"
    by (auto simp: find_None_iff list_all_iff)
  ultimately have "fst (addOrUpdate ns name secret (abs_store st)) = store_credentials ns name (cm_heap st ! a) (abs_store st)"
    using full by (simp add: addOrUpdate_def)
  then have "abs_store st' = fst (addOrUpdate ns name secret (abs_store st))" using publishes(1) by (simp add: abs_publish)
  then show ?thesis by blast
qed (auto simp: abs_delete abs_append [OF assms(2)] make_map_def abs_set_entry [OF assms(2)])

text \<open>C22: Credentials are used as a snapshot. However the requests and the reconciles of Secrets interleave, entry by
  entry and with the maps read and written outside the lock: the map from which a request generates its headers holds
  the credentials the store held for its Secret when the request looked it up, with the data of that request on
  top, also when the Secret was changed or deleted meanwhile and another request works on the same map; no request
  writes the stored map; and the store as a whole moves by the atomic operations of the Secret store.\<close>

theorem credentials_snapshot:
  assumes "cred_reach st"
  shows "(\<forall>i a g e. cm_threads st i = Some (Generating a g e) \<longrightarrow>
      cm_heap st ! a = (if e \<noteq> [] then gcopy (gcopy [] g) e else g)) \<and>
    (\<forall>i a g. cm_threads st i = Some (Held a g) \<longrightarrow> cm_heap st ! a = g) \<and>
    (\<forall>ns name. secret_get (abs_store st) ns name = map_option (\<lambda>a. cm_heap st ! a) (mem_get (cm_store st) ns name)) \<and>
    (\<forall>st'. cred_step st st' \<longrightarrow>
      abs_store st' = abs_store st \<or> (\<exists>ns name secret. abs_store st' = fst (addOrUpdate ns name secret (abs_store st))) \<or>
      (\<exists>ns name. abs_store st' = secret_delete ns name (abs_store st)))"
proof -
  note inv = cred_reach_inv [OF assms]
  have "cm_heap st ! a = (if e \<noteq> [] then gcopy (gcopy [] g) e else g)" if "cm_threads st i = Some (Generating a g e)" for i a g e
    using cred_invD(1) [OF inv that] by (simp add: merged_map_def)
  moreover have "cm_heap st ! a = g" if "cm_threads st i = Some (Held a g)" for i a g
    using cred_invD(1) [OF inv that] by simp
  ultimately show ?thesis using cred_step_refines [OF _ inv] abs_get by blast
qed


text \<open>A run: a Secret is published, a request looks it up, the Secret is deleted, and the request goes on.\<close>

abbreviation "cred_state h s t \<equiv> \<lparr>cm_heap = h, cm_store = \<lparr>mem_data = s\<rparr>, cm_threads = t\<rparr>"

abbreviation "rotating_secret \<equiv> \<lparr>sec_Labels = [], sec_Deleted = False, sec_Data = [(''api-key'', ''sk'')]\<rparr>"

lemma cred_reach_eq: "cred_reach st \<Longrightarrow> cred_step st st' \<Longrightarrow> st' = st'' \<Longrightarrow> cred_reach st''"
  using cred_more by blast

lemma published_secret:
  "cred_reach (cred_state [[(''api-key'', ''sk'')]] [(''team'', [(''key'', 0)])] (\<lambda>_. None))"
proof -
  let ?b = "\<lambda>todo. (\<lambda>_. None)(0 \<mapsto> Building ''team'' ''key'' rotating_secret 0 todo)"
  have "cred_reach (cred_state [[]] [] (?b [(''api-key'', ''sk'')]))"
    by (rule cred_reach_eq [OF cred_start builds [where i = 0 and ns = "''team''" and name = "''key''" and secret = rotating_secret]])
      (simp_all add: make_map_def with_thread_def)
  then have "cred_reach (cred_state [[(''api-key'', ''sk'')]] [] (?b []))"
    by (rule cred_reach_eq [OF _ field [where i = 0 and ns = "''team''" and name = "''key''" and secret = rotating_secret and a = 0 and key = "''api-key''" and val = "''sk''" and todo = "[]"]]) (simp_all add: with_thread_def set_entry_def)
  then show ?thesis
    by (rule cred_reach_eq [OF _ publishes [where i = 0 and ns = "''team''" and name = "''key''" and secret = rotating_secret and a = 0]]) (simp_all add: with_thread_def mem_publish_def)
qed

lemma rotated_run:
  "cred_reach (cred_state [[(''api-key'', ''sk'')], [(''api-key'', ''sk''), (''region'', ''eu'')]] []
     ((\<lambda>_. None)(1 \<mapsto> Generating 1 [(''api-key'', ''sk'')] [(''region'', ''eu'')])))"
proof -
  let ?g = "[(''api-key'', ''sk'')]" and ?e = "[(''region'', ''eu'')]"
  let ?t = "\<lambda>t. (\<lambda>_. None)(1 \<mapsto> t)"
  have "cred_reach (cred_state [?g] [(''team'', [(''key'', 0)])] (?t (Lookup ''team'' ''key'')))"
    by (rule cred_reach_eq [OF published_secret arrives [where i = 1 and ns = "''team''" and name = "''key''"]]) (simp_all add: with_thread_def)
  then have "cred_reach (cred_state [?g] [(''team'', [(''key'', 0)])] (?t (Held 0 ?g)))"
    by (rule cred_reach_eq [OF _ gets [where i = 1 and ns = "''team''" and name = "''key''" and a = 0]]) (simp_all add: with_thread_def mem_get_def)
  then have "cred_reach (cred_state [?g] [] (?t (Held 0 ?g)))"
    by (rule cred_reach_eq [OF _ deletes [where ns = "''team''" and name = "''key''"]]) (simp add: mem_delete_def gdel_def)
  then have "cred_reach (cred_state [?g, []] [] (?t (Copying 0 ?g ?e 1 [''api-key''])))"
    by (rule cred_reach_eq [OF _ extracts [where i = 1 and a = 0 and g = ?g and e = ?e and t = "Copying 0 ?g ?e 1 [''api-key'']" and h = "[?g, []]"]]) (simp_all add: with_thread_def begin_merge_def make_map_def)
  then have "cred_reach (cred_state [?g, ?g] [] (?t (Copying 0 ?g ?e 1 [])))"
    by (rule cred_reach_eq [OF _ copies [where i = 1 and a = 0 and g = ?g and e = ?e and m = 1 and key = "''api-key''" and keys = "[]" and val = "''sk''"]]) (simp_all add: with_thread_def set_entry_def)
  then have "cred_reach (cred_state [?g, ?g] [] (?t (Adding ?g ?e 1 ?e)))"
    by (rule cred_reach_eq [OF _ copied [where i = 1 and a = 0 and g = ?g and e = ?e and m = 1]]) (simp_all add: with_thread_def)
  then have "cred_reach (cred_state [?g, ?g @ ?e] [] (?t (Adding ?g ?e 1 [])))"
    by (rule cred_reach_eq [OF _ adds [where i = 1 and g = ?g and e = ?e and m = 1 and key = "''region''" and val = "''eu''" and todo = "[]"]]) (simp_all add: with_thread_def set_entry_def)
  then show ?thesis
    by (rule cred_reach_eq [OF _ added [where i = 1 and g = ?g and e = ?e and m = 1]]) (simp_all add: with_thread_def)
qed

theorem credentials_snapshot_witness:
  "\<exists>st. cred_reach st \<and> secret_get (abs_store st) ''team'' ''key'' = None \<and>
     cm_threads st 1 = Some (Generating 1 [(''api-key'', ''sk'')] [(''region'', ''eu'')]) \<and>
     cm_heap st ! 1 = gcopy (gcopy [] [(''api-key'', ''sk'')]) [(''region'', ''eu'')]"
  using credentials_snapshot [OF rotated_run] rotated_run
  by (intro exI [of _ "cred_state [[(''api-key'', ''sk'')], [(''api-key'', ''sk''), (''region'', ''eu'')]] []
     ((\<lambda>_. None)(1 \<mapsto> Generating 1 [(''api-key'', ''sk'')] [(''region'', ''eu'')]))"]) (auto simp: mem_get_def)

end
