(* ===== verification/Spec2Isabelle.thy ===== *)
theory Spec2Isabelle
  imports Request_Chain Profile_Picker Nemo External_Metering External_Provider_Controller Legacy_Migration
    Cycle_Typing Startup Deep_Copy_Isolation Fair_Runs Credential_Snapshots
begin

text \<open>
  \<^bold>\<open>The program.\<close> The AI gateway payload processor sits behind an Envoy gateway as an external processing
  server. A request for a model passes a chain of plugins that resolve the model to a provider, translate the
  request into the provider's API and replace the client's credentials by the provider's; the response is
  translated back. Beside the chain, controllers turn the custom resources \<^verbatim>\<open>ExternalModel\<close> and
  \<^verbatim>\<open>ExternalProvider\<close> into gateway routes and Istio transport, and reconcilers keep the in-memory stores of the
  plugins up to date. This development models the plugins, the stores, the reconcilers and the controllers as
  functions on explicit state, in the order of the source, and proves what makes them correct.

  \<^bold>\<open>Foundations.\<close> \<^verbatim>\<open>Go_Prelude\<close>: Go maps as association lists, 64-bit arithmetic, number parsing and printing.
  \<^verbatim>\<open>Go_Strings\<close>: the functions of package \<^verbatim>\<open>strings\<close> the code uses. \<^verbatim>\<open>Go_Url\<close>: path and query escaping.
  \<^verbatim>\<open>Go_Any\<close>: dynamically typed values, type assertions, errors with their codes. \<^verbatim>\<open>Framework\<close>: the plugin framework
  (request, response, CycleState), a record of operations with the laws of the locale \<open>ipp_framework\<close>.
  \<^verbatim>\<open>Http_Client\<close>: what an HTTP call returns. \<^verbatim>\<open>Api_Types\<close>: the custom resources of \<^verbatim>\<open>api/inference/v1alpha1\<close>.
  \<^verbatim>\<open>Keyed_Store\<close>: the contract of a store (locale \<open>keyed_store\<close>). \<^verbatim>\<open>Kube_Api\<close>: the Kubernetes client and the helpers
  of apimachinery (locales \<open>kube_client\<close>, \<open>kube_library\<close>), with a server that keeps its objects in maps.

  \<^bold>\<open>Memory.\<close> \<^verbatim>\<open>Go_Heap\<close>: a heap of typed cells with pointers, slices and maps, and the locales \<open>heap_data\<close> and
  \<open>deep_copy\<close>, closed under pointers, slices, maps and structs. \<^verbatim>\<open>Deep_Copy\<close> has the functions of
  \<^verbatim>\<open>zz_generated.deepcopy.go\<close> over the structs as they lie in memory, and \<^verbatim>\<open>Deep_Copy_Isolation\<close> shows that what they
  return reads as the original and shares no address with it; the copies of apimachinery's own types are the
  locale \<open>apimachinery\<close>. This is why the other theories can pass custom resources as values. \<^verbatim>\<open>Credential_Snapshots\<close>
  does the same for the credential maps, which requests read outside the lock of the Secret store: with every read and
  write a step of its own, each request works on a snapshot and the store moves by its atomic operations.

  \<^bold>\<open>The request chain.\<close>
  \<^item> \<^verbatim>\<open>Headers_Guard\<close> (\<^verbatim>\<open>maas-headers-guard/plugin.go\<close>): which headers leave the request and what is captured.
  \<^item> \<^verbatim>\<open>Provider_Resolver\<close> (\<^verbatim>\<open>model-provider-resolver/plugin.go\<close>): weighted selection with 64-bit overflow, loop
    detection, origin marking; its store and reconcilers are \<^verbatim>\<open>Info_Store\<close> and \<^verbatim>\<open>Resolver_Reconcilers\<close>, where an
    inductive step relation gives the reachable stores.
  \<^item> \<^verbatim>\<open>Stream_Usage\<close> (\<^verbatim>\<open>stream-usage-enforcer\<close>) and \<^verbatim>\<open>Profile_Picker\<close> (\<^verbatim>\<open>passthrough-profile-picker\<close>).
  \<^item> \<^verbatim>\<open>Api_Translation\<close> (\<^verbatim>\<open>api-translation/plugin.go\<close>) over \<^verbatim>\<open>Translators\<close>, \<^verbatim>\<open>Anthropic\<close>, \<^verbatim>\<open>Vertex\<close> and
    \<^verbatim>\<open>Field_Stripper\<close>: the locale \<open>translator_contract\<close> is what the plugin relies on, and every translator of the
    source interprets it. The refinement lemmas relate the loops over messages to abstract conversations.
  \<^item> \<^verbatim>\<open>Api_Key_Injection\<close> (\<^verbatim>\<open>apikey-injection\<close>): the plugin, the three header generators behind the locale
    \<open>auth_generator\<close>, the token cache; \<^verbatim>\<open>Secret_Store\<close> has the store of credentials and its reconciler.
  \<^item> \<^verbatim>\<open>Nemo\<close> (\<^verbatim>\<open>pkg/plugins/nemo\<close>): the guardrails on requests and responses; they let pass exactly what the service
    clears, and every text of a Responses request is shown to it.
  \<^item> \<^verbatim>\<open>External_Metering\<close> (\<^verbatim>\<open>pkg/plugins/external-metering\<close>): budget check and usage report, also chunk by chunk.
  \<^item> \<^verbatim>\<open>Dynamic_Metadata\<close> (\<^verbatim>\<open>pkg/dynamicmetadata\<close>): how a plugin's choice reaches Envoy as metadata.
  \<^item> \<^verbatim>\<open>Cycle_Typing\<close>: the types of the CycleState keys. Every plugin that writes the state keeps it well typed, in
    every order of the plugins, so a typed read fails only on an absent key.
  \<^item> \<^verbatim>\<open>Plugin_Factories\<close> (the factories of the plugins and \<^verbatim>\<open>plugins.go\<close>): what a configured plugin is when its
    factory returns one, and that the registry finds it.

  \<^bold>\<open>The stores over time.\<close> \<^verbatim>\<open>Level_Triggered\<close> has a controller's cache and work queue and the locale
  \<open>level_triggered\<close> of a reconciler that writes what it read; the reconcilers of providers and of Secrets
  interpret it. \<^verbatim>\<open>Plugin_Stores\<close> runs the three store controllers side by side as a step relation over cluster,
  caches, queues and stores, every interleaving included. Drained queues mean stores that mirror the cluster,
  a start-up drains in a bounded number of steps, a run exists in which a provider's change never reaches a
  model, and the order that excludes such runs is shown to be enough. \<^verbatim>\<open>Fair_Runs\<close> has the infinite runs: when the
  workers and the informers are fair, every change of a provider or a Secret arrives in its store.

  \<^bold>\<open>The controllers.\<close>
  \<^item> \<^verbatim>\<open>Controller_Common\<close> (\<^verbatim>\<open>pkg/controller/common\<close>): path templates, connection annotations, AGC predicates.
  \<^item> \<^verbatim>\<open>External_Model_Controller\<close> (\<^verbatim>\<open>externalmodel/reconciler.go\<close>): the HTTPRoute of a model. The Gateway API's
    precedence of rules is a definition, and a request that names a provider is shown to reach it.
  \<^item> \<^verbatim>\<open>External_Provider_Controller\<close> (\<^verbatim>\<open>externalprovider/reconciler.go\<close>): the transport of a provider, its status, the
    handover to the AI gateway controller with other writers acting between a read and a deletion.
  \<^item> \<^verbatim>\<open>Legacy_Migration\<close> (\<^verbatim>\<open>legacymigration/reconciler.go\<close>): from legacy resources to the current ones.
  \<^item> \<^verbatim>\<open>Controller_Watches\<close> (\<^verbatim>\<open>cmd/controllers.go\<close>, \<^verbatim>\<open>cmd/main.go\<close>, the \<^verbatim>\<open>SetupWithManager\<close> methods): which events
    reach which controller. What controller-runtime does with a watch is the locale \<open>controller_runtime\<close>.
  \<^item> \<^verbatim>\<open>Grpc_Max_Recv\<close> (\<^verbatim>\<open>cmd/grpcmaxrecv.go\<close>): the receive limit of the server.
  \<^item> \<^verbatim>\<open>Startup\<close> (\<^verbatim>\<open>cmd/runner.go\<close>): from the flags to the running servers, as the list of effects of \<^verbatim>\<open>run\<close>.

  A reconcile maps the state of the API server to its new state and its result. The server is a parameter;
  each controller states in a locale (\<open>em_cluster\<close>, \<open>ep_cluster\<close>, \<open>lm_cluster\<close>) what it relies on, its lemmas are
  proved there, and a server with maps interprets it.

  \<^bold>\<open>Composition.\<close> \<^verbatim>\<open>Request_Chain\<close> composes the default request profile of \<^verbatim>\<open>deploy/payload-processing/values.yaml\<close>:
  a request leaves with the credentials of the selected provider only, and when the stores are those that the
  store controllers filled, host, path and credentials are what the custom resources and Secrets of the cluster say.
  This theory holds the other properties that span components: a request cannot travel round a ring of clusters, the user the gateway authenticated is billed, the profile
  picker agrees with the translation, a request for the selected provider reaches the Service that the provider
  controller made for it, and two defects where components disagree.

  \<^bold>\<open>Conventions and limits.\<close> All definitions are executable and total; every loop of the source is structural
  recursion or recursion with a measure, so no fuel is needed. A run-time panic is the error \<open>Panicked\<close>. Go
  maps are lists, so a property holds for every iteration order when it holds for every list; where the order
  matters it is an argument. \<^verbatim>\<open>nil\<close> and empty slices and maps are identified where the code only reads them.
  \<^verbatim>\<open>float64\<close> is rational, with the rounding of conversions to \<^verbatim>\<open>int\<close> written out. \<^verbatim>\<open>strings.ToLower\<close> and
  \<^verbatim>\<open>strings.EqualFold\<close> fold ASCII letters and the two non-ASCII characters that fold to ASCII. Error messages keep
  the format string and its arguments. JSON, SHA-256, the AWS signer, the OAuth endpoint, HTTP services,
  random numbers, clocks, UUIDs and the framework's model extractor are parameters. The API server stores
  what it is given: defaulting, admission and resource versions are not modelled beyond deletion
  preconditions. Mutexes make the operations of the stores atomic, which is how they are modelled. Log and
  metric calls are left out.

  \<^bold>\<open>Scheduling.\<close> The work queue and the informer of controller-runtime are the environment of the store
  controllers: events may be delivered late and merged, a key is run by one worker at a time, and an event during a
  run queues the key again, as their documentation says. A reconcile reads its object at its start and writes
  the store at its end; between the two anything may happen. The periodic resync is left out: it repeats
  reconciles after hours.

  \<^bold>\<open>Not modelled.\<close> \<^verbatim>\<open>groupversion_info.go\<close>, which registers the types with the scheme of
  apimachinery by library calls only. The bytes of a gRPC stream, of a certificate and of the flags, which are parameters of
  \<^verbatim>\<open>Startup\<close>; the goroutines that stop a server when the context ends. Log and metric calls.
\<close>

section \<open>Routing loops across clusters\<close>

text \<open>
  A journey of a request through a list of clusters, each forwarding it to the next as a remote MaaS
  cluster. Every cluster starts with a fresh CycleState.
\<close>

inductive journey ::
  "'cs framework \<Rightarrow> (InferenceRequest \<Rightarrow> InferenceRequest) \<Rightarrow> ModelProviderResolverPlugin list \<Rightarrow> InferenceRequest \<Rightarrow>
     InferenceRequest \<Rightarrow> bool" for fw ex where
  arrived: "journey fw ex [] r r"
| hop: "\<lbrakk>wf_map (Headers r); read_str fw OriginClusterKey cs0 = None;
     guard_ProcessRequest g fw cs0 r = Inr (cs1, r1); external_request p (ex r1) info; \<not> hubMode p;
     resolver_ProcessRequest p marshal intN fw cs1 (ex r1) = Inr (cs2, r2);
     read_str fw ProviderKey cs2 = Some prov; equalFold prov provider_RemoteMaaS;
     journey fw ex ps r2 r'\<rbrakk> \<Longrightarrow> journey fw ex (p # ps) r r'"

text \<open>The request carries the origin \<open>o\<close> and no other.\<close>

definition marked :: "string \<Rightarrow> InferenceRequest \<Rightarrow> bool" where
  "marked c r \<longleftrightarrow> map_of (Headers r) OriginClusterHeader = Some c \<and>
     (\<forall>k v. is_origin k \<and> map_of (Headers r) k = Some v \<longrightarrow> v = c)"

lemma origin_header_facts:
  "is_origin OriginClusterHeader" "\<not> is_internal OriginClusterHeader" "\<not> equalFold modelNameHeader OriginClusterHeader"
  by code_simp+

lemma guard_origin_stripped:
  assumes "ipp_framework fw" "wf_map (Headers r)" "guard_ProcessRequest g fw cs r = Inr (cs1, r1)" "extractor_ok ex"
  shows "origin_stripped (ex r1)"
proof -
  have "map_of (Headers (ex r1)) k = None" if "equalFold k OriginClusterHeader" for k
  proof -
    have "\<not> equalFold k modelNameHeader"
      using origin_header_facts(3) equalFold_trans [OF equalFold_sym [THEN iffD1] that] by blast
    then have "map_of (Headers (ex r1)) k = map_of (Headers r1) k"
      using assms(4) by (auto simp: extractor_ok_def)
    with that show ?thesis
      using guard_removes [OF assms(1-3)] by (simp add: guarded_def is_origin_def)
  qed
  then show ?thesis by (auto simp: origin_stripped_def keys_dom)
qed

lemma guard_captures_origin:
  assumes "ipp_framework fw" "wf_map (Headers r)" "guard_ProcessRequest g fw cs r = Inr (cs1, r1)" "marked c r"
  shows "captured_origin fw cs1 = trimSpace c"
proof -
  have "map_of (Headers r) OriginClusterHeader = Some c" using assms(4) by (simp add: marked_def)
  then obtain k' v' where "is_origin k'" "map_of (Headers r) k' = Some v'" "read_str fw OriginClusterKey cs1 = Some v'"
    using guard_spec [OF assms(1,2), of g cs] assms(3) origin_header_facts by auto
  with assms(4) show ?thesis by (auto simp: marked_def captured_origin_def)
qed


lemma guard_no_origin:
  assumes "ipp_framework fw" "wf_map (Headers r)" "guard_ProcessRequest g fw cs r = Inr (cs1, r1)"
    and "\<forall>k v. is_origin k \<longrightarrow> map_of (Headers r) k \<noteq> Some v"
  shows "read_str fw OriginClusterKey cs1 = read_str fw OriginClusterKey cs"
proof -
  let ?r1 = "remove_headers fw (map fst (headers_where is_internal r)) r"
  have "headers_where is_origin ?r1 = []"
  proof (rule ccontr)
    assume "headers_where is_origin ?r1 \<noteq> []"
    then obtain k v where "(k, v) \<in> set (headers_where is_origin ?r1)" by (metis list.set_intros(1) neq_Nil_conv surj_pair)
    then have "is_origin k" "map_of (Headers ?r1) k = Some v"
      using ipp_framework.wf_remove_headers [OF assms(1,2)] by (auto simp: headers_where_def in_set_map_of)
    then show False using assms(4) by (auto simp: headers_removed [OF assms(1)] split: if_splits)
  qed
  with assms(3) show ?thesis
    by (auto simp: guard_ProcessRequest_def Let_def read_str_def ipp_framework.Read_Write [OF assms(1)])
qed

lemma hop_marks:
  assumes "ipp_framework fw" "external_request p r info" "origin_stripped r" "\<not> hubMode p"
    and "resolver_ProcessRequest p marshal intN fw cs r = Inr (cs', r')"
    and "read_str fw ProviderKey cs' = Some prov" "equalFold prov provider_RemoteMaaS"
    and "(if captured_origin fw cs = [] then clusterName p else captured_origin fw cs) = c" "c \<noteq> []"
  shows "marked c r'"
proof -
  have nohub: "\<not> (hubMode p \<and> gstr (Headers r) DestinationHeader = [])" using assms(4) by simp
  have "gstr (Headers r') OriginClusterHeader = c"
    using origin_marked [OF assms(1-3) nohub assms(5)] assms(6-8) by auto
  with assms(9) have here: "map_of (Headers r') OriginClusterHeader = Some c"
    by (auto simp: gstr_def split: option.splits)
  from assms(2) nohub assms(5) obtain ref where "r' = restoreOrMarkOrigin p fw cs' (routed fw ref r) ref"
    by (rule resolved_request)
  moreover have "origin_stripped (routed fw ref r)"
    by (rule routed_stripped [OF assms(1,3)])
  ultimately have "map_of (Headers r') k = None" if "is_origin k" "k \<noteq> OriginClusterHeader" for k
    using that Headers_restoreOrMarkOrigin(1) [OF assms(1)]
    by (auto simp: origin_stripped_def is_origin_def keys_dom)
  with here show ?thesis
    unfolding marked_def by (metis option.distinct(1) option.inject)
qed

lemma journey_keeps_mark:
  assumes "journey fw ex ps r r'" "ipp_framework fw" "extractor_ok ex" "marked c r" "c \<noteq> []" "trimSpace c = c"
  shows "marked c r'"
  using assms
proof (induction rule: journey.induct)
  case (hop r cs0 g cs1 r1 p info marshal intN cs2 r2 prov ps r')
  have "captured_origin fw cs1 = c"
    using guard_captures_origin [OF hop.prems(1) hop.hyps(1,3) hop.prems(3)] hop.prems(5) by simp
  then have "marked c r2"
    using hop_marks [OF hop.prems(1) hop.hyps(4) guard_origin_stripped [OF hop.prems(1) hop.hyps(1,3) hop.prems(2)]
        hop.hyps(5-8)] hop.prems(4) by simp
  then show ?case using hop.IH hop.prems by blast
qed


text \<open>Two clusters that serve the model m through each other, for the witness.\<close>

definition sample_hop ::
  "ModelProviderResolverPlugin \<Rightarrow> InferenceRequest \<Rightarrow> (InferenceRequest \<times> csval gomap \<times> InferenceRequest) option" where
  "sample_hop p r =
     (case guard_ProcessRequest \<lparr>stripRoutingHeaders = True\<rparr> ref_framework [] r of
        Inl e \<Rightarrow> None
      | Inr (cs1, r1) \<Rightarrow>
          (case resolver_ProcessRequest p (\<lambda>_. None) (\<lambda>_. 0) ref_framework cs1 (sample_extractor r1) of
             Inl e \<Rightarrow> None
           | Inr (cs2, r2) \<Rightarrow> Some (r1, cs2, r2)))"

definition hub_b :: ModelProviderResolverPlugin where
  "hub_b = sample_plugin\<lparr>clusterName := ''hub-b''\<rparr>"

lemma sample_extracted:
  assumes "Body r = Body (sample_request [])" "mpr_store p = mpr_store sample_plugin"
  shows "external_request p (sample_extractor r) sample_info"
  using assms
  by (simp add: external_request_def sample_plugin_def sample_info_def sample_extractor_def requested_model_def
      gstr_def sample_request_def str_of_def getModelByName_def)

lemma sample_guarded:
  assumes "guard_ProcessRequest \<lparr>stripRoutingHeaders = True\<rparr> ref_framework [] r = Inr (cs1, r1)" "wf_map (Headers r)"
  shows "Body r1 = Body r"
  using guard_spec [OF ref_framework_ok assms(2), of "\<lparr>stripRoutingHeaders = True\<rparr>" "[]"] assms(1) by auto

lemma sample_hop_journey:
  assumes "sample_hop p r = Some (r1, cs2, r2)" "wf_map (Headers r)" "Body r = Body (sample_request [])"
    and "mpr_store p = mpr_store sample_plugin" "\<not> hubMode p"
    and "read_str ref_framework ProviderKey cs2 = Some ''remote-maas''"
    and "journey ref_framework sample_extractor ps r2 r'"
  shows "journey ref_framework sample_extractor (p # ps) r r'"
proof -
  from assms(1) obtain cs1 where
    g: "guard_ProcessRequest \<lparr>stripRoutingHeaders = True\<rparr> ref_framework [] r = Inr (cs1, r1)" and
    res: "resolver_ProcessRequest p (\<lambda>_. None) (\<lambda>_. 0) ref_framework cs1 (sample_extractor r1) = Inr (cs2, r2)"
    by (auto simp: sample_hop_def split: sum.splits)
  show ?thesis
    by (rule hop [OF assms(2) _ g sample_extracted [OF _ assms(4)] assms(5) res assms(6) _ assms(7)])
      (simp_all add: read_str_def assms(3) sample_guarded [OF g assms(2)])
qed

text \<open>What a concrete hop must evaluate to.\<close>

definition hop_ok :: "(InferenceRequest \<times> csval gomap \<times> InferenceRequest) option \<Rightarrow> bool" where
  "hop_ok h = (case h of None \<Rightarrow> False
     | Some (r1, cs2, r2) \<Rightarrow> read_str ref_framework ProviderKey cs2 = Some ''remote-maas'' \<and> wf_map (Headers r2) \<and>
         Body r2 = Body (sample_request []))"

lemma two_hops:
  "hop_ok (sample_hop sample_plugin (sample_request [])) \<and>
   hop_ok (sample_hop hub_b (snd (snd (the (sample_hop sample_plugin (sample_request []))))))"
  by code_simp


section \<open>The two routes a profile can take\<close>

lemma picker_passthrough:
  "picker_isPassthrough i out \<longleftrightarrow> i \<noteq> [] \<and> (out = [] \<or> i = out \<and> i \<noteq> OpenAIChatCompletions)"
  by (auto simp: picker_isPassthrough_def)

text \<open>C39: The profile picker and api-translation agree on what passes through, although each decides
  for itself. With both profiles configured one of them is always picked; when it is the passthrough
  profile, which has no api-translation, that plugin would have changed neither the request body nor
  the response; when it is the translation profile and both formats are known, it does not treat the
  request as passthrough.\<close>

theorem picker_agrees_with_translation:
  assumes "ipp_framework fw" "map_of profiles (translationProfile p) = Some T"
    and "map_of profiles (passthroughProfile p) = Some P" "T \<noteq> P"
  shows "Pick p fw cs profiles \<in> {Inr T, Inr P} \<and>
    (Pick p fw cs profiles = Inr P \<longrightarrow>
       (\<exists>r'. api_ProcessRequest api fw cs r = Inr r' \<and> Body r' = Body r) \<and> api_ProcessResponse api fw cs resp = Inr resp) \<and>
    (Pick p fw cs profiles = Inr T \<and> formats_known fw cs \<longrightarrow> \<not> isPassthrough fw cs)"
  using assms(2-4)
  by (auto simp: Pick_def Let_def picker_passthrough api_ProcessRequest_def api_ProcessResponse_def isPassthrough_def
      formats_known_def applyPathOverride_def ipp_framework.Body_SetHeader [OF assms(1)]
      ipp_framework.Body_RemoveHeader [OF assms(1)] split: option.splits)

theorem picker_agrees_with_translation_witness:
  "Pick \<lparr>translationProfile = ''translation'', passthroughProfile = ''passthrough''\<rparr> ref_framework
       [(InputAPIFormatKey, CFormat Messages), (APIFormatKey, CFormat Messages)]
       [(''translation'', True), (''passthrough'', False)] = Inr False \<and>
     (\<exists>r'. api_ProcessRequest (NewAPITranslationPlugin (\<lambda>_. None) (\<lambda>_. None) 0) ref_framework
         [(InputAPIFormatKey, CFormat Messages), (APIFormatKey, CFormat Messages)] (sample_request []) = Inr r' \<and>
       Body r' = Body (sample_request []))"
proof -
  let ?cs = "[(InputAPIFormatKey, CFormat Messages), (APIFormatKey, CFormat Messages)]"
  let ?p = "\<lparr>translationProfile = ''translation'', passthroughProfile = ''passthrough''\<rparr>"
  let ?profiles = "[(''translation'', True), (''passthrough'', False)]"
  have "Pick ?p ref_framework ?cs ?profiles = Inr False"
    by (simp add: Pick_def Let_def picker_passthrough read_format_def)
  with picker_agrees_with_translation [OF ref_framework_ok, of ?profiles ?p True False ?cs
      "NewAPITranslationPlugin (\<lambda>_. None) (\<lambda>_. None) 0" "sample_request []"] show ?thesis
    by simp
qed

section \<open>Credentials of a model reference\<close>

text \<open>A provider may spell API-key authentication \<^verbatim>\<open>simple\<close>, and the resolver then hands
  \<^verbatim>\<open>apikey\<close> to the injection plugin. The same spelling in a model's own \<^verbatim>\<open>auth\<close> override, which the CRD
  accepts, reaches the injection plugin as it is, and every request routed by that reference is
  refused there, whatever the Secret holds.\<close>

theorem simple_override_refused:
  assumes "ipp_framework fw" "resolveRef s ns ref = Inr rr" "RefAuth ref = Some a" "auth_Type a = ''simple''"
  shows "mapCRDAuthType ''simple'' = APIKey \<and> rr_auth rr = ''simple'' \<and>
    (\<exists>e. fst (injection_ProcessRequest w fw (write_ref fw rr cs) r injp) = Inl e \<and> err_code e = Some Internal)"
proof -
  have simple: "rr_auth rr = ''simple''"
    using assms(2-4) by (auto simp: resolveRef_def Let_def split: if_splits option.splits sum.splits)
  then have "read_auth fw AuthTypeKey (write_ref fw rr cs) = Some ''simple''"
    using read_write_ref(4) [OF assms(1)] by simp
  then show ?thesis
    using simple by (auto simp: mapCRDAuthType_def injection_ProcessRequest_def Let_def authHeadersGenerators_def
        split: option.splits)
qed

theorem simple_override_refused_witness:
  "\<exists>rr e. resolveRef sample_store ''team'' (sample_ref (Some \<lparr>auth_Type = ''simple'', auth_SecretRef = \<lparr>nameref_Name = ''key''\<rparr>\<rparr>)) = Inr rr \<and>
     fst (injection_ProcessRequest no_world ref_framework (write_ref ref_framework rr []) (sample_request []) sample_injection) = Inl e \<and>
     err_code e = Some Internal"
proof -
  let ?a = "\<lparr>auth_Type = ''simple'', auth_SecretRef = \<lparr>nameref_Name = ''key''\<rparr>\<rparr>"
  have "\<not> isl (resolveRef sample_store ''team'' (sample_ref (Some ?a)))"
    by code_simp
  then obtain rr where "resolveRef sample_store ''team'' (sample_ref (Some ?a)) = Inr rr"
    by (metis sum.collapse(2))
  moreover have "RefAuth (sample_ref (Some ?a)) = Some ?a" "auth_Type ?a = ''simple''"
    by (simp_all add: sample_ref_def)
  ultimately show ?thesis
    using simple_override_refused [OF ref_framework_ok, of sample_store "''team''" "sample_ref (Some ?a)" rr ?a
        no_world "[]" "sample_request []" sample_injection] by blast
qed

section \<open>Who is billed\<close>

lemma captured_user:
  assumes "ipp_framework fw" "wf_map (Headers r)" "guard_ProcessRequest g fw cs r = Inr (cs1, r1)"
    and "map_of (Headers r) ''x-maas-username'' = Some user" "user \<noteq> []"
    and "read_strmap fw MaaSHeadersKey cs2 = read_strmap fw MaaSHeadersKey cs1"
  shows "metering_username fw cs2 r2 = user"
proof -
  have "is_internal ''x-maas-username''" by code_simp
  then obtain captured where "read_strmap fw MaaSHeadersKey cs1 = Some captured" "map_of captured ''x-maas-username'' = Some user"
    using guard_spec [OF assms(1,2), of g cs] assms(3,4) by auto
  with assms(5,6) show ?thesis by (simp add: metering_username_def captured_header_def gstr_def)
qed


definition alice_request :: InferenceRequest where
  "alice_request = \<lparr>Headers = [(''x-maas-username'', ''alice'')], Body = [(''model'', VStr ''m'')]\<rparr>"

definition usage_response :: InferenceResponse where
  "usage_response = \<lparr>RespHeaders = [], RespBody = [(''usage'', VMap [(''total_tokens'', VInt 7)])], CurrentChunk = []\<rparr>"


section \<open>Selected, but not routed\<close>

text \<open>The resolver offers a provider as soon as it is in its store, whatever its status.\<close>

lemma resolved_offered:
  "ref \<in> set (ExternalProviderRefs (em_Spec model)) \<Longrightarrow> resolveRef s (meta_Namespace (em_Meta model)) ref = Inr rr \<Longrightarrow>
     rr \<in> set (resolve_refs s model)"
  by (force simp: resolve_refs_def List.map_filter_def)

text \<open>C38: A provider that is not ready is still selected, and the request then goes to another provider.
  The ExternalModel controller makes no rule for a provider whose phase is not \<^verbatim>\<open>Ready\<close>, while the resolver
  offers it as soon as it is in the store. For a request that names it, which the resolver has prepared with its
  path and its credentials, every rule of the published route that matches leads to the first provider that
  did resolve, and that is a different one. The API server is assumed to answer with the provider it was asked for.\<close>

theorem unready_provider_misrouted:
  assumes "ref \<in> set (ExternalProviderRefs (em_Spec model))"
    and "get \<lparr>nn_Namespace = meta_Namespace (em_Meta model), nn_Name = pref_Name (Ref ref)\<rparr> = Found provider"
    and "ps_Phase (ep_Status provider) \<noteq> ''Ready''"
    and "\<And>k q. get k = Found q \<Longrightarrow> meta_Name (ep_Meta q) = nn_Name k"
    and "resolveRef s (meta_Namespace (em_Meta model)) ref = Inr rr"
    and "resolve_route_refs get model (ExternalProviderRefs (em_Spec model)) = Inr (found, reasons)"
    and "desired_route r model found = Inr hr"
    and "names_provider hs (rr_providerName rr)" "rule \<in> set (Rules (hr_Spec hr))" "rule_ok path hs rule"
  shows "rr \<in> set (resolve_refs s model) \<and> leads_to rule (hd found) \<and> rf_providerName (hd found) \<noteq> rr_providerName rr"
proof -
  have name: "rr_providerName rr = pref_Name (Ref ref)"
    using assms(5) by (auto simp: resolveRef_def Let_def split: if_splits option.splits sum.splits)
  have unnamed: "pref_Name (Ref ref) \<notin> rf_providerName ` set found"
  proof
    assume "pref_Name (Ref ref) \<in> rf_providerName ` set found"
    then obtain rf where rf: "rf \<in> set found" "rf_providerName rf = pref_Name (Ref ref)" by auto
    from rf(1) resolve_route_refs_iff [OF assms(6)] obtain ref' where "servable get model ref' rf" by blast
    then obtain q where q: "get \<lparr>nn_Namespace = meta_Namespace (em_Meta model), nn_Name = pref_Name (Ref ref')\<rparr> = Found q"
      "ps_Phase (ep_Status q) = ''Ready''" "rf_providerName rf = meta_Name (ep_Meta q)"
      by (auto simp: servable_def)
    from assms(4) [OF q(1)] q(3) rf(2) have "pref_Name (Ref ref') = pref_Name (Ref ref)" by simp
    with q assms(2,3) show False by simp
  qed
  have "found \<noteq> []" using assms(7) by (auto simp: desired_route_def buildHTTPRoute_def)
  then have "hd found \<in> set found" by simp
  with unnamed have "rf_providerName (hd found) \<noteq> pref_Name (Ref ref)" by (metis imageI)
  moreover have "leads_to rule (hd found)"
    using unnamed_rule_fallback [OF assms(7) [unfolded desired_route_def]] assms(8-10) unnamed by (simp add: name)
  ultimately show ?thesis using resolved_offered [OF assms(1,5)] by (simp add: name)
qed

text \<open>Two providers, of which the second is not ready; the model prefers none of them.\<close>

definition two_provider :: "string \<Rightarrow> string \<Rightarrow> ExternalProvider" where
  "two_provider name phase = sample_provider\<lparr>ep_Meta := sample_meta name,
     ep_Status := \<lparr>ps_Phase = phase, ps_ObservedGeneration = 0, ps_Conditions = []\<rparr>\<rparr>"

definition two_get :: "NamespacedName \<Rightarrow> ExternalProvider fetched" where
  "two_get k = (if k = \<lparr>nn_Namespace = ''team'', nn_Name = ''a''\<rparr> then Found (two_provider ''a'' ''Ready'')
     else if k = \<lparr>nn_Namespace = ''team'', nn_Name = ''b''\<rparr> then Found (two_provider ''b'' ''Failed'') else NotFound)"

definition two_ref :: "string \<Rightarrow> ExternalProviderRef" where
  "two_ref name = (sample_ref None)\<lparr>Ref := \<lparr>pref_Name = name, pref_Namespace = []\<rparr>\<rparr>"

definition two_model :: ExternalModel where
  "two_model = (sample_model ''gpt'' None)\<lparr>em_Spec := \<lparr>ModelName = ''gpt'', ExternalProviderRefs = [two_ref ''a'', two_ref ''b''], GatewayRefs = []\<rparr>\<rparr>"

definition two_store :: infoStore where
  "two_store = fst (provider_Reconcile two_get \<lparr>nn_Namespace = ''team'', nn_Name = ''b''\<rparr>
     (fst (provider_Reconcile two_get \<lparr>nn_Namespace = ''team'', nn_Name = ''a''\<rparr> newInfoStore)))"

definition two_found :: "resolvedRef list" where
  "two_found = (case resolve_route_refs two_get two_model [two_ref ''a'', two_ref ''b''] of Inl _ \<Rightarrow> [] | Inr (found, _) \<Rightarrow> found)"

definition two_rule :: HTTPRouteRule where
  "two_rule = fallback_rules ''/team/gpt'' ''gpt'' ''300s'' (hd two_found) ! 0"

lemma two_facts:
  "\<not> isl (resolveRef two_store ''team'' (two_ref ''b''))"
  "rr_providerName (projr (resolveRef two_store ''team'' (two_ref ''b''))) = ''b''"
  "\<not> isl (resolve_route_refs two_get two_model (ExternalProviderRefs (em_Spec two_model)))"
  "two_found = fst (projr (resolve_route_refs two_get two_model (ExternalProviderRefs (em_Spec two_model))))"
  "\<not> isl (desired_route sample_em two_model two_found)"
  "two_rule \<in> set (Rules (hr_Spec (projr (desired_route sample_em two_model two_found))))"
  "rule_ok ''/team/gpt/v1/chat/completions'' [(em_selectedProviderHeader, ''b'')] two_rule"
  by code_simp+

theorem unready_provider_misrouted_witness:
  "\<exists>rr. resolveRef two_store ''team'' (two_ref ''b'') = Inr rr \<and> rr \<in> set (resolve_refs two_store two_model) \<and>
     leads_to two_rule (hd two_found) \<and> rf_providerName (hd two_found) \<noteq> ''b''"
proof -
  obtain rr where rr: "resolveRef two_store ''team'' (two_ref ''b'') = Inr rr" "rr_providerName rr = ''b''"
    using two_facts(1,2) by (metis sum.collapse(2))
  obtain reasons where found: "resolve_route_refs two_get two_model (ExternalProviderRefs (em_Spec two_model)) = Inr (two_found, reasons)"
    using two_facts(3,4) by (metis prod.collapse sum.collapse(2))
  obtain hr where hr: "desired_route sample_em two_model two_found = Inr hr" "two_rule \<in> set (Rules (hr_Spec hr))"
    using two_facts(5,6) by (metis sum.collapse(2))
  have ns: "meta_Namespace (em_Meta two_model) = ''team''" "ExternalProviderRefs (em_Spec two_model) = [two_ref ''a'', two_ref ''b'']"
    "pref_Name (Ref (two_ref ''b'')) = ''b''"
    by (simp_all add: two_model_def sample_model_def sample_meta_def two_ref_def)
  have get: "two_get \<lparr>nn_Namespace = ''team'', nn_Name = ''b''\<rparr> = Found (two_provider ''b'' ''Failed'')"
    "ps_Phase (ep_Status (two_provider ''b'' ''Failed'')) \<noteq> ''Ready''"
    by (simp_all add: two_get_def two_provider_def)
  have names: "meta_Name (ep_Meta q) = nn_Name k" if "two_get k = Found q" for k q
    using that by (auto simp: two_get_def two_provider_def sample_meta_def split: if_splits)
  have sel: "names_provider [(em_selectedProviderHeader, ''b'')] (rr_providerName rr)"
    by (auto simp: names_provider_def rr(2))
  have "two_ref ''b'' \<in> set (ExternalProviderRefs (em_Spec two_model))" by (simp add: ns)
  from unready_provider_misrouted [OF this _ get(2) names _ found hr(1) sel hr(2) two_facts(7), of two_store] rr get(1)
  show ?thesis by (simp add: ns)
qed

section \<open>Control plane and data plane\<close>

lemma resolveRef_endpoint:
  assumes "getProvider s \<lparr>nn_Namespace = ns, nn_Name = pref_Name (Ref ref)\<rparr> = provider_entry k (Some provider)"
    and "resolveRef s ns ref = Inr rr"
  shows "rr_endpoint rr = Endpoint (ep_Spec provider) \<and> rr_providerName rr = pref_Name (Ref ref)"
  using assms by (auto simp: resolveRef_def Let_def provider_entry_def split: if_splits option.splits sum.splits)

lemma servable_unique:
  assumes "servable get model ref' rf'" "\<And>k q. get k = Found q \<Longrightarrow> object_key (ep_Meta q) = k"
    and "get \<lparr>nn_Namespace = meta_Namespace (em_Meta model), nn_Name = rf_providerName rf'\<rparr> = Found provider"
  shows "\<exists>conn. GetConnectionSettings (meta_Annotations (ep_Meta provider)) = Inr conn \<and> rf_port rf' = Port conn \<and>
    rf_providerEndpoint rf' = Endpoint (ep_Spec provider)"
proof -
  from assms(1) obtain q path conn where q:
    "get \<lparr>nn_Namespace = meta_Namespace (em_Meta model), nn_Name = pref_Name (Ref ref')\<rparr> = Found q"
    "GetConnectionSettings (meta_Annotations (ep_Meta q)) = Inr conn"
    "rf' = \<lparr>rf_providerName = meta_Name (ep_Meta q), rf_providerEndpoint = Endpoint (ep_Spec q),
              rf_targetModel = TargetModel ref', rf_port = Port conn\<rparr>"
    by (auto simp: servable_def)
  from assms(2) [OF q(1)] have "meta_Name (ep_Meta q) = pref_Name (Ref ref')" by (simp add: object_key_def)
  with assms(3) q have "q = provider" by simp
  with q show ?thesis by simp
qed

text \<open>C7: The three parts of the program agree on where a request goes. Let the provider controller have
  reconciled a provider successfully, the model controller a model that refers to it, with the same
  specification and annotations of the provider before both, and let the resolver's store hold the entry
  of that provider. Then whatever rule the published route chooses for a request that carries the
  provider name the resolver selects, its backend is a Service that exists, is of the ExternalName kind for
  the endpoint the resolver chose and listens on the backend's port, and the rule sets that same endpoint as
  the \<^verbatim>\<open>Host\<close> header.\<close>

theorem selected_provider_reaches_service:
  assumes "ep_cluster pc plib services us" "kube_get (ep_providers pc) pkey u = Found provider"
    and "\<not> meta_Deleted (ep_Meta provider)" "aigcExternalProviderFinalizer \<notin> set (meta_Finalizers (ep_Meta provider))"
    and "GetConnectionSettings (meta_Annotations (ep_Meta provider)) = Inr conn"
    and "ValidateConnectionSecurity conn (auth_Type (Auth (ep_Spec provider))) = None"
    and "ep_Reconcile plib pc pText pkey u = (u', None)" "object_key (ep_Meta provider) = pkey"
    and "em_cluster mc mlib stored" "kube_get (em_models mc) req w = Found model" "\<not> meta_Deleted (em_Meta model)"
    and "\<not> IsAGCAttached model" "\<not> IsAGCServed model" "em_Reconcile r mlib mc mText req w = (w', None)"
    and "\<And>k q. kube_get (em_providers mc) k w = Found q \<Longrightarrow> object_key (ep_Meta q) = k"
    and "kube_get (em_providers mc) pkey w = Found provider'" "ps_Phase (ep_Status provider') = ''Ready''"
    and "ep_Spec provider' = ep_Spec provider" "meta_Annotations (ep_Meta provider') = meta_Annotations (ep_Meta provider)"
    and "ref \<in> set (ExternalProviderRefs (em_Spec model))"
    and "pkey = \<lparr>nn_Namespace = meta_Namespace (em_Meta model), nn_Name = pref_Name (Ref ref)\<rparr>" "\<not> foreign_ref model ref"
    and "ResolvePath (Path ref) (em_mergeConfig (Config (ep_Spec provider)) (RefConfig ref)) (TargetModel ref) = Inr path"
    and "getProvider s pkey = provider_entry pkey (Some provider)"
    and "resolveRef s (meta_Namespace (em_Meta model)) ref = Inr rr"
  shows "\<exists>route svc. stored w' (object_key (em_Meta model)) = Some route \<and> services u' pkey = Some svc \<and>
    (\<forall>requestPath hs rule. names_provider hs (rr_providerName rr) \<and> chosen route requestPath hs rule \<longrightarrow>
       (\<exists>backend. rule_BackendRefs rule = [backend] \<and>
          pkey = \<lparr>nn_Namespace = meta_Namespace (em_Meta model), nn_Name = backend_Name backend\<rparr> \<and>
          svc_Spec svc = \<lparr>svc_Type = ''ExternalName'', svc_ExternalName = rr_endpoint rr,
            svc_Ports = [\<lparr>sp_Port = backend_Port backend, sp_TargetPort = backend_Port backend\<rparr>]\<rparr> \<and>
          rule_SetHeaders rule = [(''Host'', rr_endpoint rr)]))"
proof -
  from ep_Reconcile_transport [OF assms(1-7)] obtain svc where svc: "services u' pkey = Some svc"
    "svc_says (Endpoint (ep_Spec provider)) (Port conn) svc"
    by (auto simp: replaced_def assms(8))
  from reconcile_routes_requests [OF assms(9-14)] obtain route where route:
    "stored w' = (stored w)(object_key (em_Meta model) \<mapsto> route)"
    "\<forall>ref rf path hs rule. ref \<in> set (ExternalProviderRefs (em_Spec model)) \<and>
       servable (\<lambda>k. kube_get (em_providers mc) k w) model ref rf \<and>
       names_provider hs (rf_providerName rf) \<and> chosen route path hs rule \<longrightarrow>
         (\<exists>ref' rf'. ref' \<in> set (ExternalProviderRefs (em_Spec model)) \<and>
            servable (\<lambda>k. kube_get (em_providers mc) k w) model ref' rf' \<and>
            rf_providerName rf' = rf_providerName rf \<and> leads_to rule rf')" by blast
  have rr: "rr_endpoint rr = Endpoint (ep_Spec provider)" "rr_providerName rr = pref_Name (Ref ref)"
    using resolveRef_endpoint [OF _ assms(25), of pkey provider] assms(21,24) by auto
  let ?rf = "\<lparr>rf_providerName = meta_Name (ep_Meta provider'), rf_providerEndpoint = Endpoint (ep_Spec provider'),
              rf_targetModel = TargetModel ref, rf_port = Port conn\<rparr>"
  have name: "meta_Name (ep_Meta provider') = pref_Name (Ref ref)"
    using assms(15) [OF assms(16)] assms(21) by (simp add: object_key_def)
  have servable: "servable (\<lambda>k. kube_get (em_providers mc) k w) model ref ?rf"
    unfolding servable_def using assms(5,16-19,21-23) by auto
  have "\<exists>backend. rule_BackendRefs rule = [backend] \<and>
          pkey = \<lparr>nn_Namespace = meta_Namespace (em_Meta model), nn_Name = backend_Name backend\<rparr> \<and>
          svc_Spec svc = \<lparr>svc_Type = ''ExternalName'', svc_ExternalName = rr_endpoint rr,
            svc_Ports = [\<lparr>sp_Port = backend_Port backend, sp_TargetPort = backend_Port backend\<rparr>]\<rparr> \<and>
          rule_SetHeaders rule = [(''Host'', rr_endpoint rr)]"
    if req: "names_provider hs (rr_providerName rr)" "chosen route p hs rule" for p hs rule
  proof -
    have named: "names_provider hs (rf_providerName ?rf)" using req(1) by (simp add: name rr(2))
    from route(2) assms(20) servable named req(2) obtain ref' rf' where rf':
      "servable (\<lambda>k. kube_get (em_providers mc) k w) model ref' rf'" "rf_providerName rf' = rf_providerName ?rf"
      "leads_to rule rf'" by blast
    have "\<exists>conn. GetConnectionSettings (meta_Annotations (ep_Meta provider')) = Inr conn \<and> rf_port rf' = Port conn \<and>
        rf_providerEndpoint rf' = Endpoint (ep_Spec provider')"
      by (rule servable_unique [OF rf'(1) assms(15)]) (simp_all add: rf'(2) name assms(16) flip: assms(21))
    then have "rf_port rf' = Port conn" "rf_providerEndpoint rf' = Endpoint (ep_Spec provider)"
      using assms(5,18,19) by auto
    with rf'(2,3) svc(2) rr name assms(21) show ?thesis by (auto simp: leads_to_def svc_says_def)
  qed
  with route(1) svc(1) show ?thesis by (intro exI [of _ route] exI [of _ svc]) auto
qed

text \<open>One provider, as both controllers see it, and the store after its reconcile.\<close>

abbreviation "agreed_state \<equiv> sample_ep_state [(AnnotationPort, ''8443'')] []"
abbreviation "agreed_provider \<equiv> sample_ep_provider [(AnnotationPort, ''8443'')] []"

definition agreed_cluster :: em_state where
  "agreed_cluster =
     sample_cluster\<lparr>st_providers := [sample_ep_key \<mapsto>
       agreed_provider\<lparr>ep_Status := \<lparr>ps_Phase = ''Ready'', ps_ObservedGeneration = 0, ps_Conditions = []\<rparr>\<rparr>]\<rparr>"

definition agreed_store :: infoStore where
  "agreed_store = provider_sync sample_ep_key (Some agreed_provider) newInfoStore"

lemma agreed_runs:
  "snd (ep_Reconcile ref_lib ref_ep (\<lambda>_. []) sample_ep_key agreed_state) = None"
  "snd (em_Reconcile sample_em ref_lib ref_em (\<lambda>_. []) key_gpt agreed_cluster) = None"
  "\<not> isl (resolveRef agreed_store ''team'' (sample_ref None))"
  by code_simp+

lemma agreed_model:
  "kube_get (em_models ref_em) key_gpt agreed_cluster = Found gpt_model"
  "\<not> meta_Deleted (em_Meta gpt_model)" "\<not> IsAGCAttached gpt_model" "\<not> IsAGCServed gpt_model"
  "meta_Namespace (em_Meta gpt_model) = ''team''" "\<not> foreign_ref gpt_model (sample_ref None)"
  "object_key (em_Meta gpt_model) = key_gpt" "ExternalProviderRefs (em_Spec gpt_model) = [sample_ref None]"
  by code_simp+

lemma agreed_found:
  "kube_get (em_providers ref_em) sample_ep_key agreed_cluster =
     Found (agreed_provider\<lparr>ep_Status := \<lparr>ps_Phase = ''Ready'', ps_ObservedGeneration = 0, ps_Conditions = []\<rparr>\<rparr>)"
  "kube_get (em_providers ref_em) k agreed_cluster = Found q \<Longrightarrow> object_key (ep_Meta q) = k"
  by (auto simp: agreed_cluster_def ref_em_def ref_kube_def filed_def sample_ep_state_def new_meta_def object_key_def split: if_splits option.splits)

theorem selected_provider_reaches_service_witness:
  "\<exists>u' w' route svc. ep_Reconcile ref_lib ref_ep (\<lambda>_. []) sample_ep_key agreed_state = (u', None) \<and>
     em_Reconcile sample_em ref_lib ref_em (\<lambda>_. []) key_gpt agreed_cluster = (w', None) \<and>
     filed route_key (st_routes w') key_gpt = Some route \<and> filed svc_key (es_services u') sample_ep_key = Some svc"
proof -
  obtain u' where u': "ep_Reconcile ref_lib ref_ep (\<lambda>_. []) sample_ep_key agreed_state = (u', None)"
    using agreed_runs(1) by (metis prod.collapse)
  obtain w' where w': "em_Reconcile sample_em ref_lib ref_em (\<lambda>_. []) key_gpt agreed_cluster = (w', None)"
    using agreed_runs(2) by (metis prod.collapse)
  obtain rr where rr: "resolveRef agreed_store (meta_Namespace (em_Meta gpt_model)) (sample_ref None) = Inr rr"
    using agreed_runs(3) unfolding agreed_model(5) by (metis sum.collapse(2))
  obtain path where path: "ResolvePath (Path (sample_ref None)) (em_mergeConfig (Config (ep_Spec agreed_provider)) (RefConfig (sample_ref None)))
      (TargetModel (sample_ref None)) = Inr path"
  proof -
    have "\<not> isl (ResolvePath (Path (sample_ref None)) (em_mergeConfig (Config (ep_Spec agreed_provider)) (RefConfig (sample_ref None)))
      (TargetModel (sample_ref None)))" by code_simp
    then show ?thesis using that by (metis sum.collapse(2))
  qed
  have conn: "GetConnectionSettings (meta_Annotations (ep_Meta agreed_provider)) = Inr \<lparr>Port = 8443, TLSEnabled = True\<rparr>" by code_simp
  have valid: "ValidateConnectionSecurity \<lparr>Port = 8443, TLSEnabled = True\<rparr> (auth_Type (Auth (ep_Spec agreed_provider))) = None"
    by code_simp
  have key: "sample_ep_key = \<lparr>nn_Namespace = meta_Namespace (em_Meta gpt_model), nn_Name = pref_Name (Ref (sample_ref None))\<rparr>" by code_simp
  have "valid_key sample_ep_key" by (simp add: valid_key_def)
  then have store: "getProvider agreed_store sample_ep_key = provider_entry sample_ep_key (Some agreed_provider)"
    unfolding agreed_store_def by (simp add: provider_mirror.lookup_sync)
  have fin: "aigcExternalProviderFinalizer \<notin> set (meta_Finalizers (ep_Meta agreed_provider))" by code_simp
  have refs: "sample_ref None \<in> set (ExternalProviderRefs (em_Spec gpt_model))" by (simp add: agreed_model(8))
  from selected_provider_reaches_service [OF ref_transport.ep_cluster_axioms sample_ep_found(1,2) fin conn valid u' sample_ep_found(5)
      ref_cluster.em_cluster_axioms agreed_model(1-4) w' agreed_found(2,1) _ _ _ refs key agreed_model(6) path store rr]
  show ?thesis using u' w' by (auto simp: agreed_model(7))
qed

end
